(* ===== verification/Prelude.thy ===== *)
theory Prelude
  imports Main "HOL-Library.Option_ord"
begin

text \<open>
  What every component of the model shares.

  \<^item> Results: Rust's \<^verbatim>\<open>Result<T, E>\<close> is the sum \<open>'e + 'a\<close>, \<open>Inl\<close> the error. The operator
    \<^verbatim>\<open>?\<close> is \<open>bindr\<close>, \<^verbatim>\<open>map_err\<close> is \<open>map_errr\<close>, \<^verbatim>\<open>ok_or\<close> is \<open>ok_or\<close>.
  \<^item> Effects: an operation that talks to the outside (HTTP, clocks, random bytes, a store) is a
    function \<open>'s \<Rightarrow> ('e + 'a) \<times> 's\<close>; \<open>binds\<close> is \<^verbatim>\<open>?\<close> after an \<^verbatim>\<open>.await\<close>, \<open>lifts\<close> a pure result.
  \<^item> Strings: \<^verbatim>\<open>String\<close>, \<^verbatim>\<open>&str\<close> and \<^verbatim>\<open>Vec<u8>\<close> are lists of \<open>char\<close>, an Isabelle \<open>char\<close> being one
    byte. The functions of the Rust standard library on strings that the crate uses are written
    out here on bytes.
  \<^item> The collections \<open>res_simps\<close> (results), \<open>io_simps\<close> (effects) and \<open>str_simps\<close> (strings).
\<close>

named_theorems res_simps "rewriting the result operators"
named_theorems io_simps "rewriting the effect operators"
named_theorems str_simps "evaluation of the string functions"

type_synonym bytes = "char list"

section \<open>Results\<close>

definition bindr :: "'e + 'a \<Rightarrow> ('a \<Rightarrow> 'e + 'b) \<Rightarrow> 'e + 'b" where
  "bindr m f = (case m of Inl e \<Rightarrow> Inl e | Inr x \<Rightarrow> f x)"

definition map_errr :: "('e \<Rightarrow> 'f) \<Rightarrow> 'e + 'a \<Rightarrow> 'f + 'a" where
  "map_errr g m = (case m of Inl e \<Rightarrow> Inl (g e) | Inr x \<Rightarrow> Inr x)"

definition mapr :: "('a \<Rightarrow> 'b) \<Rightarrow> 'e + 'a \<Rightarrow> 'e + 'b" where
  "mapr g m = (case m of Inl e \<Rightarrow> Inl e | Inr x \<Rightarrow> Inr (g x))"

definition ok_or :: "'e \<Rightarrow> 'a option \<Rightarrow> 'e + 'a" where
  "ok_or e m = (case m of None \<Rightarrow> Inl e | Some x \<Rightarrow> Inr x)"

definition ensure :: "bool \<Rightarrow> 'e \<Rightarrow> 'e + unit" where
  "ensure b e = (if b then Inr () else Inl e)"

lemma bindr_simps [simp, res_simps]:
  "bindr (Inl e) f = Inl e" "bindr (Inr x) f = f x"
  by (simp_all add: bindr_def)

lemma map_errr_simps [simp, res_simps]:
  "map_errr g (Inl e) = Inl (g e)" "map_errr g (Inr x) = Inr x"
  by (simp_all add: map_errr_def)

lemma mapr_simps [simp, res_simps]:
  "mapr g (Inl e) = Inl e" "mapr g (Inr x) = Inr (g x)"
  by (simp_all add: mapr_def)

lemma ok_or_simps [simp, res_simps]:
  "ok_or e None = Inl e" "ok_or e (Some x) = Inr x"
  by (simp_all add: ok_or_def)

lemma ensure_simps [simp, res_simps]:
  "ensure True e = Inr ()" "ensure False e = Inl e"
  by (simp_all add: ensure_def)

lemma bindr_eq_Inr [res_simps]: "bindr m f = Inr y \<longleftrightarrow> (\<exists>x. m = Inr x \<and> f x = Inr y)"
  by (cases m) auto

lemma bindr_eq_Inl [res_simps]:
  "bindr m f = Inl e \<longleftrightarrow> m = Inl e \<or> (\<exists>x. m = Inr x \<and> f x = Inl e)"
  by (cases m) auto

lemma map_errr_eq_Inr [simp, res_simps]: "map_errr g m = Inr y \<longleftrightarrow> m = Inr y"
  by (cases m) auto

lemma map_errr_eq_Inl [res_simps]: "map_errr g m = Inl e \<longleftrightarrow> (\<exists>e'. m = Inl e' \<and> e = g e')"
  by (cases m) auto

lemma mapr_eq_Inr [res_simps]: "mapr g m = Inr y \<longleftrightarrow> (\<exists>x. m = Inr x \<and> y = g x)"
  by (cases m) auto

lemma mapr_eq_Inl [simp, res_simps]: "mapr g m = Inl e \<longleftrightarrow> m = Inl e"
  by (cases m) auto

lemma ok_or_eq_Inr [simp, res_simps]: "ok_or e m = Inr y \<longleftrightarrow> m = Some y"
  by (cases m) auto

lemma ok_or_eq_Inl [res_simps]: "ok_or e m = Inl e' \<longleftrightarrow> m = None \<and> e' = e"
  by (cases m) auto

lemma ensure_eq_Inr [simp, res_simps]: "ensure b e = Inr u \<longleftrightarrow> b"
  by (cases b) auto

lemma ensure_eq_Inl [simp, res_simps]: "ensure b e = Inl e' \<longleftrightarrow> \<not> b \<and> e' = e"
  by (cases b) auto

section \<open>Effects\<close>

definition lifts :: "'e + 'a \<Rightarrow> 's \<Rightarrow> ('e + 'a) \<times> 's" where
  "lifts r s = (r, s)"

definition binds ::
  "('s \<Rightarrow> ('e + 'a) \<times> 's) \<Rightarrow> ('a \<Rightarrow> 's \<Rightarrow> ('e + 'b) \<times> 's) \<Rightarrow> 's \<Rightarrow> ('e + 'b) \<times> 's" where
  "binds m f s = (case m s of (Inl e, s') \<Rightarrow> (Inl e, s') | (Inr x, s') \<Rightarrow> f x s')"

definition map_errs :: "('e \<Rightarrow> 'f) \<Rightarrow> ('s \<Rightarrow> ('e + 'a) \<times> 's) \<Rightarrow> 's \<Rightarrow> ('f + 'a) \<times> 's" where
  "map_errs g m s = (case m s of (r, s') \<Rightarrow> (map_errr g r, s'))"

text \<open>An operation of one part of a pair of states, run on the pair.\<close>

definition on_snd :: "('w \<Rightarrow> 'r \<times> 'w) \<Rightarrow> 'p \<times> 'w \<Rightarrow> 'r \<times> ('p \<times> 'w)" where
  "on_snd m s = (case m (snd s) of (r, w') \<Rightarrow> (r, (fst s, w')))"

lemma lifts_simp [simp, io_simps]: "lifts r s = (r, s)"
  by (simp add: lifts_def)

lemma binds_eq_Inr [io_simps]:
  "binds m f s = (Inr y, s') \<longleftrightarrow> (\<exists>x t. m s = (Inr x, t) \<and> f x t = (Inr y, s'))"
  by (auto simp: binds_def split: prod.splits sum.splits)

lemma binds_eq_Inl [io_simps]:
  "binds m f s = (Inl e, s') \<longleftrightarrow>
     m s = (Inl e, s') \<or> (\<exists>x t. m s = (Inr x, t) \<and> f x t = (Inl e, s'))"
  by (auto simp: binds_def split: prod.splits sum.splits)

lemma binds_step: "m s = (Inr x, t) \<Longrightarrow> binds m f s = f x t"
  by (simp add: binds_def)

lemma binds_fail: "m s = (Inl e, t) \<Longrightarrow> binds m f s = (Inl e, t)"
  by (simp add: binds_def)

lemma binds_lifts [simp, io_simps]:
  "binds (lifts (Inr x)) f = f x" "binds (lifts (Inl e)) f s = (Inl e, s)"
  by (auto simp: binds_def fun_eq_iff)

lemma map_errs_eq_Inr [simp, io_simps]: "map_errs g m s = (Inr y, s') \<longleftrightarrow> m s = (Inr y, s')"
  by (auto simp: map_errs_def split: prod.splits)

lemma map_errs_eq_Inl [io_simps]:
  "map_errs g m s = (Inl e, s') \<longleftrightarrow> (\<exists>e'. m s = (Inl e', s') \<and> e = g e')"
  by (auto simp: map_errs_def map_errr_eq_Inl split: prod.splits)

lemma on_snd_eq [io_simps]:
  "on_snd m (p, w) = (r, s') \<longleftrightarrow> (\<exists>w'. m w = (r, w') \<and> s' = (p, w'))"
  by (auto simp: on_snd_def split: prod.splits)

section \<open>Strings of the Rust standard library, on bytes\<close>

definition is_ascii_upper :: "char \<Rightarrow> bool" where
  "is_ascii_upper c \<longleftrightarrow> (65::nat) \<le> of_char c \<and> of_char c \<le> (90::nat)"

definition ascii_lower :: "char \<Rightarrow> char" where
  "ascii_lower c = (if is_ascii_upper c then char_of ((of_char c :: nat) + 32) else c)"

definition eq_ignore_ascii_case :: "bytes \<Rightarrow> bytes \<Rightarrow> bool" where
  "eq_ignore_ascii_case a b \<longleftrightarrow> map ascii_lower a = map ascii_lower b"

text \<open>\<^verbatim>\<open>str::split\<close> on an ASCII separator: always at least one piece.\<close>

fun split_on :: "char \<Rightarrow> bytes \<Rightarrow> bytes list" where
  "split_on c [] = [[]]"
| "split_on c (x # xs) =
     (if x = c then [] # split_on c xs
      else (case split_on c xs of [] \<Rightarrow> [[x]] | p # ps \<Rightarrow> (x # p) # ps))"

fun split_once :: "char \<Rightarrow> bytes \<Rightarrow> (bytes \<times> bytes) option" where
  "split_once c [] = None"
| "split_once c (x # xs) =
     (if x = c then Some ([], xs)
      else map_option (\<lambda>(a, b). (x # a, b)) (split_once c xs))"

fun join_with :: "bytes \<Rightarrow> bytes list \<Rightarrow> bytes" where
  "join_with sep [] = []"
| "join_with sep [x] = x"
| "join_with sep (x # y # xs) = x @ sep @ join_with sep (y # xs)"

definition trim_by :: "(char \<Rightarrow> bool) \<Rightarrow> bytes \<Rightarrow> bytes" where
  "trim_by p s = rev (dropWhile p (rev (dropWhile p s)))"

text \<open>\<^verbatim>\<open>u8::is_ascii_whitespace\<close>: tab, line feed, form feed, carriage return and space.\<close>

definition is_ascii_ws :: "char \<Rightarrow> bool" where
  "is_ascii_ws c \<longleftrightarrow> (of_char c :: nat) \<in> {9, 10, 12, 13, 32}"

definition trim_ascii :: "bytes \<Rightarrow> bytes" where
  "trim_ascii = trim_by is_ascii_ws"

definition is_digit_char :: "char \<Rightarrow> bool" where
  "is_digit_char c \<longleftrightarrow> (48::nat) \<le> of_char c \<and> of_char c \<le> (57::nat)"

definition digit_val :: "char \<Rightarrow> nat" where
  "digit_val c = of_char c - 48"

text \<open>
  \<^verbatim>\<open>str::parse\<close> into an unsigned integer type with the values below \<open>bound\<close>: an optional \<open>+\<close>,
  then at least one digit, an overflow being an error.
\<close>

fun parse_digits :: "nat \<Rightarrow> nat \<Rightarrow> bytes \<Rightarrow> nat option" where
  "parse_digits bound acc [] = Some acc"
| "parse_digits bound acc (c # cs) =
     (if is_digit_char c \<and> acc * 10 + digit_val c < bound
      then parse_digits bound (acc * 10 + digit_val c) cs else None)"

definition parse_uint :: "nat \<Rightarrow> bytes \<Rightarrow> nat option" where
  "parse_uint bound s =
     (case s of [] \<Rightarrow> None
      | c # cs \<Rightarrow>
          (if cs = [] \<and> (c = CHR ''+'' \<or> c = CHR ''-'') then None
           else if c = CHR ''+'' then parse_digits bound 0 cs
           else parse_digits bound 0 (c # cs)))"

text \<open>\<^verbatim>\<open>u64::to_string\<close>.\<close>

fun nat_to_dec :: "nat \<Rightarrow> bytes" where
  "nat_to_dec n =
     (if n < 10 then [char_of (48 + n)] else nat_to_dec (n div 10) @ [char_of (48 + n mod 10)])"

declare nat_to_dec.simps [simp del]

text \<open>
  \<^verbatim>\<open>str::from_utf8\<close> succeeds exactly on the well-formed byte sequences of the Unicode standard
  (no overlong form, no surrogate, nothing above U+10FFFF).
\<close>

definition in_range :: "char \<Rightarrow> nat \<Rightarrow> nat \<Rightarrow> bool" where
  "in_range c lo hi \<longleftrightarrow> lo \<le> of_char c \<and> of_char c \<le> hi"

fun utf8_valid :: "bytes \<Rightarrow> bool" where
  "utf8_valid [] = True"
| "utf8_valid (a # s) =
     (if in_range a 0 127 then utf8_valid s
      else if in_range a 194 223 then
        (case s of b # r \<Rightarrow> in_range b 128 191 \<and> utf8_valid r | _ \<Rightarrow> False)
      else if in_range a 224 239 then
        (case s of b # c # r \<Rightarrow>
             (if of_char a = (224::nat) then in_range b 160 191
              else if of_char a = (237::nat) then in_range b 128 159
              else in_range b 128 191) \<and> in_range c 128 191 \<and> utf8_valid r
         | _ \<Rightarrow> False)
      else if in_range a 240 244 then
        (case s of b # c # d # r \<Rightarrow>
             (if of_char a = (240::nat) then in_range b 144 191
              else if of_char a = (244::nat) then in_range b 128 143
              else in_range b 128 191) \<and> in_range c 128 191 \<and> in_range d 128 191 \<and> utf8_valid r
         | _ \<Rightarrow> False)
      else False)"

section \<open>Lemmas on the string functions\<close>

lemma split_on_ne [simp]: "split_on c s \<noteq> []"
  by (cases s) (auto split: list.splits)

lemma split_on_append:
  "split_on c (a @ c # b) = split_on c a @ split_on c b"
proof (induction a)
  case Nil
  show ?case by simp
next
  case (Cons x a)
  then show ?case
    by (cases "split_on c a") (auto split: list.splits)
qed

lemma split_on_no_sep: "c \<notin> set s \<Longrightarrow> split_on c s = [s]"
  by (induction s) auto

lemma split_on_pieces: "p \<in> set (split_on c s) \<Longrightarrow> c \<notin> set p"
proof (induction s arbitrary: p)
  case Nil
  then show ?case by simp
next
  case (Cons x s)
  then show ?case
    by (cases "split_on c s") (auto split: if_splits)
qed

lemma join_split_on: "join_with [c] (split_on c s) = s"
proof (induction s)
  case Nil
  show ?case by simp
next
  case (Cons x s)
  obtain p ps where "split_on c s = p # ps"
    by (cases "split_on c s") auto
  with Cons show ?case by (cases ps) auto
qed

lemma split_once_Some:
  "split_once c s = Some (a, b) \<longleftrightarrow> s = a @ c # b \<and> c \<notin> set a"
proof (induction s arbitrary: a)
  case Nil
  show ?case by simp
next
  case (Cons x s)
  show ?case
    by (cases a) (auto simp: Cons.IH)
qed

lemma split_once_None: "split_once c s = None \<longleftrightarrow> c \<notin> set s"
  by (induction s) auto

lemma eq_ignore_ascii_case_refl [simp]: "eq_ignore_ascii_case a a"
  by (simp add: eq_ignore_ascii_case_def)

lemma eq_ignore_ascii_case_sym: "eq_ignore_ascii_case a b \<Longrightarrow> eq_ignore_ascii_case b a"
  by (simp add: eq_ignore_ascii_case_def)

lemma parse_digits_bound: "parse_digits bound acc s = Some n \<Longrightarrow> acc < bound \<Longrightarrow> n < bound"
  by (induction s arbitrary: acc) (auto split: if_splits)

lemma parse_uint_bound: "parse_uint bound s = Some n \<Longrightarrow> 0 < bound \<Longrightarrow> n < bound"
  by (auto simp: parse_uint_def parse_digits_bound simp del: parse_digits.simps
      split: list.splits if_splits)

lemma parse_digits_append:
  "parse_digits bound acc (s @ t) =
     Option.bind (parse_digits bound acc s) (\<lambda>m. parse_digits bound m t)"
  by (induction s arbitrary: acc) auto

lemma of_char_digit: "d < 10 \<Longrightarrow> of_char (char_of (48 + d :: nat)) = (48 + d :: nat)"
  by simp

lemma parse_digits_dec: "n < bound \<Longrightarrow> parse_digits bound 0 (nat_to_dec n) = Some n"
proof (induction n rule: nat_to_dec.induct)
  case (1 n)
  show ?case
  proof (cases "n < 10")
    case True
    with "1.prems" show ?thesis
      by (simp add: nat_to_dec.simps [of n] is_digit_char_def digit_val_def)
  next
    case False
    then have "parse_digits bound 0 (nat_to_dec (n div 10)) = Some (n div 10)"
      using "1.IH" "1.prems" by simp
    moreover have "n div 10 * 10 + n mod 10 = n" by simp
    ultimately show ?thesis
      using False "1.prems"
      by (simp add: nat_to_dec.simps [of n] parse_digits_append is_digit_char_def digit_val_def)
  qed
qed

lemma nat_to_dec_head: "\<exists>c cs. nat_to_dec n = c # cs \<and> is_digit_char c"
proof (induction n rule: nat_to_dec.induct)
  case (1 n)
  show ?case
  proof (cases "n < 10")
    case True
    then show ?thesis by (simp add: nat_to_dec.simps [of n] is_digit_char_def)
  next
    case False
    with "1.IH" show ?thesis by (auto simp: nat_to_dec.simps [of n])
  qed
qed

lemma parse_uint_dec: "n < bound \<Longrightarrow> parse_uint bound (nat_to_dec n) = Some n"
proof -
  assume n: "n < bound"
  obtain c cs where c: "nat_to_dec n = c # cs" "is_digit_char c"
    using nat_to_dec_head by blast
  then have "c \<noteq> CHR ''+''" "c \<noteq> CHR ''-''" by (auto simp: is_digit_char_def)
  with c n parse_digits_dec [OF n] show ?thesis by (simp add: parse_uint_def)
qed

lemma utf8_valid_ascii: "\<forall>c \<in> set s. of_char c < (128::nat) \<Longrightarrow> utf8_valid s"
  by (induction s) (auto simp: in_range_def)

lemmas string_evals =
  is_ascii_upper_def ascii_lower_def eq_ignore_ascii_case_def trim_by_def is_ascii_ws_def
  trim_ascii_def is_digit_char_def digit_val_def parse_uint_def in_range_def

declare string_evals [str_simps]

end
