(* ===== verification/Errors.thy ===== *)
theory Errors
  imports Prelude
begin

text \<open>
  The error types: \<^verbatim>\<open>OidcError\<close> (src/error.rs), \<^verbatim>\<open>CallbackError\<close> (src/flow/callback.rs),
  \<^verbatim>\<open>KvError\<close> (src/transport/kv.rs), constructor by constructor, and their \<^verbatim>\<open>Display\<close> texts (the
  \<^verbatim>\<open>#[error(...)]\<close> attributes). The errors of the crates \<^verbatim>\<open>jose4rs\<close>, \<^verbatim>\<open>serde_json\<close> and \<^verbatim>\<open>base64\<close>
  are carried as values; how those crates print them is a parameter (the record \<open>display_lib\<close>),
  as is the escaping that the standard library's \<^verbatim>\<open>Debug\<close> applies to a string (it depends on
  Unicode tables).
\<close>

datatype invalid_jwt_error = InvalidJwtError bytes

datatype jose_error = MalformedToken bytes | JwksFetch bytes | OtherJose bytes

datatype json_error =
    JsonSyntax bytes
  | MissingField bytes
  | DuplicateField bytes
  | InvalidType bytes
  | CustomJson bytes

datatype base64_error = Base64DecodeError bytes

datatype kv_error = InvalidTtl | Storage bytes

datatype callback_error =
    Missing bytes
  | ProviderError bytes "bytes option" "bytes option" bytes "bytes option"
  | DuplicateParameter bytes
  | AmbiguousResponse
  | InvalidParameter bytes
  | IssuerMismatch bytes bytes
  | ParseError bytes

datatype oidc_error =
    Discovery bytes
  | Http bytes
  | InvalidMetadata bytes
  | InvalidUrl bytes
  | InvalidIdToken invalid_jwt_error
  | TokenEndpoint nat bytes "bytes option"
  | UserInfoError nat bytes "bytes option"
  | InvalidUserInfoJwt invalid_jwt_error
  | UserInfoSubjectMismatch
  | Jose jose_error
  | NoMatchingJwk "bytes option" bytes
  | AtHashMismatch
  | UnsupportedAlgorithm bytes
  | Kv kv_error
  | Json json_error
  | Base64 base64_error
  | AuthorizationResponseError callback_error
  | InvalidAuthorizationRequest bytes
  | MissingPkceVerifier
  | UnexpectedPkce
  | PendingAuthorizationExpired
  | PendingAuthorizationFromFuture

definition oidc_error_from_kv :: "kv_error \<Rightarrow> oidc_error" where
  "oidc_error_from_kv err = Kv err"

text \<open>An operation that can also panic: \<^verbatim>\<open>expect\<close> with its message.\<close>

datatype failure = Err oidc_error | Panic bytes

section \<open>Display\<close>

record display_lib =
  show_jwt_error :: "invalid_jwt_error \<Rightarrow> bytes"
  show_jose_error :: "jose_error \<Rightarrow> bytes"
  show_json_error :: "json_error \<Rightarrow> bytes"
  show_base64_error :: "base64_error \<Rightarrow> bytes"
  debug_str :: "bytes \<Rightarrow> bytes"

definition debug_option :: "display_lib \<Rightarrow> bytes option \<Rightarrow> bytes" where
  "debug_option D v = (case v of None \<Rightarrow> ''None'' | Some s \<Rightarrow> ''Some('' @ debug_str D s @ '')'')"

fun kv_error_display :: "kv_error \<Rightarrow> bytes" where
  "kv_error_display InvalidTtl = ''time-to-live must be greater than zero and representable''"
| "kv_error_display (Storage s) = ''storage backend error: '' @ s"

fun callback_error_display :: "display_lib \<Rightarrow> callback_error \<Rightarrow> bytes" where
  "callback_error_display D (Missing p) = ''missing required parameter: '' @ p"
| "callback_error_display D (ProviderError error description error_uri state iss) =
     ''provider returned an error: '' @ error @ '' - '' @ debug_option D description"
| "callback_error_display D (DuplicateParameter p) =
     ''authorization response parameter appears more than once: '' @ p"
| "callback_error_display D AmbiguousResponse =
     ''authorization response contains both success and error parameters''"
| "callback_error_display D (InvalidParameter p) =
     ''authorization response parameter has an invalid value: '' @ p"
| "callback_error_display D (IssuerMismatch expected actual) =
     ''authorization response issuer mismatch: expected '' @ expected @ '', got '' @ actual"
| "callback_error_display D (ParseError s) = ''failed to parse redirect: '' @ s"

fun oidc_error_display :: "display_lib \<Rightarrow> oidc_error \<Rightarrow> bytes" where
  "oidc_error_display D (Discovery s) = ''discovery failed: '' @ s"
| "oidc_error_display D (Http s) = ''HTTP transport error: '' @ s"
| "oidc_error_display D (InvalidMetadata s) = ''invalid provider metadata: '' @ s"
| "oidc_error_display D (InvalidUrl s) = ''invalid URL: '' @ s"
| "oidc_error_display D (InvalidIdToken e) = ''ID-token validation failed: '' @ show_jwt_error D e"
| "oidc_error_display D (TokenEndpoint status error description) =
     ''token endpoint error (status '' @ nat_to_dec status @ ''): '' @ error"
| "oidc_error_display D (UserInfoError status error description) =
     ''userinfo error (status '' @ nat_to_dec status @ ''): '' @ error"
| "oidc_error_display D (InvalidUserInfoJwt e) =
     ''signed UserInfo validation failed: '' @ show_jwt_error D e"
| "oidc_error_display D UserInfoSubjectMismatch =
     ''UserInfo subject does not match the ID-token subject''"
| "oidc_error_display D (Jose e) = ''JOSE error: '' @ show_jose_error D e"
| "oidc_error_display D (NoMatchingJwk kid alg) =
     ''no matching JWK for kid='' @ debug_option D kid @ '', alg='' @ alg"
| "oidc_error_display D AtHashMismatch = ''at_hash mismatch''"
| "oidc_error_display D (UnsupportedAlgorithm s) = ''unsupported signing algorithm: '' @ s"
| "oidc_error_display D (Kv e) = ''key-value store error: '' @ kv_error_display e"
| "oidc_error_display D (Json e) = ''JSON error: '' @ show_json_error D e"
| "oidc_error_display D (Base64 e) = ''base64 decode error: '' @ show_base64_error D e"
| "oidc_error_display D (AuthorizationResponseError e) =
     ''authorization response error: '' @ callback_error_display D e"
| "oidc_error_display D (InvalidAuthorizationRequest s) =
     ''invalid authorization request: '' @ s"
| "oidc_error_display D MissingPkceVerifier = ''missing PKCE verifier in pending request''"
| "oidc_error_display D UnexpectedPkce = ''expected PKCE challenge on pending request''"
| "oidc_error_display D PendingAuthorizationExpired =
     ''pending authorization request has expired''"
| "oidc_error_display D PendingAuthorizationFromFuture =
     ''pending authorization request timestamp is in the future''"

end
