(* ===== verification/Rust_Time.thy ===== *)
theory Rust_Time
  imports Prelude
begin

text \<open>
  \<^verbatim>\<open>std::time\<close>: \<^verbatim>\<open>Duration\<close> (a count of nanoseconds below \<open>2 ^ 64\<close> seconds), and the two clocks
  \<^verbatim>\<open>Instant\<close> and \<^verbatim>\<open>SystemTime\<close> in their 64-bit Unix representation (a signed 64-bit number of
  seconds and the nanoseconds in it), as nanoseconds since the clock's origin. The three types
  are distinct and ordered, as in Rust, so \<^verbatim>\<open>max\<close>, \<^verbatim>\<open>min\<close> and the comparisons are those of
  the class \<open>linorder\<close>; \<^verbatim>\<open>max\<close> on \<^verbatim>\<open>Option<Duration>\<close> is \<open>max\<close> of \<open>HOL-Library.Option_ord\<close>,
  where \<open>None\<close> is least, as in Rust.
\<close>

section \<open>Types and their order\<close>

datatype duration = Nanos (as_nanos: nat)
datatype instant = Instant (instant_nanos: int)
datatype system_time = SystemTime (system_nanos: int)

instantiation duration :: linorder
begin
definition less_eq_duration :: "duration \<Rightarrow> duration \<Rightarrow> bool" where
  "less_eq_duration a b \<longleftrightarrow> as_nanos a \<le> as_nanos b"
definition less_duration :: "duration \<Rightarrow> duration \<Rightarrow> bool" where
  "less_duration a b \<longleftrightarrow> as_nanos a < as_nanos b"
instance
  by standard (auto simp: less_eq_duration_def less_duration_def intro: duration.expand)
end

instantiation instant :: linorder
begin
definition less_eq_instant :: "instant \<Rightarrow> instant \<Rightarrow> bool" where
  "less_eq_instant a b \<longleftrightarrow> instant_nanos a \<le> instant_nanos b"
definition less_instant :: "instant \<Rightarrow> instant \<Rightarrow> bool" where
  "less_instant a b \<longleftrightarrow> instant_nanos a < instant_nanos b"
instance
  by standard (auto simp: less_eq_instant_def less_instant_def intro: instant.expand)
end

instantiation system_time :: linorder
begin
definition less_eq_system_time :: "system_time \<Rightarrow> system_time \<Rightarrow> bool" where
  "less_eq_system_time a b \<longleftrightarrow> system_nanos a \<le> system_nanos b"
definition less_system_time :: "system_time \<Rightarrow> system_time \<Rightarrow> bool" where
  "less_system_time a b \<longleftrightarrow> system_nanos a < system_nanos b"
instance
  by standard (auto simp: less_eq_system_time_def less_system_time_def intro: system_time.expand)
end

instantiation duration :: zero
begin
definition zero_duration :: duration where "zero_duration = Nanos 0"
instance ..
end

lemmas time_order_defs =
  less_eq_duration_def less_duration_def less_eq_instant_def less_instant_def
  less_eq_system_time_def less_system_time_def zero_duration_def

lemma time_order_simps [simp]:
  "Nanos a \<le> Nanos b \<longleftrightarrow> a \<le> b" "Nanos a < Nanos b \<longleftrightarrow> a < b"
  "Instant i \<le> Instant j \<longleftrightarrow> i \<le> j" "Instant i < Instant j \<longleftrightarrow> i < j"
  "SystemTime i \<le> SystemTime j \<longleftrightarrow> i \<le> j" "SystemTime i < SystemTime j \<longleftrightarrow> i < j"
  by (simp_all add: time_order_defs)

lemma as_nanos_zero [simp]: "as_nanos 0 = 0"
  by (simp add: zero_duration_def)

lemma duration_zero_le [simp]: "(0 :: duration) \<le> d"
  by (simp add: time_order_defs)

lemma duration_le_zero [simp]: "d \<le> (0 :: duration) \<longleftrightarrow> d = 0"
  by (cases d) (simp add: time_order_defs)

section \<open>Operations\<close>

definition nanos_per_sec :: nat where "nanos_per_sec = 1000000000"

definition from_secs :: "nat \<Rightarrow> duration" where
  "from_secs s = Nanos (s * nanos_per_sec)"

definition as_secs :: "duration \<Rightarrow> nat" where
  "as_secs d = as_nanos d div nanos_per_sec"

definition duration_saturating_sub :: "duration \<Rightarrow> duration \<Rightarrow> duration" where
  "duration_saturating_sub a b = Nanos (as_nanos a - as_nanos b)"

definition is_zero_duration :: "duration \<Rightarrow> bool" where
  "is_zero_duration d \<longleftrightarrow> d = 0"

definition clock_limit :: int where
  "clock_limit = 2 ^ 63 * 1000000000"

definition instant_checked_add :: "instant \<Rightarrow> duration \<Rightarrow> instant option" where
  "instant_checked_add t d =
     (if instant_nanos t + int (as_nanos d) < clock_limit
      then Some (Instant (instant_nanos t + int (as_nanos d))) else None)"

definition system_checked_add :: "system_time \<Rightarrow> duration \<Rightarrow> system_time option" where
  "system_checked_add t d =
     (if system_nanos t + int (as_nanos d) < clock_limit
      then Some (SystemTime (system_nanos t + int (as_nanos d))) else None)"

definition unix_epoch :: system_time where "unix_epoch = SystemTime 0"

text \<open>\<^verbatim>\<open>SystemTime::duration_since\<close>: an error (\<open>None\<close>) when the argument is later.\<close>

definition duration_since :: "system_time \<Rightarrow> system_time \<Rightarrow> duration option" where
  "duration_since t earlier =
     (if earlier \<le> t then Some (Nanos (nat (system_nanos t - system_nanos earlier))) else None)"

definition unwrap_duration :: "duration option \<Rightarrow> duration" where
  "unwrap_duration d = (case d of None \<Rightarrow> 0 | Some x \<Rightarrow> x)"

lemmas time_evals =
  nanos_per_sec_def from_secs_def as_secs_def duration_saturating_sub_def is_zero_duration_def
  clock_limit_def instant_checked_add_def system_checked_add_def unix_epoch_def
  duration_since_def unwrap_duration_def time_order_defs max_def min_def

lemma from_secs_le [simp]: "from_secs a \<le> from_secs b \<longleftrightarrow> a \<le> b"
  by (simp add: from_secs_def nanos_per_sec_def)

lemma from_secs_eq [simp]: "from_secs a = from_secs b \<longleftrightarrow> a = b"
  by (simp add: from_secs_def nanos_per_sec_def)

lemma from_secs_zero [simp]: "from_secs 0 = 0"
  by (simp add: from_secs_def zero_duration_def)

lemma as_secs_from_secs [simp]: "as_secs (from_secs s) = s"
  by (simp add: as_secs_def from_secs_def nanos_per_sec_def)

lemma saturating_sub_le [simp]: "duration_saturating_sub a b \<le> a"
  by (simp add: duration_saturating_sub_def less_eq_duration_def)

lemma saturating_sub_zero [simp]: "duration_saturating_sub a 0 = a"
  by (cases a) (simp add: duration_saturating_sub_def)

lemma saturating_sub_mono: "a \<le> b \<Longrightarrow> duration_saturating_sub a c \<le> duration_saturating_sub b c"
  by (simp add: duration_saturating_sub_def less_eq_duration_def diff_le_mono)

lemma instant_checked_add_Some:
  "instant_checked_add t d = Some u \<Longrightarrow> instant_nanos u = instant_nanos t + int (as_nanos d)"
  by (auto simp: instant_checked_add_def split: if_splits)

lemma instant_checked_add_ge: "instant_checked_add t d = Some u \<Longrightarrow> t \<le> u"
  by (auto simp: instant_checked_add_def less_eq_instant_def split: if_splits)

end
