(* ===== verification/Externals.thy ===== *)
theory Externals
  imports Errors Rust_Time
begin

text \<open>
  The interfaces of the code that is not part of the repository: the crates \<^verbatim>\<open>url\<close>,
  \<^verbatim>\<open>form_urlencoded\<close>, \<^verbatim>\<open>base64\<close>, \<^verbatim>\<open>serde_json\<close>, \<^verbatim>\<open>httpdate\<close> and \<^verbatim>\<open>jose4rs\<close>, the C library behind
  \<^verbatim>\<open>ffi\<close>, the HTTP client the application supplies, the clocks and the random source. Each is a
  record of functions that the definitions of the model take as an argument. What the crates
  document and the code relies on is stated as predicates (\<open>form_laws\<close>, \<open>base64_laws\<close>,
  \<open>crypto_laws\<close>, \<open>url_laws\<close>, \<open>serde_time_laws\<close>, \<open>rand_laws\<close>) that the properties name as hypotheses where they
  need them.

  The derived deserialisers are modelled on a JSON document: \<^verbatim>\<open>serde_json\<close>'s parser is a
  parameter that turns bytes into a document whose objects keep the order and the duplicates of
  their members; the struct attributes in the source say what is read from it.
\<close>

section \<open>URLs and forms\<close>

text \<open>
  \<^verbatim>\<open>url::Url\<close>, as the abstract type \<open>'u\<close>. \<open>url_open_query\<close> is the call \<^verbatim>\<open>query_pairs_mut()\<close>
  itself (it leaves an empty query where there was none), \<open>url_append_pair\<close> one
  \<^verbatim>\<open>append_pair\<close> on it. The error of \<^verbatim>\<open>Url::parse\<close> is carried as its text.
\<close>

record 'u url_lib =
  url_parse :: "bytes \<Rightarrow> bytes + 'u"
  url_as_str :: "'u \<Rightarrow> bytes"
  url_scheme :: "'u \<Rightarrow> bytes"
  url_query :: "'u \<Rightarrow> bytes option"
  url_fragment :: "'u \<Rightarrow> bytes option"
  url_open_query :: "'u \<Rightarrow> 'u"
  url_append_pair :: "bytes \<Rightarrow> bytes \<Rightarrow> 'u \<Rightarrow> 'u"
  url_set_query_none :: "'u \<Rightarrow> 'u"
  url_query_pairs :: "'u \<Rightarrow> (bytes \<times> bytes) list"
  url_cannot_be_a_base :: "'u \<Rightarrow> bool"
  url_pop_if_empty :: "'u \<Rightarrow> 'u"
  url_push_segment :: "bytes \<Rightarrow> 'u \<Rightarrow> 'u"

definition url_laws :: "'u url_lib \<Rightarrow> bool" where
  "url_laws U \<longleftrightarrow>
     (\<forall>u. url_query_pairs U (url_open_query U u) = url_query_pairs U u) \<and>
     (\<forall>u k v. url_query_pairs U (url_append_pair U k v u) = url_query_pairs U u @ [(k, v)]) \<and>
     (\<forall>u. url_query_pairs U (url_set_query_none U u) = []) \<and>
     (\<forall>u. url_query U u = Some [] \<longrightarrow> url_query_pairs U u = []) \<and>
     (\<forall>u. url_scheme U (url_open_query U u) = url_scheme U u) \<and>
     (\<forall>u k v. url_scheme U (url_append_pair U k v u) = url_scheme U u) \<and>
     (\<forall>u. url_scheme U (url_set_query_none U u) = url_scheme U u) \<and>
     (\<forall>u. url_parse U (url_as_str U u) = Inr u)"

text \<open>\<open>append_pairs\<close>: a \<^verbatim>\<open>query_pairs_mut\<close> block that appends the given pairs.\<close>

definition append_pairs :: "'u url_lib \<Rightarrow> (bytes \<times> bytes) list \<Rightarrow> 'u \<Rightarrow> 'u" where
  "append_pairs U kvs u = fold (\<lambda>(k, v). url_append_pair U k v) kvs (url_open_query U u)"

lemma append_pairs_query_pairs:
  assumes "url_laws U"
  shows "url_query_pairs U (append_pairs U kvs u) = url_query_pairs U u @ kvs"
proof -
  have "url_query_pairs U (fold (\<lambda>(k, v). url_append_pair U k v) kvs u') =
      url_query_pairs U u' @ kvs" for u'
    using assms by (induction kvs arbitrary: u') (auto simp: url_laws_def)
  then show ?thesis using assms by (simp add: append_pairs_def url_laws_def)
qed

lemma append_pairs_scheme:
  assumes "url_laws U"
  shows "url_scheme U (append_pairs U kvs u) = url_scheme U u"
proof -
  have "url_scheme U (fold (\<lambda>(k, v). url_append_pair U k v) kvs u') = url_scheme U u'" for u'
    using assms by (induction kvs arbitrary: u') (auto simp: url_laws_def)
  then show ?thesis using assms by (simp add: append_pairs_def url_laws_def)
qed

text \<open>\<^verbatim>\<open>form_urlencoded::parse\<close> and the \<^verbatim>\<open>Serializer\<close>.\<close>

record form_lib =
  form_parse :: "bytes \<Rightarrow> (bytes \<times> bytes) list"
  form_serialize :: "(bytes \<times> bytes) list \<Rightarrow> bytes"

definition form_laws :: "form_lib \<Rightarrow> bool" where
  "form_laws F \<longleftrightarrow>
     (\<forall>kvs. (\<forall>(k, v) \<in> set kvs. utf8_valid k \<and> utf8_valid v) \<longrightarrow>
        form_parse F (form_serialize F kvs) = kvs) \<and>
     (\<forall>v. \<exists>s. form_serialize F [([], v)] = CHR ''='' # s \<and> CHR '':'' \<notin> set s)"

section \<open>Encodings and cryptography\<close>

record base64_lib =
  url_safe_encode :: "bytes \<Rightarrow> bytes"
  url_safe_decode :: "bytes \<Rightarrow> base64_error + bytes"
  standard_encode :: "bytes \<Rightarrow> bytes"

text \<open>The alphabet and the length of URL-safe base64 without padding (RFC 4648 section 5).\<close>

definition url_safe_char :: "char \<Rightarrow> bool" where
  "url_safe_char c \<longleftrightarrow>
     (let n = of_char c in (65 \<le> n \<and> n \<le> 90) \<or> (97 \<le> n \<and> n \<le> 122) \<or> (48 \<le> n \<and> n \<le> 57) \<or>
        n = 45 \<or> n = (95::nat))"

definition base64_laws :: "base64_lib \<Rightarrow> bool" where
  "base64_laws B \<longleftrightarrow>
     (\<forall>d. url_safe_decode B (url_safe_encode B d) = Inr d) \<and>
     (\<forall>d. length (url_safe_encode B d) = (4 * length d + 2) div 3) \<and>
     (\<forall>d. \<forall>c \<in> set (url_safe_encode B d). url_safe_char c)"

record crypto_lib =
  ffi_sha256 :: "bytes \<Rightarrow> bytes"
  ffi_sha384 :: "bytes \<Rightarrow> bytes"
  ffi_sha512 :: "bytes \<Rightarrow> bytes"
  ffi_memcmp :: "bytes \<Rightarrow> bytes \<Rightarrow> nat \<Rightarrow> int"

definition crypto_laws :: "crypto_lib \<Rightarrow> bool" where
  "crypto_laws C \<longleftrightarrow>
     (\<forall>d. length (ffi_sha256 C d) = 32) \<and> (\<forall>d. length (ffi_sha384 C d) = 48) \<and>
     (\<forall>d. length (ffi_sha512 C d) = 64) \<and>
     (\<forall>a b n. ffi_memcmp C a b n = 0 \<longleftrightarrow> take n a = take n b)"

section \<open>JSON\<close>

text \<open>
  \<^verbatim>\<open>serde_json::Value\<close>. Numbers are as in \<^verbatim>\<open>serde_json::Number\<close>: a non-negative or a negative
  64-bit integer, or a float (its text).
\<close>

datatype json_number = PosInt nat | NegInt int | Float bytes

datatype json =
    JNull
  | JBool bool
  | JNumber json_number
  | JString bytes
  | JArray "json list"
  | JObject "(bytes \<times> json) list"

text \<open>
  \<open>json_parse\<close> and \<open>json_print\<close> are \<^verbatim>\<open>serde_json\<close>'s reader and writer; the other four are the
  implementations that \<^verbatim>\<open>serde\<close> has for \<^verbatim>\<open>Duration\<close> and \<^verbatim>\<open>SystemTime\<close> (a time before 1970 cannot be
  written).
\<close>

record json_lib =
  json_parse :: "bytes \<Rightarrow> json_error + json"
  json_print :: "json \<Rightarrow> bytes"
  json_of_duration :: "duration \<Rightarrow> json"
  duration_of_json :: "json \<Rightarrow> json_error + duration"
  json_of_system_time :: "system_time \<Rightarrow> json_error + json"
  system_time_of_json :: "json \<Rightarrow> json_error + system_time"

definition serde_time_laws :: "json_lib \<Rightarrow> bool" where
  "serde_time_laws J \<longleftrightarrow>
     (\<forall>d. duration_of_json J (json_of_duration J d) = Inr d) \<and>
     (\<forall>d. json_of_duration J d \<noteq> JNull) \<and>
     (\<forall>t. unix_epoch \<le> t \<longrightarrow> (\<exists>v. json_of_system_time J t = Inr v)) \<and>
     (\<forall>t v. json_of_system_time J t = Inr v \<longrightarrow> system_time_of_json J v = Inr t)"

text \<open>\<^verbatim>\<open>Value::get\<close>: a member of an object, the last one where a name is repeated.\<close>

definition json_get :: "bytes \<Rightarrow> json \<Rightarrow> json option" where
  "json_get name v = (case v of JObject kvs \<Rightarrow> map_of (rev kvs) name | _ \<Rightarrow> None)"

definition json_as_u64 :: "json \<Rightarrow> nat option" where
  "json_as_u64 v = (case v of JNumber (PosInt n) \<Rightarrow> Some n | _ \<Rightarrow> None)"

definition json_as_i64 :: "json \<Rightarrow> int option" where
  "json_as_i64 v =
     (case v of JNumber (PosInt n) \<Rightarrow> if n < 2 ^ 63 then Some (int n) else None
      | JNumber (NegInt i) \<Rightarrow> Some i | _ \<Rightarrow> None)"

section \<open>The runtime: HTTP, clocks, randomness\<close>

datatype http_method = Get | Post

record http_request =
  req_method :: http_method
  req_url :: bytes
  req_headers :: "(bytes \<times> bytes) list"
  req_body :: "bytes option"

record http_response =
  resp_status :: nat
  resp_headers :: "(bytes \<times> bytes) list"
  resp_body :: bytes

text \<open>
  The outside world is an abstract state \<open>'w\<close>; the application's \<^verbatim>\<open>AsyncHttpClient::execute\<close>,
  the two clocks and \<^verbatim>\<open>RAND_bytes\<close> are functions that read and change it.
\<close>

record 'w runtime =
  http_execute :: "http_request \<Rightarrow> 'w \<Rightarrow> (oidc_error + http_response) \<times> 'w"
  instant_now :: "'w \<Rightarrow> instant \<times> 'w"
  system_now :: "'w \<Rightarrow> system_time \<times> 'w"
  rand_bytes :: "nat \<Rightarrow> 'w \<Rightarrow> bytes \<times> 'w"

text \<open>The source of random bytes fills the buffer it is given.\<close>

definition rand_laws :: "'w runtime \<Rightarrow> bool" where
  "rand_laws R \<longleftrightarrow> (\<forall>n w. length (fst (rand_bytes R n w)) = n)"

record httpdate_lib =
  parse_http_date :: "bytes \<Rightarrow> system_time option"

section \<open>The jose4rs crate\<close>

text \<open>\<^verbatim>\<open>AlgorithmIdentifier\<close>, with the constructors the source matches on.\<close>

datatype algorithm_identifier =
    HmacSha256 | HmacSha384 | HmacSha512
  | RsaUsingSha256 | RsaUsingSha384 | RsaUsingSha512
  | EcdsaUsingP256CurveAndSha256 | EcdsaUsingP384CurveAndSha384 | EcdsaUsingP521CurveAndSha512
  | EcdsaUsingSecp256k1CurveAndSha256
  | RsaPssUsingSha256 | RsaPssUsingSha384 | RsaPssUsingSha512
  | EdDsa | AlgNone

text \<open>What the source sets on a \<^verbatim>\<open>JwtConsumerBuilder\<close>.\<close>

record consumer_config =
  cc_expected_issuer :: "bytes option"
  cc_expected_audience :: "(bool \<times> bool \<times> bytes list) option"
  cc_require_subject :: bool
  cc_require_issued_at :: bool
  cc_require_expiration :: bool
  cc_clock_skew :: "duration option"

definition jwt_consumer_builder_new :: consumer_config where
  "jwt_consumer_builder_new = \<lparr>cc_expected_issuer = None, cc_expected_audience = None,
     cc_require_subject = False, cc_require_issued_at = False, cc_require_expiration = False,
     cc_clock_skew = None\<rparr>"

text \<open>\<^verbatim>\<open>FetchResponse\<close>, what a key fetcher returns.\<close>

record fetch_response =
  fetch_body :: bytes
  fetch_cache_control :: "bytes option"
  fetch_expires :: "bytes option"
  fetch_age :: "duration option"

text \<open>
  \<open>'jws\<close>, \<open>'key\<close>, \<open>'claims\<close> and \<open>'jwks\<close> are \<^verbatim>\<open>JsonWebSignature\<close>, \<^verbatim>\<open>JsonWebKey\<close>, \<^verbatim>\<open>JwtClaims\<close> and the
  handle \<^verbatim>\<open>AsyncHttpsJwks\<close>. The key cache behind a handle is shared and fetches over the network,
  so its operations run on the world. The consumer reads the system clock.
\<close>

record ('jws, 'key, 'claims, 'jwks, 'w) jose_lib =
  jws_from_compact :: "bytes \<Rightarrow> jose_error + 'jws"
  jws_algorithm :: "'jws \<Rightarrow> bytes option"
  jws_key_id :: "'jws \<Rightarrow> bytes option"
  jws_unverified_payload :: "'jws \<Rightarrow> jose_error + bytes"
  jws_verify_signature :: "'jws \<Rightarrow> 'key \<Rightarrow> jose_error + bool"
  jws_payload :: "'jws \<Rightarrow> 'key \<Rightarrow> jose_error + bytes"
  claims_parse :: "bytes \<Rightarrow> jose_error + 'claims"
  claims_string :: "'claims \<Rightarrow> bytes \<Rightarrow> bytes option"
  claims_string_array :: "'claims \<Rightarrow> bytes \<Rightarrow> bytes list option"
  claims_audience :: "'claims \<Rightarrow> bytes list option"
  claims_to_json :: "'claims \<Rightarrow> bytes"
  process_to_claims :: "consumer_config \<Rightarrow> system_time \<Rightarrow> bytes \<Rightarrow> invalid_jwt_error + 'claims"
  algorithm_try_from :: "bytes \<Rightarrow> jose_error + algorithm_identifier"
  algorithm_name :: "algorithm_identifier \<Rightarrow> bytes"
  key_curve_name :: "'key \<Rightarrow> bytes option"
  jwks_new :: "bytes \<Rightarrow> (bytes \<Rightarrow> 'w \<Rightarrow> (jose_error + fetch_response) \<times> 'w) \<Rightarrow> 'jwks"
  jwks_keys :: "'jwks \<Rightarrow> 'w \<Rightarrow> (jose_error + unit) \<times> 'w"
  jwks_select ::
    "'jwks \<Rightarrow> bytes option \<Rightarrow> bytes \<Rightarrow> 'w \<Rightarrow> (jose_error + 'key option) \<times> 'w"

end
