(* ===== verification/Json_Decode.thy ===== *)
theory Json_Decode
  imports Externals
begin

text \<open>
  What \<^verbatim>\<open>#[derive(Deserialize)]\<close> generates for the structs of the crate, on a JSON document:

  \<^item> members are matched by name, unknown members are skipped (or collected by a field with the
    attribute \<^verbatim>\<open>flatten\<close>), a second member for a field is an error;
  \<^item> a missing member is an error unless the field has \<^verbatim>\<open>#[serde(default)]\<close> or is an \<^verbatim>\<open>Option\<close>
    without a \<^verbatim>\<open>deserialize_with\<close>; \<^verbatim>\<open>null\<close> is \<^verbatim>\<open>None\<close>;
  \<^item> a struct without a flattened field is also read from an array that lists its fields in
    order; there, trailing fields may be left out only if they have \<^verbatim>\<open>#[serde(default)]\<close>.

  The generated code reads a document from left to right and stops at the first error; the model
  parses it completely and then looks at the fields, so it fails on the same documents, and which
  of several errors of one document is reported is not modelled. A number, string or nesting that
  \<^verbatim>\<open>serde_json\<close> refuses inside a member that is skipped is refused by both.
\<close>

type_synonym members = "(bytes \<times> json) list"

section \<open>Values\<close>

definition as_string :: "json \<Rightarrow> json_error + bytes" where
  "as_string v = (case v of JString s \<Rightarrow> Inr s | _ \<Rightarrow> Inl (InvalidType ''string''))"

definition as_bool :: "json \<Rightarrow> json_error + bool" where
  "as_bool v = (case v of JBool b \<Rightarrow> Inr b | _ \<Rightarrow> Inl (InvalidType ''bool''))"

definition as_u64 :: "json \<Rightarrow> json_error + nat" where
  "as_u64 v = (case json_as_u64 v of Some n \<Rightarrow> Inr n | None \<Rightarrow> Inl (InvalidType ''u64''))"

definition as_i64 :: "json \<Rightarrow> json_error + int" where
  "as_i64 v = (case json_as_i64 v of Some n \<Rightarrow> Inr n | None \<Rightarrow> Inl (InvalidType ''i64''))"

definition as_value :: "json \<Rightarrow> json_error + json" where
  "as_value v = Inr v"

fun mapM_result :: "('a \<Rightarrow> 'e + 'b) \<Rightarrow> 'a list \<Rightarrow> 'e + 'b list" where
  "mapM_result f [] = Inr []"
| "mapM_result f (x # xs) = bindr (f x) (\<lambda>y. mapr (\<lambda>ys. y # ys) (mapM_result f xs))"

definition as_list :: "(json \<Rightarrow> json_error + 'a) \<Rightarrow> json \<Rightarrow> json_error + 'a list" where
  "as_list f v = (case v of JArray vs \<Rightarrow> mapM_result f vs | _ \<Rightarrow> Inl (InvalidType ''a sequence''))"

definition as_option :: "(json \<Rightarrow> json_error + 'a) \<Rightarrow> json \<Rightarrow> json_error + 'a option" where
  "as_option f v = (if v = JNull then Inr None else mapr Some (f v))"

section \<open>Members\<close>

text \<open>The members of a struct whose fields are \<open>fs\<close>, each with whether it has a default.\<close>

fun repeated_field :: "bytes set \<Rightarrow> members \<Rightarrow> bytes option" where
  "repeated_field names [] = None"
| "repeated_field names ((k, v) # ms) =
     (if k \<in> names \<and> k \<in> fst ` set ms then Some k else repeated_field names ms)"

definition map_members :: "bytes list \<Rightarrow> json \<Rightarrow> json_error + members" where
  "map_members names v =
     (case v of
        JObject ms \<Rightarrow>
          (case repeated_field (set names) ms of
             Some k \<Rightarrow> Inl (DuplicateField k) | None \<Rightarrow> Inr ms)
      | _ \<Rightarrow> Inl (InvalidType ''a map''))"

definition struct_members :: "(bytes \<times> bool) list \<Rightarrow> json \<Rightarrow> json_error + members" where
  "struct_members fs v =
     (case v of
        JArray vs \<Rightarrow>
          (if length vs \<le> length fs \<and> (\<forall>(name, has_default) \<in> set (drop (length vs) fs). has_default)
           then Inr (zip (map fst fs) vs) else Inl (InvalidType ''length''))
      | _ \<Rightarrow> map_members (map fst fs) v)"

definition required_field :: "(json \<Rightarrow> json_error + 'a) \<Rightarrow> bytes \<Rightarrow> members \<Rightarrow> json_error + 'a" where
  "required_field f name ms =
     (case map_of ms name of None \<Rightarrow> Inl (MissingField name) | Some v \<Rightarrow> f v)"

definition default_field ::
  "'a \<Rightarrow> (json \<Rightarrow> json_error + 'a) \<Rightarrow> bytes \<Rightarrow> members \<Rightarrow> json_error + 'a" where
  "default_field d f name ms = (case map_of ms name of None \<Rightarrow> Inr d | Some v \<Rightarrow> f v)"

definition option_field ::
  "(json \<Rightarrow> json_error + 'a) \<Rightarrow> bytes \<Rightarrow> members \<Rightarrow> json_error + 'a option" where
  "option_field f = default_field None (as_option f)"

definition extra_members :: "bytes list \<Rightarrow> members \<Rightarrow> bytes \<Rightarrow> json option" where
  "extra_members names ms = map_of (rev (filter (\<lambda>(k, v). k \<notin> set names) ms))"

text \<open>\<^verbatim>\<open>serde_json::from_slice\<close>: parse, then decode.\<close>

definition from_json_slice ::
  "json_lib \<Rightarrow> (json \<Rightarrow> json_error + 'a) \<Rightarrow> bytes \<Rightarrow> json_error + 'a" where
  "from_json_slice J f bs = bindr (json_parse J bs) f"

section \<open>Lemmas\<close>

named_theorems decode_simps "what a successful decoding says of the document"

lemma value_eq_Inr [simp, decode_simps]:
  "as_string v = Inr s \<longleftrightarrow> v = JString s"
  "as_bool v = Inr b \<longleftrightarrow> v = JBool b"
  "as_u64 v = Inr n \<longleftrightarrow> json_as_u64 v = Some n"
  "as_i64 v = Inr i \<longleftrightarrow> json_as_i64 v = Some i"
  "as_value v = Inr w \<longleftrightarrow> w = v"
  by (auto simp: as_string_def as_bool_def as_u64_def as_i64_def as_value_def
      split: json.splits option.splits)

lemma mapM_result_Inr: "mapM_result f xs = Inr ys \<longleftrightarrow> list_all2 (\<lambda>x y. f x = Inr y) xs ys"
  by (induction xs arbitrary: ys) (auto simp: bindr_eq_Inr mapr_eq_Inr list_all2_Cons1)

lemma mapM_result_strings: "mapM_result as_string (map JString ss) = Inr ss"
  by (simp add: mapM_result_Inr list_all2_conv_all_nth)

lemma as_list_strings [simp]: "as_list as_string (JArray (map JString ss)) = Inr ss"
  by (simp add: as_list_def mapM_result_strings)

lemma as_option_eq_Inr [decode_simps]:
  "as_option f v = Inr r \<longleftrightarrow> (v = JNull \<and> r = None) \<or> (v \<noteq> JNull \<and> (\<exists>x. f v = Inr x \<and> r = Some x))"
  by (auto simp: as_option_def mapr_eq_Inr)

lemma required_field_Inr [decode_simps]:
  "required_field f name ms = Inr x \<longleftrightarrow> (\<exists>v. map_of ms name = Some v \<and> f v = Inr x)"
  by (auto simp: required_field_def split: option.splits)

lemma default_field_Inr [decode_simps]:
  "default_field d f name ms = Inr x \<longleftrightarrow>
     (map_of ms name = None \<and> x = d) \<or> (\<exists>v. map_of ms name = Some v \<and> f v = Inr x)"
  by (auto simp: default_field_def split: option.splits)

lemma repeated_field_None:
  "repeated_field names ms = None \<longleftrightarrow> distinct (filter (\<lambda>k. k \<in> names) (map fst ms))"
  by (induction ms) force+

lemma map_members_Inr [decode_simps]:
  "map_members names v = Inr ms \<longleftrightarrow>
     v = JObject ms \<and> distinct (filter (\<lambda>k. k \<in> set names) (map fst ms))"
  by (auto simp: map_members_def repeated_field_None [symmetric] split: json.splits option.splits)

lemma struct_members_object [simp]:
  "struct_members fs (JObject ms) = map_members (map fst fs) (JObject ms)"
  by (simp add: struct_members_def)

end
