(* ===== verification/Url_Types.thy ===== *)
theory Url_Types
  imports Externals
begin

text \<open>
  src/types/url.rs: the URL newtypes. The macro \<^verbatim>\<open>https_url_newtype!\<close> gives five types that
  accept \<^verbatim>\<open>https\<close> only; \<^verbatim>\<open>IssuerUrl\<close> also keeps the text it was parsed from and refuses a
  query or a fragment; the two redirect types accept any scheme. The contract that the six
  \<^verbatim>\<open>https\<close> types share is the locale \<open>https_newtype\<close>.
\<close>

section \<open>The https newtypes\<close>

datatype 'u auth_url = AuthUrl (auth_as_url: 'u)
datatype 'u token_url = TokenUrl (token_as_url: 'u)
datatype 'u userinfo_url = UserInfoUrl (userinfo_as_url: 'u)
datatype 'u end_session_url = EndSessionUrl (end_session_as_url: 'u)
datatype 'u jwks_url = JwksUrl (jwks_as_url: 'u)

definition https_url_from_str ::
  "bytes \<Rightarrow> ('u \<Rightarrow> 't) \<Rightarrow> 'u url_lib \<Rightarrow> bytes \<Rightarrow> oidc_error + 't" where
  "https_url_from_str name mk U s =
     bindr (map_errr InvalidUrl (url_parse U s)) (\<lambda>url.
       if url_scheme U url \<noteq> ''https''
       then Inl (InvalidUrl (name @ '' requires https, got '' @ url_scheme U url))
       else Inr (mk url))"

definition auth_url_from_str :: "'u url_lib \<Rightarrow> bytes \<Rightarrow> oidc_error + 'u auth_url" where
  "auth_url_from_str = https_url_from_str ''AuthUrl'' AuthUrl"
definition token_url_from_str :: "'u url_lib \<Rightarrow> bytes \<Rightarrow> oidc_error + 'u token_url" where
  "token_url_from_str = https_url_from_str ''TokenUrl'' TokenUrl"
definition userinfo_url_from_str :: "'u url_lib \<Rightarrow> bytes \<Rightarrow> oidc_error + 'u userinfo_url" where
  "userinfo_url_from_str = https_url_from_str ''UserInfoUrl'' UserInfoUrl"
definition end_session_url_from_str ::
  "'u url_lib \<Rightarrow> bytes \<Rightarrow> oidc_error + 'u end_session_url" where
  "end_session_url_from_str = https_url_from_str ''EndSessionUrl'' EndSessionUrl"
definition jwks_url_from_str :: "'u url_lib \<Rightarrow> bytes \<Rightarrow> oidc_error + 'u jwks_url" where
  "jwks_url_from_str = https_url_from_str ''JwksUrl'' JwksUrl"

text \<open>\<^verbatim>\<open>as_str\<close>, \<^verbatim>\<open>Display\<close> and \<^verbatim>\<open>Serialize\<close> of the newtypes are the serialisation of the URL.\<close>

definition auth_url_as_str :: "'u url_lib \<Rightarrow> 'u auth_url \<Rightarrow> bytes" where
  "auth_url_as_str U x = url_as_str U (auth_as_url x)"
definition token_url_as_str :: "'u url_lib \<Rightarrow> 'u token_url \<Rightarrow> bytes" where
  "token_url_as_str U x = url_as_str U (token_as_url x)"
definition userinfo_url_as_str :: "'u url_lib \<Rightarrow> 'u userinfo_url \<Rightarrow> bytes" where
  "userinfo_url_as_str U x = url_as_str U (userinfo_as_url x)"
definition end_session_url_as_str :: "'u url_lib \<Rightarrow> 'u end_session_url \<Rightarrow> bytes" where
  "end_session_url_as_str U x = url_as_str U (end_session_as_url x)"
definition jwks_url_as_str :: "'u url_lib \<Rightarrow> 'u jwks_url \<Rightarrow> bytes" where
  "jwks_url_as_str U x = url_as_str U (jwks_as_url x)"

section \<open>The issuer\<close>

record 'u issuer_url =
  issuer_as_url :: 'u
  issuer_as_str :: bytes

definition issuer_url_from_str :: "'u url_lib \<Rightarrow> bytes \<Rightarrow> oidc_error + 'u issuer_url" where
  "issuer_url_from_str U s =
     bindr (map_errr InvalidUrl (url_parse U s)) (\<lambda>url.
       if url_scheme U url \<noteq> ''https''
       then Inl (InvalidUrl (''IssuerUrl requires https, got '' @ url_scheme U url))
       else if url_query U url \<noteq> None \<or> url_fragment U url \<noteq> None
       then Inl (InvalidUrl ''IssuerUrl must not contain a query or fragment'')
       else Inr \<lparr>issuer_as_url = url, issuer_as_str = s\<rparr>)"

text \<open>\<^verbatim>\<open>Serialize\<close>: the text the issuer was written as.\<close>

definition issuer_url_to_json :: "'u issuer_url \<Rightarrow> json" where
  "issuer_url_to_json i = JString (issuer_as_str i)"

section \<open>Redirect URLs\<close>

datatype 'u redirect_url = RedirectUrl (redirect_as_url: 'u)
datatype 'u post_logout_redirect_url = PostLogoutRedirectUrl (post_logout_as_url: 'u)

definition redirect_url_from_str :: "'u url_lib \<Rightarrow> bytes \<Rightarrow> oidc_error + 'u redirect_url" where
  "redirect_url_from_str U s = mapr RedirectUrl (map_errr InvalidUrl (url_parse U s))"

definition redirect_url_as_str :: "'u url_lib \<Rightarrow> 'u redirect_url \<Rightarrow> bytes" where
  "redirect_url_as_str U x = url_as_str U (redirect_as_url x)"

definition post_logout_redirect_url_from_str ::
  "'u url_lib \<Rightarrow> bytes \<Rightarrow> oidc_error + 'u post_logout_redirect_url" where
  "post_logout_redirect_url_from_str U s =
     mapr PostLogoutRedirectUrl (map_errr InvalidUrl (url_parse U s))"

definition post_logout_redirect_url_as_str ::
  "'u url_lib \<Rightarrow> 'u post_logout_redirect_url \<Rightarrow> bytes" where
  "post_logout_redirect_url_as_str U x = url_as_str U (post_logout_as_url x)"

section \<open>The contract of an https newtype\<close>

text \<open>
  A value can only be obtained from a text whose URL has the scheme \<^verbatim>\<open>https\<close>, it wraps exactly
  that URL, and every failure is \<^verbatim>\<open>InvalidUrl\<close>.
\<close>

locale https_newtype =
  fixes from_str :: "'u url_lib \<Rightarrow> bytes \<Rightarrow> oidc_error + 't"
    and as_url :: "'t \<Rightarrow> 'u"
  assumes from_str_ok: "from_str U s = Inr x \<Longrightarrow>
      url_parse U s = Inr (as_url x) \<and> url_scheme U (as_url x) = ''https''"
    and from_str_error: "from_str U s = Inl e \<Longrightarrow> \<exists>m. e = InvalidUrl m"
begin

lemma not_https_refused:
  assumes "url_parse U s = Inr url" and "url_scheme U url \<noteq> ''https''"
  shows "\<exists>m. from_str U s = Inl (InvalidUrl m)"
  using assms from_str_ok [of U s] from_str_error [of U s] by (cases "from_str U s") auto

lemma reparse_https:
  assumes "url_laws U" and "from_str U (url_as_str U u) = Inr x"
  shows "as_url x = u \<and> url_scheme U u = ''https''"
  using assms from_str_ok [OF assms(2)] by (auto simp: url_laws_def)

end

lemma https_url_from_str_Inr:
  "https_url_from_str name mk U s = Inr x \<longleftrightarrow>
     (\<exists>url. url_parse U s = Inr url \<and> url_scheme U url = ''https'' \<and> x = mk url)"
  by (auto simp: https_url_from_str_def bindr_eq_Inr)

lemma https_url_from_str_Inl:
  "https_url_from_str name mk U s = Inl e \<Longrightarrow> \<exists>m. e = InvalidUrl m"
  by (auto simp: https_url_from_str_def bindr_eq_Inl map_errr_eq_Inl split: if_splits)

lemmas https_defs = auth_url_from_str_def token_url_from_str_def userinfo_url_from_str_def
  end_session_url_from_str_def jwks_url_from_str_def

interpretation auth: https_newtype auth_url_from_str auth_as_url
  by unfold_locales (auto simp: https_defs https_url_from_str_Inr dest: https_url_from_str_Inl)
interpretation token: https_newtype token_url_from_str token_as_url
  by unfold_locales (auto simp: https_defs https_url_from_str_Inr dest: https_url_from_str_Inl)
interpretation userinfo: https_newtype userinfo_url_from_str userinfo_as_url
  by unfold_locales (auto simp: https_defs https_url_from_str_Inr dest: https_url_from_str_Inl)
interpretation end_session: https_newtype end_session_url_from_str end_session_as_url
  by unfold_locales (auto simp: https_defs https_url_from_str_Inr dest: https_url_from_str_Inl)
interpretation jwks: https_newtype jwks_url_from_str jwks_as_url
  by unfold_locales (auto simp: https_defs https_url_from_str_Inr dest: https_url_from_str_Inl)
interpretation issuer: https_newtype issuer_url_from_str issuer_as_url
  by unfold_locales (auto simp: issuer_url_from_str_def bindr_eq_Inr bindr_eq_Inl map_errr_eq_Inl
    split: if_splits)

lemma issuer_url_from_str_Inr:
  "issuer_url_from_str U s = Inr i \<longleftrightarrow>
     (\<exists>url. url_parse U s = Inr url \<and> url_scheme U url = ''https'' \<and> url_query U url = None \<and>
        url_fragment U url = None \<and> i = \<lparr>issuer_as_url = url, issuer_as_str = s\<rparr>)"
  by (auto simp: issuer_url_from_str_def bindr_eq_Inr)

section \<open>Properties\<close>

text \<open>
  C39. Endpoints are https: a text becomes one of the five endpoint types exactly if it parses as a
  URL whose scheme is https, and the value is that URL. An issuer moreover has neither query nor
  fragment and keeps the text it was written as, which is what issuers are compared by.
\<close>

theorem endpoints_are_https:
  "(auth_url_from_str U s = Inr a \<longleftrightarrow> url_parse U s = Inr (auth_as_url a) \<and> url_scheme U (auth_as_url a) = ''https'') \<and>
   (token_url_from_str U s = Inr t \<longleftrightarrow>
      url_parse U s = Inr (token_as_url t) \<and> url_scheme U (token_as_url t) = ''https'') \<and>
   (userinfo_url_from_str U s = Inr u \<longleftrightarrow>
      url_parse U s = Inr (userinfo_as_url u) \<and> url_scheme U (userinfo_as_url u) = ''https'') \<and>
   (end_session_url_from_str U s = Inr e \<longleftrightarrow>
      url_parse U s = Inr (end_session_as_url e) \<and> url_scheme U (end_session_as_url e) = ''https'') \<and>
   (jwks_url_from_str U s = Inr j \<longleftrightarrow>
      url_parse U s = Inr (jwks_as_url j) \<and> url_scheme U (jwks_as_url j) = ''https'') \<and>
   (issuer_url_from_str U s = Inr i \<longleftrightarrow>
      url_parse U s = Inr (issuer_as_url i) \<and> url_scheme U (issuer_as_url i) = ''https'' \<and>
      url_query U (issuer_as_url i) = None \<and> url_fragment U (issuer_as_url i) = None \<and>
      issuer_as_str i = s)"
proof -
  have wrap: "https_url_from_str n mk U s = Inr x \<longleftrightarrow> url_parse U s = Inr (un x) \<and> url_scheme U (un x) = ''https''"
    if "\<And>y. mk (un y) = y" "\<And>y. un (mk y) = y" for n mk un x
    using that by (auto simp: https_url_from_str_Inr)
  show ?thesis
    unfolding https_defs
    by (intro conjI wrap) (auto simp: issuer_url_from_str_Inr)
qed

end
