(* ===== verification/Crypto.thy ===== *)
theory Crypto
  imports Externals
begin

text \<open>
  src/crypto: the wrappers around the C library. A call of the library that fails aborts the
  process, so the model describes the runs in which it does not.
\<close>

definition sha256 :: "crypto_lib \<Rightarrow> bytes \<Rightarrow> bytes" where
  "sha256 C data = ffi_sha256 C data"

definition sha384 :: "crypto_lib \<Rightarrow> bytes \<Rightarrow> bytes" where
  "sha384 C data = ffi_sha384 C data"

definition sha512 :: "crypto_lib \<Rightarrow> bytes \<Rightarrow> bytes" where
  "sha512 C data = ffi_sha512 C data"

definition ct_equals :: "crypto_lib \<Rightarrow> bytes \<Rightarrow> bytes \<Rightarrow> bool" where
  "ct_equals C a b = (if length a \<noteq> length b then False else ffi_memcmp C a b (length a) = 0)"

definition fill_bytes :: "'w runtime \<Rightarrow> nat \<Rightarrow> 'w \<Rightarrow> bytes \<times> 'w" where
  "fill_bytes R n w = (if n = 0 then ([], w) else rand_bytes R n w)"

lemma ct_equals_iff:
  assumes "crypto_laws C"
  shows "ct_equals C a b \<longleftrightarrow> a = b"
  using assms by (auto simp: ct_equals_def crypto_laws_def)

end
