(* ===== verification/Instances.thy ===== *)
theory Instances
  imports Externals
begin

text \<open>
  Concrete functions for the parameters of the model, used where a property is applied to an
  input: the form encoding of the WHATWG URL standard (\<open>std_form\<close>), URL-safe base64 of RFC 4648
  (\<open>std_base64\<close>), URLs as their text (\<open>text_url\<close>), a digest that pads (\<open>pad_crypto\<close>), and a world that
  replays scripted answers and records the requests (\<open>scripted\<close>). Each is shown to satisfy the
  laws that the properties assume of the crate it stands for; none is part of the program.
\<close>

section \<open>Form encoding\<close>

definition form_plain :: "char \<Rightarrow> bool" where
  "form_plain c \<longleftrightarrow>
     (let n = of_char c in (48 \<le> n \<and> n \<le> 57) \<or> (65 \<le> n \<and> n \<le> 90) \<or> (97 \<le> n \<and> n \<le> 122) \<or>
        n = 42 \<or> n = 45 \<or> n = 46 \<or> n = (95::nat))"

definition hex_upper :: "nat \<Rightarrow> char" where
  "hex_upper d = char_of (if d < 10 then 48 + d else 55 + d)"

definition hex_digit :: "char \<Rightarrow> nat" where
  "hex_digit c = (let n = of_char c in if n < 65 then n - 48 else if n < 97 then n - 55 else n - 87)"

definition enc_char :: "char \<Rightarrow> bytes" where
  "enc_char c =
     (if form_plain c then [c] else if c = CHR '' '' then ''+''
      else [CHR ''%'', hex_upper (of_char c div 16), hex_upper (of_char c mod 16)])"

definition enc :: "bytes \<Rightarrow> bytes" where "enc s = concat (map enc_char s)"

fun dec :: "bytes \<Rightarrow> bytes" where
  "dec [] = []"
| "dec (c # s) =
     (if c = CHR ''%'' then
        (case s of h # l # r \<Rightarrow> char_of (16 * hex_digit h + hex_digit l) # dec r | _ \<Rightarrow> c # dec s)
      else (if c = CHR ''+'' then CHR '' '' else c) # dec s)"

definition enc_pair :: "bytes \<times> bytes \<Rightarrow> bytes" where
  "enc_pair p = enc (fst p) @ '''' @ [CHR ''=''] @ enc (snd p)"

definition dec_pair :: "bytes \<Rightarrow> bytes \<times> bytes" where
  "dec_pair s =
     (case split_once (CHR ''='') s of Some (k, v) \<Rightarrow> (dec k, dec v) | None \<Rightarrow> (dec s, []))"

definition dec_query :: "bytes \<Rightarrow> (bytes \<times> bytes) list" where
  "dec_query s = map dec_pair (filter (\<lambda>p. p \<noteq> []) (split_on (CHR ''&'') s))"

definition std_form :: form_lib where
  "std_form = \<lparr>form_parse = dec_query, form_serialize = (\<lambda>kvs. join_with ''&'' (map enc_pair kvs))\<rparr>"

definition safe_char :: "char \<Rightarrow> bool" where
  "safe_char c \<longleftrightarrow> form_plain c \<or> c = CHR ''+'' \<or> c = CHR ''%''"

lemma hex_upper_plain: "d < 16 \<Longrightarrow> form_plain (hex_upper d)"
  by (auto simp: hex_upper_def form_plain_def Let_def)

lemma hex_digit_upper: "d < 16 \<Longrightarrow> hex_digit (hex_upper d) = d"
  by (auto simp: hex_upper_def hex_digit_def Let_def)

lemma nibble: "n < 256 \<Longrightarrow> n div 16 < 16 \<and> n mod 16 < (16 :: nat)"
  by auto

lemma of_char_less: "of_char c < (256 :: nat)"
  by simp

lemma hex_upper_safe: "safe_char (hex_upper (of_char c div 16))" "safe_char (hex_upper (of_char c mod 16))"
  using hex_upper_plain nibble [OF of_char_less [of c]] by (auto simp: safe_char_def)

lemma enc_char_safe: "x \<in> set (enc_char c) \<Longrightarrow> safe_char x"
  by (auto simp: enc_char_def hex_upper_safe split: if_splits) (auto simp: safe_char_def)

lemma enc_safe: "x \<in> set (enc s) \<Longrightarrow> safe_char x"
  using enc_char_safe by (auto simp: enc_def)

lemma safe_char_not:
  "\<not> safe_char (CHR ''&'')" "\<not> safe_char (CHR ''='')" "\<not> safe_char (CHR '':'')"
  "\<not> safe_char (CHR ''?'')" "\<not> safe_char (CHR ''#'')"
  by (simp_all add: safe_char_def form_plain_def)

lemma enc_not [simp]:
  "CHR ''&'' \<notin> set (enc s)" "CHR ''='' \<notin> set (enc s)" "CHR '':'' \<notin> set (enc s)"
  "CHR ''?'' \<notin> set (enc s)" "CHR ''#'' \<notin> set (enc s)"
  using enc_safe safe_char_not by blast+

lemma dec_enc_char: "dec (enc_char c @ s) = c # dec s"
proof -
  have nib: "(of_char c :: nat) div 16 < 16" "(of_char c :: nat) mod 16 < 16"
    using nibble [OF of_char_less [of c]] by simp_all
  have join: "char_of (16 * (of_char c div 16) + of_char c mod 16 :: nat) = c"
    by (simp only: mult_div_mod_eq char_of_char)
  consider (plain) "form_plain c" | (space) "\<not> form_plain c" "c = CHR '' ''"
    | (hex) "\<not> form_plain c" "c \<noteq> CHR '' ''" by blast
  then show ?thesis
  proof cases
    case plain
    moreover have "\<not> form_plain (CHR ''%'')" "\<not> form_plain (CHR ''+'')"
      by (simp_all add: form_plain_def)
    ultimately have "c \<noteq> CHR ''%''" "c \<noteq> CHR ''+''" by auto
    with plain show ?thesis by (simp add: enc_char_def)
  next
    case space
    then show ?thesis by (simp add: enc_char_def)
  next
    case hex
    then show ?thesis
      by (simp only: enc_char_def if_False append.simps dec.simps if_True simp_thms list.case
          hex_digit_upper [OF nib(1)] hex_digit_upper [OF nib(2)] join)
  qed
qed

lemma dec_enc [simp]: "dec (enc s) = s"
  by (induction s) (simp_all add: enc_def dec_enc_char)

lemma dec_pair_enc [simp]: "dec_pair (enc_pair p) = p"
proof -
  have "split_once (CHR ''='') (enc (fst p) @ CHR ''='' # enc (snd p)) = Some (enc (fst p), enc (snd p))"
    by (simp add: split_once_Some)
  then show ?thesis by (simp add: dec_pair_def enc_pair_def)
qed

lemma enc_pair_not [simp]:
  "CHR ''&'' \<notin> set (enc_pair p)" "CHR ''?'' \<notin> set (enc_pair p)" "enc_pair p \<noteq> []"
  by (auto simp: enc_pair_def)

lemma split_enc_pairs:
  "kvs \<noteq> [] \<Longrightarrow> split_on (CHR ''&'') (join_with ''&'' (map enc_pair kvs)) = map enc_pair kvs"
proof (induction kvs)
  case (Cons p kvs)
  then show ?case
    by (cases kvs) (auto simp: split_on_no_sep split_on_append)
qed simp

lemma dec_query_append:
  "dec_query (a @ CHR ''&'' # b) = dec_query a @ dec_query b"
  by (simp add: dec_query_def split_on_append)

lemma dec_query_enc_pair [simp]: "dec_query (enc_pair p) = [p]"
  by (simp add: dec_query_def split_on_no_sep)

lemma dec_query_Nil [simp]: "dec_query [] = []"
  by (simp add: dec_query_def)

lemma std_form_laws: "form_laws std_form"
proof -
  have "form_parse std_form (form_serialize std_form kvs) = kvs" for kvs
  proof (cases "kvs = []")
    case False
    have "filter (\<lambda>p. p \<noteq> []) (map enc_pair kvs) = map enc_pair kvs"
      by (simp add: filter_id_conv)
    with split_enc_pairs [OF False] show ?thesis by (simp add: std_form_def dec_query_def o_def)
  qed (simp add: std_form_def dec_query_def)
  moreover have "\<exists>s. form_serialize std_form [([], v)] = CHR ''='' # s \<and> CHR '':'' \<notin> set s" for v
    by (auto simp: std_form_def enc_pair_def enc_def [of "[]"])
  ultimately show ?thesis unfolding form_laws_def by blast
qed

section \<open>Base64\<close>

definition b64_char :: "nat \<Rightarrow> char" where
  "b64_char i = char_of (if i < 26 then 65 + i else if i < 52 then 71 + i else if i < 62 then i - 4
     else if i = 62 then 45 else 95)"

definition b64_val :: "char \<Rightarrow> nat" where
  "b64_val c = (let n = of_char c in if n = 45 then 62 else if n = 95 then 63 else
     if n < 58 then n + 4 else if n < 91 then n - 65 else n - 71)"

fun b64_encode :: "bytes \<Rightarrow> bytes" where
  "b64_encode [] = []"
| "b64_encode [a] = (let n = of_char a in [b64_char (n div 4), b64_char (n mod 4 * 16)])"
| "b64_encode [a, b] =
     (let n = of_char a; m = of_char b in
      [b64_char (n div 4), b64_char (n mod 4 * 16 + m div 16), b64_char (m mod 16 * 4)])"
| "b64_encode (a # b # c # s) =
     (let n = of_char a; m = of_char b; k = of_char c in
      [b64_char (n div 4), b64_char (n mod 4 * 16 + m div 16), b64_char (m mod 16 * 4 + k div 64),
       b64_char (k mod 64)] @ b64_encode s)"

fun b64_decode :: "bytes \<Rightarrow> base64_error + bytes" where
  "b64_decode [] = Inr []"
| "b64_decode [p] = Inl (Base64DecodeError ''invalid length'')"
| "b64_decode [p, q] = Inr [char_of (b64_val p * 4 + b64_val q div 16)]"
| "b64_decode [p, q, r] =
     Inr [char_of (b64_val p * 4 + b64_val q div 16), char_of (b64_val q mod 16 * 16 + b64_val r div 4)]"
| "b64_decode (p # q # r # t # s) =
     mapr (\<lambda>d. char_of (b64_val p * 4 + b64_val q div 16) #
             char_of (b64_val q mod 16 * 16 + b64_val r div 4) #
             char_of (b64_val r mod 4 * 64 + b64_val t) # d) (b64_decode s)"

definition std_base64 :: base64_lib where
  "std_base64 = \<lparr>url_safe_encode = b64_encode, url_safe_decode = b64_decode, standard_encode = b64_encode\<rparr>"

lemma b64_val_char: "i < 64 \<Longrightarrow> b64_val (b64_char i) = i"
  by (auto simp: b64_val_def b64_char_def Let_def)

lemma b64_char_safe: "i < 64 \<Longrightarrow> url_safe_char (b64_char i)"
  by (auto simp: b64_char_def url_safe_char_def Let_def)

lemma b64_sextets:
  assumes "n < 256" and "m < 256" and "k < (256 :: nat)"
  shows "n div 4 < 64" "n mod 4 * 16 < 64" "n mod 4 * 16 + m div 16 < 64" "m mod 16 * 4 < 64"
    "m mod 16 * 4 + k div 64 < 64" "k mod 64 < 64"
proof -
  have "m div 16 < 16" "k div 64 < 4" using assms by auto
  moreover have "n mod 4 \<le> 3" "m mod 16 \<le> 15" by auto
  ultimately show "n mod 4 * 16 < 64" "n mod 4 * 16 + m div 16 < 64" "m mod 16 * 4 < 64"
    "m mod 16 * 4 + k div 64 < 64" by linarith+
qed (use assms in auto)

lemma div_split: "x < b \<Longrightarrow> (a * b + x) div b = (a :: nat)" "x < b \<Longrightarrow> (a * b + x) mod b = x"
  by simp_all

lemma b64_octets:
  assumes "m < 256" and "k < (256 :: nat)"
  shows "n div 4 * 4 + (n mod 4 * 16 + m div 16) div 16 = (n :: nat)"
    "n div 4 * 4 + (n mod 4 * 16) div 16 = n"
    "(n mod 4 * 16 + m div 16) mod 16 * 16 + (m mod 16 * 4 + k div 64) div 4 = m"
    "(n mod 4 * 16 + m div 16) mod 16 * 16 + (m mod 16 * 4) div 4 = m"
    "(m mod 16 * 4 + k div 64) mod 4 * 64 + k mod 64 = k"
proof -
  have b: "m div 16 < 16" "k div 64 < 4" using assms by auto
  show "n div 4 * 4 + (n mod 4 * 16 + m div 16) div 16 = n" "n div 4 * 4 + (n mod 4 * 16) div 16 = n"
    by (simp_all add: div_split [OF b(1)])
  show "(n mod 4 * 16 + m div 16) mod 16 * 16 + (m mod 16 * 4 + k div 64) div 4 = m"
    "(n mod 4 * 16 + m div 16) mod 16 * 16 + (m mod 16 * 4) div 4 = m"
    using b by (simp_all add: div_split [OF b(1)] div_split [OF b(2)])
  show "(m mod 16 * 4 + k div 64) mod 4 * 64 + k mod 64 = k"
    using b by (simp add: div_split [OF b(2)])
qed

lemma b64_decode_encode: "b64_decode (b64_encode d) = Inr d"
proof (induction d rule: b64_encode.induct)
  case (2 a)
  show ?case
    using b64_sextets [OF of_char_less [of a] of_char_less [of a] of_char_less [of a]]
      b64_octets [OF of_char_less [of a] of_char_less [of a]]
    by (simp add: Let_def b64_val_char)
next
  case (3 a b)
  show ?case
    using b64_sextets [OF of_char_less [of a] of_char_less [of b] of_char_less [of a]]
      b64_octets [OF of_char_less [of b] of_char_less [of a]]
    by (simp add: Let_def b64_val_char)
next
  case (4 a b c s)
  then show ?case
    using b64_sextets [OF of_char_less [of a] of_char_less [of b] of_char_less [of c]]
      b64_octets [OF of_char_less [of b] of_char_less [of c]]
    by (simp add: Let_def b64_val_char)
qed simp

lemma b64_encode_safe: "x \<in> set (b64_encode d) \<Longrightarrow> url_safe_char x"
proof (induction d rule: b64_encode.induct)
  case (2 a)
  then show ?case
    using b64_sextets [OF of_char_less [of a] of_char_less [of a] of_char_less [of a]]
    by (auto simp: Let_def b64_char_safe)
next
  case (3 a b)
  then show ?case
    using b64_sextets [OF of_char_less [of a] of_char_less [of b] of_char_less [of a]]
    by (auto simp: Let_def b64_char_safe)
next
  case (4 a b c s)
  then show ?case
    using b64_sextets [OF of_char_less [of a] of_char_less [of b] of_char_less [of c]]
    by (auto simp: Let_def b64_char_safe)
qed simp

lemma b64_encode_length: "length (b64_encode d) = (4 * length d + 2) div 3"
  by (induction d rule: b64_encode.induct) (simp_all add: Let_def)

lemma std_base64_laws: "base64_laws std_base64"
  by (simp add: base64_laws_def std_base64_def b64_decode_encode b64_encode_length b64_encode_safe)

section \<open>Digests\<close>

definition pad :: "nat \<Rightarrow> bytes \<Rightarrow> bytes" where
  "pad n d = take n (d @ replicate n (CHR ''.''))"

definition pad_crypto :: crypto_lib where
  "pad_crypto = \<lparr>ffi_sha256 = pad 32, ffi_sha384 = pad 48, ffi_sha512 = pad 64,
     ffi_memcmp = (\<lambda>a b n. if take n a = take n b then 0 else 1)\<rparr>"

lemma pad_crypto_laws: "crypto_laws pad_crypto"
  by (auto simp: crypto_laws_def pad_crypto_def pad_def)

section \<open>URLs as text\<close>

text \<open>
  A URL is its text: the part before the first \<^verbatim>\<open>?\<close>, and the query after it. Every text with a
  scheme is accepted.
\<close>

definition text_base :: "bytes \<Rightarrow> bytes" where
  "text_base u = (case split_once (CHR ''?'') u of Some (b, q) \<Rightarrow> b | None \<Rightarrow> u)"

definition text_query :: "bytes \<Rightarrow> bytes option" where
  "text_query u = map_option snd (split_once (CHR ''?'') u)"

definition text_scheme :: "bytes \<Rightarrow> bytes" where
  "text_scheme u = (case split_once (CHR '':'') (text_base u) of Some (s, r) \<Rightarrow> s | None \<Rightarrow> [])"

definition text_pairs :: "bytes \<Rightarrow> (bytes \<times> bytes) list" where
  "text_pairs u = (case text_query u of Some q \<Rightarrow> dec_query q | None \<Rightarrow> [])"

definition text_open_query :: "bytes \<Rightarrow> bytes" where
  "text_open_query u = (case text_query u of Some q \<Rightarrow> u | None \<Rightarrow> u @ ''?'')"

definition text_append_pair :: "bytes \<Rightarrow> bytes \<Rightarrow> bytes \<Rightarrow> bytes" where
  "text_append_pair k v u =
     (case text_query u of
        None \<Rightarrow> u @ ''?'' @ enc_pair (k, v)
      | Some q \<Rightarrow> u @ (if q = [] then [] else ''&'') @ enc_pair (k, v))"

definition text_url :: "bytes url_lib" where
  "text_url = \<lparr>url_parse = (\<lambda>s. Inr s), url_as_str = (\<lambda>u. u), url_scheme = text_scheme,
     url_query = text_query,
     url_fragment = (\<lambda>u. map_option snd (split_once (CHR ''#'') u)),
     url_open_query = text_open_query, url_append_pair = text_append_pair,
     url_set_query_none = text_base, url_query_pairs = text_pairs,
     url_cannot_be_a_base = (\<lambda>u. CHR ''/'' \<notin> set u),
     url_pop_if_empty = (\<lambda>u. if u \<noteq> [] \<and> last u = CHR ''/'' then butlast u else u),
     url_push_segment = (\<lambda>s u. u @ ''/'' @ s)\<rparr>"

lemma split_once_append:
  "split_once c s = Some (a, b) \<Longrightarrow> split_once c (s @ t) = Some (a, b @ t)"
  "split_once c s = None \<Longrightarrow> split_once c (s @ c # t) = Some (s, t)"
  by (auto simp: split_once_Some split_once_None)

lemma text_base_no_query: "CHR ''?'' \<notin> set (text_base u)"
proof (cases "split_once (CHR ''?'') u")
  case None
  moreover from None have "CHR ''?'' \<notin> set u" by (simp add: split_once_None)
  ultimately show ?thesis by (simp add: text_base_def)
next
  case (Some p)
  moreover obtain a b where p: "p = (a, b)" by fastforce
  moreover from Some p have "CHR ''?'' \<notin> set a" by (simp add: split_once_Some)
  ultimately show ?thesis by (simp add: text_base_def)
qed

lemma text_append_facts:
  "text_base (text_append_pair k v u) = text_base u"
  "text_pairs (text_append_pair k v u) = text_pairs u @ [(k, v)]"
  by (cases "split_once (CHR ''?'') u"; auto simp: text_base_def text_append_pair_def text_query_def
    text_pairs_def split_once_append dec_query_append)+

lemma text_open_facts:
  "text_base (text_open_query u) = text_base u" "text_pairs (text_open_query u) = text_pairs u"
  by (cases "split_once (CHR ''?'') u"; auto simp: text_base_def text_open_query_def text_query_def
    text_pairs_def split_once_append)+

lemma text_base_facts: "text_base (text_base u) = text_base u" "text_pairs (text_base u) = []"
proof -
  have "split_once (CHR ''?'') (text_base u) = None"
    by (simp add: split_once_None text_base_no_query)
  then show "text_base (text_base u) = text_base u" "text_pairs (text_base u) = []"
    by (simp_all add: text_base_def [of "text_base u"] text_pairs_def text_query_def)
qed

lemma text_scheme_facts:
  "text_scheme (text_append_pair k v u) = text_scheme u"
  "text_scheme (text_open_query u) = text_scheme u"
  "text_scheme (text_base u) = text_scheme u"
  by (simp_all only: text_scheme_def text_append_facts text_open_facts text_base_facts)

lemma text_empty_query: "text_query u = Some [] \<Longrightarrow> text_pairs u = []"
  by (simp add: text_pairs_def)

lemma text_url_laws: "url_laws text_url"
  unfolding url_laws_def text_url_def
  by (simp add: text_append_facts text_open_facts text_base_facts text_scheme_facts text_empty_query)

section \<open>A scripted world\<close>

text \<open>
  The world holds the answers still to be given, the requests sent so far and the two clocks; the
  clocks stand still, and random bytes are zero bytes.
\<close>

record script =
  script_answers :: "(oidc_error + http_response) list"
  script_sent :: "http_request list"
  script_instant :: instant
  script_system :: system_time

definition scripted :: "script runtime" where
  "scripted = \<lparr>
     http_execute = (\<lambda>r w. case script_answers w of
         [] \<Rightarrow> (Inl (Http ''no answer''), w\<lparr>script_sent := script_sent w @ [r]\<rparr>)
       | a # as \<Rightarrow> (a, w\<lparr>script_answers := as, script_sent := script_sent w @ [r]\<rparr>)),
     instant_now = (\<lambda>w. (script_instant w, w)),
     system_now = (\<lambda>w. (script_system w, w)),
     rand_bytes = (\<lambda>n w. (replicate n (CHR 0x00), w))\<rparr>"

definition plain_display :: display_lib where
  "plain_display = \<lparr>show_jwt_error = (\<lambda>e. case e of InvalidJwtError s \<Rightarrow> s),
     show_jose_error = (\<lambda>e. ''jose''), show_json_error = (\<lambda>e. ''json''),
     show_base64_error = (\<lambda>e. ''base64''), debug_str = (\<lambda>s. [CHR 0x22] @ s @ [CHR 0x22])\<rparr>"

section \<open>Documents and tokens\<close>

text \<open>
  \<open>table_json docs\<close> reads the texts of a table. \<open>table_jose docs\<close> is a token format with four parts
  separated by dots: algorithm, key id, payload and signature, where the signature that verifies
  under a key is the key itself, and every key id names a key of the set.
\<close>

definition table_json :: "(bytes \<times> json) list \<Rightarrow> json_lib" where
  "table_json docs = \<lparr>
     json_parse = (\<lambda>bs. case map_of docs bs of Some d \<Rightarrow> Inr d | None \<Rightarrow> Inl (JsonSyntax bs)),
     json_print = (\<lambda>v. case map_of (map prod.swap docs) v of Some bs \<Rightarrow> bs | None \<Rightarrow> []),
     json_of_duration = (\<lambda>d. JArray [JNumber (PosInt (as_nanos d))]),
     duration_of_json = (\<lambda>v. case v of JArray [JNumber (PosInt n)] \<Rightarrow> Inr (Nanos n)
         | _ \<Rightarrow> Inl (InvalidType ''duration'')),
     json_of_system_time = (\<lambda>t. if unix_epoch \<le> t then Inr (JArray [JNumber (PosInt (nat (system_nanos t)))])
         else Inl (CustomJson ''SystemTime must be later than UNIX_EPOCH'')),
     system_time_of_json = (\<lambda>v. case v of JArray [JNumber (PosInt n)] \<Rightarrow> Inr (SystemTime (int n))
         | _ \<Rightarrow> Inl (InvalidType ''SystemTime''))\<rparr>"

lemma table_json_time_laws: "serde_time_laws (table_json docs)"
  unfolding serde_time_laws_def
  by (auto simp: table_json_def unix_epoch_def less_eq_system_time_def split: if_splits)

type_synonym table_jws = "bytes \<times> bytes \<times> bytes \<times> bytes"

definition table_jws_parse :: "bytes \<Rightarrow> jose_error + table_jws" where
  "table_jws_parse s =
     (case split_on (CHR ''.'') s of [a, k, p, g] \<Rightarrow> Inr (a, k, p, g)
      | _ \<Rightarrow> Inl (MalformedToken s))"

definition table_claims :: "(bytes \<times> json) list \<Rightarrow> bytes \<Rightarrow> jose_error + json" where
  "table_claims docs p = (case map_of docs p of Some d \<Rightarrow> Inr d | None \<Rightarrow> Inl (MalformedToken p))"

definition json_string_member :: "json \<Rightarrow> bytes \<Rightarrow> bytes option" where
  "json_string_member c n = (case json_get n c of Some (JString s) \<Rightarrow> Some s | _ \<Rightarrow> None)"

definition table_audience :: "json \<Rightarrow> bytes list option" where
  "table_audience c =
     (case json_get ''aud'' c of
        Some (JString s) \<Rightarrow> Some [s]
      | Some (JArray vs) \<Rightarrow> Some (map (\<lambda>v. case v of JString s \<Rightarrow> s | _ \<Rightarrow> []) vs)
      | _ \<Rightarrow> None)"

definition table_process ::
  "(bytes \<times> json) list \<Rightarrow> consumer_config \<Rightarrow> system_time \<Rightarrow> bytes \<Rightarrow> invalid_jwt_error + json" where
  "table_process docs cfg now p =
     (case map_of docs p of
        None \<Rightarrow> Inl (InvalidJwtError ''payload'')
      | Some c \<Rightarrow>
          if cc_expected_issuer cfg = None \<or> json_string_member c ''iss'' = cc_expected_issuer cfg
          then Inr c else Inl (InvalidJwtError ''iss''))"

definition table_algorithm :: "bytes \<Rightarrow> jose_error + algorithm_identifier" where
  "table_algorithm a = (if a = ''RS256'' then Inr RsaUsingSha256
     else if a = ''ES256'' then Inr EcdsaUsingP256CurveAndSha256
     else if a = ''EdDSA'' then Inr EdDsa else Inl (OtherJose a))"

definition table_jose :: "(bytes \<times> json) list \<Rightarrow> (table_jws, bytes, json, bytes, 'w) jose_lib" where
  "table_jose docs = \<lparr>
     jws_from_compact = table_jws_parse,
     jws_algorithm = (\<lambda>(a, k, p, g). Some a),
     jws_key_id = (\<lambda>(a, k, p, g). Some k),
     jws_unverified_payload = (\<lambda>(a, k, p, g). Inr p),
     jws_verify_signature = (\<lambda>(a, k, p, g) key. Inr (g = key)),
     jws_payload = (\<lambda>(a, k, p, g) key. if g = key then Inr p else Inl (OtherJose ''signature'')),
     claims_parse = table_claims docs,
     claims_string = json_string_member,
     claims_string_array = (\<lambda>c n. None),
     claims_audience = table_audience,
     claims_to_json = (\<lambda>c. case map_of (map prod.swap docs) c of Some bs \<Rightarrow> bs | None \<Rightarrow> []),
     process_to_claims = table_process docs,
     algorithm_try_from = table_algorithm,
     algorithm_name = (\<lambda>a. ''alg''),
     key_curve_name = (\<lambda>k. None),
     jwks_new = (\<lambda>url f. url),
     jwks_keys = (\<lambda>h w. (Inr (), w)),
     jwks_select = (\<lambda>h kid alg w. (Inr kid, w))\<rparr>"

lemma table_jose_simps [simp]:
  "jws_from_compact (table_jose docs) = table_jws_parse"
  "jws_algorithm (table_jose docs) (a, k, p, g) = Some a"
  "jws_key_id (table_jose docs) (a, k, p, g) = Some k"
  "jws_unverified_payload (table_jose docs) (a, k, p, g) = Inr p"
  "jws_verify_signature (table_jose docs) (a, k, p, g) key = Inr (g = key)"
  "jws_payload (table_jose docs) (a, k, p, g) key = (if g = key then Inr p else Inl (OtherJose ''signature''))"
  "claims_parse (table_jose docs) = table_claims docs"
  "claims_string (table_jose docs) = json_string_member"
  "claims_audience (table_jose docs) = table_audience"
  "process_to_claims (table_jose docs) = table_process docs"
  "algorithm_try_from (table_jose docs) = table_algorithm"
  "key_curve_name (table_jose docs) k' = None"
  "jwks_new (table_jose docs) url f = url"
  "jwks_keys (table_jose docs) h w = (Inr (), w)"
  "jwks_select (table_jose docs) h kid alg w = (Inr kid, w)"
  by (simp_all add: table_jose_def)

lemma scripted_simps [simp]:
  "instant_now scripted w = (script_instant w, w)"
  "system_now scripted w = (script_system w, w)"
  "rand_bytes scripted n w = (replicate n (CHR 0x00), w)"
  "http_execute scripted r w =
     (case script_answers w of
        [] \<Rightarrow> (Inl (Http ''no answer''), w\<lparr>script_sent := script_sent w @ [r]\<rparr>)
      | a # as \<Rightarrow> (a, w\<lparr>script_answers := as, script_sent := script_sent w @ [r]\<rparr>))"
  by (simp_all add: scripted_def)

end
