(* ===== verification/Identifiers.thy ===== *)
theory Identifiers
  imports Crypto Instances
begin

text \<open>
  src/types/identifiers.rs: identifiers, secrets, tokens, scopes, random values and the PKCE
  challenge. Types whose constructor refuses the empty string share the locale
  \<open>nonempty_newtype\<close>. Random values run on the world, which is where \<^verbatim>\<open>RAND_bytes\<close> lives.
\<close>

section \<open>Non-empty strings\<close>

datatype client_id = ClientId (client_id_str: bytes)
datatype client_secret = ClientSecret (client_secret_str: bytes)
datatype access_token = AccessToken (access_token_str: bytes)
datatype refresh_token = RefreshToken (refresh_token_str: bytes)
datatype logout_hint = LogoutHint (logout_hint_str: bytes)

definition nonempty_new :: "bytes \<Rightarrow> (bytes \<Rightarrow> 't) \<Rightarrow> bytes \<Rightarrow> oidc_error + 't" where
  "nonempty_new name mk s =
     (if s = [] then Inl (InvalidMetadata (name @ '' must not be empty'')) else Inr (mk s))"

definition client_id_new :: "bytes \<Rightarrow> oidc_error + client_id" where
  "client_id_new = nonempty_new ''ClientId'' ClientId"
definition client_secret_new :: "bytes \<Rightarrow> oidc_error + client_secret" where
  "client_secret_new = nonempty_new ''ClientSecret'' ClientSecret"
definition logout_hint_new :: "bytes \<Rightarrow> oidc_error + logout_hint" where
  "logout_hint_new = nonempty_new ''LogoutHint'' LogoutHint"

definition access_token_new :: "bytes \<Rightarrow> oidc_error + access_token" where
  "access_token_new s =
     (if s = [] then Inl (InvalidMetadata ''AccessToken must not be empty'')
      else Inr (AccessToken s))"

definition refresh_token_new :: "bytes \<Rightarrow> oidc_error + refresh_token" where
  "refresh_token_new s =
     (if s = [] then Inl (InvalidMetadata ''RefreshToken must not be empty'')
      else Inr (RefreshToken s))"

section \<open>Debug output\<close>

text \<open>
  \<^verbatim>\<open>debug_tuple(name).field(x).finish()\<close> prints the name and the field in parentheses; a field
  that is a string prints as \<^verbatim>\<open>Debug\<close> of the string (\<open>dbg\<close>, the standard library's escaping).
\<close>

definition debug_tuple1 :: "bytes \<Rightarrow> bytes \<Rightarrow> bytes" where
  "debug_tuple1 name printed = name @ ''('' @ printed @ '')''"

definition redacted_debug :: "(bytes \<Rightarrow> bytes) \<Rightarrow> bytes \<Rightarrow> bytes" where
  "redacted_debug dbg name = debug_tuple1 name (dbg ''***'')"

definition client_id_debug :: "(bytes \<Rightarrow> bytes) \<Rightarrow> client_id \<Rightarrow> bytes" where
  "client_id_debug dbg x = debug_tuple1 ''ClientId'' (dbg (client_id_str x))"
definition client_secret_debug :: "(bytes \<Rightarrow> bytes) \<Rightarrow> client_secret \<Rightarrow> bytes" where
  "client_secret_debug dbg x = debug_tuple1 ''ClientSecret'' (dbg ''***'')"
definition access_token_debug :: "(bytes \<Rightarrow> bytes) \<Rightarrow> access_token \<Rightarrow> bytes" where
  "access_token_debug dbg x = redacted_debug dbg ''AccessToken''"
definition refresh_token_debug :: "(bytes \<Rightarrow> bytes) \<Rightarrow> refresh_token \<Rightarrow> bytes" where
  "refresh_token_debug dbg x = redacted_debug dbg ''RefreshToken''"

section \<open>Scopes\<close>

datatype scope = Scope (scope_str: bytes)

definition scope_openid :: scope where "scope_openid = Scope ''openid''"

definition scope_iter :: "scope \<Rightarrow> bytes list" where
  "scope_iter s = filter (\<lambda>p. p \<noteq> []) (split_on (CHR '' '') (scope_str s))"

section \<open>Random values\<close>

datatype nonce = Nonce (nonce_str: bytes)
datatype state = State (state_str: bytes)
datatype pkce_code_verifier = PkceCodeVerifier (verifier_str: bytes)

definition random_url_safe :: "base64_lib \<Rightarrow> 'w runtime \<Rightarrow> nat \<Rightarrow> 'w \<Rightarrow> bytes \<times> 'w" where
  "random_url_safe B R n w =
     (case fill_bytes R n w of (bs, w') \<Rightarrow> (url_safe_encode B bs, w'))"

definition nonce_new_random :: "base64_lib \<Rightarrow> 'w runtime \<Rightarrow> 'w \<Rightarrow> nonce \<times> 'w" where
  "nonce_new_random B R w = map_prod Nonce id (random_url_safe B R 32 w)"
definition state_new_random :: "base64_lib \<Rightarrow> 'w runtime \<Rightarrow> 'w \<Rightarrow> state \<times> 'w" where
  "state_new_random B R w = map_prod State id (random_url_safe B R 32 w)"
definition pkce_verifier_new_random ::
  "base64_lib \<Rightarrow> 'w runtime \<Rightarrow> 'w \<Rightarrow> pkce_code_verifier \<times> 'w" where
  "pkce_verifier_new_random B R w = map_prod PkceCodeVerifier id (random_url_safe B R 64 w)"

text \<open>\<^verbatim>\<open>redacted_debug!\<close> for the random values; the printed text does not depend on the value.\<close>

definition nonce_debug :: "(bytes \<Rightarrow> bytes) \<Rightarrow> nonce \<Rightarrow> bytes" where
  "nonce_debug dbg x = redacted_debug dbg ''Nonce''"
definition state_debug :: "(bytes \<Rightarrow> bytes) \<Rightarrow> state \<Rightarrow> bytes" where
  "state_debug dbg x = redacted_debug dbg ''State''"
definition pkce_verifier_debug :: "(bytes \<Rightarrow> bytes) \<Rightarrow> pkce_code_verifier \<Rightarrow> bytes" where
  "pkce_verifier_debug dbg x = redacted_debug dbg ''PkceCodeVerifier''"

section \<open>PKCE\<close>

datatype pkce_code_challenge_method = S256 | Plain

record pkce_code_challenge =
  challenge_method :: pkce_code_challenge_method
  challenge_value :: bytes

definition s256_from_verifier ::
  "crypto_lib \<Rightarrow> base64_lib \<Rightarrow> pkce_code_verifier \<Rightarrow> pkce_code_challenge" where
  "s256_from_verifier C B v =
     \<lparr>challenge_method = S256, challenge_value = url_safe_encode B (sha256 C (verifier_str v))\<rparr>"

section \<open>Request knobs\<close>

datatype response_type = CodeType | IdTokenType | TokenType
datatype grant_type = AuthorizationCodeGrant | RefreshTokenGrant
datatype auth_prompt = PromptNone | PromptLogin | PromptConsent | PromptSelectAccount
datatype response_mode = ModeQuery | ModeFragment | ModeFormPost
datatype token_endpoint_auth_method = EndpointBasic | EndpointPost | EndpointNone

fun auth_prompt_str :: "auth_prompt \<Rightarrow> bytes" where
  "auth_prompt_str PromptNone = ''none''"
| "auth_prompt_str PromptLogin = ''login''"
| "auth_prompt_str PromptConsent = ''consent''"
| "auth_prompt_str PromptSelectAccount = ''select_account''"

fun response_mode_str :: "response_mode \<Rightarrow> bytes" where
  "response_mode_str ModeQuery = ''query''"
| "response_mode_str ModeFragment = ''fragment''"
| "response_mode_str ModeFormPost = ''form_post''"

section \<open>The contract of a non-empty string\<close>

locale nonempty_newtype =
  fixes new :: "bytes \<Rightarrow> oidc_error + 't"
    and as_str :: "'t \<Rightarrow> bytes"
  assumes new_empty: "\<exists>m. new [] = Inl (InvalidMetadata m)"
    and new_ok: "s \<noteq> [] \<Longrightarrow> \<exists>x. new s = Inr x \<and> as_str x = s"
begin

lemma new_as_str: "new s = Inr x \<Longrightarrow> as_str x = s \<and> s \<noteq> []"
  using new_empty new_ok [of s] by (cases "s = []") auto

lemma new_iff: "(\<exists>x. new s = Inr x) \<longleftrightarrow> s \<noteq> []"
  using new_empty new_ok [of s] by (cases "s = []") auto

end

interpretation client_id: nonempty_newtype client_id_new client_id_str
  by unfold_locales (auto simp: client_id_new_def nonempty_new_def)
interpretation client_secret: nonempty_newtype client_secret_new client_secret_str
  by unfold_locales (auto simp: client_secret_new_def nonempty_new_def)
interpretation logout_hint: nonempty_newtype logout_hint_new logout_hint_str
  by unfold_locales (auto simp: logout_hint_new_def nonempty_new_def)
interpretation access_token: nonempty_newtype access_token_new access_token_str
  by unfold_locales (auto simp: access_token_new_def)
interpretation refresh_token: nonempty_newtype refresh_token_new refresh_token_str
  by unfold_locales (auto simp: refresh_token_new_def)

lemma scope_iter_no_space: "p \<in> set (scope_iter s) \<Longrightarrow> p \<noteq> [] \<and> CHR '' '' \<notin> set p"
  by (auto simp: scope_iter_def dest: split_on_pieces)

section \<open>Properties\<close>

text \<open>
  The empty string is refused and every other string is taken as it is, by the constructors of
  the client id, the client secret, the logout hint, the access token and the refresh token.
\<close>

theorem tokens_are_not_empty:
  "(client_id_new s = Inr c \<longleftrightarrow> s \<noteq> [] \<and> client_id_str c = s) \<and>
   (client_secret_new s = Inr cs \<longleftrightarrow> s \<noteq> [] \<and> client_secret_str cs = s) \<and>
   (logout_hint_new s = Inr h \<longleftrightarrow> s \<noteq> [] \<and> logout_hint_str h = s) \<and>
   (access_token_new s = Inr a \<longleftrightarrow> s \<noteq> [] \<and> access_token_str a = s) \<and>
   (refresh_token_new s = Inr r \<longleftrightarrow> s \<noteq> [] \<and> refresh_token_str r = s)"
  by (cases c; cases cs; cases h; cases a; cases r)
    (auto simp: client_id_new_def client_secret_new_def logout_hint_new_def access_token_new_def
      refresh_token_new_def nonempty_new_def)

lemma random_url_safe_shape:
  assumes "base64_laws B" and "rand_laws R"
  shows "length (fst (random_url_safe B R n w)) = (4 * n + 2) div 3 \<and>
    list_all url_safe_char (fst (random_url_safe B R n w))"
proof -
  have "length (fst (fill_bytes R n w)) = n" using assms(2) by (simp add: fill_bytes_def rand_laws_def)
  with assms(1) show ?thesis
    by (simp add: random_url_safe_def split_beta base64_laws_def list_all_iff)
qed

text \<open>
  C40. Random values have the form the protocol wants: nonce and state are 43 characters and a PKCE
  verifier is 86 (RFC 7636 asks for 43 to 128), all of them from the URL-safe alphabet, so that they
  need no escaping in a URL; the S256 challenge of any verifier is 43 such characters.
\<close>

theorem random_values_shape:
  assumes "base64_laws B" and "rand_laws R" and "crypto_laws C"
  shows "length (nonce_str (fst (nonce_new_random B R w))) = 43 \<and>
    length (state_str (fst (state_new_random B R w))) = 43 \<and>
    length (verifier_str (fst (pkce_verifier_new_random B R w))) = 86 \<and>
    length (challenge_value (s256_from_verifier C B v)) = 43 \<and>
    list_all url_safe_char (nonce_str (fst (nonce_new_random B R w)) @
      state_str (fst (state_new_random B R w)) @ verifier_str (fst (pkce_verifier_new_random B R w)) @
      challenge_value (s256_from_verifier C B v))"
  using random_url_safe_shape [OF assms(1,2)] assms(1,3)
  by (auto simp: nonce_new_random_def state_new_random_def pkce_verifier_new_random_def
      s256_from_verifier_def base64_laws_def crypto_laws_def sha256_def list_all_iff)

theorem random_values_shape_witness:
  "length (nonce_str (fst (nonce_new_random std_base64 scripted \<lparr>script_answers = [], script_sent = [], script_instant = Instant 0, script_system = SystemTime 0\<rparr>))) = 43 \<and>
    length (state_str (fst (state_new_random std_base64 scripted \<lparr>script_answers = [], script_sent = [], script_instant = Instant 0, script_system = SystemTime 0\<rparr>))) = 43 \<and>
    length (verifier_str (fst (pkce_verifier_new_random std_base64 scripted \<lparr>script_answers = [], script_sent = [], script_instant = Instant 0, script_system = SystemTime 0\<rparr>))) = 86 \<and>
    length (challenge_value (s256_from_verifier pad_crypto std_base64 (PkceCodeVerifier ''v''))) = 43"
  using random_values_shape [OF std_base64_laws _ pad_crypto_laws, of scripted "\<lparr>script_answers = [], script_sent = [], script_instant = Instant 0, script_system = SystemTime 0\<rparr>"
      "PkceCodeVerifier ''v''"]
  by (simp add: rand_laws_def)

end
