(* ===== verification/Http.thy ===== *)
theory Http
  imports Instances
begin

text \<open>
  src/transport/http.rs: the request's \<^verbatim>\<open>Debug\<close> output, which masks credentials; and
  \<^verbatim>\<open>HttpJwksFetcher\<close> of src/client.rs, the adapter that gives the key cache of \<^verbatim>\<open>jose4rs\<close> the
  application's HTTP client. \<^verbatim>\<open>HttpMethod\<close>, \<^verbatim>\<open>HttpRequest\<close>, \<^verbatim>\<open>HttpResponse\<close> and the trait
  \<^verbatim>\<open>AsyncHttpClient\<close> are in the theory \<open>Externals\<close>, beside the other parts of the runtime.
\<close>

section \<open>Headers\<close>

text \<open>\<^verbatim>\<open>headers.iter().find(name)\<close>: the first header with the name, in any letter case.\<close>

definition header_value :: "(bytes \<times> bytes) list \<Rightarrow> bytes \<Rightarrow> bytes option" where
  "header_value headers name =
     map_option snd (find (\<lambda>(k, _). eq_ignore_ascii_case k name) headers)"

definition is_sensitive_header :: "bytes \<Rightarrow> bool" where
  "is_sensitive_header name \<longleftrightarrow>
     eq_ignore_ascii_case name ''authorization'' \<or>
     eq_ignore_ascii_case name ''proxy-authorization'' \<or>
     eq_ignore_ascii_case name ''cookie''"

section \<open>Debug output of a request\<close>

fun http_method_debug :: "http_method \<Rightarrow> bytes" where
  "http_method_debug Get = ''Get''"
| "http_method_debug Post = ''Post''"

definition redacted_headers :: "(bytes \<times> bytes) list \<Rightarrow> (bytes \<times> bytes) list" where
  "redacted_headers headers =
     map (\<lambda>(k, v). (k, if is_sensitive_header k then ''***'' else v)) headers"

definition body_summary :: "bytes option \<Rightarrow> bytes option" where
  "body_summary body = map_option (\<lambda>b. ''<'' @ nat_to_dec (length b) @ '' bytes>'') body"

text \<open>\<^verbatim>\<open>debug_struct\<close> prints \<^verbatim>\<open>Name { field: value, ... }\<close>; a list prints in brackets, a pair in
  parentheses, and a string with the escaping \<open>debug_str D\<close>.\<close>

definition http_request_debug :: "display_lib \<Rightarrow> http_request \<Rightarrow> bytes" where
  "http_request_debug D r =
     ''HttpRequest { method: '' @ http_method_debug (req_method r) @
     '', url: '' @ debug_str D (req_url r) @
     '', headers: ['' @
       join_with '', '' (map (\<lambda>(k, v). ''('' @ debug_str D k @ '', '' @ debug_str D v @ '')'')
         (redacted_headers (req_headers r))) @
     ''], body: '' @ debug_option D (body_summary (req_body r)) @ '' }''"

text \<open>Two headers a reader of the output cannot tell apart: same name, and the same value
  unless the name is sensitive.\<close>

definition same_public_header :: "bytes \<times> bytes \<Rightarrow> bytes \<times> bytes \<Rightarrow> bool" where
  "same_public_header h h' \<longleftrightarrow>
     fst h = fst h' \<and> (\<not> is_sensitive_header (fst h) \<longrightarrow> snd h = snd h')"

lemma redacted_headers_public:
  "list_all2 same_public_header hs hs' \<Longrightarrow> redacted_headers hs = redacted_headers hs'"
  by (induction rule: list_all2_induct)
    (auto simp: redacted_headers_def same_public_header_def split: prod.splits)

lemma body_summary_length:
  "map_option length b = map_option length b' \<Longrightarrow> body_summary b = body_summary b'"
  by (cases b; cases b') (auto simp: body_summary_def)

lemma header_value_Some:
  assumes "header_value headers name = Some v"
  obtains pre k post where "headers = pre @ (k, v) # post" "eq_ignore_ascii_case k name"
    "\<forall>(k', v') \<in> set pre. \<not> eq_ignore_ascii_case k' name"
proof -
  from assms obtain p where p: "find (\<lambda>(k, _). eq_ignore_ascii_case k name) headers = Some p"
    "snd p = v" by (auto simp: header_value_def)
  then obtain i where i: "i < length headers" "case headers ! i of (k, _) \<Rightarrow> eq_ignore_ascii_case k name"
    "p = headers ! i" "\<forall>j<i. \<not> (case headers ! j of (k, _) \<Rightarrow> eq_ignore_ascii_case k name)"
    by (auto simp: find_Some_iff)
  show thesis
  proof (rule that)
    show "headers = take i headers @ (fst p, v) # drop (Suc i) headers"
      using i p id_take_nth_drop [of i headers] by (metis prod.collapse)
    show "eq_ignore_ascii_case (fst p) name" using i by (auto split: prod.splits)
    show "\<forall>(k', v') \<in> set (take i headers). \<not> eq_ignore_ascii_case k' name"
      using i by (force simp: in_set_conv_nth split: prod.splits)
  qed
qed

lemma header_value_None:
  "header_value headers name = None \<longleftrightarrow> (\<forall>(k, v) \<in> set headers. \<not> eq_ignore_ascii_case k name)"
  by (auto simp: header_value_def find_None_iff)

section \<open>The key fetcher\<close>

definition accept_json_request :: "bytes \<Rightarrow> http_request" where
  "accept_json_request url =
     \<lparr>req_method = Get, req_url = url, req_headers = [(''Accept'', ''application/json'')],
      req_body = None\<rparr>"

text \<open>The part of a response that \<^verbatim>\<open>fetch\<close> passes on. An \<^verbatim>\<open>Age\<close> must parse as a \<^verbatim>\<open>u64\<close>.\<close>

definition fetch_result :: "http_response \<Rightarrow> jose_error + fetch_response" where
  "fetch_result resp =
     (if resp_status resp \<noteq> 200
      then Inl (JwksFetch (''jwks fetch status '' @ nat_to_dec (resp_status resp)))
      else Inr \<lparr>fetch_body = resp_body resp,
                fetch_cache_control = header_value (resp_headers resp) ''cache-control'',
                fetch_expires = header_value (resp_headers resp) ''expires'',
                fetch_age = map_option from_secs
                  (Option.bind (header_value (resp_headers resp) ''age'') (parse_uint (2 ^ 64)))\<rparr>)"

definition jwks_fetch ::
  "display_lib \<Rightarrow> 'w runtime \<Rightarrow> bytes \<Rightarrow> 'w \<Rightarrow> (jose_error + fetch_response) \<times> 'w" where
  "jwks_fetch D R url =
     binds (map_errs (\<lambda>e. JwksFetch (''jwks fetch failed: '' @ oidc_error_display D e))
              (http_execute R (accept_json_request url)))
       (\<lambda>resp. lifts (fetch_result resp))"

lemma jwks_fetch_ok:
  "jwks_fetch D R url w = (Inr f, w') \<longleftrightarrow>
     (\<exists>resp. http_execute R (accept_json_request url) w = (Inr resp, w') \<and> resp_status resp = 200 \<and>
        fetch_result resp = Inr f)"
  by (auto simp: jwks_fetch_def fetch_result_def io_simps)

lemma fetch_result_age_bound:
  "fetch_result resp = Inr f \<Longrightarrow> fetch_age f = Some d \<Longrightarrow> d < from_secs (2 ^ 64)"
  using parse_uint_bound [of "2 ^ 64"]
  by (auto simp: fetch_result_def Option.bind_eq_Some_conv from_secs_def nanos_per_sec_def
      split: if_splits)

section \<open>Properties\<close>

text \<open>
  The Debug text of a request shows no credentials: it is the same for requests that differ only
  in the values of the headers Authorization, Proxy-Authorization and Cookie (in any case of their
  letters) and in the bytes of the body.
\<close>

theorem request_debug_redacted:
  assumes "req_method r = req_method r'" and "req_url r = req_url r'"
    and "list_all2 same_public_header (req_headers r) (req_headers r')"
    and "map_option length (req_body r) = map_option length (req_body r')"
  shows "http_request_debug D r = http_request_debug D r'"
  using redacted_headers_public [OF assms(3)] body_summary_length [OF assms(4)] assms(1,2)
  by (simp add: http_request_debug_def)

theorem request_debug_redacted_witness:
  "http_request_debug plain_display
     \<lparr>req_method = Post, req_url = ''u'', req_headers = [(''AUTHORIZATION'', ''Basic YTpi''), (''Accept'', ''x'')],
      req_body = Some ''code=1''\<rparr> =
   http_request_debug plain_display
     \<lparr>req_method = Post, req_url = ''u'', req_headers = [(''AUTHORIZATION'', ''Bearer t''), (''Accept'', ''x'')],
      req_body = Some ''code=2''\<rparr>"
proof (rule request_debug_redacted)
  show "list_all2 same_public_header
      (req_headers \<lparr>req_method = Post, req_url = ''u'',
         req_headers = [(''AUTHORIZATION'', ''Basic YTpi''), (''Accept'', ''x'')], req_body = Some ''code=1''\<rparr>)
      (req_headers \<lparr>req_method = Post, req_url = ''u'',
         req_headers = [(''AUTHORIZATION'', ''Bearer t''), (''Accept'', ''x'')], req_body = Some ''code=2''\<rparr>)"
    by code_simp
qed simp_all

end
