(* ===== verification/Cache_Policy.thy ===== *)
theory Cache_Policy
  imports Http
begin

text \<open>
  src/metadata/cache.rs: the freshness of a discovery response. The code reads the system clock
  at most once per response (\<^verbatim>\<open>SystemTime::now\<close> is called either for the apparent age, when a
  \<^verbatim>\<open>Date\<close> parses, or for the \<^verbatim>\<open>Expires\<close> value, when none does), so the operations that may read
  it run on the world.

  \<open>reference_policy\<close> states the same policy over the set of all directives of the response; the
  lemma \<open>policy_eq_reference\<close> shows that the loop computes it.
\<close>

section \<open>Policies\<close>

definition max_delta_seconds :: nat where "max_delta_seconds = 2147483648"

datatype cache_policy =
    CacheFor (policy_lifetime: duration) (policy_must_revalidate: bool)
  | Revalidate
  | DoNotStore

definition apply_minimum_cache_duration :: "cache_policy \<Rightarrow> duration \<Rightarrow> cache_policy" where
  "apply_minimum_cache_duration policy minimum =
     (if is_zero_duration minimum then policy
      else case policy of
        CacheFor lifetime must_revalidate \<Rightarrow> CacheFor (max lifetime minimum) must_revalidate
      | Revalidate \<Rightarrow> CacheFor minimum True
      | DoNotStore \<Rightarrow> CacheFor minimum True)"

section \<open>Directives\<close>

record cache_directives =
  dir_max_age :: "duration option"
  dir_no_cache :: bool
  dir_no_store :: bool
  dir_must_revalidate :: bool

definition default_directives :: cache_directives where
  "default_directives = \<lparr>dir_max_age = None, dir_no_cache = False, dir_no_store = False,
     dir_must_revalidate = False\<rparr>"

definition parse_delta_seconds :: "bytes \<Rightarrow> duration" where
  "parse_delta_seconds v =
     (let seconds = (case parse_uint (2 ^ 128) (trim_by (\<lambda>c. c = CHR 0x22) v) of
                       None \<Rightarrow> 0 | Some n \<Rightarrow> n)
      in from_secs (min seconds max_delta_seconds))"

definition directive_parts :: "bytes \<Rightarrow> bytes \<times> bytes option" where
  "directive_parts part =
     (case split_once (CHR ''='') part of
        Some (name, argument) \<Rightarrow> (trim_ascii name, Some (trim_ascii argument))
      | None \<Rightarrow> (part, None))"

text \<open>The body of the loop over the comma-separated pieces.\<close>

definition parse_directive :: "bytes \<Rightarrow> cache_directives \<Rightarrow> cache_directives" where
  "parse_directive raw d =
     (let part = trim_ascii raw in
      if part = [] then d
      else case directive_parts part of (name, argument) \<Rightarrow>
        if eq_ignore_ascii_case name ''max-age'' then
          (case argument of
             None \<Rightarrow> d
           | Some a \<Rightarrow>
               (let lifetime = parse_delta_seconds a in
                d\<lparr>dir_max_age := Some (case dir_max_age d of
                    None \<Rightarrow> lifetime | Some current \<Rightarrow> min current lifetime)\<rparr>))
        else if eq_ignore_ascii_case name ''no-cache'' then d\<lparr>dir_no_cache := True\<rparr>
        else if eq_ignore_ascii_case name ''no-store'' then d\<lparr>dir_no_store := True\<rparr>
        else if eq_ignore_ascii_case name ''must-revalidate'' then d\<lparr>dir_must_revalidate := True\<rparr>
        else d)"

definition parse_cache_control :: "bytes \<Rightarrow> cache_directives \<Rightarrow> cache_directives" where
  "parse_cache_control v d = fold parse_directive (split_on (CHR '','') v) d"

section \<open>The policy of a response\<close>

definition expires_lifetime ::
  "httpdate_lib \<Rightarrow> 'w runtime \<Rightarrow> bytes \<Rightarrow> system_time option \<Rightarrow> duration option \<Rightarrow> 'w \<Rightarrow>
   duration \<times> 'w" where
  "expires_lifetime H R v response_date age w =
     (case parse_http_date H v of
        None \<Rightarrow> (0, w)
      | Some expires \<Rightarrow>
          (case (case response_date of Some d \<Rightarrow> (d, w) | None \<Rightarrow> system_now R w) of
             (date, w') \<Rightarrow>
               (duration_saturating_sub (unwrap_duration (duration_since expires date))
                  (unwrap_duration age), w')))"

definition compute_policy_from_directives ::
  "httpdate_lib \<Rightarrow> 'w runtime \<Rightarrow> cache_directives \<Rightarrow> bytes option \<Rightarrow> system_time option \<Rightarrow>
   duration option \<Rightarrow> duration \<Rightarrow> 'w \<Rightarrow> cache_policy \<times> 'w" where
  "compute_policy_from_directives H R d expires date age default_lifetime w =
     (if dir_no_store d then (DoNotStore, w)
      else if dir_no_cache d then (Revalidate, w)
      else case dir_max_age d of
        Some lifetime \<Rightarrow>
          (CacheFor (duration_saturating_sub lifetime (unwrap_duration age)) (dir_must_revalidate d), w)
      | None \<Rightarrow>
          (case expires of
             Some e \<Rightarrow>
               (case expires_lifetime H R e date age w of
                  (lifetime, w') \<Rightarrow> (CacheFor lifetime (dir_must_revalidate d), w'))
           | None \<Rightarrow>
               (CacheFor (duration_saturating_sub default_lifetime (unwrap_duration age))
                  (dir_must_revalidate d), w)))"

definition policy_from_headers ::
  "httpdate_lib \<Rightarrow> 'w runtime \<Rightarrow> (bytes \<times> bytes) list \<Rightarrow> duration \<Rightarrow> 'w \<Rightarrow> cache_policy \<times> 'w" where
  "policy_from_headers H R headers default_lifetime w =
     (let directives = fold (\<lambda>(_, v). parse_cache_control v)
            (filter (\<lambda>(name, _). eq_ignore_ascii_case name ''cache-control'') headers)
            default_directives;
          expires = header_value headers ''expires'';
          date = Option.bind (header_value headers ''date'') (parse_http_date H);
          stated_age = map_option from_secs
            (Option.bind (header_value headers ''age'') (parse_uint (2 ^ 64)));
          (apparent_age, w') =
            (case date of
               None \<Rightarrow> (None, w)
             | Some d \<Rightarrow> (case system_now R w of (now, w') \<Rightarrow> (duration_since now d, w')));
          age = max stated_age apparent_age
      in compute_policy_from_directives H R directives expires date age default_lifetime w')"

section \<open>The directives of a response as a list\<close>

text \<open>All directives of all \<^verbatim>\<open>Cache-Control\<close> fields, names in lower case.\<close>

definition directives_of_value :: "bytes \<Rightarrow> (bytes \<times> bytes option) list" where
  "directives_of_value v =
     map (\<lambda>part. apfst (map ascii_lower) (directive_parts part))
       (filter (\<lambda>part. part \<noteq> []) (map trim_ascii (split_on (CHR '','') v)))"

definition directives_of_headers :: "(bytes \<times> bytes) list \<Rightarrow> (bytes \<times> bytes option) list" where
  "directives_of_headers headers =
     concat (map (\<lambda>(name, v). if eq_ignore_ascii_case name ''cache-control''
                   then directives_of_value v else []) headers)"

definition max_ages :: "(bytes \<times> bytes option) set \<Rightarrow> duration set" where
  "max_ages ds = {parse_delta_seconds a |a. (''max-age'', Some a) \<in> ds}"

text \<open>The directives collected so far, against those seen so far.\<close>

definition collected :: "cache_directives \<Rightarrow> (bytes \<times> bytes option) set \<Rightarrow> bool" where
  "collected d ds \<longleftrightarrow>
     (dir_no_store d \<longleftrightarrow> ''no-store'' \<in> fst ` ds) \<and>
     (dir_no_cache d \<longleftrightarrow> ''no-cache'' \<in> fst ` ds) \<and>
     (dir_must_revalidate d \<longleftrightarrow> ''must-revalidate'' \<in> fst ` ds) \<and>
     dir_max_age d = (if max_ages ds = {} then None else Some (Min (max_ages ds)))"

lemma ascii_lower_names:
  "map ascii_lower ''max-age'' = ''max-age''" "map ascii_lower ''no-cache'' = ''no-cache''"
  "map ascii_lower ''no-store'' = ''no-store''"
  "map ascii_lower ''must-revalidate'' = ''must-revalidate''"
  by code_simp+

lemma max_ages_insert:
  "max_ages (insert (n, a) ds) =
     (case a of None \<Rightarrow> max_ages ds
      | Some x \<Rightarrow> if n = ''max-age'' then insert (parse_delta_seconds x) (max_ages ds) else max_ages ds)"
  by (auto simp: max_ages_def split: option.splits)

lemma max_ages_other: "n \<noteq> ''max-age'' \<Longrightarrow> max_ages (insert (n, a) ds) = max_ages ds"
  by (simp add: max_ages_insert split: option.splits)

lemma finite_max_ages [simp]: "finite ds \<Longrightarrow> finite (max_ages ds)"
  by (rule finite_subset [of _ "(\<lambda>p. parse_delta_seconds (the (snd p))) ` ds"])
    (force simp: max_ages_def)+

lemma collected_default: "collected default_directives {}"
  by (simp add: collected_def default_directives_def max_ages_def)

lemma parse_directive_eq:
  assumes "trim_ascii raw \<noteq> []" and "directive_parts (trim_ascii raw) = (n, a)"
  shows "parse_directive raw d =
    (if map ascii_lower n = ''max-age'' then
       (case a of None \<Rightarrow> d
        | Some x \<Rightarrow> d\<lparr>dir_max_age := Some (case dir_max_age d of
              None \<Rightarrow> parse_delta_seconds x | Some current \<Rightarrow> min current (parse_delta_seconds x))\<rparr>)
     else if map ascii_lower n = ''no-cache'' then d\<lparr>dir_no_cache := True\<rparr>
     else if map ascii_lower n = ''no-store'' then d\<lparr>dir_no_store := True\<rparr>
     else if map ascii_lower n = ''must-revalidate'' then d\<lparr>dir_must_revalidate := True\<rparr>
     else d)"
  using assms
  by (simp only: parse_directive_def Let_def if_False prod.case eq_ignore_ascii_case_def
      ascii_lower_names)

lemma collected_insert:
  assumes "collected d ds" and "finite ds" and "trim_ascii raw \<noteq> []"
    and p: "directive_parts (trim_ascii raw) = (n, a)"
  shows "collected (parse_directive raw d) (insert (map ascii_lower n, a) ds)"
proof -
  define m where "m = map ascii_lower n"
  note eq = parse_directive_eq [OF assms(3) p, folded m_def]
  consider "m = ''max-age''" | "m = ''no-cache''" | "m = ''no-store''" | "m = ''must-revalidate''"
    | "m \<noteq> ''max-age''" "m \<noteq> ''no-cache''" "m \<noteq> ''no-store''" "m \<noteq> ''must-revalidate''"
    by blast
  then have "collected (parse_directive raw d) (insert (m, a) ds)"
  proof cases
    case 1
    show ?thesis
    proof (cases a)
      case None
      with 1 assms(1) show ?thesis unfolding eq by (simp add: collected_def max_ages_insert)
    next
      case (Some x)
      with 1 assms(1,2) show ?thesis
        unfolding eq by (simp add: collected_def max_ages_insert min.commute)
    qed
  qed (use assms(1) in \<open>unfold eq, simp_all add: collected_def max_ages_other\<close>)
  then show ?thesis by (simp only: m_def)
qed

lemma collected_step:
  assumes "collected d ds" and "finite ds"
  shows "collected (parse_directive raw d)
    (ds \<union> (if trim_ascii raw = [] then {}
           else {apfst (map ascii_lower) (directive_parts (trim_ascii raw))}))"
proof (cases "trim_ascii raw = []")
  case True
  with assms show ?thesis by (simp add: parse_directive_def)
next
  case False
  obtain n a where p: "directive_parts (trim_ascii raw) = (n, a)" by fastforce
  from collected_insert [OF assms False p] False p show ?thesis by simp
qed

lemma collected_fold:
  "collected d ds \<Longrightarrow> finite ds \<Longrightarrow>
   collected (fold parse_directive raws d)
     (ds \<union> set (map (\<lambda>part. apfst (map ascii_lower) (directive_parts part))
              (filter (\<lambda>part. part \<noteq> []) (map trim_ascii raws))))"
proof (induction raws arbitrary: d ds)
  case (Cons raw raws)
  from Cons.IH [OF collected_step [OF Cons.prems, of raw]] Cons.prems(2)
  show ?case by (auto simp: Un_assoc insert_absorb split: if_splits)
qed simp

lemma collected_value:
  "collected d ds \<Longrightarrow> finite ds \<Longrightarrow>
   collected (parse_cache_control v d) (ds \<union> set (directives_of_value v))"
  unfolding parse_cache_control_def directives_of_value_def by (rule collected_fold)

lemma collected_headers:
  "collected d ds \<Longrightarrow> finite ds \<Longrightarrow>
   collected (fold (\<lambda>(_, v). parse_cache_control v)
       (filter (\<lambda>(name, _). eq_ignore_ascii_case name ''cache-control'') headers) d)
     (ds \<union> set (directives_of_headers headers))"
proof (induction headers arbitrary: d ds)
  case (Cons h headers)
  obtain name v where h: "h = (name, v)" by fastforce
  show ?case
  proof (cases "eq_ignore_ascii_case name ''cache-control''")
    case True
    from Cons.IH [OF collected_value [OF Cons.prems, of v]] Cons.prems(2) True h
    show ?thesis by (simp add: directives_of_headers_def Un_assoc)
  next
    case False
    with Cons.IH [OF Cons.prems] h show ?thesis by (simp add: directives_of_headers_def)
  qed
qed (simp add: directives_of_headers_def)

section \<open>The policy over the set of directives\<close>

definition response_age :: "httpdate_lib \<Rightarrow> system_time \<Rightarrow> (bytes \<times> bytes) list \<Rightarrow> duration" where
  "response_age H now headers =
     max (case header_value headers ''age'' of
            None \<Rightarrow> 0
          | Some a \<Rightarrow> (case parse_uint (2 ^ 64) a of None \<Rightarrow> 0 | Some n \<Rightarrow> from_secs n))
         (case Option.bind (header_value headers ''date'') (parse_http_date H) of
            None \<Rightarrow> 0
          | Some date \<Rightarrow> unwrap_duration (duration_since now date))"

definition stated_lifetime ::
  "httpdate_lib \<Rightarrow> system_time \<Rightarrow> (bytes \<times> bytes) list \<Rightarrow> duration \<Rightarrow> duration" where
  "stated_lifetime H now headers default_lifetime =
     (let ages = max_ages (set (directives_of_headers headers));
          date = Option.bind (header_value headers ''date'') (parse_http_date H)
      in if ages \<noteq> {} then Min ages
         else case header_value headers ''expires'' of
           None \<Rightarrow> default_lifetime
         | Some e \<Rightarrow> (case parse_http_date H e of
               None \<Rightarrow> 0
             | Some x \<Rightarrow> unwrap_duration (duration_since x (case date of Some d \<Rightarrow> d | None \<Rightarrow> now))))"

definition reference_policy ::
  "httpdate_lib \<Rightarrow> system_time \<Rightarrow> (bytes \<times> bytes) list \<Rightarrow> duration \<Rightarrow> cache_policy" where
  "reference_policy H now headers default_lifetime =
     (let names = fst ` set (directives_of_headers headers) in
      if ''no-store'' \<in> names then DoNotStore
      else if ''no-cache'' \<in> names then Revalidate
      else CacheFor
        (duration_saturating_sub (stated_lifetime H now headers default_lifetime)
           (response_age H now headers))
        (''must-revalidate'' \<in> names))"

lemma unwrap_max: "unwrap_duration (max a b) = max (unwrap_duration a) (unwrap_duration b)"
  by (cases a; cases b) (auto simp: unwrap_duration_def max_def)

lemma saturating_sub_of_zero [simp]: "duration_saturating_sub 0 a = 0"
  by (simp add: duration_saturating_sub_def zero_duration_def)

lemma response_directives:
  "collected (fold (\<lambda>(_, v). parse_cache_control v)
       (filter (\<lambda>(name, _). eq_ignore_ascii_case name ''cache-control'') headers)
       default_directives) (set (directives_of_headers headers))"
  using collected_headers [OF collected_default] by simp

lemma policy_eq_reference:
  "fst (policy_from_headers H R headers default_lifetime w) =
     reference_policy H (fst (system_now R w)) headers default_lifetime"
proof -
  define d where "d = fold (\<lambda>(_, v). parse_cache_control v)
       (filter (\<lambda>(name, _). eq_ignore_ascii_case name ''cache-control'') headers) default_directives"
  define date where "date = Option.bind (header_value headers ''date'') (parse_http_date H)"
  define stated where "stated = map_option from_secs
    (Option.bind (header_value headers ''age'') (parse_uint (2 ^ 64)))"
  obtain now w1 where now: "system_now R w = (now, w1)" by fastforce
  have d: "dir_no_store d \<longleftrightarrow> ''no-store'' \<in> fst ` set (directives_of_headers headers)"
    "dir_no_cache d \<longleftrightarrow> ''no-cache'' \<in> fst ` set (directives_of_headers headers)"
    "dir_must_revalidate d \<longleftrightarrow> ''must-revalidate'' \<in> fst ` set (directives_of_headers headers)"
    "dir_max_age d = (if max_ages (set (directives_of_headers headers)) = {} then None
       else Some (Min (max_ages (set (directives_of_headers headers)))))"
    using response_directives [of headers] by (simp_all only: d_def collected_def)
  have age: "unwrap_duration (max stated
      (case date of None \<Rightarrow> None | Some d \<Rightarrow> duration_since now d)) = response_age H now headers"
    unfolding unwrap_max response_age_def stated_def date_def
    by (auto simp: unwrap_duration_def split: option.splits)
  have policy: "policy_from_headers H R headers default_lifetime w =
      (case (case date of None \<Rightarrow> (None, w) | Some t \<Rightarrow> (duration_since now t, w1)) of (apparent, w') \<Rightarrow>
         compute_policy_from_directives H R d (header_value headers ''expires'') date
           (max stated apparent) default_lifetime w')"
    by (simp only: policy_from_headers_def Let_def d_def date_def stated_def now prod.case)
  show ?thesis
  proof (cases date)
    case None
    with age show ?thesis
      by (simp add: policy now compute_policy_from_directives_def d reference_policy_def
          stated_lifetime_def date_def [symmetric] expires_lifetime_def split: option.splits)
  next
    case (Some t)
    with age show ?thesis
      by (simp add: policy now compute_policy_from_directives_def d reference_policy_def
          stated_lifetime_def date_def [symmetric] expires_lifetime_def split: option.splits)
  qed
qed

section \<open>Bounds\<close>

lemma parse_delta_seconds_bound: "parse_delta_seconds v \<le> from_secs max_delta_seconds"
  by (simp add: parse_delta_seconds_def Let_def)

lemma nat_to_dec_digits: "c \<in> set (nat_to_dec n) \<Longrightarrow> is_digit_char c"
proof (induction n rule: nat_to_dec.induct)
  case (1 n)
  show ?case
  proof (cases "n < 10")
    case True
    with "1.prems" show ?thesis
      by (simp add: nat_to_dec.simps [of n] is_digit_char_def)
  next
    case False
    with 1 show ?thesis by (auto simp: nat_to_dec.simps [of n] is_digit_char_def)
  qed
qed

lemma parse_delta_seconds_dec:
  assumes "n < 2 ^ 128"
  shows "parse_delta_seconds (nat_to_dec n) = from_secs (min n max_delta_seconds)"
proof -
  have digits: "\<forall>c \<in> set (nat_to_dec n). c \<noteq> CHR 0x22"
    using nat_to_dec_digits [of "CHR 0x22" n] by (auto simp: is_digit_char_def)
  have trim: "trim_by P s = s" if "\<forall>c \<in> set s. \<not> P c" for P s
  proof -
    have "dropWhile P l = l" if "\<forall>c \<in> set l. \<not> P c" for l using that by (cases l) auto
    from this [of s] this [of "rev s"] that show ?thesis by (simp add: trim_by_def)
  qed
  have "trim_by (\<lambda>c. c = CHR 0x22) (nat_to_dec n) = nat_to_dec n"
    using digits by (intro trim) simp
  then show ?thesis using assms by (simp add: parse_delta_seconds_def parse_uint_dec)
qed

section \<open>Properties\<close>

text \<open>
  C22. The policy computed for a response is that of RFC 9111 for a private cache, over the set of
  all directives of all \<^verbatim>\<open>Cache-Control\<close> fields: \<^verbatim>\<open>no-store\<close> wins over \<^verbatim>\<open>no-cache\<close>, which wins over
  the smallest \<^verbatim>\<open>max-age\<close>, which wins over \<^verbatim>\<open>Expires\<close>, which wins over the default; the lifetime is
  reduced by the greater of the stated and the apparent age.
\<close>

theorem policy_is_rfc9111:
  "fst (policy_from_headers H R headers default_lifetime w) =
     reference_policy H (fst (system_now R w)) headers default_lifetime"
  by (rule policy_eq_reference)

text \<open>
  The caller's floor: with a minimum above zero, every response is reused for at least the
  minimum, a lifetime is never shortened, and a response that had to be revalidated or not stored
  must still be revalidated when the minimum has passed.
\<close>

theorem minimum_duration_floor:
  assumes "0 < minimum"
  shows "\<exists>lifetime must. apply_minimum_cache_duration policy minimum = CacheFor lifetime must \<and>
    minimum \<le> lifetime \<and>
    (case policy of CacheFor l m \<Rightarrow> lifetime = max l minimum \<and> must = m
     | Revalidate \<Rightarrow> lifetime = minimum \<and> must
     | DoNotStore \<Rightarrow> lifetime = minimum \<and> must)"
proof -
  have "\<not> is_zero_duration minimum" using assms by (auto simp: is_zero_duration_def)
  then show ?thesis by (cases policy) (auto simp: apply_minimum_cache_duration_def)
qed

theorem minimum_duration_floor_witness:
  "\<exists>lifetime must. apply_minimum_cache_duration DoNotStore (from_secs 60) = CacheFor lifetime must \<and>
     from_secs 60 \<le> lifetime \<and>
     (case DoNotStore of CacheFor l m \<Rightarrow> lifetime = max l (from_secs 60) \<and> must = m
      | Revalidate \<Rightarrow> lifetime = from_secs 60 \<and> must
      | DoNotStore \<Rightarrow> lifetime = from_secs 60 \<and> must)"
  by (rule minimum_duration_floor) (simp add: time_evals)

text \<open>
  C38. In a response that has a \<^verbatim>\<open>max-age\<close> written as a decimal number below \<open>2 ^ 128\<close>, that value (as
  seconds, at most 2147483648 of them) bounds the lifetime the headers give, whatever other values,
  \<^verbatim>\<open>Expires\<close> or the default lifetime say; and after the caller's minimum duration has been applied the
  lifetime is at most the larger of that bound and the minimum.
\<close>

theorem max_age_bounds_lifetime:
  assumes "(''max-age'', Some (nat_to_dec n)) \<in> set (directives_of_headers headers)"
    and "n < 2 ^ 128"
    and "apply_minimum_cache_duration (fst (policy_from_headers H R headers default_lifetime w)) minimum =
      CacheFor lifetime must"
  shows "as_nanos lifetime \<le> max (min n 2147483648 * 1000000000) (as_nanos minimum) \<and>
    (\<forall>l m. fst (policy_from_headers H R headers default_lifetime w) = CacheFor l m \<longrightarrow>
       as_nanos l \<le> min n 2147483648 * 1000000000)"
proof -
  let ?ages = "max_ages (set (directives_of_headers headers))"
  let ?policy = "fst (policy_from_headers H R headers default_lifetime w)"
  have "parse_delta_seconds (nat_to_dec n) \<in> ?ages" using assms(1) by (auto simp: max_ages_def)
  then have le: "Min ?ages \<le> from_secs (min n max_delta_seconds)" "?ages \<noteq> {}"
    using parse_delta_seconds_dec [OF assms(2)] by (auto simp: Min_le_iff)
  have bound: "as_nanos l \<le> min n 2147483648 * 1000000000" if "?policy = CacheFor l m" for l m
  proof -
    have "l = duration_saturating_sub (Min ?ages) (response_age H (fst (system_now R w)) headers)"
      using that le(2)
      by (auto simp: policy_eq_reference reference_policy_def stated_lifetime_def Let_def split: if_splits)
    then have "l \<le> from_secs (min n max_delta_seconds)" using le(1) saturating_sub_le order_trans by blast
    then show ?thesis
      by (simp add: less_eq_duration_def from_secs_def nanos_per_sec_def max_delta_seconds_def)
  qed
  have "as_nanos lifetime \<le> max (min n 2147483648 * 1000000000) (as_nanos minimum)"
  proof (cases ?policy)
    case (CacheFor l m)
    with assms(3) have "lifetime = l \<or> lifetime = minimum"
      by (auto simp: apply_minimum_cache_duration_def max_def split: if_splits)
    with bound [OF CacheFor] show ?thesis by auto
  qed (use assms(3) in \<open>auto simp: apply_minimum_cache_duration_def split: if_splits\<close>)
  with bound show ?thesis by blast
qed

lemma max_age_example:
  "directives_of_headers [(''Cache-Control'', ''private, Max-Age=60'')] =
     [(''private'', None), (''max-age'', Some (nat_to_dec 60))]"
  by code_simp

lemma header_value_example:
  "header_value [(''Cache-Control'', v)] ''age'' = None"
  "header_value [(''Cache-Control'', v)] ''date'' = None"
  by (simp_all add: header_value_def eq_ignore_ascii_case_def ascii_lower_def is_ascii_upper_def)

definition idle_runtime :: "unit runtime" where
  "idle_runtime = \<lparr>http_execute = (\<lambda>r w. (Inl (Http ''offline''), w)),
     instant_now = (\<lambda>w. (Instant 0, w)), system_now = (\<lambda>w. (SystemTime 0, w)),
     rand_bytes = (\<lambda>n w. (replicate n (CHR ''x''), w))\<rparr>"

theorem max_age_bounds_lifetime_witness:
  "\<exists>lifetime. apply_minimum_cache_duration (fst (policy_from_headers \<lparr>parse_http_date = (\<lambda>_. None)\<rparr> idle_runtime
       [(''Cache-Control'', ''private, Max-Age=60'')] (from_secs 3600) ())) (from_secs 90) =
     CacheFor lifetime False \<and> as_nanos lifetime \<le> max (min 60 2147483648 * 1000000000) (as_nanos (from_secs 90))"
proof -
  have policy: "fst (policy_from_headers \<lparr>parse_http_date = (\<lambda>_. None)\<rparr> idle_runtime
       [(''Cache-Control'', ''private, Max-Age=60'')] (from_secs 3600) ()) =
     CacheFor (from_secs 60) False"
    using parse_delta_seconds_dec [of 60]
    by (simp add: policy_eq_reference reference_policy_def stated_lifetime_def response_age_def
        max_age_example max_ages_def header_value_example max_delta_seconds_def)
  have eq: "apply_minimum_cache_duration (fst (policy_from_headers \<lparr>parse_http_date = (\<lambda>_. None)\<rparr> idle_runtime
       [(''Cache-Control'', ''private, Max-Age=60'')] (from_secs 3600) ())) (from_secs 90) =
     CacheFor (max (from_secs 60) (from_secs 90)) False"
    unfolding policy by (simp add: apply_minimum_cache_duration_def is_zero_duration_def from_secs_def
        nanos_per_sec_def zero_duration_def)
  have "(''max-age'', Some (nat_to_dec 60)) \<in> set (directives_of_headers
      [(''Cache-Control'', ''private, Max-Age=60'')])" by (simp add: max_age_example)
  from max_age_bounds_lifetime [OF this _ eq] show ?thesis unfolding eq by simp
qed

text \<open>
  Two \<^verbatim>\<open>Cache-Control\<close> fields mean what one field with their values joined by a comma means,
  whatever has been collected before.
\<close>

theorem cache_control_fields_combine:
  "parse_cache_control (a @ '','' @ b) d = parse_cache_control b (parse_cache_control a d)"
  by (simp add: parse_cache_control_def split_on_append)

end
