(* ===== verification/Metadata.thy ===== *)
theory Metadata
  imports Json_Decode Url_Types Identifiers Cache_Policy
begin

text \<open>
  src/metadata/provider.rs and src/metadata/mod.rs: the discovery document, its validation, and
  discovery over HTTP with the cache policy of the response.
\<close>

section \<open>The document\<close>

text \<open>\<open>'u\<close> is the type of URLs. The flattened \<^verbatim>\<open>extra\<close> map is a partial function.\<close>

record 'u provider_metadata =
  metadata_issuer :: "'u issuer_url"
  authorization_endpoint :: "'u auth_url"
  token_endpoint :: "'u token_url"
  userinfo_endpoint :: "'u userinfo_url option"
  jwks_uri :: "'u jwks_url"
  end_session_endpoint :: "'u end_session_url option"
  registration_endpoint :: "bytes option"
  scopes_supported :: "scope list option"
  response_types_supported :: "bytes list"
  subject_types_supported :: "bytes list"
  id_token_signing_alg_values_supported :: "bytes list"
  grant_types_supported :: "bytes list option"
  token_endpoint_auth_methods_supported :: "bytes list option"
  authorization_response_iss_parameter_supported :: bool
  userinfo_signing_alg_values_supported :: "bytes list option"
  metadata_extra :: "bytes \<Rightarrow> json option"

definition metadata_fields :: "bytes list" where
  "metadata_fields =
     [''issuer'', ''authorization_endpoint'', ''token_endpoint'', ''userinfo_endpoint'', ''jwks_uri'',
      ''end_session_endpoint'', ''registration_endpoint'', ''scopes_supported'',
      ''response_types_supported'', ''subject_types_supported'',
      ''id_token_signing_alg_values_supported'', ''grant_types_supported'',
      ''token_endpoint_auth_methods_supported'',
      ''authorization_response_iss_parameter_supported'',
      ''userinfo_signing_alg_values_supported'']"

text \<open>\<^verbatim>\<open>Deserialize\<close> of a URL newtype: a string, then \<^verbatim>\<open>FromStr\<close>, whose error becomes a custom one.\<close>

definition as_parsed :: "display_lib \<Rightarrow> (bytes \<Rightarrow> oidc_error + 'a) \<Rightarrow> json \<Rightarrow> json_error + 'a" where
  "as_parsed D from_str v =
     bindr (as_string v) (\<lambda>s. map_errr (\<lambda>e. CustomJson (oidc_error_display D e)) (from_str s))"

definition as_scope :: "json \<Rightarrow> json_error + scope" where
  "as_scope v = mapr Scope (as_string v)"

definition decode_metadata ::
  "display_lib \<Rightarrow> 'u url_lib \<Rightarrow> json \<Rightarrow> json_error + 'u provider_metadata" where
  "decode_metadata D U v =
     bindr (map_members metadata_fields v) (\<lambda>ms.
     bindr (required_field (as_parsed D (issuer_url_from_str U)) ''issuer'' ms) (\<lambda>iss.
     bindr (required_field (as_parsed D (auth_url_from_str U)) ''authorization_endpoint'' ms) (\<lambda>auth.
     bindr (required_field (as_parsed D (token_url_from_str U)) ''token_endpoint'' ms) (\<lambda>token.
     bindr (option_field (as_parsed D (userinfo_url_from_str U)) ''userinfo_endpoint'' ms) (\<lambda>userinfo.
     bindr (required_field (as_parsed D (jwks_url_from_str U)) ''jwks_uri'' ms) (\<lambda>jwks.
     bindr (option_field (as_parsed D (end_session_url_from_str U)) ''end_session_endpoint'' ms) (\<lambda>end_session.
     bindr (option_field as_string ''registration_endpoint'' ms) (\<lambda>registration.
     bindr (option_field (as_list as_scope) ''scopes_supported'' ms) (\<lambda>scopes.
     bindr (required_field (as_list as_string) ''response_types_supported'' ms) (\<lambda>response_types.
     bindr (required_field (as_list as_string) ''subject_types_supported'' ms) (\<lambda>subject_types.
     bindr (required_field (as_list as_string) ''id_token_signing_alg_values_supported'' ms) (\<lambda>algs.
     bindr (option_field (as_list as_string) ''grant_types_supported'' ms) (\<lambda>grants.
     bindr (option_field (as_list as_string) ''token_endpoint_auth_methods_supported'' ms) (\<lambda>methods.
     bindr (default_field False as_bool ''authorization_response_iss_parameter_supported'' ms) (\<lambda>iss_param.
     bindr (option_field (as_list as_string) ''userinfo_signing_alg_values_supported'' ms) (\<lambda>ui_algs.
       Inr \<lparr>metadata_issuer = iss, authorization_endpoint = auth, token_endpoint = token,
            userinfo_endpoint = userinfo, jwks_uri = jwks, end_session_endpoint = end_session,
            registration_endpoint = registration, scopes_supported = scopes,
            response_types_supported = response_types, subject_types_supported = subject_types,
            id_token_signing_alg_values_supported = algs, grant_types_supported = grants,
            token_endpoint_auth_methods_supported = methods,
            authorization_response_iss_parameter_supported = iss_param,
            userinfo_signing_alg_values_supported = ui_algs,
            metadata_extra = extra_members metadata_fields ms\<rparr>))))))))))))))))"

definition validate_metadata :: "'u provider_metadata \<Rightarrow> oidc_error + unit" where
  "validate_metadata m =
     (if response_types_supported m = []
      then Inl (InvalidMetadata ''response_types_supported must not be empty'')
      else if subject_types_supported m = []
      then Inl (InvalidMetadata ''subject_types_supported must not be empty'')
      else if \<not> list_ex (\<lambda>algorithm. algorithm = ''RS256'') (id_token_signing_alg_values_supported m)
      then Inl (InvalidMetadata ''id_token_signing_alg_values_supported must include RS256'')
      else Inr ())"

section \<open>Discovery\<close>

record 'u discovered_metadata =
  disc_metadata :: "'u provider_metadata"
  disc_response_headers :: "(bytes \<times> bytes) list"

definition discovered_cache_policy ::
  "httpdate_lib \<Rightarrow> 'w runtime \<Rightarrow> 'u discovered_metadata \<Rightarrow> duration \<Rightarrow> duration \<Rightarrow> 'w \<Rightarrow>
   cache_policy \<times> 'w" where
  "discovered_cache_policy H R d default_lifetime minimum w =
     (case policy_from_headers H R (disc_response_headers d) default_lifetime w of
        (policy, w') \<Rightarrow> (apply_minimum_cache_duration policy minimum, w'))"

definition discovery_url :: "'u url_lib \<Rightarrow> 'u issuer_url \<Rightarrow> oidc_error + 'u" where
  "discovery_url U i =
     (if url_cannot_be_a_base U (issuer_as_url i)
      then Inl (Discovery ''issuer URL cannot be a base'')
      else Inr (url_push_segment U ''openid-configuration''
                  (url_push_segment U ''.well-known'' (url_pop_if_empty U (issuer_as_url i)))))"

definition decode_discovery ::
  "display_lib \<Rightarrow> 'u url_lib \<Rightarrow> json_lib \<Rightarrow> 'u issuer_url \<Rightarrow> 'u \<Rightarrow> http_response \<Rightarrow>
   oidc_error + 'u discovered_metadata" where
  "decode_discovery D U J i url resp =
     (if resp_status resp \<noteq> 200
      then Inl (Discovery (''metadata HTTP '' @ nat_to_dec (resp_status resp) @ '' from '' @ url_as_str U url))
      else
        bindr (map_errr (\<lambda>e. InvalidMetadata (show_json_error D e))
                 (from_json_slice J (decode_metadata D U) (resp_body resp))) (\<lambda>m.
        bindr (validate_metadata m) (\<lambda>_.
        if metadata_issuer m \<noteq> i
        then Inl (InvalidMetadata (''issuer mismatch: expected '' @ issuer_as_str i @ '', got '' @
               issuer_as_str (metadata_issuer m)))
        else Inr \<lparr>disc_metadata = m, disc_response_headers = resp_headers resp\<rparr>)))"

definition discover_with_cache ::
  "display_lib \<Rightarrow> 'u url_lib \<Rightarrow> json_lib \<Rightarrow> 'w runtime \<Rightarrow> 'u issuer_url \<Rightarrow> 'w \<Rightarrow>
   (oidc_error + 'u discovered_metadata) \<times> 'w" where
  "discover_with_cache D U J R i =
     binds (lifts (discovery_url U i)) (\<lambda>url.
     binds (map_errs (\<lambda>e. Discovery (oidc_error_display D e))
              (http_execute R (accept_json_request (url_as_str U url)))) (\<lambda>resp.
     lifts (decode_discovery D U J i url resp)))"

definition discover_metadata ::
  "display_lib \<Rightarrow> 'u url_lib \<Rightarrow> json_lib \<Rightarrow> 'w runtime \<Rightarrow> 'u issuer_url \<Rightarrow> 'w \<Rightarrow>
   (oidc_error + 'u provider_metadata) \<times> 'w" where
  "discover_metadata D U J R i =
     binds (discover_with_cache D U J R i) (\<lambda>d. lifts (Inr (disc_metadata d)))"

section \<open>What discovery guarantees\<close>

text \<open>The invariant of metadata the client works with.\<close>

definition metadata_ok :: "'u url_lib \<Rightarrow> 'u provider_metadata \<Rightarrow> bool" where
  "metadata_ok U m \<longleftrightarrow>
     url_scheme U (issuer_as_url (metadata_issuer m)) = ''https'' \<and>
     url_parse U (issuer_as_str (metadata_issuer m)) = Inr (issuer_as_url (metadata_issuer m)) \<and>
     url_scheme U (auth_as_url (authorization_endpoint m)) = ''https'' \<and>
     url_scheme U (token_as_url (token_endpoint m)) = ''https'' \<and>
     url_scheme U (jwks_as_url (jwks_uri m)) = ''https'' \<and>
     (\<forall>e. userinfo_endpoint m = Some e \<longrightarrow> url_scheme U (userinfo_as_url e) = ''https'') \<and>
     (\<forall>e. end_session_endpoint m = Some e \<longrightarrow> url_scheme U (end_session_as_url e) = ''https'')"

lemma as_parsed_Inr [decode_simps]:
  "as_parsed D f v = Inr x \<longleftrightarrow> (\<exists>s. v = JString s \<and> f s = Inr x)"
  by (auto simp: as_parsed_def bindr_eq_Inr)

lemma option_field_Some:
  "option_field f n ms = Inr (Some x) \<Longrightarrow> \<exists>v. f v = Inr x"
  by (auto simp: option_field_def decode_simps)

lemma decode_metadata_members:
  assumes "decode_metadata D U v = Inr m"
  obtains ms where "map_members metadata_fields v = Inr ms"
    "required_field (as_parsed D (issuer_url_from_str U)) ''issuer'' ms = Inr (metadata_issuer m)"
    "required_field (as_parsed D (auth_url_from_str U)) ''authorization_endpoint'' ms =
       Inr (authorization_endpoint m)"
    "required_field (as_parsed D (token_url_from_str U)) ''token_endpoint'' ms = Inr (token_endpoint m)"
    "option_field (as_parsed D (userinfo_url_from_str U)) ''userinfo_endpoint'' ms =
       Inr (userinfo_endpoint m)"
    "required_field (as_parsed D (jwks_url_from_str U)) ''jwks_uri'' ms = Inr (jwks_uri m)"
    "option_field (as_parsed D (end_session_url_from_str U)) ''end_session_endpoint'' ms =
       Inr (end_session_endpoint m)"
    "metadata_extra m = extra_members metadata_fields ms"
  using assms unfolding decode_metadata_def bindr_eq_Inr by (elim exE conjE) (rule that; force)

lemma decode_metadata_ok: "decode_metadata D U v = Inr m \<Longrightarrow> metadata_ok U m"
proof (erule decode_metadata_members)
  fix ms
  assume i: "required_field (as_parsed D (issuer_url_from_str U)) ''issuer'' ms = Inr (metadata_issuer m)"
    and a: "required_field (as_parsed D (auth_url_from_str U)) ''authorization_endpoint'' ms =
       Inr (authorization_endpoint m)"
    and t: "required_field (as_parsed D (token_url_from_str U)) ''token_endpoint'' ms = Inr (token_endpoint m)"
    and u: "option_field (as_parsed D (userinfo_url_from_str U)) ''userinfo_endpoint'' ms =
       Inr (userinfo_endpoint m)"
    and j: "required_field (as_parsed D (jwks_url_from_str U)) ''jwks_uri'' ms = Inr (jwks_uri m)"
    and e: "option_field (as_parsed D (end_session_url_from_str U)) ''end_session_endpoint'' ms =
       Inr (end_session_endpoint m)"
  from i obtain s where "issuer_url_from_str U s = Inr (metadata_issuer m)" by (auto simp: decode_simps)
  then have "url_scheme U (issuer_as_url (metadata_issuer m)) = ''https''"
    "url_parse U (issuer_as_str (metadata_issuer m)) = Inr (issuer_as_url (metadata_issuer m))"
    by (auto simp: issuer_url_from_str_Inr)
  moreover have "url_scheme U (auth_as_url (authorization_endpoint m)) = ''https''"
    using a auth.from_str_ok by (fastforce simp: decode_simps)
  moreover have "url_scheme U (token_as_url (token_endpoint m)) = ''https''"
    using t token.from_str_ok by (fastforce simp: decode_simps)
  moreover have "url_scheme U (jwks_as_url (jwks_uri m)) = ''https''"
    using j jwks.from_str_ok by (fastforce simp: decode_simps)
  moreover have "url_scheme U (userinfo_as_url x) = ''https''" if "userinfo_endpoint m = Some x" for x
    using u that userinfo.from_str_ok by (fastforce simp: decode_simps dest!: option_field_Some)
  moreover have "url_scheme U (end_session_as_url x) = ''https''" if "end_session_endpoint m = Some x" for x
    using e that end_session.from_str_ok by (fastforce simp: decode_simps dest!: option_field_Some)
  ultimately show ?thesis by (simp add: metadata_ok_def)
qed

lemma validate_metadata_Inr:
  "validate_metadata m = Inr () \<longleftrightarrow> response_types_supported m \<noteq> [] \<and> subject_types_supported m \<noteq> [] \<and>
     ''RS256'' \<in> set (id_token_signing_alg_values_supported m)"
  by (auto simp: validate_metadata_def list_ex_iff)

lemma decode_discovery_ok:
  "decode_discovery D U J i url resp = Inr d \<Longrightarrow>
     resp_status resp = 200 \<and> metadata_issuer (disc_metadata d) = i \<and>
     metadata_ok U (disc_metadata d) \<and> validate_metadata (disc_metadata d) = Inr () \<and>
     disc_response_headers d = resp_headers resp"
  by (auto simp: decode_discovery_def bindr_eq_Inr from_json_slice_def decode_metadata_ok
      split: if_splits)

lemma discover_with_cache_ok:
  assumes "discover_with_cache D U J R i w = (Inr d, w')"
  obtains url resp where "discovery_url U i = Inr url"
    "http_execute R (accept_json_request (url_as_str U url)) w = (Inr resp, w')"
    "decode_discovery D U J i url resp = Inr d"
  using assms by (auto simp: discover_with_cache_def io_simps)

lemma discover_with_cache_issuer:
  "discover_with_cache D U J R i w = (Inr d, w') \<Longrightarrow>
     metadata_issuer (disc_metadata d) = i \<and> metadata_ok U (disc_metadata d) \<and>
     validate_metadata (disc_metadata d) = Inr ()"
  by (erule discover_with_cache_ok) (auto dest: decode_discovery_ok)

end
