(* ===== verification/Token_Response.thy ===== *)
theory Token_Response
  imports Json_Decode Identifiers
begin

text \<open>
  src/token/response.rs: the token response as it is read from JSON, its redacted \<^verbatim>\<open>Debug\<close> output,
  and the parsed (unverified) ID token. src/claims.rs: the typed accessors on claims.
\<close>

section \<open>The token response\<close>

record token_response =
  resp_access_token :: access_token
  resp_token_type :: bytes
  resp_expires_in :: "nat option"
  resp_refresh_token :: "refresh_token option"
  resp_id_token :: "bytes option"
  resp_scope :: "bytes option"

definition token_response_fields :: "(bytes \<times> bool) list" where
  "token_response_fields =
     [(''access_token'', False), (''token_type'', False), (''expires_in'', True),
      (''refresh_token'', True), (''id_token'', True), (''scope'', True)]"

definition deserialize_access_token :: "display_lib \<Rightarrow> json \<Rightarrow> json_error + access_token" where
  "deserialize_access_token D v =
     bindr (as_string v) (\<lambda>s.
       map_errr (\<lambda>e. CustomJson (oidc_error_display D e)) (access_token_new s))"

definition deserialize_refresh_token :: "display_lib \<Rightarrow> json \<Rightarrow> json_error + refresh_token option" where
  "deserialize_refresh_token D v =
     bindr (as_option as_string v) (\<lambda>opt.
       case opt of
         None \<Rightarrow> Inr None
       | Some s \<Rightarrow>
           if s = [] then Inr None
           else map_errr (\<lambda>e. CustomJson (oidc_error_display D e)) (mapr Some (refresh_token_new s)))"

definition decode_token_response :: "display_lib \<Rightarrow> json \<Rightarrow> json_error + token_response" where
  "decode_token_response D v =
     bindr (struct_members token_response_fields v) (\<lambda>ms.
     bindr (required_field (deserialize_access_token D) ''access_token'' ms) (\<lambda>access.
     bindr (required_field as_string ''token_type'' ms) (\<lambda>ty.
     bindr (option_field as_u64 ''expires_in'' ms) (\<lambda>expires.
     bindr (default_field None (deserialize_refresh_token D) ''refresh_token'' ms) (\<lambda>refresh.
     bindr (option_field as_string ''id_token'' ms) (\<lambda>idt.
     bindr (option_field as_string ''scope'' ms) (\<lambda>sc.
       Inr \<lparr>resp_access_token = access, resp_token_type = ty, resp_expires_in = expires,
            resp_refresh_token = refresh, resp_id_token = idt, resp_scope = sc\<rparr>)))))))"

definition debug_refresh_option :: "display_lib \<Rightarrow> refresh_token option \<Rightarrow> bytes" where
  "debug_refresh_option D t =
     (case t of None \<Rightarrow> ''None'' | Some x \<Rightarrow> ''Some('' @ refresh_token_debug (debug_str D) x @ '')'')"

definition token_response_debug :: "display_lib \<Rightarrow> token_response \<Rightarrow> bytes" where
  "token_response_debug D r =
     ''TokenResponse { access_token: '' @ access_token_debug (debug_str D) (resp_access_token r) @
     '', token_type: '' @ debug_str D (resp_token_type r) @
     '', expires_in: '' @
       (case resp_expires_in r of None \<Rightarrow> ''None'' | Some n \<Rightarrow> ''Some('' @ nat_to_dec n @ '')'') @
     '', refresh_token: '' @ debug_refresh_option D (resp_refresh_token r) @
     '', id_token: '' @ debug_option D (map_option (\<lambda>_. ''***'') (resp_id_token r)) @
     '', scope: '' @ debug_option D (resp_scope r) @ '' }''"

section \<open>The ID token\<close>

record 'claims id_token =
  id_token_raw :: bytes
  id_token_claims :: 'claims
  header_alg :: bytes
  header_kid :: "bytes option"

definition id_token_debug :: "display_lib \<Rightarrow> 'claims id_token \<Rightarrow> bytes" where
  "id_token_debug D t =
     ''IdToken { raw: '' @ debug_str D ''***'' @ '', header_alg: '' @ debug_str D (header_alg t) @
     '', header_kid: '' @ debug_option D (header_kid t) @ '', .. }''"

definition id_token_parse ::
  "('jws, 'key, 'claims, 'jwks, 'w) jose_lib \<Rightarrow> bytes \<Rightarrow> jose_error + 'claims id_token" where
  "id_token_parse K raw =
     bindr (jws_from_compact K raw) (\<lambda>jws.
     (let alg = (case jws_algorithm K jws of Some a \<Rightarrow> a | None \<Rightarrow> []);
          kid = jws_key_id K jws in
     bindr (jws_unverified_payload K jws) (\<lambda>payload.
     if \<not> utf8_valid payload then Inl (MalformedToken ''id_token payload is not UTF-8'')
     else bindr (claims_parse K payload) (\<lambda>claims.
       Inr \<lparr>id_token_raw = raw, id_token_claims = claims, header_alg = alg, header_kid = kid\<rparr>))))"

lemma id_token_parse_Inr:
  "id_token_parse K raw = Inr t \<longleftrightarrow>
     (\<exists>jws payload claims. jws_from_compact K raw = Inr jws \<and>
        jws_unverified_payload K jws = Inr payload \<and> utf8_valid payload \<and>
        claims_parse K payload = Inr claims \<and>
        t = \<lparr>id_token_raw = raw, id_token_claims = claims,
             header_alg = (case jws_algorithm K jws of Some a \<Rightarrow> a | None \<Rightarrow> []),
             header_kid = jws_key_id K jws\<rparr>)"
  by (auto simp: id_token_parse_def bindr_eq_Inr Let_def)

section \<open>Claims\<close>

definition decode_hash_claim ::
  "('jws, 'key, 'claims, 'jwks, 'w) jose_lib \<Rightarrow> base64_lib \<Rightarrow> 'claims \<Rightarrow> bytes \<Rightarrow>
   oidc_error + bytes option" where
  "decode_hash_claim K B claims name =
     (case claims_string K claims name of
        None \<Rightarrow> Inr None
      | Some s \<Rightarrow> mapr Some (map_errr Base64 (url_safe_decode B s)))"

definition claims_at_hash where
  "claims_at_hash K B claims = decode_hash_claim K B claims ''at_hash''"
definition claims_c_hash where
  "claims_c_hash K B claims = decode_hash_claim K B claims ''c_hash''"

definition time_int ::
  "('jws, 'key, 'claims, 'jwks, 'w) jose_lib \<Rightarrow> json_lib \<Rightarrow> 'claims \<Rightarrow> bytes \<Rightarrow> int option" where
  "time_int K J claims name =
     (case json_parse J (claims_to_json K claims) of
        Inl e \<Rightarrow> None
      | Inr v \<Rightarrow> Option.bind (json_get name v) json_as_i64)"

definition claims_auth_time ::
  "('jws, 'key, 'claims, 'jwks, 'w) jose_lib \<Rightarrow> json_lib \<Rightarrow> 'claims \<Rightarrow> oidc_error + int option" where
  "claims_auth_time K J claims = Inr (time_int K J claims ''auth_time'')"
definition claims_acr ::
  "('jws, 'key, 'claims, 'jwks, 'w) jose_lib \<Rightarrow> 'claims \<Rightarrow> oidc_error + bytes option" where
  "claims_acr K claims = Inr (claims_string K claims ''acr'')"
definition claims_amr ::
  "('jws, 'key, 'claims, 'jwks, 'w) jose_lib \<Rightarrow> 'claims \<Rightarrow> oidc_error + bytes list option" where
  "claims_amr K claims = Inr (claims_string_array K claims ''amr'')"
definition claims_azp ::
  "('jws, 'key, 'claims, 'jwks, 'w) jose_lib \<Rightarrow> 'claims \<Rightarrow> oidc_error + bytes option" where
  "claims_azp K claims = Inr (claims_string K claims ''azp'')"
definition claims_nonce ::
  "('jws, 'key, 'claims, 'jwks, 'w) jose_lib \<Rightarrow> 'claims \<Rightarrow> oidc_error + bytes option" where
  "claims_nonce K claims = Inr (claims_string K claims ''nonce'')"

section \<open>Lemmas\<close>

lemma deserialize_access_token_Inr [decode_simps]:
  "deserialize_access_token D v = Inr t \<longleftrightarrow> (\<exists>s. v = JString s \<and> s \<noteq> [] \<and> t = AccessToken s)"
  by (auto simp: deserialize_access_token_def bindr_eq_Inr access_token_new_def)

lemma deserialize_refresh_token_Inr [decode_simps]:
  "deserialize_refresh_token D v = Inr r \<longleftrightarrow>
     (v = JNull \<or> v = JString []) \<and> r = None \<or>
     (\<exists>s. v = JString s \<and> s \<noteq> [] \<and> r = Some (RefreshToken s))"
  by (auto simp: deserialize_refresh_token_def bindr_eq_Inr decode_simps refresh_token_new_def mapr_eq_Inr
      split: if_splits)

text \<open>What a field of the response is read from: absent and \<^verbatim>\<open>null\<close> are the same.\<close>

definition optional_member :: "members \<Rightarrow> bytes \<Rightarrow> json option" where
  "optional_member ms name = (case map_of ms name of Some JNull \<Rightarrow> None | v \<Rightarrow> v)"

lemma option_field_member:
  "option_field f name ms = Inr r \<longleftrightarrow>
     (case optional_member ms name of None \<Rightarrow> r = None | Some v \<Rightarrow> (\<exists>x. f v = Inr x \<and> r = Some x))"
  by (auto simp: option_field_def decode_simps optional_member_def split: option.splits json.splits)

lemma refresh_field_member:
  "default_field None (deserialize_refresh_token D) name ms = Inr r \<longleftrightarrow>
     (case optional_member ms name of
        None \<Rightarrow> r = None
      | Some v \<Rightarrow> (\<exists>s. v = JString s \<and> r = (if s = [] then None else Some (RefreshToken s))))"
  by (auto simp: decode_simps optional_member_def split: option.splits json.splits)

lemma decode_token_response_object:
  "decode_token_response D (JObject ms) = Inr r \<longleftrightarrow>
     map_members (map fst token_response_fields) (JObject ms) = Inr ms \<and>
     (\<exists>s. map_of ms ''access_token'' = Some (JString s) \<and> s \<noteq> [] \<and> resp_access_token r = AccessToken s) \<and>
     map_of ms ''token_type'' = Some (JString (resp_token_type r)) \<and>
     option_field as_u64 ''expires_in'' ms = Inr (resp_expires_in r) \<and>
     default_field None (deserialize_refresh_token D) ''refresh_token'' ms = Inr (resp_refresh_token r) \<and>
     option_field as_string ''id_token'' ms = Inr (resp_id_token r) \<and>
     option_field as_string ''scope'' ms = Inr (resp_scope r)"
proof -
  have r: "r = \<lparr>resp_access_token = resp_access_token r, resp_token_type = resp_token_type r,
      resp_expires_in = resp_expires_in r, resp_refresh_token = resp_refresh_token r,
      resp_id_token = resp_id_token r, resp_scope = resp_scope r\<rparr>" by simp
  have ms: "map_members fs (JObject ms) = Inr ms' \<Longrightarrow> ms' = ms" for fs ms'
    by (auto simp: decode_simps)
  show ?thesis
    unfolding decode_token_response_def bindr_eq_Inr struct_members_object
    by (subst (1) r) (auto simp: required_field_Inr deserialize_access_token_Inr dest: ms)
qed

section \<open>Properties\<close>

text \<open>
  Reading a token response: a JSON object is accepted exactly if its \<^verbatim>\<open>access_token\<close> is a
  non-empty string, its \<^verbatim>\<open>token_type\<close> a string, the optional members have their types and no member
  is repeated; an absent, \<^verbatim>\<open>null\<close> or empty refresh token is read as none, so no empty token of
  either kind ever leaves the parser.
\<close>

theorem token_response_of_object:
  "decode_token_response D (JObject ms) = Inr r \<longleftrightarrow>
     distinct (filter (\<lambda>k. k \<in> set (map fst token_response_fields)) (map fst ms)) \<and>
     map_of ms ''access_token'' = Some (JString (access_token_str (resp_access_token r))) \<and>
     access_token_str (resp_access_token r) \<noteq> [] \<and>
     map_of ms ''token_type'' = Some (JString (resp_token_type r)) \<and>
     (case optional_member ms ''expires_in'' of
        None \<Rightarrow> resp_expires_in r = None
      | Some v \<Rightarrow> resp_expires_in r \<noteq> None \<and> json_as_u64 v = resp_expires_in r) \<and>
     (case optional_member ms ''refresh_token'' of
        None \<Rightarrow> resp_refresh_token r = None
      | Some v \<Rightarrow> (\<exists>s. v = JString s \<and>
            resp_refresh_token r = (if s = [] then None else Some (RefreshToken s)))) \<and>
     map_option JString (resp_id_token r) = optional_member ms ''id_token'' \<and>
     map_option JString (resp_scope r) = optional_member ms ''scope''"
proof -
  have a: "(\<exists>s. x = Some (JString s) \<and> s \<noteq> [] \<and> t = AccessToken s) \<longleftrightarrow>
      x = Some (JString (access_token_str t)) \<and> access_token_str t \<noteq> []" for x t
    by (cases t) auto
  have s: "(case m of None \<Rightarrow> y = None | Some v \<Rightarrow> (\<exists>x. v = JString x \<and> y = Some x)) \<longleftrightarrow>
      map_option JString y = m" for m y
    by (cases m; cases y) auto
  have u: "(case m of None \<Rightarrow> y = None | Some v \<Rightarrow> (\<exists>x. json_as_u64 v = Some x \<and> y = Some x)) \<longleftrightarrow>
      (case m of None \<Rightarrow> y = None | Some v \<Rightarrow> y \<noteq> None \<and> json_as_u64 v = y)" for m y
    by (cases m; cases y) auto
  show ?thesis
    unfolding decode_token_response_object option_field_member refresh_field_member value_eq_Inr a s u
    by (simp only: map_members_Inr simp_thms conj_assoc)
qed

text \<open>
  The \<^verbatim>\<open>Debug\<close> output of a token response does not depend on the access token, on the refresh
  token or on the ID token, only on whether the latter two are there; that of an ID token depends
  on its header fields only.
\<close>

theorem token_debug_redacted:
  "token_response_debug D r =
     token_response_debug D (r\<lparr>resp_access_token := a,
       resp_refresh_token := map_option (\<lambda>_. b) (resp_refresh_token r),
       resp_id_token := map_option (\<lambda>_. c) (resp_id_token r)\<rparr>) \<and>
   id_token_debug D t = id_token_debug D (t\<lparr>id_token_raw := c, id_token_claims := d\<rparr>)"
  by (simp add: token_response_debug_def access_token_debug_def debug_refresh_option_def
      refresh_token_debug_def id_token_debug_def option.map_comp o_def split: option.splits)

end
