(* ===== verification/Verify.thy ===== *)
theory Verify
  imports Metadata Token_Response Instances
begin

text \<open>
  src/token/verify.rs: verification of an ID token, for the build with the default backend (with
  \<^verbatim>\<open>boring\<close> the branch for secp256k1 is absent). The key lookup goes through the shared key cache
  and so runs on the world; the claim checks read the system clock, \<^verbatim>\<open>JwtConsumer\<close> once and
  \<^verbatim>\<open>check_auth_time\<close> once.

  \<open>id_token_accepted\<close> states in one place what an accepted token satisfies, without the operations
  of the code; \<open>verify_accepts_iff\<close> shows that the code accepts exactly those. The algorithm policies of this verifier and of the one for
  UserInfo share the locale \<open>alg_policy\<close>.
\<close>

section \<open>Configuration\<close>

record verify_context =
  expected_nonce :: "bytes option"
  ctx_access_token :: "bytes option"
  ctx_client_id :: "bytes option"
  ctx_clock_skew :: "duration option"
  expected_max_age :: "duration option"

definition default_allowed_algs :: "bytes list" where
  "default_allowed_algs =
     [''RS256'', ''RS384'', ''RS512'', ''ES256'', ''ES384'', ''ES512'', ''PS256'', ''PS384'', ''PS512'', ''EdDSA'']"

definition is_forbidden_alg :: "bytes \<Rightarrow> bool" where
  "is_forbidden_alg alg \<longleftrightarrow>
     eq_ignore_ascii_case alg ''none'' \<or> alg = ''HS256'' \<or> alg = ''HS384'' \<or> alg = ''HS512''"

record id_token_verifier =
  expected_issuer :: bytes
  expected_audience :: bytes
  allowed_algs :: "bytes list"

definition verifier_new :: "bytes \<Rightarrow> bytes \<Rightarrow> id_token_verifier" where
  "verifier_new iss aud =
     \<lparr>expected_issuer = iss, expected_audience = aud, allowed_algs = default_allowed_algs\<rparr>"

definition verifier_from_metadata :: "'u provider_metadata \<Rightarrow> bytes \<Rightarrow> id_token_verifier" where
  "verifier_from_metadata m aud =
     \<lparr>expected_issuer = issuer_as_str (metadata_issuer m), expected_audience = aud,
      allowed_algs = filter (\<lambda>alg. \<not> is_forbidden_alg alg) (id_token_signing_alg_values_supported m)\<rparr>"

definition allow_alg :: "bytes \<Rightarrow> id_token_verifier \<Rightarrow> id_token_verifier" where
  "allow_alg alg v = v\<lparr>allowed_algs := allowed_algs v @ [alg]\<rparr>"

definition with_allowed_algs :: "bytes list \<Rightarrow> id_token_verifier \<Rightarrow> id_token_verifier" where
  "with_allowed_algs algs v = v\<lparr>allowed_algs := algs\<rparr>"

definition check_alg :: "id_token_verifier \<Rightarrow> bytes \<Rightarrow> oidc_error + unit" where
  "check_alg v alg =
     (if eq_ignore_ascii_case alg ''none''
      then Inl (UnsupportedAlgorithm ''the `none` algorithm is never accepted for ID tokens'')
      else if \<not> list_ex (\<lambda>a. a = alg) (allowed_algs v) then Inl (UnsupportedAlgorithm alg)
      else Inr ())"

definition invalid_id_token :: "bytes \<Rightarrow> oidc_error" where
  "invalid_id_token msg = InvalidIdToken (InvalidJwtError msg)"

section \<open>Key and signature\<close>

definition resolve_key ::
  "('jws, 'key, 'claims, 'jwks, 'w) jose_lib \<Rightarrow> 'jwks \<Rightarrow> 'claims id_token \<Rightarrow> 'w \<Rightarrow>
   (oidc_error + 'key) \<times> 'w" where
  "resolve_key K jwks t =
     binds (map_errs Jose (jwks_select K jwks (header_kid t) (header_alg t))) (\<lambda>key.
       lifts (ok_or (NoMatchingJwk (header_kid t) (header_alg t)) key))"

definition id_token_consumer :: "id_token_verifier \<Rightarrow> verify_context \<Rightarrow> consumer_config" where
  "id_token_consumer v ctx =
     (let builder = jwt_consumer_builder_new\<lparr>cc_expected_issuer := Some (expected_issuer v),
            cc_expected_audience := Some (True, False, [expected_audience v]),
            cc_require_subject := True, cc_require_issued_at := True,
            cc_require_expiration := True\<rparr>
      in case ctx_clock_skew ctx of
           Some skew \<Rightarrow> builder\<lparr>cc_clock_skew := Some skew\<rparr> | None \<Rightarrow> builder)"

text \<open>\<open>signed_payload\<close> is the first half of \<^verbatim>\<open>verify_signature_and_claims\<close>, before the clock is read.\<close>

definition signed_payload ::
  "('jws, 'key, 'claims, 'jwks, 'w) jose_lib \<Rightarrow> 'claims id_token \<Rightarrow> 'key \<Rightarrow> oidc_error + bytes" where
  "signed_payload K t key =
     bindr (map_errr Jose (jws_from_compact K (id_token_raw t))) (\<lambda>jws.
     bindr (map_errr Jose (jws_verify_signature K jws key)) (\<lambda>ok.
     if \<not> ok then Inl (invalid_id_token ''JWS signature is invalid'')
     else bindr (map_errr Jose (jws_payload K jws key)) (\<lambda>payload.
     if \<not> utf8_valid payload then Inl (invalid_id_token ''JWT payload is not valid UTF-8'')
     else Inr payload)))"

definition verify_signature_and_claims ::
  "('jws, 'key, 'claims, 'jwks, 'w) jose_lib \<Rightarrow> 'w runtime \<Rightarrow> id_token_verifier \<Rightarrow> 'claims id_token \<Rightarrow>
   'key \<Rightarrow> verify_context \<Rightarrow> 'w \<Rightarrow> (oidc_error + 'claims) \<times> 'w" where
  "verify_signature_and_claims K R v t key ctx =
     binds (lifts (signed_payload K t key)) (\<lambda>payload w.
       case system_now R w of (now, w') \<Rightarrow>
         (map_errr InvalidIdToken (process_to_claims K (id_token_consumer v ctx) now payload), w'))"

section \<open>Claim checks\<close>

definition check_azp ::
  "('jws, 'key, 'claims, 'jwks, 'w) jose_lib \<Rightarrow> 'claims \<Rightarrow> verify_context \<Rightarrow> bytes \<Rightarrow> oidc_error + unit"
  where
  "check_azp K claims ctx audience =
     (let azp = claims_string K claims ''azp'';
          multi_aud = (case claims_audience K claims of Some aud \<Rightarrow> length aud > 1 | None \<Rightarrow> False)
      in if multi_aud \<and> azp = None
         then Inl (invalid_id_token ''azp claim required when aud has multiple values'')
         else case azp of
           None \<Rightarrow> Inr ()
         | Some azp \<Rightarrow>
             (let expected = (case ctx_client_id ctx of Some c \<Rightarrow> c | None \<Rightarrow> audience) in
              if azp \<noteq> expected then Inl (invalid_id_token ''azp does not match client_id'')
              else Inr ()))"

definition check_nonce ::
  "('jws, 'key, 'claims, 'jwks, 'w) jose_lib \<Rightarrow> crypto_lib \<Rightarrow> 'claims \<Rightarrow> verify_context \<Rightarrow>
   oidc_error + unit" where
  "check_nonce K C claims ctx =
     (case expected_nonce ctx of
        None \<Rightarrow> Inr ()
      | Some expected \<Rightarrow>
          bindr (ok_or (invalid_id_token ''nonce claim required'') (claims_string K claims ''nonce'')) (\<lambda>got.
          if \<not> ct_equals C got expected then Inl (invalid_id_token ''nonce does not match expected'')
          else Inr ()))"

definition auth_time_claim ::
  "('jws, 'key, 'claims, 'jwks, 'w) jose_lib \<Rightarrow> json_lib \<Rightarrow> 'claims \<Rightarrow> oidc_error + system_time" where
  "auth_time_claim K J claims =
     bindr (map_errr (\<lambda>_. invalid_id_token ''JWT claims could not be inspected'')
              (json_parse J (claims_to_json K claims))) (\<lambda>v.
     bindr (ok_or (invalid_id_token ''auth_time claim required when max_age was requested'')
              (json_get ''auth_time'' v)) (\<lambda>auth_time.
     bindr (ok_or (invalid_id_token ''auth_time claim must be a non-negative integer'')
              (json_as_u64 auth_time)) (\<lambda>seconds.
     ok_or (invalid_id_token ''auth_time claim is out of range'')
       (system_checked_add unix_epoch (from_secs seconds)))))"

definition auth_time_fresh ::
  "system_time \<Rightarrow> system_time \<Rightarrow> duration \<Rightarrow> duration \<Rightarrow> oidc_error + unit" where
  "auth_time_fresh auth_time now skew max_age =
     (if (case system_checked_add now skew of Some latest \<Rightarrow> latest < auth_time | None \<Rightarrow> False)
      then Inl (invalid_id_token ''auth_time claim is in the future'')
      else if (case Option.bind (system_checked_add auth_time max_age)
                      (\<lambda>deadline. system_checked_add deadline skew) of
                 Some deadline \<Rightarrow> deadline < now | None \<Rightarrow> False)
      then Inl (invalid_id_token ''authentication exceeds requested max_age'')
      else Inr ())"

definition check_auth_time ::
  "('jws, 'key, 'claims, 'jwks, 'w) jose_lib \<Rightarrow> json_lib \<Rightarrow> 'w runtime \<Rightarrow> 'claims \<Rightarrow> verify_context \<Rightarrow>
   'w \<Rightarrow> (oidc_error + unit) \<times> 'w" where
  "check_auth_time K J R claims ctx =
     (case expected_max_age ctx of
        None \<Rightarrow> lifts (Inr ())
      | Some max_age \<Rightarrow>
          binds (lifts (auth_time_claim K J claims)) (\<lambda>auth_time w.
            case system_now R w of (now, w') \<Rightarrow>
              (auth_time_fresh auth_time now (unwrap_duration (ctx_clock_skew ctx)) max_age, w')))"

definition half_digest :: "base64_lib \<Rightarrow> bytes \<Rightarrow> bytes" where
  "half_digest B digest = url_safe_encode B (take (length digest div 2) digest)"

definition calculate_at_hash ::
  "('jws, 'key, 'claims, 'jwks, 'w) jose_lib \<Rightarrow> crypto_lib \<Rightarrow> base64_lib \<Rightarrow> bytes \<Rightarrow>
   algorithm_identifier \<Rightarrow> bytes option \<Rightarrow> oidc_error + bytes" where
  "calculate_at_hash K C B token alg_id key_curve =
     (let none = Inl (UnsupportedAlgorithm (algorithm_name K alg_id @ '' does not identify an at_hash digest''));
          h256 = Inr (half_digest B (sha256 C token));
          h384 = Inr (half_digest B (sha384 C token));
          h512 = Inr (half_digest B (sha512 C token))
      in case alg_id of
        HmacSha256 \<Rightarrow> h256 | RsaUsingSha256 \<Rightarrow> h256 | EcdsaUsingP256CurveAndSha256 \<Rightarrow> h256
      | RsaPssUsingSha256 \<Rightarrow> h256 | EcdsaUsingSecp256k1CurveAndSha256 \<Rightarrow> h256
      | HmacSha384 \<Rightarrow> h384 | RsaUsingSha384 \<Rightarrow> h384 | EcdsaUsingP384CurveAndSha384 \<Rightarrow> h384
      | RsaPssUsingSha384 \<Rightarrow> h384
      | HmacSha512 \<Rightarrow> h512 | RsaUsingSha512 \<Rightarrow> h512 | EcdsaUsingP521CurveAndSha512 \<Rightarrow> h512
      | RsaPssUsingSha512 \<Rightarrow> h512
      | EdDsa \<Rightarrow> if key_curve = Some ''Ed25519'' then h512 else none
      | AlgNone \<Rightarrow> none)"

definition check_at_hash ::
  "('jws, 'key, 'claims, 'jwks, 'w) jose_lib \<Rightarrow> crypto_lib \<Rightarrow> base64_lib \<Rightarrow> 'claims \<Rightarrow> verify_context \<Rightarrow>
   algorithm_identifier \<Rightarrow> 'key \<Rightarrow> oidc_error + unit" where
  "check_at_hash K C B claims ctx alg_id key =
     (case claims_string K claims ''at_hash'' of
        None \<Rightarrow> Inr ()
      | Some at_hash \<Rightarrow>
          bindr (ok_or (InvalidAuthorizationRequest
                   ''access_token required in VerifyContext to validate at_hash'') (ctx_access_token ctx)) (\<lambda>token.
          bindr (calculate_at_hash K C B token alg_id (key_curve_name K key)) (\<lambda>expected.
          if at_hash \<noteq> expected then Inl AtHashMismatch else Inr ())))"

section \<open>Verification\<close>

definition resolve_algorithm ::
  "display_lib \<Rightarrow> ('jws, 'key, 'claims, 'jwks, 'w) jose_lib \<Rightarrow> bytes \<Rightarrow> oidc_error + algorithm_identifier"
  where
  "resolve_algorithm D K alg =
     map_errr (\<lambda>e. UnsupportedAlgorithm (show_jose_error D e)) (algorithm_try_from K alg)"

definition verify_id_token_with ::
  "display_lib \<Rightarrow> ('jws, 'key, 'claims, 'jwks, 'w) jose_lib \<Rightarrow> json_lib \<Rightarrow> crypto_lib \<Rightarrow> base64_lib \<Rightarrow>
   'w runtime \<Rightarrow> id_token_verifier \<Rightarrow> 'claims id_token \<Rightarrow> 'jwks \<Rightarrow> verify_context \<Rightarrow> 'w \<Rightarrow>
   (oidc_error + 'claims) \<times> 'w" where
  "verify_id_token_with D K J C B R v t jwks ctx =
     binds (lifts (check_alg v (header_alg t))) (\<lambda>_.
     binds (lifts (resolve_algorithm D K (header_alg t))) (\<lambda>alg_id.
     binds (resolve_key K jwks t) (\<lambda>key.
     binds (verify_signature_and_claims K R v t key ctx) (\<lambda>claims.
     binds (lifts (check_azp K claims ctx (expected_audience v))) (\<lambda>_.
     binds (lifts (check_nonce K C claims ctx)) (\<lambda>_.
     binds (lifts (check_at_hash K C B claims ctx alg_id key)) (\<lambda>_.
     binds (check_auth_time K J R claims ctx) (\<lambda>_.
     lifts (Inr claims)))))))))"
section \<open>The contract of an algorithm policy\<close>

locale alg_policy =
  fixes algs_of :: "'v \<Rightarrow> bytes list"
    and check :: "'v \<Rightarrow> bytes \<Rightarrow> oidc_error + unit"
    and make :: "bytes \<Rightarrow> bytes \<Rightarrow> 'v"
    and from_metadata :: "'u provider_metadata \<Rightarrow> bytes \<Rightarrow> 'v"
    and advertised :: "'u provider_metadata \<Rightarrow> bytes list option"
  assumes check_ok: "check v alg = Inr () \<longleftrightarrow> \<not> eq_ignore_ascii_case alg ''none'' \<and> alg \<in> set (algs_of v)"
    and check_error: "check v alg = Inl e \<Longrightarrow> \<exists>m. e = UnsupportedAlgorithm m"
    and make_algs: "algs_of (make iss aud) = default_allowed_algs"
    and metadata_algs: "algs_of (from_metadata m aud) =
          (case advertised m of None \<Rightarrow> default_allowed_algs
           | Some l \<Rightarrow> filter (\<lambda>alg. \<not> is_forbidden_alg alg) l)"
begin

lemma none_refused: "eq_ignore_ascii_case alg ''none'' \<Longrightarrow> \<exists>m. check v alg = Inl (UnsupportedAlgorithm m)"
  using check_ok [of v alg] check_error [of v alg] by (cases "check v alg") auto

lemma default_not_forbidden: "alg \<in> set default_allowed_algs \<Longrightarrow> \<not> is_forbidden_alg alg"
proof -
  have "\<forall>alg \<in> set default_allowed_algs. \<not> is_forbidden_alg alg" by code_simp
  then show "alg \<in> set default_allowed_algs \<Longrightarrow> \<not> is_forbidden_alg alg" by blast
qed

lemma from_metadata_accepts:
  "check (from_metadata m aud) alg = Inr () \<longleftrightarrow>
     \<not> is_forbidden_alg alg \<and>
     (case advertised m of None \<Rightarrow> alg \<in> set default_allowed_algs | Some l \<Rightarrow> alg \<in> set l)"
  using default_not_forbidden by (auto simp: check_ok metadata_algs is_forbidden_alg_def split: option.splits)

lemma make_accepts: "check (make iss aud) alg = Inr () \<longleftrightarrow> alg \<in> set default_allowed_algs"
  using default_not_forbidden by (auto simp: check_ok make_algs is_forbidden_alg_def)

end

interpretation id_alg: alg_policy allowed_algs check_alg verifier_new verifier_from_metadata
    "\<lambda>m. Some (id_token_signing_alg_values_supported m)"
  by unfold_locales
    (auto simp: check_alg_def list_ex_iff verifier_new_def verifier_from_metadata_def split: if_splits)

section \<open>What is accepted\<close>

definition azp_ok ::
  "('jws, 'key, 'claims, 'jwks, 'w) jose_lib \<Rightarrow> 'claims \<Rightarrow> verify_context \<Rightarrow> bytes \<Rightarrow> bool" where
  "azp_ok K claims ctx audience \<longleftrightarrow>
     (\<forall>aud. claims_audience K claims = Some aud \<longrightarrow> 1 < length aud \<longrightarrow> claims_string K claims ''azp'' \<noteq> None) \<and>
     (\<forall>azp. claims_string K claims ''azp'' = Some azp \<longrightarrow>
        azp = (case ctx_client_id ctx of Some c \<Rightarrow> c | None \<Rightarrow> audience))"

definition nonce_ok ::
  "('jws, 'key, 'claims, 'jwks, 'w) jose_lib \<Rightarrow> 'claims \<Rightarrow> verify_context \<Rightarrow> bool" where
  "nonce_ok K claims ctx \<longleftrightarrow>
     (\<forall>n. expected_nonce ctx = Some n \<longrightarrow> claims_string K claims ''nonce'' = Some n)"

text \<open>
  OpenID Connect Core 3.1.3.6, written out as a table: the hash of an algorithm is the one its name
  ends with (SHA-512 for Ed25519), and the value is the left half of the digest of the access token.
\<close>

definition at_hash_half ::
  "crypto_lib \<Rightarrow> algorithm_identifier \<Rightarrow> bytes option \<Rightarrow> bytes \<Rightarrow> bytes \<Rightarrow> bool" where
  "at_hash_half C alg_id curve token half \<longleftrightarrow>
     (alg_id \<in> {HmacSha256, RsaUsingSha256, RsaPssUsingSha256, EcdsaUsingP256CurveAndSha256,
         EcdsaUsingSecp256k1CurveAndSha256} \<and> half = take 16 (ffi_sha256 C token)) \<or>
     (alg_id \<in> {HmacSha384, RsaUsingSha384, RsaPssUsingSha384, EcdsaUsingP384CurveAndSha384} \<and>
        half = take 24 (ffi_sha384 C token)) \<or>
     ((alg_id \<in> {HmacSha512, RsaUsingSha512, RsaPssUsingSha512, EcdsaUsingP521CurveAndSha512} \<or>
         alg_id = EdDsa \<and> curve = Some ''Ed25519'') \<and> half = take 32 (ffi_sha512 C token))"

definition at_hash_ok ::
  "('jws, 'key, 'claims, 'jwks, 'w) jose_lib \<Rightarrow> crypto_lib \<Rightarrow> base64_lib \<Rightarrow> 'claims \<Rightarrow> verify_context \<Rightarrow>
   algorithm_identifier \<Rightarrow> 'key \<Rightarrow> bool" where
  "at_hash_ok K C B claims ctx alg_id key \<longleftrightarrow>
     (\<forall>h. claims_string K claims ''at_hash'' = Some h \<longrightarrow>
        (\<exists>token half. ctx_access_token ctx = Some token \<and>
           at_hash_half C alg_id (key_curve_name K key) token half \<and> h = url_safe_encode B half))"

text \<open>
  The standard claims, as the options of the consumer: \<^verbatim>\<open>iss\<close> is the issuer, \<^verbatim>\<open>aud\<close> is required and
  contains the audience, \<^verbatim>\<open>sub\<close>, \<^verbatim>\<open>iat\<close> and \<^verbatim>\<open>exp\<close> are required, and the clock may be off by the skew
  of the caller.
\<close>

definition standard_claims :: "bytes \<Rightarrow> bytes \<Rightarrow> duration option \<Rightarrow> consumer_config" where
  "standard_claims iss aud skew =
     \<lparr>cc_expected_issuer = Some iss, cc_expected_audience = Some (True, False, [aud]),
      cc_require_subject = True, cc_require_issued_at = True, cc_require_expiration = True,
      cc_clock_skew = skew\<rparr>"

text \<open>The window of \<^verbatim>\<open>auth_time\<close> in nanoseconds of unbounded integers.\<close>

definition auth_time_in_window :: "int \<Rightarrow> int \<Rightarrow> int \<Rightarrow> int \<Rightarrow> bool" where
  "auth_time_in_window auth now skew max_age \<longleftrightarrow> auth \<le> now + skew \<and> now \<le> auth + max_age + skew"

definition auth_time_ok ::
  "('jws, 'key, 'claims, 'jwks, 'w) jose_lib \<Rightarrow> json_lib \<Rightarrow> 'claims \<Rightarrow> verify_context \<Rightarrow> system_time \<Rightarrow> bool"
  where
  "auth_time_ok K J claims ctx now \<longleftrightarrow>
     (\<forall>max_age. expected_max_age ctx = Some max_age \<longrightarrow>
        (\<exists>doc v seconds. json_parse J (claims_to_json K claims) = Inr doc \<and>
           json_get ''auth_time'' doc = Some v \<and> json_as_u64 v = Some seconds \<and>
           int seconds * 1000000000 < clock_limit \<and>
           auth_time_in_window (int seconds * 1000000000) (system_nanos now)
             (int (as_nanos (unwrap_duration (ctx_clock_skew ctx)))) (int (as_nanos max_age))))"

definition id_token_accepted ::
  "('jws, 'key, 'claims, 'jwks, 'w) jose_lib \<Rightarrow> json_lib \<Rightarrow> crypto_lib \<Rightarrow> base64_lib \<Rightarrow>
   id_token_verifier \<Rightarrow> 'claims id_token \<Rightarrow> verify_context \<Rightarrow> 'key \<Rightarrow> system_time \<Rightarrow> system_time \<Rightarrow>
   'claims \<Rightarrow> bool" where
  "id_token_accepted K J C B v t ctx key now now' claims \<longleftrightarrow>
     header_alg t \<in> set (allowed_algs v) \<and> \<not> eq_ignore_ascii_case (header_alg t) ''none'' \<and>
     (\<exists>jws payload. jws_from_compact K (id_token_raw t) = Inr jws \<and>
        jws_verify_signature K jws key = Inr True \<and> jws_payload K jws key = Inr payload \<and>
        utf8_valid payload \<and>
        process_to_claims K (standard_claims (expected_issuer v) (expected_audience v) (ctx_clock_skew ctx))
          now payload = Inr claims) \<and>
     azp_ok K claims ctx (expected_audience v) \<and> nonce_ok K claims ctx \<and>
     (\<exists>alg_id. algorithm_try_from K (header_alg t) = Inr alg_id \<and>
        at_hash_ok K C B claims ctx alg_id key) \<and>
     auth_time_ok K J claims ctx now'"

lemma check_azp_ok: "check_azp K claims ctx aud = Inr () \<longleftrightarrow> azp_ok K claims ctx aud"
  by (auto simp: check_azp_def azp_ok_def Let_def split: option.splits)

lemma check_nonce_ok: "crypto_laws C \<Longrightarrow> check_nonce K C claims ctx = Inr () \<longleftrightarrow> nonce_ok K claims ctx"
  by (auto simp: check_nonce_def nonce_ok_def bindr_eq_Inr ct_equals_iff split: option.splits)

lemma id_token_consumer_standard:
  "id_token_consumer v ctx = standard_claims (expected_issuer v) (expected_audience v) (ctx_clock_skew ctx)"
  by (simp add: id_token_consumer_def standard_claims_def jwt_consumer_builder_new_def Let_def
      split: option.splits)

lemma calculate_at_hash_half:
  "crypto_laws C \<Longrightarrow> calculate_at_hash K C B token alg_id curve = Inr h \<longleftrightarrow>
     (\<exists>half. at_hash_half C alg_id curve token half \<and> h = url_safe_encode B half)"
  by (cases alg_id)
    (auto simp: calculate_at_hash_def at_hash_half_def half_digest_def sha256_def sha384_def sha512_def
      crypto_laws_def)

lemma check_at_hash_ok:
  "crypto_laws C \<Longrightarrow>
     check_at_hash K C B claims ctx alg_id key = Inr () \<longleftrightarrow> at_hash_ok K C B claims ctx alg_id key"
  by (auto simp: check_at_hash_def at_hash_ok_def bindr_eq_Inr calculate_at_hash_half split: option.splits)

lemma signed_payload_ok:
  "signed_payload K t key = Inr payload \<longleftrightarrow>
     (\<exists>jws. jws_from_compact K (id_token_raw t) = Inr jws \<and> jws_verify_signature K jws key = Inr True \<and>
        jws_payload K jws key = Inr payload \<and> utf8_valid payload)"
  by (auto simp: signed_payload_def bindr_eq_Inr)

text \<open>The overflow branches of the \<^verbatim>\<open>checked_add\<close> calls agree with unbounded arithmetic.\<close>

lemma auth_time_fresh_ok:
  assumes "system_nanos auth < clock_limit" and "system_nanos now < clock_limit"
  shows "auth_time_fresh auth now skew max_age = Inr () \<longleftrightarrow>
    auth_time_in_window (system_nanos auth) (system_nanos now) (int (as_nanos skew)) (int (as_nanos max_age))"
  using assms
  by (auto simp: auth_time_fresh_def auth_time_in_window_def system_checked_add_def less_system_time_def
      Option.bind_eq_Some_conv split: option.splits if_splits)

lemma auth_time_claim_ok:
  "auth_time_claim K J claims = Inr auth \<longleftrightarrow>
     (\<exists>doc v seconds. json_parse J (claims_to_json K claims) = Inr doc \<and>
        json_get ''auth_time'' doc = Some v \<and> json_as_u64 v = Some seconds \<and>
        int seconds * 1000000000 < clock_limit \<and> auth = SystemTime (int seconds * 1000000000))"
  by (auto simp: auth_time_claim_def bindr_eq_Inr system_checked_add_def unix_epoch_def from_secs_def
      nanos_per_sec_def)

lemma check_auth_time_ok:
  assumes "system_nanos (fst (system_now R w)) < clock_limit"
  shows "check_auth_time K J R claims ctx w = (Inr (), w') \<longleftrightarrow>
    auth_time_ok K J claims ctx (fst (system_now R w)) \<and>
    w' = (if expected_max_age ctx = None then w else snd (system_now R w))"
proof (cases "expected_max_age ctx")
  case None
  then show ?thesis by (auto simp: check_auth_time_def auth_time_ok_def)
next
  case (Some max_age)
  obtain now w1 where now: "system_now R w = (now, w1)" by fastforce
  have "check_auth_time K J R claims ctx w = (Inr (), w') \<longleftrightarrow>
      (\<exists>auth. auth_time_claim K J claims = Inr auth \<and>
         auth_time_fresh auth now (unwrap_duration (ctx_clock_skew ctx)) max_age = Inr () \<and> w' = w1)"
    by (auto simp: check_auth_time_def Some now io_simps)
  also have "\<dots> \<longleftrightarrow> (\<exists>doc v seconds. json_parse J (claims_to_json K claims) = Inr doc \<and>
        json_get ''auth_time'' doc = Some v \<and> json_as_u64 v = Some seconds \<and>
        int seconds * 1000000000 < clock_limit \<and>
        auth_time_fresh (SystemTime (int seconds * 1000000000)) now
          (unwrap_duration (ctx_clock_skew ctx)) max_age = Inr ()) \<and> w' = w1"
    unfolding auth_time_claim_ok by blast
  finally show ?thesis
    using assms auth_time_fresh_ok [of "SystemTime (int s * 1000000000)" now for s]
    by (simp add: auth_time_ok_def Some now) (intro conj_cong ex_cong refl; simp)
qed

lemma resolve_key_ok:
  "resolve_key K jwks t w = (Inr key, w') \<longleftrightarrow>
     jwks_select K jwks (header_kid t) (header_alg t) w = (Inr (Some key), w')"
  by (auto simp: resolve_key_def io_simps)

section \<open>The whole verification\<close>

lemma verify_steps:
  "verify_id_token_with D K J C B R v t jwks ctx w = (Inr claims, w') \<longleftrightarrow>
     (\<exists>alg_id key w1 now w2 payload.
        check_alg v (header_alg t) = Inr () \<and> algorithm_try_from K (header_alg t) = Inr alg_id \<and>
        jwks_select K jwks (header_kid t) (header_alg t) w = (Inr (Some key), w1) \<and>
        signed_payload K t key = Inr payload \<and> system_now R w1 = (now, w2) \<and>
        process_to_claims K (id_token_consumer v ctx) now payload = Inr claims \<and>
        check_azp K claims ctx (expected_audience v) = Inr () \<and> check_nonce K C claims ctx = Inr () \<and>
        check_at_hash K C B claims ctx alg_id key = Inr () \<and>
        check_auth_time K J R claims ctx w2 = (Inr (), w'))"
proof -
  have claims: "verify_signature_and_claims K R v t key ctx w1 = (Inr c, w2) \<longleftrightarrow>
      (\<exists>now payload. signed_payload K t key = Inr payload \<and> system_now R w1 = (now, w2) \<and>
         process_to_claims K (id_token_consumer v ctx) now payload = Inr c)" for key w1 c w2
    by (cases "system_now R w1") (auto simp: verify_signature_and_claims_def binds_eq_Inr)
  show ?thesis
    unfolding verify_id_token_with_def binds_eq_Inr lifts_simp prod.inject claims resolve_key_ok
      resolve_algorithm_def map_errr_eq_Inr by auto
qed

lemma verify_ok_iff:
  assumes "crypto_laws C" and "\<And>w. system_nanos (fst (system_now R w)) < clock_limit"
  shows "verify_id_token_with D K J C B R v t jwks ctx w = (Inr claims, w') \<longleftrightarrow>
    (\<exists>key w1 now w2. jwks_select K jwks (header_kid t) (header_alg t) w = (Inr (Some key), w1) \<and>
       system_now R w1 = (now, w2) \<and>
       id_token_accepted K J C B v t ctx key now (fst (system_now R w2)) claims \<and>
       w' = (if expected_max_age ctx = None then w2 else snd (system_now R w2)))"
  unfolding verify_steps id_alg.check_ok check_azp_ok check_nonce_ok [OF assms(1)]
    check_at_hash_ok [OF assms(1)] check_auth_time_ok [OF assms(2)] signed_payload_ok id_token_accepted_def
    id_token_consumer_standard
  by blast

section \<open>Properties\<close>

text \<open>
  C3. Verifying an ID token succeeds exactly if the token is acceptable: its algorithm is allowed
  and not \<^verbatim>\<open>none\<close>, a key of the set is found for its key id and algorithm, its signature verifies
  under that key, the signed payload passes the consumer with the configured issuer, audience,
  subject, issue and expiry checks (\<open>standard_claims\<close>), \<^verbatim>\<open>azp\<close> obeys OpenID Connect Core 3.1.3.7, the nonce is the expected
  one, \<^verbatim>\<open>at_hash\<close> (if present) encodes the left half of the digest that belongs to the algorithm
  (\<open>at_hash_half\<close>: 16, 24 or 32 bytes) of the access token, and \<^verbatim>\<open>auth_time\<close> lies in the
  window of the requested \<^verbatim>\<open>max_age\<close> (in unbounded arithmetic: no overflow accepts or refuses a
  token wrongly). The claims returned are those of the signed payload.
\<close>

theorem verify_accepts_iff:
  assumes "crypto_laws C" and "\<And>w. system_nanos (fst (system_now R w)) < clock_limit"
  shows "verify_id_token_with D K J C B R v t jwks ctx w = (Inr claims, w') \<longleftrightarrow>
    (\<exists>key w1 now w2. jwks_select K jwks (header_kid t) (header_alg t) w = (Inr (Some key), w1) \<and>
       system_now R w1 = (now, w2) \<and>
       id_token_accepted K J C B v t ctx key now (fst (system_now R w2)) claims \<and>
       w' = (if expected_max_age ctx = None then w2 else snd (system_now R w2)))"
  by (rule verify_ok_iff [OF assms])

definition example_claims :: json where
  "example_claims = JObject [(''iss'', JString ''https://op''), (''sub'', JString ''alice''),
     (''aud'', JString ''rp''), (''nonce'', JString ''n-1''), (''auth_time'', JNumber (PosInt 1000))]"

definition example_docs :: "(bytes \<times> json) list" where
  "example_docs = [(''P'', example_claims)]"

definition example_token :: "json id_token" where
  "example_token = \<lparr>id_token_raw = ''RS256.k1.P.k1'', id_token_claims = example_claims,
     header_alg = ''RS256'', header_kid = Some ''k1''\<rparr>"

definition example_context :: verify_context where
  "example_context = \<lparr>expected_nonce = Some ''n-1'', ctx_access_token = Some ''at'',
     ctx_client_id = Some ''rp'', ctx_clock_skew = None, expected_max_age = Some (from_secs 60)\<rparr>"

definition still_clock :: "int \<Rightarrow> unit runtime" where
  "still_clock now = \<lparr>http_execute = (\<lambda>r w. (Inl (Http ''offline''), w)),
     instant_now = (\<lambda>w. (Instant 0, w)), system_now = (\<lambda>w. (SystemTime now, w)),
     rand_bytes = (\<lambda>n w. (replicate n (CHR 0x00), w))\<rparr>"

theorem verify_accepts_iff_witness:
  "verify_id_token_with plain_display (table_jose example_docs) (table_json example_docs) pad_crypto
     std_base64 (still_clock (1030 * 1000000000)) (verifier_new ''https://op'' ''rp'') example_token ''jwks''
     example_context () = (Inr example_claims, ())"
proof -
  have time: "auth_time_ok (table_jose example_docs) (table_json example_docs) example_claims
      example_context (SystemTime (1030 * 1000000000))"
    by (simp add: auth_time_ok_def example_context_def table_jose_def table_json_def example_docs_def
        example_claims_def json_get_def json_as_u64_def clock_limit_def auth_time_in_window_def
        unwrap_duration_def from_secs_def nanos_per_sec_def)
  have rest: "azp_ok (table_jose example_docs) example_claims example_context ''rp''"
    "nonce_ok (table_jose example_docs) example_claims example_context"
    "at_hash_ok (table_jose example_docs) pad_crypto std_base64 example_claims example_context
       RsaUsingSha256 ''k1''"
    by (simp_all add: azp_ok_def nonce_ok_def at_hash_ok_def table_jose_def example_claims_def
        json_string_member_def json_get_def table_audience_def example_context_def)
  have jws: "table_jws_parse ''RS256.k1.P.k1'' = Inr (''RS256'', ''k1'', ''P'', ''k1'')"
    by (simp add: table_jws_parse_def)
  have process: "table_process example_docs cfg now ''P'' = Inr example_claims"
    if "cc_expected_issuer cfg = Some ''https://op''" for cfg now
    using that by (simp add: table_process_def example_docs_def example_claims_def json_string_member_def
        json_get_def)
  have cfg: "cc_expected_issuer (standard_claims ''https://op'' aud skew) = Some ''https://op''" for aud skew
    by (simp add: standard_claims_def)
  have alg: "table_algorithm ''RS256'' = Inr RsaUsingSha256" "''RS256'' \<in> set default_allowed_algs"
    "\<not> eq_ignore_ascii_case ''RS256'' ''none''" "utf8_valid ''P''"
    by (simp_all add: table_algorithm_def default_allowed_algs_def eq_ignore_ascii_case_def in_range_def)
  have "id_token_accepted (table_jose example_docs) (table_json example_docs) pad_crypto std_base64
      (verifier_new ''https://op'' ''rp'') example_token example_context ''k1''
      (SystemTime (1030 * 1000000000)) (SystemTime (1030 * 1000000000)) example_claims"
    using time rest jws process [OF cfg] alg
    by (auto simp: id_token_accepted_def verifier_new_def example_token_def)
  moreover have "system_nanos (fst (system_now (still_clock (1030 * 1000000000)) w)) < clock_limit" for w
    by (simp add: still_clock_def clock_limit_def)
  ultimately show ?thesis
    unfolding verify_accepts_iff [OF pad_crypto_laws \<open>\<And>w. system_nanos (fst (system_now
      (still_clock (1030 * 1000000000)) w)) < clock_limit\<close>]
    by (simp add: still_clock_def example_token_def)
qed

text \<open>
  The verifier that discovery configures accepts exactly the advertised algorithms that are
  neither \<^verbatim>\<open>none\<close> nor of the symmetric HS family; a default verifier accepts exactly the ten
  asymmetric ones; and whatever a caller puts on the list (even \<^verbatim>\<open>none\<close>), an algorithm is accepted
  exactly if it is listed and is not \<^verbatim>\<open>none\<close> in any letter case.
\<close>

theorem id_token_algorithms:
  "(check_alg (verifier_from_metadata m aud) alg = Inr () \<longleftrightarrow>
      alg \<in> set (id_token_signing_alg_values_supported m) \<and> \<not> is_forbidden_alg alg) \<and>
   (check_alg (verifier_new iss aud) alg = Inr () \<longleftrightarrow> alg \<in> set default_allowed_algs) \<and>
   (check_alg (allow_alg extra (with_allowed_algs algs v)) alg = Inr () \<longleftrightarrow>
      (alg \<in> set algs \<or> alg = extra) \<and> \<not> eq_ignore_ascii_case alg ''none'')"
  using id_alg.from_metadata_accepts [of m aud alg] id_alg.make_accepts [of iss aud alg]
  by (auto simp: id_alg.check_ok allow_alg_def with_allowed_algs_def)

end
