(* ===== verification/User_Info.thy ===== *)
theory User_Info
  imports Verify
begin

text \<open>
  src/token/userinfo.rs: the UserInfo claims, read from JSON or from a signed response, and the
  policy for signed responses.
\<close>

section \<open>The claims\<close>

record user_info =
  ui_sub :: bytes
  ui_name :: "bytes option"
  ui_given_name :: "bytes option"
  ui_family_name :: "bytes option"
  ui_middle_name :: "bytes option"
  ui_nickname :: "bytes option"
  ui_preferred_username :: "bytes option"
  ui_profile :: "bytes option"
  ui_picture :: "bytes option"
  ui_website :: "bytes option"
  ui_email :: "bytes option"
  ui_email_verified :: "bool option"
  ui_phone_number :: "bytes option"
  ui_phone_number_verified :: "bool option"
  ui_address :: "json option"
  ui_zoneinfo :: "bytes option"
  ui_locale :: "bytes option"
  ui_updated_at :: "int option"
  ui_extra :: "bytes \<Rightarrow> json option"

definition user_info_fields :: "bytes list" where
  "user_info_fields =
          [''sub'', ''name'', ''given_name'', ''family_name'', ''middle_name'', ''nickname'',
      ''preferred_username'', ''profile'', ''picture'', ''website'', ''email'', ''email_verified'',
      ''phone_number'', ''phone_number_verified'', ''address'', ''zoneinfo'', ''locale'',
      ''updated_at'']"

definition decode_user_info :: "json \<Rightarrow> json_error + user_info" where
  "decode_user_info v =
     bindr (map_members user_info_fields v) (\<lambda>ms.
     bindr (required_field as_string ''sub'' ms) (\<lambda>sub.
     bindr (option_field as_string ''name'' ms) (\<lambda>f0.
     bindr (option_field as_string ''given_name'' ms) (\<lambda>f1.
     bindr (option_field as_string ''family_name'' ms) (\<lambda>f2.
     bindr (option_field as_string ''middle_name'' ms) (\<lambda>f3.
     bindr (option_field as_string ''nickname'' ms) (\<lambda>f4.
     bindr (option_field as_string ''preferred_username'' ms) (\<lambda>f5.
     bindr (option_field as_string ''profile'' ms) (\<lambda>f6.
     bindr (option_field as_string ''picture'' ms) (\<lambda>f7.
     bindr (option_field as_string ''website'' ms) (\<lambda>f8.
     bindr (option_field as_string ''email'' ms) (\<lambda>f9.
     bindr (option_field as_bool ''email_verified'' ms) (\<lambda>f10.
     bindr (option_field as_string ''phone_number'' ms) (\<lambda>f11.
     bindr (option_field as_bool ''phone_number_verified'' ms) (\<lambda>f12.
     bindr (option_field as_value ''address'' ms) (\<lambda>f13.
     bindr (option_field as_string ''zoneinfo'' ms) (\<lambda>f14.
     bindr (option_field as_string ''locale'' ms) (\<lambda>f15.
     bindr (option_field as_i64 ''updated_at'' ms) (\<lambda>f16.
       Inr \<lparr>ui_sub = sub,
            ui_name = f0,
            ui_given_name = f1,
            ui_family_name = f2,
            ui_middle_name = f3,
            ui_nickname = f4,
            ui_preferred_username = f5,
            ui_profile = f6,
            ui_picture = f7,
            ui_website = f8,
            ui_email = f9,
            ui_email_verified = f10,
            ui_phone_number = f11,
            ui_phone_number_verified = f12,
            ui_address = f13,
            ui_zoneinfo = f14,
            ui_locale = f15,
            ui_updated_at = f16,
            ui_extra = extra_members user_info_fields ms\<rparr>)))))))))))))))))))"

definition user_info_from_json :: "json_lib \<Rightarrow> bytes \<Rightarrow> oidc_error + user_info" where
  "user_info_from_json J bs = map_errr Json (from_json_slice J decode_user_info bs)"

definition verify_subject :: "user_info \<Rightarrow> bytes \<Rightarrow> oidc_error + unit" where
  "verify_subject u expected = (if ui_sub u \<noteq> expected then Inl UserInfoSubjectMismatch else Inr ())"

section \<open>Signed responses\<close>

record user_info_verifier =
  ui_expected_issuer :: bytes
  ui_expected_audience :: bytes
  ui_allowed_algs :: "bytes list"

definition user_info_verifier_new :: "bytes \<Rightarrow> bytes \<Rightarrow> user_info_verifier" where
  "user_info_verifier_new iss aud =
     \<lparr>ui_expected_issuer = iss, ui_expected_audience = aud, ui_allowed_algs = default_allowed_algs\<rparr>"

definition user_info_verifier_from_metadata ::
  "'u provider_metadata \<Rightarrow> bytes \<Rightarrow> user_info_verifier" where
  "user_info_verifier_from_metadata m aud =
     \<lparr>ui_expected_issuer = issuer_as_str (metadata_issuer m), ui_expected_audience = aud,
      ui_allowed_algs = (case userinfo_signing_alg_values_supported m of
          Some advertised \<Rightarrow> filter (\<lambda>alg. \<not> is_forbidden_alg alg) advertised
        | None \<Rightarrow> default_allowed_algs)\<rparr>"

definition user_info_with_allowed_algs :: "bytes list \<Rightarrow> user_info_verifier \<Rightarrow> user_info_verifier" where
  "user_info_with_allowed_algs algs v = v\<lparr>ui_allowed_algs := algs\<rparr>"

text \<open>The first two checks of \<^verbatim>\<open>UserInfoVerifier::verify\<close>.\<close>

definition check_user_info_alg :: "user_info_verifier \<Rightarrow> bytes \<Rightarrow> oidc_error + unit" where
  "check_user_info_alg v alg =
     (if eq_ignore_ascii_case alg ''none''
      then Inl (UnsupportedAlgorithm ''the `none` algorithm is never accepted for UserInfo'')
      else if \<not> list_ex (\<lambda>allowed. allowed = alg) (ui_allowed_algs v) then Inl (UnsupportedAlgorithm alg)
      else Inr ())"

definition user_info_payload ::
  "('jws, 'key, 'claims, 'jwks, 'w) jose_lib \<Rightarrow> bytes \<Rightarrow> 'key \<Rightarrow> oidc_error + bytes" where
  "user_info_payload K compact key =
     bindr (map_errr Jose (jws_from_compact K compact)) (\<lambda>jws.
     bindr (map_errr Jose (jws_verify_signature K jws key)) (\<lambda>ok.
     if \<not> ok then Inl (InvalidUserInfoJwt (InvalidJwtError ''JWS signature is invalid''))
     else bindr (map_errr Jose (jws_payload K jws key)) (\<lambda>payload.
     if \<not> utf8_valid payload
     then Inl (InvalidUserInfoJwt (InvalidJwtError ''JWT payload is not valid UTF-8''))
     else Inr payload)))"

definition user_info_consumer :: "user_info_verifier \<Rightarrow> consumer_config" where
  "user_info_consumer v =
     jwt_consumer_builder_new\<lparr>cc_expected_issuer := Some (ui_expected_issuer v),
       cc_expected_audience := Some (True, False, [ui_expected_audience v])\<rparr>"

definition user_info_from_signed_jwt ::
  "display_lib \<Rightarrow> ('jws, 'key, 'claims, 'jwks, 'w) jose_lib \<Rightarrow> json_lib \<Rightarrow> 'w runtime \<Rightarrow> bytes \<Rightarrow>
   user_info_verifier \<Rightarrow> 'jwks \<Rightarrow> 'w \<Rightarrow> (oidc_error + user_info) \<times> 'w" where
  "user_info_from_signed_jwt D K J R compact v jwks =
     binds (lifts (map_errr Jose (id_token_parse K compact))) (\<lambda>t.
     binds (lifts (check_user_info_alg v (header_alg t))) (\<lambda>_.
     binds (lifts (resolve_algorithm D K (header_alg t))) (\<lambda>_.
     binds (resolve_key K jwks t) (\<lambda>key.
     binds (lifts (user_info_payload K compact key)) (\<lambda>payload w.
       case system_now R w of (now, w') \<Rightarrow>
         (bindr (map_errr InvalidUserInfoJwt (process_to_claims K (user_info_consumer v) now payload))
            (\<lambda>_. user_info_from_json J payload), w'))))))"

interpretation ui_alg: alg_policy ui_allowed_algs check_user_info_alg user_info_verifier_new
    user_info_verifier_from_metadata userinfo_signing_alg_values_supported
  by unfold_locales
    (auto simp: check_user_info_alg_def list_ex_iff user_info_verifier_new_def
      user_info_verifier_from_metadata_def split: if_splits option.splits)

section \<open>Lemmas\<close>

lemma decode_user_info_sub:
  "decode_user_info v = Inr u \<Longrightarrow>
     \<exists>ms. v = JObject ms \<and> map_of ms ''sub'' = Some (JString (ui_sub u)) \<and>
       ui_extra u = extra_members user_info_fields ms"
  unfolding decode_user_info_def bindr_eq_Inr by (elim exE conjE) (auto simp: decode_simps)

text \<open>
  The claims of OpenID Connect Core 5.1 as they stand in an object, member by member: an optional
  claim that is missing or \<^verbatim>\<open>null\<close> is none, and one of another type makes the document unreadable.
\<close>

definition text_claim :: "members \<Rightarrow> bytes \<Rightarrow> bytes option \<Rightarrow> bool" where
  "text_claim ms k x \<longleftrightarrow>
     (case map_of ms k of None \<Rightarrow> x = None | Some JNull \<Rightarrow> x = None | Some v \<Rightarrow> \<exists>s. v = JString s \<and> x = Some s)"

definition bool_claim :: "members \<Rightarrow> bytes \<Rightarrow> bool option \<Rightarrow> bool" where
  "bool_claim ms k x \<longleftrightarrow>
     (case map_of ms k of None \<Rightarrow> x = None | Some JNull \<Rightarrow> x = None | Some v \<Rightarrow> \<exists>b. v = JBool b \<and> x = Some b)"

definition value_claim :: "members \<Rightarrow> bytes \<Rightarrow> json option \<Rightarrow> bool" where
  "value_claim ms k x \<longleftrightarrow>
     (case map_of ms k of None \<Rightarrow> x = None | Some JNull \<Rightarrow> x = None | Some v \<Rightarrow> x = Some v)"

definition integer_claim :: "members \<Rightarrow> bytes \<Rightarrow> int option \<Rightarrow> bool" where
  "integer_claim ms k x \<longleftrightarrow>
     (case map_of ms k of None \<Rightarrow> x = None | Some JNull \<Rightarrow> x = None
      | Some v \<Rightarrow> \<exists>i. json_as_i64 v = Some i \<and> x = Some i)"

definition user_info_reads :: "members \<Rightarrow> user_info \<Rightarrow> bool" where
  "user_info_reads ms u \<longleftrightarrow>
     map_of ms ''sub'' = Some (JString (ui_sub u)) \<and>
     text_claim ms ''name'' (ui_name u) \<and> text_claim ms ''given_name'' (ui_given_name u) \<and>
     text_claim ms ''family_name'' (ui_family_name u) \<and> text_claim ms ''middle_name'' (ui_middle_name u) \<and>
     text_claim ms ''nickname'' (ui_nickname u) \<and>
     text_claim ms ''preferred_username'' (ui_preferred_username u) \<and>
     text_claim ms ''profile'' (ui_profile u) \<and> text_claim ms ''picture'' (ui_picture u) \<and>
     text_claim ms ''website'' (ui_website u) \<and> text_claim ms ''email'' (ui_email u) \<and>
     bool_claim ms ''email_verified'' (ui_email_verified u) \<and>
     text_claim ms ''phone_number'' (ui_phone_number u) \<and>
     bool_claim ms ''phone_number_verified'' (ui_phone_number_verified u) \<and>
     value_claim ms ''address'' (ui_address u) \<and>
     text_claim ms ''zoneinfo'' (ui_zoneinfo u) \<and> text_claim ms ''locale'' (ui_locale u) \<and>
     integer_claim ms ''updated_at'' (ui_updated_at u) \<and>
     (\<forall>k. ui_extra u k = (if k \<in> set user_info_fields then None else map_of (rev ms) k)) \<and>
     (\<forall>k \<in> set user_info_fields. length (filter (\<lambda>(k', v). k' = k) ms) \<le> 1)"

lemma option_claims:
  "option_field as_string k ms = Inr x \<longleftrightarrow> text_claim ms k x"
  "option_field as_bool k ms = Inr y \<longleftrightarrow> bool_claim ms k y"
  "option_field as_value k ms = Inr a \<longleftrightarrow> value_claim ms k a"
  "option_field as_i64 k ms = Inr t \<longleftrightarrow> integer_claim ms k t"
  by (auto simp: text_claim_def bool_claim_def value_claim_def integer_claim_def option_field_def decode_simps
      split: option.splits json.splits)

lemma extra_members_reads:
  "extra_members names ms k = (if k \<in> set names then None else map_of (rev ms) k)"
proof -
  have "map_of (filter (\<lambda>(k, v). k \<notin> set names) xs) k = (if k \<in> set names then None else map_of xs k)"
    for xs :: members by (induction xs) auto
  then show ?thesis by (simp add: extra_members_def rev_filter)
qed

lemma distinct_members:
  "distinct (filter (\<lambda>k. k \<in> K) (map fst ms)) \<longleftrightarrow>
     (\<forall>k \<in> K. length (filter (\<lambda>(k', v). k' = k) ms) \<le> 1)" for ms :: members
proof -
  have count: "length (filter (\<lambda>(k', v). k' = k) ms) = count_list (map fst ms) k" for k
    by (induction ms) auto
  have "distinct (filter (\<lambda>k. k \<in> K) xs) \<longleftrightarrow> (\<forall>k \<in> K. count_list xs k \<le> 1)" for xs :: "bytes list"
  proof (induction xs)
    case (Cons x xs)
    have "x \<notin> set xs \<longleftrightarrow> count_list xs x = 0" by (simp add: count_list_0_iff)
    then show ?case using Cons by (auto simp: le_Suc_eq)
  qed simp
  then show ?thesis unfolding count .
qed

lemma decode_user_info_reads: "decode_user_info (JObject ms) = Inr u \<longleftrightarrow> user_info_reads ms u"
proof -
  have extra: "ui_extra u = extra_members user_info_fields ms \<longleftrightarrow>
      (\<forall>k. ui_extra u k = (if k \<in> set user_info_fields then None else map_of (rev ms) k))"
    by (simp add: fun_eq_iff extra_members_reads)
  show ?thesis
    unfolding decode_user_info_def bindr_eq_Inr map_members_Inr required_field_Inr option_claims
      distinct_members user_info_reads_def extra [symmetric]
    by (cases u) auto
qed

lemma user_info_payload_ok:
  "user_info_payload K compact key = Inr payload \<longleftrightarrow>
     (\<exists>jws. jws_from_compact K compact = Inr jws \<and> jws_verify_signature K jws key = Inr True \<and>
        jws_payload K jws key = Inr payload \<and> utf8_valid payload)"
  by (auto simp: user_info_payload_def bindr_eq_Inr)

text \<open>
  What a signed response must satisfy: the consumer checks \<^verbatim>\<open>iss\<close> and \<^verbatim>\<open>aud\<close> and, unlike the one for ID
  tokens, requires no other claim (OpenID Connect Core 5.3.2); the subject must be in the document.
\<close>

definition user_info_claims_checks :: "bytes \<Rightarrow> bytes \<Rightarrow> consumer_config" where
  "user_info_claims_checks iss aud =
     \<lparr>cc_expected_issuer = Some iss, cc_expected_audience = Some (True, False, [aud]),
      cc_require_subject = False, cc_require_issued_at = False, cc_require_expiration = False,
      cc_clock_skew = None\<rparr>"

lemma user_info_consumer_checks:
  "user_info_consumer v = user_info_claims_checks (ui_expected_issuer v) (ui_expected_audience v)"
  by (simp add: user_info_consumer_def user_info_claims_checks_def jwt_consumer_builder_new_def)

definition user_info_accepted ::
  "('jws, 'key, 'claims, 'jwks, 'w) jose_lib \<Rightarrow> json_lib \<Rightarrow> user_info_verifier \<Rightarrow> bytes \<Rightarrow>
   'claims id_token \<Rightarrow> 'key \<Rightarrow> system_time \<Rightarrow> user_info \<Rightarrow> bool" where
  "user_info_accepted K J v compact t key now u \<longleftrightarrow>
     header_alg t \<in> set (ui_allowed_algs v) \<and> \<not> eq_ignore_ascii_case (header_alg t) ''none'' \<and>
     (\<exists>alg_id. algorithm_try_from K (header_alg t) = Inr alg_id) \<and>
     (\<exists>jws payload claims ms. jws_from_compact K compact = Inr jws \<and>
        jws_verify_signature K jws key = Inr True \<and> jws_payload K jws key = Inr payload \<and>
        utf8_valid payload \<and>
        process_to_claims K (user_info_claims_checks (ui_expected_issuer v) (ui_expected_audience v))
          now payload = Inr claims \<and>
        json_parse J payload = Inr (JObject ms) \<and> user_info_reads ms u)"

lemma user_info_document:
  "from_json_slice J decode_user_info payload = Inr u \<longleftrightarrow>
     (\<exists>ms. json_parse J payload = Inr (JObject ms) \<and> user_info_reads ms u)"
  using decode_user_info_sub
  by (fastforce simp: from_json_slice_def bindr_eq_Inr decode_user_info_reads [symmetric])

lemma user_info_steps:
  "user_info_from_signed_jwt D K J R compact v jwks w = (Inr u, w') \<longleftrightarrow>
     (\<exists>t alg_id key w1 payload now claims. id_token_parse K compact = Inr t \<and>
        check_user_info_alg v (header_alg t) = Inr () \<and> algorithm_try_from K (header_alg t) = Inr alg_id \<and>
        jwks_select K jwks (header_kid t) (header_alg t) w = (Inr (Some key), w1) \<and>
        user_info_payload K compact key = Inr payload \<and> system_now R w1 = (now, w') \<and>
        process_to_claims K (user_info_consumer v) now payload = Inr claims \<and>
        from_json_slice J decode_user_info payload = Inr u)"
proof -
  have tail: "(case system_now R w1 of (now, w') \<Rightarrow>
         (bindr (map_errr InvalidUserInfoJwt (process_to_claims K (user_info_consumer v) now payload))
            (\<lambda>_. user_info_from_json J payload), w')) = (Inr u, w') \<longleftrightarrow>
      (\<exists>now claims. system_now R w1 = (now, w') \<and>
         process_to_claims K (user_info_consumer v) now payload = Inr claims \<and>
         from_json_slice J decode_user_info payload = Inr u)" for payload w1
    by (cases "system_now R w1") (auto simp: bindr_eq_Inr user_info_from_json_def)
  show ?thesis
    unfolding user_info_from_signed_jwt_def binds_eq_Inr lifts_simp prod.inject tail resolve_key_ok
      resolve_algorithm_def map_errr_eq_Inr by auto
qed

lemma signed_user_info_ok:
  "user_info_from_signed_jwt D K J R compact v jwks w = (Inr u, w') \<longleftrightarrow>
     (\<exists>t key w1 now. id_token_parse K compact = Inr t \<and>
        jwks_select K jwks (header_kid t) (header_alg t) w = (Inr (Some key), w1) \<and>
        system_now R w1 = (now, w') \<and> user_info_accepted K J v compact t key now u)"
  unfolding user_info_steps ui_alg.check_ok user_info_payload_ok user_info_accepted_def
    user_info_consumer_checks user_info_document by blast

section \<open>Properties\<close>

text \<open>
  C32. A signed UserInfo response is accepted exactly if it parses, its algorithm is allowed and not
  \<^verbatim>\<open>none\<close> in any letter case, a key of the set is found for its key id and algorithm, its signature
  verifies under that key, and its payload is UTF-8, passes the consumer that requires \<^verbatim>\<open>iss\<close> to be the
  expected issuer and \<^verbatim>\<open>aud\<close> to contain the expected audience (nothing else is required) and is a JSON
  object with a string \<^verbatim>\<open>sub\<close>; the claims returned are, member by member, those of that same payload
  (\<open>user_info_reads\<close>). For the verifier
  configured from the metadata the expected issuer is the provider's, the audience is the client's,
  and the algorithms are those advertised for UserInfo (the ten asymmetric defaults where there is
  no list) that are neither \<^verbatim>\<open>none\<close> nor symmetric.
\<close>

theorem signed_user_info_accepts_iff:
  "(user_info_from_signed_jwt D K J R compact v jwks w = (Inr u, w') \<longleftrightarrow>
     (\<exists>t key alg_id w1 now jws payload claims ms. id_token_parse K compact = Inr t \<and>
        header_alg t \<in> set (ui_allowed_algs v) \<and> \<not> eq_ignore_ascii_case (header_alg t) ''none'' \<and>
        algorithm_try_from K (header_alg t) = Inr alg_id \<and>
        jwks_select K jwks (header_kid t) (header_alg t) w = (Inr (Some key), w1) \<and>
        system_now R w1 = (now, w') \<and>
        jws_from_compact K compact = Inr jws \<and> jws_verify_signature K jws key = Inr True \<and>
        jws_payload K jws key = Inr payload \<and> utf8_valid payload \<and>
        process_to_claims K
          \<lparr>cc_expected_issuer = Some (ui_expected_issuer v),
           cc_expected_audience = Some (True, False, [ui_expected_audience v]),
           cc_require_subject = False, cc_require_issued_at = False, cc_require_expiration = False,
           cc_clock_skew = None\<rparr> now payload = Inr claims \<and>
        json_parse J payload = Inr (JObject ms) \<and> user_info_reads ms u)) \<and>
   ui_expected_issuer (user_info_verifier_from_metadata m aud) = issuer_as_str (metadata_issuer m) \<and>
   ui_expected_audience (user_info_verifier_from_metadata m aud) = aud \<and>
   set (ui_allowed_algs (user_info_verifier_from_metadata m aud)) =
     {alg \<in> set (case userinfo_signing_alg_values_supported m of
                     None \<Rightarrow> default_allowed_algs | Some l \<Rightarrow> l). \<not> is_forbidden_alg alg}"
proof (intro conjI)
  show "set (ui_allowed_algs (user_info_verifier_from_metadata m aud)) =
     {alg \<in> set (case userinfo_signing_alg_values_supported m of
                     None \<Rightarrow> default_allowed_algs | Some l \<Rightarrow> l). \<not> is_forbidden_alg alg}"
    using ui_alg.default_not_forbidden by (auto simp: ui_alg.metadata_algs split: option.splits)
qed (unfold signed_user_info_ok user_info_accepted_def user_info_claims_checks_def,
     blast, simp_all add: user_info_verifier_from_metadata_def)

text \<open>
  The UserInfo verifier that discovery configures accepts exactly the algorithms the provider
  advertises for UserInfo (the ten asymmetric defaults where it advertises none), without \<^verbatim>\<open>none\<close>
  and the symmetric HS family.
\<close>

theorem user_info_algorithms:
  "check_user_info_alg (user_info_verifier_from_metadata m aud) alg = Inr () \<longleftrightarrow>
     \<not> is_forbidden_alg alg \<and>
     alg \<in> set (case userinfo_signing_alg_values_supported m of
                    None \<Rightarrow> default_allowed_algs | Some l \<Rightarrow> l)"
  unfolding ui_alg.from_metadata_accepts by (simp split: option.splits)

end
