(* ===== verification/Token_Request.thy ===== *)
theory Token_Request
  imports Url_Types Identifiers Instances
begin

text \<open>
  src/flow/token.rs: the token-endpoint requests of the authorization-code and the refresh-token
  grant, and the choice of the client-authentication method. Both builders share the locale
  \<open>authenticated_request\<close>. The \<^verbatim>\<open>expect\<close> in \<^verbatim>\<open>form_encode_component\<close> is a \<open>Panic\<close>.
\<close>

section \<open>Authentication methods\<close>

datatype token_auth_method = ClientSecretBasic | ClientSecretPost | AuthNone

fun token_auth_method_str :: "token_auth_method \<Rightarrow> bytes" where
  "token_auth_method_str ClientSecretBasic = ''client_secret_basic''"
| "token_auth_method_str ClientSecretPost = ''client_secret_post''"
| "token_auth_method_str AuthNone = ''none''"

definition auth_method_from_metadata ::
  "bytes list option \<Rightarrow> bool \<Rightarrow> oidc_error + token_auth_method" where
  "auth_method_from_metadata supported has_secret =
     (case supported of
        None \<Rightarrow> Inr (if has_secret then ClientSecretBasic else AuthNone)
      | Some supported \<Rightarrow>
          (let wants_basic = list_ex (\<lambda>m. m = ''client_secret_basic'') supported;
               wants_post = list_ex (\<lambda>m. m = ''client_secret_post'') supported;
               wants_none = list_ex (\<lambda>m. m = ''none'') supported
           in if has_secret then
                (if wants_basic then Inr ClientSecretBasic
                 else if wants_post then Inr ClientSecretPost
                 else Inl (InvalidMetadata
                        ''provider advertises no supported client authentication method''))
              else if wants_none then Inr AuthNone
              else Inl (InvalidMetadata
                     ''provider does not advertise unauthenticated token requests'')))"

fun auth_method_from_endpoint :: "token_endpoint_auth_method \<Rightarrow> token_auth_method" where
  "auth_method_from_endpoint EndpointBasic = ClientSecretBasic"
| "auth_method_from_endpoint EndpointPost = ClientSecretPost"
| "auth_method_from_endpoint EndpointNone = AuthNone"

section \<open>Encoding\<close>

definition form_encode :: "form_lib \<Rightarrow> (bytes \<times> bytes) list \<Rightarrow> bytes" where
  "form_encode F form = form_serialize F form"

definition empty_key_message :: bytes where
  "empty_key_message =
     ''form serialization of an empty key starts with '' @ [CHR 0x27, CHR ''='', CHR 0x27]"

definition form_encode_component :: "form_lib \<Rightarrow> bytes \<Rightarrow> failure + bytes" where
  "form_encode_component F v =
     (case form_serialize F [([], v)] of
        c # rest \<Rightarrow> if c = CHR ''='' then Inr rest else Inl (Panic empty_key_message)
      | [] \<Rightarrow> Inl (Panic empty_key_message))"

section \<open>Builders\<close>

record 'u built_token_request =
  built_url :: "'u token_url"
  built_http :: http_request

record 'u code_token_request =
  code_endpoint :: "'u token_url"
  code_client_id :: client_id
  code_client_secret :: "client_secret option"
  code_code :: bytes
  code_redirect_uri :: "bytes option"
  code_pkce_verifier :: "bytes option"
  code_auth_method :: "token_auth_method option"

definition code_request_new ::
  "'u token_url \<Rightarrow> client_id \<Rightarrow> client_secret option \<Rightarrow> bytes \<Rightarrow> token_auth_method option \<Rightarrow>
   'u code_token_request" where
  "code_request_new endpoint cid secret code method =
     \<lparr>code_endpoint = endpoint, code_client_id = cid, code_client_secret = secret, code_code = code,
      code_redirect_uri = None, code_pkce_verifier = None, code_auth_method = method\<rparr>"

definition code_set_redirect_uri :: "bytes \<Rightarrow> 'u code_token_request \<Rightarrow> 'u code_token_request" where
  "code_set_redirect_uri uri r = r\<lparr>code_redirect_uri := Some uri\<rparr>"
definition code_set_pkce_verifier :: "bytes \<Rightarrow> 'u code_token_request \<Rightarrow> 'u code_token_request" where
  "code_set_pkce_verifier v r = r\<lparr>code_pkce_verifier := Some v\<rparr>"
definition code_set_auth_method ::
  "token_auth_method \<Rightarrow> 'u code_token_request \<Rightarrow> 'u code_token_request" where
  "code_set_auth_method m r = r\<lparr>code_auth_method := Some m\<rparr>"

definition token_request_headers :: "(bytes \<times> bytes) list" where
  "token_request_headers =
     [(''Accept'', ''application/json''), (''Content-Type'', ''application/x-www-form-urlencoded'')]"

text \<open>The \<^verbatim>\<open>match method\<close> of both builders: it extends the form and the headers.\<close>

definition authenticate_client ::
  "form_lib \<Rightarrow> base64_lib \<Rightarrow> token_auth_method \<Rightarrow> client_id \<Rightarrow> client_secret option \<Rightarrow>
   (bytes \<times> bytes) list \<Rightarrow> failure + (bytes \<times> bytes) list \<times> (bytes \<times> bytes) list" where
  "authenticate_client F B method cid secret form =
     (let secret_str = (case secret of None \<Rightarrow> [] | Some s \<Rightarrow> client_secret_str s) in
      case method of
        ClientSecretBasic \<Rightarrow>
          bindr (form_encode_component F (client_id_str cid)) (\<lambda>encoded_id.
          bindr (form_encode_component F secret_str) (\<lambda>encoded_secret.
            Inr (form, token_request_headers @
              [(''Authorization'', ''Basic '' @ standard_encode B (encoded_id @ '':'' @ encoded_secret))])))
      | ClientSecretPost \<Rightarrow>
          Inr (form @ [(''client_id'', client_id_str cid), (''client_secret'', secret_str)],
               token_request_headers)
      | AuthNone \<Rightarrow> Inr (form @ [(''client_id'', client_id_str cid)], token_request_headers))"

definition finish_request ::
  "'u url_lib \<Rightarrow> form_lib \<Rightarrow> 'u token_url \<Rightarrow> (bytes \<times> bytes) list \<times> (bytes \<times> bytes) list \<Rightarrow>
   'u built_token_request" where
  "finish_request U F endpoint fh =
     \<lparr>built_url = endpoint,
      built_http = \<lparr>req_method = Post, req_url = token_url_as_str U endpoint,
        req_headers = snd fh, req_body = Some (form_encode F (fst fh))\<rparr>\<rparr>"

definition method_or_basic :: "token_auth_method option \<Rightarrow> token_auth_method" where
  "method_or_basic m = (case m of None \<Rightarrow> ClientSecretBasic | Some x \<Rightarrow> x)"

definition needs_secret :: "token_auth_method \<Rightarrow> bool" where
  "needs_secret m \<longleftrightarrow> m = ClientSecretBasic \<or> m = ClientSecretPost"

definition code_form :: "'u code_token_request \<Rightarrow> (bytes \<times> bytes) list" where
  "code_form r =
     [(''grant_type'', ''authorization_code''), (''code'', code_code r)] @
     (case code_redirect_uri r of Some u \<Rightarrow> [(''redirect_uri'', u)] | None \<Rightarrow> []) @
     (case code_pkce_verifier r of Some v \<Rightarrow> [(''code_verifier'', v)] | None \<Rightarrow> [])"

definition code_request_build ::
  "'u url_lib \<Rightarrow> form_lib \<Rightarrow> base64_lib \<Rightarrow> 'u code_token_request \<Rightarrow> failure + 'u built_token_request" where
  "code_request_build U F B r =
     (let method = method_or_basic (code_auth_method r) in
      if needs_secret method \<and> code_client_secret r = None
      then Inl (Err (InvalidAuthorizationRequest
             ''client_secret required for client_secret_basic / client_secret_post''))
      else if code_code r = []
      then Inl (Err (InvalidAuthorizationRequest ''authorization code is required''))
      else if code_redirect_uri r = None
      then Inl (Err (InvalidAuthorizationRequest ''redirect_uri is required''))
      else if method = AuthNone \<and> code_pkce_verifier r = None
      then Inl (Err MissingPkceVerifier)
      else mapr (finish_request U F (code_endpoint r))
             (authenticate_client F B method (code_client_id r) (code_client_secret r) (code_form r)))"

record 'u refresh_token_request =
  refresh_endpoint :: "'u token_url"
  refresh_client_id :: client_id
  refresh_client_secret :: "client_secret option"
  refresh_refresh_token :: refresh_token
  refresh_scope :: "bytes option"
  refresh_auth_method :: "token_auth_method option"

definition refresh_request_new ::
  "'u token_url \<Rightarrow> client_id \<Rightarrow> client_secret option \<Rightarrow> refresh_token \<Rightarrow> token_auth_method option \<Rightarrow>
   'u refresh_token_request" where
  "refresh_request_new endpoint cid secret token method =
     \<lparr>refresh_endpoint = endpoint, refresh_client_id = cid, refresh_client_secret = secret,
      refresh_refresh_token = token, refresh_scope = None, refresh_auth_method = method\<rparr>"

definition refresh_set_scope :: "bytes \<Rightarrow> 'u refresh_token_request \<Rightarrow> 'u refresh_token_request" where
  "refresh_set_scope s r = r\<lparr>refresh_scope := Some s\<rparr>"
definition refresh_set_auth_method ::
  "token_auth_method \<Rightarrow> 'u refresh_token_request \<Rightarrow> 'u refresh_token_request" where
  "refresh_set_auth_method m r = r\<lparr>refresh_auth_method := Some m\<rparr>"

definition refresh_form :: "'u refresh_token_request \<Rightarrow> (bytes \<times> bytes) list" where
  "refresh_form r =
     [(''grant_type'', ''refresh_token''),
      (''refresh_token'', refresh_token_str (refresh_refresh_token r))] @
     (case refresh_scope r of Some s \<Rightarrow> [(''scope'', s)] | None \<Rightarrow> [])"

definition refresh_request_build ::
  "'u url_lib \<Rightarrow> form_lib \<Rightarrow> base64_lib \<Rightarrow> 'u refresh_token_request \<Rightarrow>
   failure + 'u built_token_request" where
  "refresh_request_build U F B r =
     (let method = method_or_basic (refresh_auth_method r) in
      if needs_secret method \<and> refresh_client_secret r = None
      then Inl (Err (InvalidAuthorizationRequest
             ''client_secret required for client_secret_basic / client_secret_post''))
      else if refresh_token_str (refresh_refresh_token r) = []
      then Inl (Err (InvalidAuthorizationRequest ''refresh_token is required''))
      else mapr (finish_request U F (refresh_endpoint r))
             (authenticate_client F B method (refresh_client_id r) (refresh_client_secret r)
                (refresh_form r)))"

section \<open>The contract of an authenticated request\<close>

text \<open>
  What both builders promise: a built request is a POST to the endpoint that authenticates the
  client with the chosen method, and only with it; a builder fails with an error of the library.
\<close>

lemma form_encode_component_ok:
  assumes "form_laws F"
  shows "\<exists>s. form_encode_component F v = Inr s \<and> CHR '':'' \<notin> set s \<and>
    form_serialize F [([], v)] = CHR ''='' # s"
proof -
  from assms obtain s where "form_serialize F [([], v)] = CHR ''='' # s" "CHR '':'' \<notin> set s"
    unfolding form_laws_def by blast
  then show ?thesis by (simp add: form_encode_component_def)
qed

definition utf8_pairs :: "(bytes \<times> bytes) list \<Rightarrow> bool" where
  "utf8_pairs kvs \<longleftrightarrow> (\<forall>(k, v) \<in> set kvs. utf8_valid k \<and> utf8_valid v)"

lemma form_parse_encode: "form_laws F \<Longrightarrow> utf8_pairs kvs \<Longrightarrow> form_parse F (form_encode F kvs) = kvs"
  unfolding form_laws_def utf8_pairs_def form_encode_def by blast

lemma form_encode_component_decodes:
  assumes "form_laws F" and "form_encode_component F v = Inr y" and "utf8_valid v"
  shows "form_parse F (''='' @ y) = [([], v)]"
  using form_encode_component_ok [OF assms(1), of v] assms form_parse_encode [OF assms(1), of "[([], v)]"]
  by (auto simp: form_encode_def utf8_pairs_def)

text \<open>
  Where the credentials of a client go, method by method: all headers and the whole form that is
  sent besides the parameters of the grant.
\<close>

definition credentials_sent ::
  "form_lib \<Rightarrow> base64_lib \<Rightarrow> token_auth_method \<Rightarrow> bytes \<Rightarrow> bytes option \<Rightarrow> (bytes \<times> bytes) list \<Rightarrow>
   http_request \<Rightarrow> bool" where
  "credentials_sent F B m cid secret grant rq \<longleftrightarrow>
     (\<exists>body. req_body rq = Some body \<and>
       (case m of
          ClientSecretBasic \<Rightarrow>
            (\<exists>s i x. secret = Some s \<and>
               req_headers rq = [(''Accept'', ''application/json''),
                 (''Content-Type'', ''application/x-www-form-urlencoded''),
                 (''Authorization'', ''Basic '' @ standard_encode B (i @ '':'' @ x))] \<and>
               split_once (CHR '':'') (i @ '':'' @ x) = Some (i, x) \<and>
               form_parse F (''='' @ i) = [([], cid)] \<and> form_parse F (''='' @ x) = [([], s)] \<and>
               form_parse F body = grant)
        | ClientSecretPost \<Rightarrow>
            (\<exists>s. secret = Some s \<and>
               req_headers rq = [(''Accept'', ''application/json''),
                 (''Content-Type'', ''application/x-www-form-urlencoded'')] \<and>
               form_parse F body = grant @ [(''client_id'', cid), (''client_secret'', s)])
        | AuthNone \<Rightarrow>
            req_headers rq = [(''Accept'', ''application/json''),
              (''Content-Type'', ''application/x-www-form-urlencoded'')] \<and>
            form_parse F body = grant @ [(''client_id'', cid)]))"

lemma authenticate_client_total:
  assumes "form_laws F"
  shows "\<exists>fh. authenticate_client F B m cid secret form = Inr fh"
proof -
  obtain e where "form_encode_component F v = Inr (e v)" for v
    using form_encode_component_ok [OF assms] by metis
  then show ?thesis by (cases m) (simp_all add: authenticate_client_def)
qed

locale authenticated_request =
  fixes build :: "'u url_lib \<Rightarrow> form_lib \<Rightarrow> base64_lib \<Rightarrow> 'r \<Rightarrow> failure + 'u built_token_request"
    and meth :: "'r \<Rightarrow> token_auth_method"
    and cid :: "'r \<Rightarrow> client_id"
    and secret :: "'r \<Rightarrow> client_secret option"
    and endpoint :: "'r \<Rightarrow> 'u token_url"
    and form :: "'r \<Rightarrow> (bytes \<times> bytes) list"
  assumes build_Inr: "build U F B r = Inr b \<Longrightarrow>
      (needs_secret (meth r) \<longrightarrow> secret r \<noteq> None) \<and>
      (\<exists>fh. authenticate_client F B (meth r) (cid r) (secret r) (form r) = Inr fh \<and>
         b = finish_request U F (endpoint r) fh)"
    and build_panic: "build U F B r = Inl (Panic m) \<Longrightarrow>
      authenticate_client F B (meth r) (cid r) (secret r) (form r) = Inl (Panic m)"
begin

lemma never_panics: "form_laws F \<Longrightarrow> build U F B r \<noteq> Inl (Panic m)"
proof
  assume F: "form_laws F" and b: "build U F B r = Inl (Panic m)"
  from build_panic [OF b] show False
    using form_encode_component_ok [OF F, of "client_id_str (cid r)"]
      form_encode_component_ok [OF F, of "case secret r of None \<Rightarrow> [] | Some s \<Rightarrow> client_secret_str s"]
    by (auto simp: authenticate_client_def Let_def split: token_auth_method.splits)
qed

lemma request_line:
  assumes "build U F B r = Inr b"
  shows "built_url b = endpoint r \<and> req_method (built_http b) = Post \<and>
    req_url (built_http b) = token_url_as_str U (endpoint r)"
  using build_Inr [OF assms] by (auto simp: finish_request_def)

lemma basic_request:
  assumes F: "form_laws F" and b: "build U F B r = Inr b" and m: "meth r = ClientSecretBasic"
  obtains s i x where "secret r = Some s"
    "form_encode_component F (client_id_str (cid r)) = Inr i" "CHR '':'' \<notin> set i"
    "form_encode_component F (client_secret_str s) = Inr x"
    "req_headers (built_http b) = token_request_headers @
       [(''Authorization'', ''Basic '' @ standard_encode B (i @ '':'' @ x))]"
    "req_body (built_http b) = Some (form_encode F (form r))"
proof -
  from build_Inr [OF b] m obtain s fh where s: "secret r = Some s"
    "authenticate_client F B ClientSecretBasic (cid r) (Some s) (form r) = Inr fh"
    "b = finish_request U F (endpoint r) fh" by (auto simp: needs_secret_def)
  obtain i x where "form_encode_component F (client_id_str (cid r)) = Inr i" "CHR '':'' \<notin> set i"
    "form_encode_component F (client_secret_str s) = Inr x"
    using form_encode_component_ok [OF F] by metis
  with s show thesis
    by (intro that) (auto simp: authenticate_client_def finish_request_def)
qed

lemma post_request:
  assumes b: "build U F B r = Inr b" and m: "meth r = ClientSecretPost"
  obtains s where "secret r = Some s" "req_headers (built_http b) = token_request_headers"
    "req_body (built_http b) = Some (form_encode F (form r @
       [(''client_id'', client_id_str (cid r)), (''client_secret'', client_secret_str s)]))"
  using build_Inr [OF b] m
  by (auto simp: authenticate_client_def finish_request_def needs_secret_def)

lemma public_request:
  assumes b: "build U F B r = Inr b" and m: "meth r = AuthNone"
  shows "req_headers (built_http b) = token_request_headers \<and>
    req_body (built_http b) = Some (form_encode F (form r @ [(''client_id'', client_id_str (cid r))]))"
  using build_Inr [OF b] m by (auto simp: authenticate_client_def finish_request_def)

lemma credentials_placed:
  assumes F: "form_laws F" and b: "build U F B r = Inr b"
    and utf8: "utf8_pairs (form r)" "utf8_valid (client_id_str (cid r))"
      "\<And>s. secret r = Some s \<Longrightarrow> utf8_valid (client_secret_str s)"
  shows "credentials_sent F B (meth r) (client_id_str (cid r)) (map_option client_secret_str (secret r))
    (form r) (built_http b)"
proof -
  have keys: "utf8_valid ''client_id''" "utf8_valid ''client_secret''" by code_simp+
  show ?thesis
  proof (cases "meth r")
    case ClientSecretBasic
    from basic_request [OF F b this] obtain s i x where s: "secret r = Some s"
      "form_encode_component F (client_id_str (cid r)) = Inr i" "CHR '':'' \<notin> set i"
      "form_encode_component F (client_secret_str s) = Inr x"
      "req_headers (built_http b) = token_request_headers @
         [(''Authorization'', ''Basic '' @ standard_encode B (i @ '':'' @ x))]"
      "req_body (built_http b) = Some (form_encode F (form r))" .
    then show ?thesis
      using form_encode_component_decodes [OF F s(2) utf8(2)]
        form_encode_component_decodes [OF F s(4) utf8(3) [OF s(1)]]
        form_parse_encode [OF F utf8(1)] ClientSecretBasic
      by (auto simp: credentials_sent_def token_request_headers_def split_once_Some)
  next
    case ClientSecretPost
    from post_request [OF b this] obtain s where s: "secret r = Some s"
      "req_headers (built_http b) = token_request_headers"
      "req_body (built_http b) = Some (form_encode F (form r @
       [(''client_id'', client_id_str (cid r)), (''client_secret'', client_secret_str s)]))" by blast
    then have "utf8_pairs (form r @
        [(''client_id'', client_id_str (cid r)), (''client_secret'', client_secret_str s)])"
      using utf8 keys by (auto simp: utf8_pairs_def)
    from form_parse_encode [OF F this] s ClientSecretPost show ?thesis
      by (simp add: credentials_sent_def token_request_headers_def)
  next
    case AuthNone
    have "utf8_pairs (form r @ [(''client_id'', client_id_str (cid r))])"
      using utf8 keys by (auto simp: utf8_pairs_def)
    from form_parse_encode [OF F this] public_request [OF b AuthNone] AuthNone show ?thesis
      by (simp add: credentials_sent_def token_request_headers_def)
  qed
qed

end

definition code_method :: "'u code_token_request \<Rightarrow> token_auth_method" where
  "code_method r = method_or_basic (code_auth_method r)"

definition refresh_method :: "'u refresh_token_request \<Rightarrow> token_auth_method" where
  "refresh_method r = method_or_basic (refresh_auth_method r)"

interpretation code: authenticated_request code_request_build code_method code_client_id
    code_client_secret code_endpoint code_form
proof
  fix U F B and r :: "'u code_token_request" and b m
  show "code_request_build U F B r = Inr b \<Longrightarrow>
      (needs_secret (code_method r) \<longrightarrow> code_client_secret r \<noteq> None) \<and>
      (\<exists>fh. authenticate_client F B (code_method r) (code_client_id r) (code_client_secret r)
          (code_form r) = Inr fh \<and> b = finish_request U F (code_endpoint r) fh)"
    by (auto simp: code_request_build_def code_method_def Let_def mapr_eq_Inr split: if_splits)
  show "code_request_build U F B r = Inl (Panic m) \<Longrightarrow>
      authenticate_client F B (code_method r) (code_client_id r) (code_client_secret r)
        (code_form r) = Inl (Panic m)"
    by (auto simp: code_request_build_def code_method_def Let_def split: if_splits)
qed

interpretation refresh: authenticated_request refresh_request_build refresh_method refresh_client_id
    refresh_client_secret refresh_endpoint refresh_form
proof
  fix U F B and r :: "'u refresh_token_request" and b m
  show "refresh_request_build U F B r = Inr b \<Longrightarrow>
      (needs_secret (refresh_method r) \<longrightarrow> refresh_client_secret r \<noteq> None) \<and>
      (\<exists>fh. authenticate_client F B (refresh_method r) (refresh_client_id r) (refresh_client_secret r)
          (refresh_form r) = Inr fh \<and> b = finish_request U F (refresh_endpoint r) fh)"
    by (auto simp: refresh_request_build_def refresh_method_def Let_def mapr_eq_Inr split: if_splits)
  show "refresh_request_build U F B r = Inl (Panic m) \<Longrightarrow>
      authenticate_client F B (refresh_method r) (refresh_client_id r) (refresh_client_secret r)
        (refresh_form r) = Inl (Panic m)"
    by (auto simp: refresh_request_build_def refresh_method_def Let_def split: if_splits)
qed

lemma all_auth_methods:
  "(\<forall>m. P m) \<longleftrightarrow> P ClientSecretBasic \<and> P ClientSecretPost \<and> P AuthNone"
  by (metis token_auth_method.exhaust)

lemma auth_method_compatible:
  "auth_method_from_metadata supported has_secret = Inr m \<Longrightarrow> needs_secret m \<longleftrightarrow> has_secret"
  by (auto simp: auth_method_from_metadata_def needs_secret_def Let_def split: option.splits if_splits)

section \<open>Properties\<close>

definition code_request_utf8 :: "'u code_token_request \<Rightarrow> bool" where
  "code_request_utf8 r \<longleftrightarrow> utf8_pairs (code_form r) \<and> utf8_valid (client_id_str (code_client_id r)) \<and>
     (\<forall>s. code_client_secret r = Some s \<longrightarrow> utf8_valid (client_secret_str s))"

definition refresh_request_utf8 :: "'u refresh_token_request \<Rightarrow> bool" where
  "refresh_request_utf8 r \<longleftrightarrow>
     utf8_pairs (refresh_form r) \<and> utf8_valid (client_id_str (refresh_client_id r)) \<and>
     (\<forall>s. refresh_client_secret r = Some s \<longrightarrow> utf8_valid (client_secret_str s))"

definition example_code_request :: "bytes code_token_request" where
  "example_code_request =
     code_set_redirect_uri ''https://rp/cb''
       (code_request_new (TokenUrl ''https://op/token'') (ClientId ''a:b'') (Some (ClientSecret ''s c''))
          ''xyz'' (Some ClientSecretBasic))"

lemma example_code_request_utf8: "code_request_utf8 example_code_request"
  by (simp add: code_request_utf8_def utf8_pairs_def code_form_def example_code_request_def
      code_set_redirect_uri_def code_request_new_def in_range_def)

lemma example_code_request_fields:
  "code_method example_code_request = ClientSecretBasic"
  "code_client_secret example_code_request = Some (ClientSecret ''s c'')"
  "code_client_id example_code_request = ClientId ''a:b''"
  by (simp_all add: example_code_request_def code_method_def method_or_basic_def
      code_set_redirect_uri_def code_request_new_def)

lemma example_code_request_builds:
  "\<exists>b. code_request_build text_url std_form std_base64 example_code_request = Inr b"
proof -
  let ?r = example_code_request
  obtain e where "code_request_build text_url std_form std_base64 ?r = Inl e \<or>
      (\<exists>b. code_request_build text_url std_form std_base64 ?r = Inr b)"
    by (metis sum.exhaust)
  moreover have "code_request_build text_url std_form std_base64 ?r =
      mapr (finish_request text_url std_form (code_endpoint ?r))
        (authenticate_client std_form std_base64 ClientSecretBasic (ClientId ''a:b'')
           (Some (ClientSecret ''s c'')) (code_form ?r))"
    by (simp add: code_request_build_def Let_def example_code_request_def code_set_redirect_uri_def
        code_request_new_def method_or_basic_def)
  moreover have "\<exists>fh. authenticate_client std_form std_base64 ClientSecretBasic (ClientId ''a:b'')
           (Some (ClientSecret ''s c'')) (code_form ?r) = Inr fh"
    using form_encode_component_ok [OF std_form_laws]
    by (auto simp: authenticate_client_def) (metis bindr_simps(2))
  ultimately show ?thesis by auto
qed



text \<open>
  C28. The credentials go exactly where the method puts them, and nowhere else: every request that
  either builder produces is a POST to the configured endpoint whose headers and form are the two
  fixed headers and the parameters of the grant, to which \<^verbatim>\<open>client_secret_basic\<close> (also the choice where none is made) adds only an
  Authorization header that decodes to the client id and the configured secret, \<^verbatim>\<open>client_secret_post\<close>
  only the form fields \<^verbatim>\<open>client_id\<close> and \<^verbatim>\<open>client_secret\<close> with these values, and \<^verbatim>\<open>none\<close> only the client id:
  the secret is then not part of the request.
\<close>

theorem secret_sent_once:
  assumes "form_laws F" and "code_request_build U F B r = Inr b" and "code_request_utf8 r"
    and "refresh_request_build U F B r' = Inr b'" and "refresh_request_utf8 r'"
  shows "(\<exists>uri. code_redirect_uri r = Some uri \<and>
      req_method (built_http b) = Post \<and> req_url (built_http b) = token_url_as_str U (code_endpoint r) \<and>
      credentials_sent F B (case code_auth_method r of None \<Rightarrow> ClientSecretBasic | Some m \<Rightarrow> m)
        (client_id_str (code_client_id r)) (map_option client_secret_str (code_client_secret r))
        ([(''grant_type'', ''authorization_code''), (''code'', code_code r), (''redirect_uri'', uri)] @
         (case code_pkce_verifier r of None \<Rightarrow> [] | Some v \<Rightarrow> [(''code_verifier'', v)])) (built_http b)) \<and>
    req_method (built_http b') = Post \<and> req_url (built_http b') = token_url_as_str U (refresh_endpoint r') \<and>
    credentials_sent F B (case refresh_auth_method r' of None \<Rightarrow> ClientSecretBasic | Some m \<Rightarrow> m)
      (client_id_str (refresh_client_id r')) (map_option client_secret_str (refresh_client_secret r'))
      ([(''grant_type'', ''refresh_token''),
        (''refresh_token'', refresh_token_str (refresh_refresh_token r'))] @
       (case refresh_scope r' of None \<Rightarrow> [] | Some s \<Rightarrow> [(''scope'', s)])) (built_http b')"
proof -
  have "credentials_sent F B (code_method r) (client_id_str (code_client_id r))
      (map_option client_secret_str (code_client_secret r)) (code_form r) (built_http b)"
    using code.credentials_placed [OF assms(1,2)] assms(3) unfolding code_request_utf8_def by blast
  moreover obtain uri where "code_redirect_uri r = Some uri"
    using assms(2) by (auto simp: code_request_build_def Let_def split: if_splits)
  moreover have "credentials_sent F B (refresh_method r') (client_id_str (refresh_client_id r'))
      (map_option client_secret_str (refresh_client_secret r')) (refresh_form r') (built_http b')"
    using refresh.credentials_placed [OF assms(1,4)] assms(5) unfolding refresh_request_utf8_def by blast
  ultimately show ?thesis
    using code.request_line [OF assms(2)] refresh.request_line [OF assms(4)]
    by (auto simp: code_method_def refresh_method_def method_or_basic_def code_form_def refresh_form_def)
qed

definition example_refresh_request :: "bytes refresh_token_request" where
  "example_refresh_request =
     refresh_request_new (TokenUrl ''https://op/token'') (ClientId ''id'') None (RefreshToken ''rt'')
       (Some AuthNone)"

theorem secret_sent_once_witness:
  "\<exists>b b' body body' i x. code_request_build text_url std_form std_base64 example_code_request = Inr b \<and>
     refresh_request_build text_url std_form std_base64 example_refresh_request = Inr b' \<and>
     req_headers (built_http b) = [(''Accept'', ''application/json''),
       (''Content-Type'', ''application/x-www-form-urlencoded''),
       (''Authorization'', ''Basic '' @ standard_encode std_base64 (i @ '':'' @ x))] \<and>
     form_parse std_form (''='' @ x) = [([], ''s c'')] \<and>
     req_body (built_http b) = Some body \<and>
     form_parse std_form body = [(''grant_type'', ''authorization_code''), (''code'', ''xyz''),
       (''redirect_uri'', ''https://rp/cb'')] \<and>
     req_body (built_http b') = Some body' \<and>
     form_parse std_form body' = [(''grant_type'', ''refresh_token''), (''refresh_token'', ''rt''),
       (''client_id'', ''id'')]"
proof -
  obtain b where b: "code_request_build text_url std_form std_base64 example_code_request = Inr b"
    using example_code_request_builds by blast
  obtain b' where b': "refresh_request_build text_url std_form std_base64 example_refresh_request = Inr b'"
    by (simp add: refresh_request_build_def example_refresh_request_def refresh_request_new_def Let_def
        method_or_basic_def needs_secret_def authenticate_client_def)
  have u: "refresh_request_utf8 example_refresh_request"
    by (simp add: refresh_request_utf8_def utf8_pairs_def refresh_form_def example_refresh_request_def
        refresh_request_new_def in_range_def)
  have code: "code_auth_method example_code_request = Some ClientSecretBasic"
    "code_code example_code_request = ''xyz''" "code_pkce_verifier example_code_request = None"
    "code_redirect_uri example_code_request = Some ''https://rp/cb''"
    by (simp_all add: example_code_request_def code_set_redirect_uri_def code_request_new_def)
  have refresh: "refresh_auth_method example_refresh_request = Some AuthNone"
    "refresh_refresh_token example_refresh_request = RefreshToken ''rt''"
    "refresh_scope example_refresh_request = None" "refresh_client_id example_refresh_request = ClientId ''id''"
    by (simp_all add: example_refresh_request_def refresh_request_new_def)
  from secret_sent_once [OF std_form_laws b example_code_request_utf8 b' u] b b'
  show ?thesis
    by (auto simp: credentials_sent_def code refresh example_code_request_fields)
qed

text \<open>
  Building a token request never panics: the \<^verbatim>\<open>expect\<close> on the serialised empty key cannot fail.
\<close>

theorem token_requests_never_panic:
  assumes "form_laws F"
  shows "code_request_build U F B r \<noteq> Inl (Panic m) \<and> refresh_request_build U F B r' \<noteq> Inl (Panic m)"
  using code.never_panics [OF assms] refresh.never_panics [OF assms] by blast

theorem token_requests_never_panic_witness:
  "code_request_build text_url std_form std_base64 example_code_request \<noteq> Inl (Panic []) \<and>
   refresh_request_build text_url std_form std_base64 example_refresh_request \<noteq> Inl (Panic [])"
  by (rule token_requests_never_panic [OF std_form_laws])



text \<open>
  The selection in full, as the code makes it (its module comment says something else): with a
  secret \<^verbatim>\<open>client_secret_basic\<close> if advertised or if there is no list, else \<^verbatim>\<open>client_secret_post\<close> if
  advertised, whatever their order; without a secret \<^verbatim>\<open>none\<close>, if advertised or if there is no list; and
  an error exactly where no advertised method fits.
\<close>

theorem auth_method_selection:
  "(auth_method_from_metadata supported has_secret = Inr m \<longleftrightarrow>
      (case supported of
         None \<Rightarrow> m = (if has_secret then ClientSecretBasic else AuthNone)
       | Some l \<Rightarrow> token_auth_method_str m \<in> set l \<and> needs_secret m = has_secret \<and>
           (m = ClientSecretPost \<longrightarrow> ''client_secret_basic'' \<notin> set l))) \<and>
   ((\<exists>e. auth_method_from_metadata supported has_secret = Inl e) \<longleftrightarrow>
      (\<exists>l. supported = Some l \<and> (\<forall>m. needs_secret m = has_secret \<longrightarrow> token_auth_method_str m \<notin> set l)))"
proof (cases supported)
  case None
  then show ?thesis by (auto simp: auth_method_from_metadata_def)
next
  case (Some l)
  show ?thesis
  proof
    show "auth_method_from_metadata supported has_secret = Inr m \<longleftrightarrow>
      (case supported of
         None \<Rightarrow> m = (if has_secret then ClientSecretBasic else AuthNone)
       | Some l \<Rightarrow> token_auth_method_str m \<in> set l \<and> needs_secret m = has_secret \<and>
           (m = ClientSecretPost \<longrightarrow> ''client_secret_basic'' \<notin> set l))"
      using Some by (cases m) (auto simp: auth_method_from_metadata_def needs_secret_def list_ex_iff)
    show "(\<exists>e. auth_method_from_metadata supported has_secret = Inl e) \<longleftrightarrow>
      (\<exists>l. supported = Some l \<and> (\<forall>m. needs_secret m = has_secret \<longrightarrow> token_auth_method_str m \<notin> set l))"
      using Some by (auto simp: auth_method_from_metadata_def needs_secret_def list_ex_iff all_auth_methods)
  qed
qed

theorem auth_method_selection_witness:
  "auth_method_from_metadata (Some [''none'', ''client_secret_post'', ''client_secret_basic'']) True =
     Inr ClientSecretBasic"
  using auth_method_selection [of "Some [''none'', ''client_secret_post'', ''client_secret_basic'']" True
      ClientSecretBasic] by (simp add: needs_secret_def)

end
