(* ===== verification/Provider.thy ===== *)
theory Provider
  imports User_Info Token_Request
begin

text \<open>
  src/client.rs, the provider snapshot of a \<^verbatim>\<open>Client\<close>: its state, the freshness deadlines, the
  setters and the metadata refresh. The \<^verbatim>\<open>RwLock\<close> makes every setter and the publication of a
  refresh one step on the snapshot; an operation works on a pair of the snapshot and the world.
  The single-flight lock and the interleavings are in the theory \<open>Refresh_Concurrency\<close>.
\<close>

section \<open>The environment\<close>

text \<open>All parameters of the model in one record.\<close>

record ('u, 'jws, 'key, 'claims, 'jwks, 'w) env =
  env_display :: display_lib
  env_url :: "'u url_lib"
  env_json :: json_lib
  env_jose :: "('jws, 'key, 'claims, 'jwks, 'w) jose_lib"
  env_httpdate :: httpdate_lib
  env_runtime :: "'w runtime"
  env_form :: form_lib
  env_base64 :: base64_lib
  env_crypto :: crypto_lib

section \<open>Constants and state\<close>

definition default_metadata_refresh_interval :: duration where
  "default_metadata_refresh_interval = from_secs (60 * 60)"
definition default_metadata_minimum_cache_duration :: duration where
  "default_metadata_minimum_cache_duration = from_secs 60"
definition default_metadata_retain_on_error :: duration where
  "default_metadata_retain_on_error = from_secs (24 * 60 * 60)"
definition metadata_refresh_retry_interval :: duration where
  "metadata_refresh_retry_interval = from_secs 30"

record ('u, 'jwks) provider_state =
  ps_metadata :: "'u provider_metadata"
  ps_jwks :: 'jwks
  refresh_after :: "instant option"
  stale_until :: "instant option"
  retry_after :: "instant option"
  stale_on_error :: bool
  metadata_refresh_interval :: "duration option"
  metadata_minimum_cache_duration :: duration
  metadata_retain_on_error :: duration

text \<open>\<^verbatim>\<open>is_some_and\<close> and \<^verbatim>\<open>is_none_or\<close> on the deadlines, at an instant.\<close>

definition needs_refresh_at :: "('u, 'jwks) provider_state \<Rightarrow> instant \<Rightarrow> bool" where
  "needs_refresh_at p now \<longleftrightarrow>
     (case refresh_after p of Some deadline \<Rightarrow> deadline \<le> now | None \<Rightarrow> False) \<and>
     (case retry_after p of Some deadline \<Rightarrow> deadline \<le> now | None \<Rightarrow> True)"

definition metadata_needs_refresh ::
  "'w runtime \<Rightarrow> ('u, 'jwks) provider_state \<Rightarrow> 'w \<Rightarrow> bool \<times> 'w" where
  "metadata_needs_refresh R p w = map_prod (needs_refresh_at p) id (instant_now R w)"

section \<open>Deadlines\<close>

definition deadline_from :: "instant \<Rightarrow> duration \<Rightarrow> instant" where
  "deadline_from now interval = (case instant_checked_add now interval of Some t \<Rightarrow> t | None \<Rightarrow> now)"

definition metadata_refresh_deadline :: "'w runtime \<Rightarrow> duration \<Rightarrow> 'w \<Rightarrow> instant \<times> 'w" where
  "metadata_refresh_deadline R interval w =
     map_prod (\<lambda>now. deadline_from now interval) id (instant_now R w)"

definition metadata_stale_deadline :: "instant \<Rightarrow> bool \<Rightarrow> duration \<Rightarrow> instant option" where
  "metadata_stale_deadline refresh stale_allowed retain =
     (if \<not> stale_allowed \<or> is_zero_duration retain then None
      else instant_checked_add refresh retain)"

definition metadata_cache_deadlines ::
  "'w runtime \<Rightarrow> cache_policy \<Rightarrow> duration \<Rightarrow> 'w \<Rightarrow>
   (instant option \<times> instant option \<times> bool) \<times> 'w" where
  "metadata_cache_deadlines R policy retain w =
     (case policy of
        CacheFor lifetime must_revalidate \<Rightarrow>
          (case metadata_refresh_deadline R lifetime w of (refresh, w') \<Rightarrow>
             ((Some refresh, metadata_stale_deadline refresh (\<not> must_revalidate) retain,
               \<not> must_revalidate), w'))
      | Revalidate \<Rightarrow> (case instant_now R w of (now, w') \<Rightarrow> ((Some now, None, False), w'))
      | DoNotStore \<Rightarrow> (case instant_now R w of (now, w') \<Rightarrow> ((Some now, None, False), w')))"

section \<open>Setters\<close>

definition set_metadata_refresh_interval ::
  "'w runtime \<Rightarrow> duration \<Rightarrow> ('u, 'jwks) provider_state \<times> 'w \<Rightarrow> ('u, 'jwks) provider_state \<times> 'w" where
  "set_metadata_refresh_interval R interval s =
     (case s of (p, w) \<Rightarrow>
      (case metadata_refresh_deadline R (max interval (metadata_minimum_cache_duration p)) w of
         (refresh, w') \<Rightarrow>
           (p\<lparr>metadata_refresh_interval := Some interval, refresh_after := Some refresh,
              stale_until := metadata_stale_deadline refresh (stale_on_error p) (metadata_retain_on_error p),
              retry_after := None\<rparr>, w')))"

definition set_metadata_minimum_cache_duration ::
  "'w runtime \<Rightarrow> duration \<Rightarrow> ('u, 'jwks) provider_state \<times> 'w \<Rightarrow> ('u, 'jwks) provider_state \<times> 'w" where
  "set_metadata_minimum_cache_duration R d s =
     (case s of (p, w) \<Rightarrow>
      (let p = p\<lparr>metadata_minimum_cache_duration := d, retry_after := None\<rparr> in
       if metadata_refresh_interval p = None then (p, w)
       else case metadata_refresh_deadline R d w of
         (minimum_refresh, w') \<Rightarrow>
           if (case refresh_after p of None \<Rightarrow> True | Some r \<Rightarrow> r < minimum_refresh)
           then (p\<lparr>refresh_after := Some minimum_refresh,
                   stale_until := metadata_stale_deadline minimum_refresh (stale_on_error p)
                     (metadata_retain_on_error p)\<rparr>, w')
           else (p, w')))"

definition set_metadata_retain_on_error ::
  "duration \<Rightarrow> ('u, 'jwks) provider_state \<Rightarrow> ('u, 'jwks) provider_state" where
  "set_metadata_retain_on_error d p =
     p\<lparr>metadata_retain_on_error := d,
       stale_until := Option.bind (refresh_after p)
         (\<lambda>refresh. metadata_stale_deadline refresh (stale_on_error p) d),
       retry_after := None\<rparr>"

definition disable_metadata_refresh :: "('u, 'jwks) provider_state \<Rightarrow> ('u, 'jwks) provider_state" where
  "disable_metadata_refresh p =
     p\<lparr>metadata_refresh_interval := None, refresh_after := None, stale_until := None,
       retry_after := None\<rparr>"

section \<open>Refresh\<close>

text \<open>
  \<^verbatim>\<open>refresh_metadata_from\<close>, up to the write lock: discovery for the issuer of the snapshot, and the
  key set, which is kept if \<^verbatim>\<open>jwks_uri\<close> is unchanged and otherwise filled before it is used.
\<close>

definition new_jwks ::
  "('u, 'jws, 'key, 'claims, 'jwks, 'w) env \<Rightarrow> 'u provider_metadata \<Rightarrow> 'jwks" where
  "new_jwks E m =
     jwks_new (env_jose E) (url_as_str (env_url E) (jwks_as_url (jwks_uri m)))
       (jwks_fetch (env_display E) (env_runtime E))"

definition discover_from ::
  "('u, 'jws, 'key, 'claims, 'jwks, 'w) env \<Rightarrow> 'u issuer_url \<Rightarrow> 'w \<Rightarrow>
   (oidc_error + 'u discovered_metadata) \<times> 'w" where
  "discover_from E i = discover_with_cache (env_display E) (env_url E) (env_json E) (env_runtime E) i"

definition fetch_replacement ::
  "('u, 'jws, 'key, 'claims, 'jwks, 'w) env \<Rightarrow> ('u, 'jwks) provider_state \<Rightarrow> 'w \<Rightarrow>
   (oidc_error + 'u discovered_metadata \<times> 'jwks) \<times> 'w" where
  "fetch_replacement E current =
     binds (discover_from E (metadata_issuer (ps_metadata current))) (\<lambda>d.
     if jwks_uri (disc_metadata d) = jwks_uri (ps_metadata current)
     then lifts (Inr (d, ps_jwks current))
     else let jwks = new_jwks E (disc_metadata d) in
       binds (map_errs Jose (jwks_keys (env_jose E) jwks)) (\<lambda>_. lifts (Inr (d, jwks))))"

text \<open>The rest, under the write lock: the settings are read then, not when the fetch began.\<close>

definition publish_replacement ::
  "('u, 'jws, 'key, 'claims, 'jwks, 'w) env \<Rightarrow> 'u discovered_metadata \<Rightarrow> 'jwks \<Rightarrow>
   ('u, 'jwks) provider_state \<times> 'w \<Rightarrow> ('u, 'jwks) provider_state \<times> 'w" where
  "publish_replacement E d jwks s =
     (case s of (p, w) \<Rightarrow>
      (let interval = metadata_refresh_interval p;
           minimum = metadata_minimum_cache_duration p;
           retain = metadata_retain_on_error p in
       case discovered_cache_policy (env_httpdate E) (env_runtime E) d
              (case interval of Some i \<Rightarrow> i | None \<Rightarrow> default_metadata_refresh_interval) minimum w of
         (policy, w1) \<Rightarrow>
       (case metadata_cache_deadlines (env_runtime E) policy retain w1 of
         ((policy_refresh, policy_stale, stale), w2) \<Rightarrow>
          (let (refresh, stale_deadline) =
                 (if interval \<noteq> None then (policy_refresh, policy_stale) else (None, None))
           in (\<lparr>ps_metadata = disc_metadata d, ps_jwks = jwks, refresh_after = refresh,
                stale_until = stale_deadline, retry_after = None, stale_on_error = stale,
                metadata_refresh_interval = interval, metadata_minimum_cache_duration = minimum,
                metadata_retain_on_error = retain\<rparr>, w2)))))"

definition refresh_metadata_from ::
  "('u, 'jws, 'key, 'claims, 'jwks, 'w) env \<Rightarrow> ('u, 'jwks) provider_state \<Rightarrow>
   ('u, 'jwks) provider_state \<times> 'w \<Rightarrow>
   (oidc_error + 'u provider_metadata) \<times> (('u, 'jwks) provider_state \<times> 'w)" where
  "refresh_metadata_from E current =
     binds (on_snd (fetch_replacement E current)) (\<lambda>(d, jwks) s.
       (Inr (disc_metadata d), publish_replacement E d jwks s))"

text \<open>The clock is read before the write lock is taken; what follows is one step on the snapshot.\<close>

definition after_error_at ::
  "instant \<Rightarrow> oidc_error \<Rightarrow> ('u, 'jwks) provider_state \<Rightarrow>
   (oidc_error + 'u provider_metadata) \<times> ('u, 'jwks) provider_state" where
  "after_error_at now error p =
     (case stale_until p of
        Some stale \<Rightarrow>
          if now < stale then
            (let retry = (case instant_checked_add now metadata_refresh_retry_interval of
                            None \<Rightarrow> stale | Some deadline \<Rightarrow> min deadline stale)
             in (Inr (ps_metadata p), p\<lparr>retry_after := Some retry\<rparr>))
          else (Inl error, p)
      | None \<Rightarrow> (Inl error, p))"

definition metadata_after_refresh_error ::
  "'w runtime \<Rightarrow> oidc_error \<Rightarrow> ('u, 'jwks) provider_state \<times> 'w \<Rightarrow>
   (oidc_error + 'u provider_metadata) \<times> (('u, 'jwks) provider_state \<times> 'w)" where
  "metadata_after_refresh_error R error s =
     (case s of (p, w) \<Rightarrow>
      (case instant_now R w of (now, w') \<Rightarrow>
       (case after_error_at now error p of (r, p') \<Rightarrow> (r, (p', w')))))"

definition refresh_metadata ::
  "('u, 'jws, 'key, 'claims, 'jwks, 'w) env \<Rightarrow> ('u, 'jwks) provider_state \<times> 'w \<Rightarrow>
   (oidc_error + 'u provider_metadata) \<times> (('u, 'jwks) provider_state \<times> 'w)" where
  "refresh_metadata E s = refresh_metadata_from E (fst s) s"

text \<open>
  \<^verbatim>\<open>refresh_metadata_if_stale\<close> run without interference: the staleness is checked before and after
  the lock is taken.
\<close>

definition refresh_metadata_if_stale ::
  "('u, 'jws, 'key, 'claims, 'jwks, 'w) env \<Rightarrow> ('u, 'jwks) provider_state \<times> 'w \<Rightarrow>
   (oidc_error + 'u provider_metadata) \<times> (('u, 'jwks) provider_state \<times> 'w)" where
  "refresh_metadata_if_stale E s =
     (case s of (p, w) \<Rightarrow>
      (case metadata_needs_refresh (env_runtime E) p w of (stale, w1) \<Rightarrow>
       if \<not> stale then (Inr (ps_metadata p), (p, w1))
       else (case metadata_needs_refresh (env_runtime E) p w1 of (stale', w2) \<Rightarrow>
         if \<not> stale' then (Inr (ps_metadata p), (p, w2))
         else (case refresh_metadata_from E p (p, w2) of
                 (Inr m, s') \<Rightarrow> (Inr m, s')
               | (Inl error, s') \<Rightarrow> metadata_after_refresh_error (env_runtime E) error s'))))"
section \<open>The invariant of the snapshot\<close>

text \<open>
  Automatic refresh is on exactly if there is a freshness deadline; the stale deadline follows
  from the freshness deadline, the last response and the configured retention; a retry is only
  deferred within the stale period.
\<close>

definition provider_ok :: "('u, 'jwks) provider_state \<Rightarrow> bool" where
  "provider_ok p \<longleftrightarrow>
     (metadata_refresh_interval p = None \<longleftrightarrow> refresh_after p = None) \<and>
     stale_until p = Option.bind (refresh_after p)
       (\<lambda>r. metadata_stale_deadline r (stale_on_error p) (metadata_retain_on_error p)) \<and>
     (\<forall>t. retry_after p = Some t \<longrightarrow> (\<exists>s. stale_until p = Some s \<and> t \<le> s))"

text \<open>What a refresh never changes.\<close>

definition provider_settings :: "('u, 'jwks) provider_state \<Rightarrow> duration option \<times> duration \<times> duration" where
  "provider_settings p =
     (metadata_refresh_interval p, metadata_minimum_cache_duration p, metadata_retain_on_error p)"

lemma stale_deadline_ge: "metadata_stale_deadline r b d = Some s \<Longrightarrow> r \<le> s \<and> b"
  by (auto simp: metadata_stale_deadline_def dest: instant_checked_add_ge split: if_splits)

lemma provider_ok_stale:
  "provider_ok p \<Longrightarrow> stale_until p = Some s \<Longrightarrow>
     \<exists>r. refresh_after p = Some r \<and> r \<le> s \<and> stale_on_error p \<and>
       instant_nanos s = instant_nanos r + int (as_nanos (metadata_retain_on_error p))"
  by (auto simp: provider_ok_def metadata_stale_deadline_def Option.bind_eq_Some_conv
      dest: instant_checked_add_ge [OF sym] instant_checked_add_Some [OF sym] split: if_splits)

lemma set_refresh_interval_ok: "provider_ok (fst (set_metadata_refresh_interval R i (p, w)))"
  by (auto simp: set_metadata_refresh_interval_def provider_ok_def split: prod.splits)

lemma set_minimum_ok:
  "provider_ok p \<Longrightarrow> provider_ok (fst (set_metadata_minimum_cache_duration R d (p, w)))"
  by (cases "metadata_refresh_deadline R d w")
    (auto simp: set_metadata_minimum_cache_duration_def provider_ok_def Let_def split: option.splits)

lemma set_retain_ok: "provider_ok p \<Longrightarrow> provider_ok (set_metadata_retain_on_error d p)"
  by (simp add: set_metadata_retain_on_error_def provider_ok_def)

lemma disable_ok: "provider_ok (disable_metadata_refresh p)"
  by (simp add: disable_metadata_refresh_def provider_ok_def)

lemma cache_deadlines_stale:
  "metadata_cache_deadlines R policy retain w = ((r, s, b), w') \<Longrightarrow>
     s = Option.bind r (\<lambda>t. metadata_stale_deadline t b retain) \<and> r \<noteq> None"
  by (auto simp: metadata_cache_deadlines_def metadata_stale_deadline_def
      split: cache_policy.splits prod.splits)

lemma publish_unfold:
  obtains policy w1 r s b w2 where
    "discovered_cache_policy (env_httpdate E) (env_runtime E) d
       (case metadata_refresh_interval p of Some i \<Rightarrow> i | None \<Rightarrow> default_metadata_refresh_interval)
       (metadata_minimum_cache_duration p) w = (policy, w1)"
    "metadata_cache_deadlines (env_runtime E) policy (metadata_retain_on_error p) w1 = ((r, s, b), w2)"
    "publish_replacement E d jwks (p, w) =
       (\<lparr>ps_metadata = disc_metadata d, ps_jwks = jwks,
         refresh_after = (if metadata_refresh_interval p \<noteq> None then r else None),
         stale_until = (if metadata_refresh_interval p \<noteq> None then s else None),
         retry_after = None, stale_on_error = b,
         metadata_refresh_interval = metadata_refresh_interval p,
         metadata_minimum_cache_duration = metadata_minimum_cache_duration p,
         metadata_retain_on_error = metadata_retain_on_error p\<rparr>, w2)"
proof -
  obtain policy w1 where c: "discovered_cache_policy (env_httpdate E) (env_runtime E) d
       (case metadata_refresh_interval p of Some i \<Rightarrow> i | None \<Rightarrow> default_metadata_refresh_interval)
       (metadata_minimum_cache_duration p) w = (policy, w1)" by fastforce
  obtain r s b w2 where m: "metadata_cache_deadlines (env_runtime E) policy
      (metadata_retain_on_error p) w1 = ((r, s, b), w2)" by (metis prod.exhaust)
  show thesis
    by (rule that [OF c m]) (simp add: publish_replacement_def Let_def c m)
qed

lemma publish_facts:
  assumes "publish_replacement E d jwks (p, w) = (p', w')"
  shows "provider_ok p' \<and> ps_metadata p' = disc_metadata d \<and> ps_jwks p' = jwks \<and>
    provider_settings p' = provider_settings p \<and> retry_after p' = None"
proof (rule publish_unfold [of E d p w jwks])
  fix policy w1 r s b w2
  assume m: "metadata_cache_deadlines (env_runtime E) policy (metadata_retain_on_error p) w1 =
      ((r, s, b), w2)"
    and p: "publish_replacement E d jwks (p, w) =
       (\<lparr>ps_metadata = disc_metadata d, ps_jwks = jwks,
         refresh_after = (if metadata_refresh_interval p \<noteq> None then r else None),
         stale_until = (if metadata_refresh_interval p \<noteq> None then s else None),
         retry_after = None, stale_on_error = b,
         metadata_refresh_interval = metadata_refresh_interval p,
         metadata_minimum_cache_duration = metadata_minimum_cache_duration p,
         metadata_retain_on_error = metadata_retain_on_error p\<rparr>, w2)"
  show ?thesis
    using cache_deadlines_stale [OF m] assms p
    by (cases "metadata_refresh_interval p") (auto simp: provider_ok_def provider_settings_def)
qed

lemma fetch_replacement_ok:
  assumes "fetch_replacement E current w = (Inr (d, jwks), w')"
  shows "metadata_issuer (disc_metadata d) = metadata_issuer (ps_metadata current) \<and>
    metadata_ok (env_url E) (disc_metadata d) \<and> validate_metadata (disc_metadata d) = Inr () \<and>
    (jwks_uri (disc_metadata d) = jwks_uri (ps_metadata current) \<and> jwks = ps_jwks current \<or>
     jwks_uri (disc_metadata d) \<noteq> jwks_uri (ps_metadata current) \<and> jwks = new_jwks E (disc_metadata d) \<and>
       (\<exists>w1 w2. jwks_keys (env_jose E) jwks w1 = (Inr (), w2)))"
proof -
  from assms obtain w1 where d: "discover_from E (metadata_issuer (ps_metadata current)) w = (Inr d, w1)"
    and rest: "(if jwks_uri (disc_metadata d) = jwks_uri (ps_metadata current)
      then lifts (Inr (d, ps_jwks current))
      else let jwks = new_jwks E (disc_metadata d) in
        binds (map_errs Jose (jwks_keys (env_jose E) jwks)) (\<lambda>_. lifts (Inr (d, jwks)))) w1 =
      (Inr (d, jwks), w')"
    by (auto simp: fetch_replacement_def binds_eq_Inr Let_def split: if_splits)
  from discover_with_cache_issuer [OF d [unfolded discover_from_def]] rest show ?thesis
    by (auto simp: binds_eq_Inr Let_def split: if_splits)
qed

lemma refresh_from_ok:
  assumes "refresh_metadata_from E current (p, w) = (Inr m, (p', w'))"
  obtains d jwks w1 where "fetch_replacement E current w = (Inr (d, jwks), w1)"
    "publish_replacement E d jwks (p, w1) = (p', w')" "m = disc_metadata d"
  using assms by (auto simp: refresh_metadata_from_def binds_eq_Inr on_snd_eq)

lemma refresh_from_error:
  assumes "refresh_metadata_from E current (p, w) = (Inl e, (p', w'))"
  shows "p' = p \<and> fetch_replacement E current w = (Inl e, w')"
  using assms by (auto simp: refresh_metadata_from_def binds_eq_Inl on_snd_eq)

section \<open>Setters share a contract\<close>

datatype setter =
    SetRefreshInterval duration
  | SetMinimumCacheDuration duration
  | SetRetainOnError duration
  | DisableRefresh

fun apply_setter ::
  "'w runtime \<Rightarrow> setter \<Rightarrow> ('u, 'jwks) provider_state \<times> 'w \<Rightarrow> ('u, 'jwks) provider_state \<times> 'w" where
  "apply_setter R (SetRefreshInterval d) s = set_metadata_refresh_interval R d s"
| "apply_setter R (SetMinimumCacheDuration d) s = set_metadata_minimum_cache_duration R d s"
| "apply_setter R (SetRetainOnError d) (p, w) = (set_metadata_retain_on_error d p, w)"
| "apply_setter R DisableRefresh (p, w) = (disable_metadata_refresh p, w)"

locale snapshot_update =
  fixes update :: "('u, 'jwks) provider_state \<times> 'w \<Rightarrow> ('u, 'jwks) provider_state \<times> 'w"
  assumes keeps_ok: "provider_ok p \<Longrightarrow> update (p, w) = (p', w') \<Longrightarrow> provider_ok p'"
    and keeps_snapshot: "update (p, w) = (p', w') \<Longrightarrow>
          ps_metadata p' = ps_metadata p \<and> ps_jwks p' = ps_jwks p \<and> stale_on_error p' = stale_on_error p"
    and resets_retry: "update (p, w) = (p', w') \<Longrightarrow> retry_after p' = None"
begin

lemma iterate_ok:
  "provider_ok p \<Longrightarrow> (update ^^ n) (p, w) = (p', w') \<Longrightarrow>
     provider_ok p' \<and> ps_metadata p' = ps_metadata p \<and> ps_jwks p' = ps_jwks p"
proof (induction n arbitrary: p' w')
  case (Suc n)
  obtain q v where q: "(update ^^ n) (p, w) = (q, v)" by fastforce
  with Suc.prems have "update (q, v) = (p', w')" by simp
  with Suc.IH [OF Suc.prems(1) q] keeps_ok [of q v p' w'] keeps_snapshot [of q v p' w']
  show ?case by simp
qed simp

text \<open>A deferred retry never survives a change of the settings.\<close>

lemma due_after_update:
  "update (p, w) = (p', w') \<Longrightarrow> refresh_after p' = Some r \<Longrightarrow> needs_refresh_at p' now \<longleftrightarrow> r \<le> now"
  using resets_retry by (simp add: needs_refresh_at_def)

end

lemma fst_conv_ok: "x = (p', w') \<Longrightarrow> provider_ok (fst x) \<Longrightarrow> provider_ok p'"
  by simp

interpretation setter: snapshot_update "apply_setter R st"
proof
  fix p p' :: "('b, 'c) provider_state" and w w'
  show "provider_ok p \<Longrightarrow> apply_setter R st (p, w) = (p', w') \<Longrightarrow> provider_ok p'"
    using set_refresh_interval_ok [of R _ p w] set_minimum_ok [of p R _ w]
    by (cases st) (auto simp: set_retain_ok disable_ok intro: fst_conv_ok)
  assume "apply_setter R st (p, w) = (p', w')"
  then show "ps_metadata p' = ps_metadata p \<and> ps_jwks p' = ps_jwks p \<and> stale_on_error p' = stale_on_error p"
    and "retry_after p' = None"
    by (cases st; auto simp: set_metadata_refresh_interval_def set_metadata_minimum_cache_duration_def
      set_metadata_retain_on_error_def disable_metadata_refresh_def Let_def split: prod.splits if_splits)+
qed

section \<open>Automatic refresh\<close>

lemma provider_ok_stale_limit: "provider_ok p \<Longrightarrow> stale_until p = Some s \<Longrightarrow> instant_nanos s < clock_limit"
  by (auto simp: provider_ok_def metadata_stale_deadline_def Option.bind_eq_Some_conv
      instant_checked_add_def split: if_splits dest: sym)

lemma after_error_at_cases:
  assumes ok: "provider_ok p" and run: "after_error_at now e p = (r, p')"
  obtains (failed) "r = Inl e" "p' = p" "\<forall>s. stale_until p = Some s \<longrightarrow> s \<le> now"
  | (stale) s t where "stale_until p = Some s" "now < s" "r = Inr (ps_metadata p)"
      "p' = p\<lparr>retry_after := Some t\<rparr>" "t \<le> s"
      "instant_nanos t \<le> instant_nanos now + 30 * 1000000000" "now < t"
      "instant_nanos t = min (instant_nanos now + 30 * 1000000000) (instant_nanos s)"
proof (cases "stale_until p")
  case None
  with run show thesis by (intro failed) (auto simp: after_error_at_def)
next
  case (Some s)
  show thesis
  proof (cases "now < s")
    case False
    with Some run show thesis by (intro failed) (auto simp: after_error_at_def)
  next
    case True
    define t where "t = (case instant_checked_add now metadata_refresh_retry_interval of
        None \<Rightarrow> s | Some deadline \<Rightarrow> min deadline s)"
    have "t \<le> s" by (auto simp: t_def split: option.splits)
    moreover have "now < t"
      using True by (auto simp: t_def instant_checked_add_def less_instant_def
        metadata_refresh_retry_interval_def from_secs_def nanos_per_sec_def min_def split: option.splits)
    moreover have least: "instant_nanos t = min (instant_nanos now + 30 * 1000000000) (instant_nanos s)"
      using provider_ok_stale_limit [OF ok Some]
      by (auto simp: t_def instant_checked_add_def metadata_refresh_retry_interval_def from_secs_def
          nanos_per_sec_def min_def less_eq_instant_def split: option.splits if_splits)
    moreover from least have "instant_nanos t \<le> instant_nanos now + 30 * 1000000000" by simp
    ultimately show thesis
      using Some True run by (intro stale [of s t]) (auto simp: after_error_at_def t_def Let_def)
  qed
qed

lemma after_error_cases:
  assumes ok: "provider_ok p" and "metadata_after_refresh_error R e (p, w) = (r, (p', w'))"
  obtains (failed) now where "instant_now R w = (now, w')" "r = Inl e" "p' = p"
      "\<forall>s. stale_until p = Some s \<longrightarrow> s \<le> now"
  | (stale) now s t where "instant_now R w = (now, w')" "stale_until p = Some s" "now < s"
      "r = Inr (ps_metadata p)" "p' = p\<lparr>retry_after := Some t\<rparr>" "t \<le> s"
      "instant_nanos t \<le> instant_nanos now + 30 * 1000000000" "now < t"
      "instant_nanos t = min (instant_nanos now + 30 * 1000000000) (instant_nanos s)"
proof -
  from assms(2) obtain now where now: "instant_now R w = (now, w')" "after_error_at now e p = (r, p')"
    by (auto simp: metadata_after_refresh_error_def split: prod.splits)
  from ok now(2) show thesis
  proof (cases rule: after_error_at_cases)
    case failed
    with now(1) show thesis by (intro that(1))
  next
    case (stale s t)
    with now(1) show thesis by (intro that(2))
  qed
qed

lemma retry_keeps_ok:
  assumes "provider_ok p" and "stale_until p = Some s" and "t \<le> s"
  shows "provider_ok (p\<lparr>retry_after := Some t\<rparr>)"
proof -
  have "provider_ok (p\<lparr>retry_after := Some t\<rparr>) \<longleftrightarrow>
      (metadata_refresh_interval p = None \<longleftrightarrow> refresh_after p = None) \<and>
      stale_until p = Option.bind (refresh_after p)
        (\<lambda>r. metadata_stale_deadline r (stale_on_error p) (metadata_retain_on_error p)) \<and>
      (\<exists>s. stale_until p = Some s \<and> t \<le> s)"
    by (simp add: provider_ok_def)
  moreover from assms(1) have "metadata_refresh_interval p = None \<longleftrightarrow> refresh_after p = None"
    "stale_until p = Option.bind (refresh_after p)
        (\<lambda>r. metadata_stale_deadline r (stale_on_error p) (metadata_retain_on_error p))"
    by (simp_all only: provider_ok_def)
  ultimately show ?thesis using assms(2,3) by blast
qed

lemma after_error_at_keeps:
  assumes "provider_ok p" and "after_error_at now e p = (r, p')"
  shows "provider_ok p' \<and> ps_metadata p' = ps_metadata p \<and> ps_jwks p' = ps_jwks p \<and>
    provider_settings p' = provider_settings p \<and> (r = Inl e \<or> r = Inr (ps_metadata p))"
  using assms
proof (cases rule: after_error_at_cases)
  case (stale s t)
  with retry_keeps_ok [OF assms(1) stale(1,5)] show ?thesis by (simp add: provider_settings_def)
qed (use assms in simp)

lemma after_error_keeps:
  assumes "provider_ok p" and "metadata_after_refresh_error R e (p, w) = (r, (p', w'))"
  shows "provider_ok p' \<and> ps_metadata p' = ps_metadata p \<and> ps_jwks p' = ps_jwks p \<and>
    provider_settings p' = provider_settings p \<and> (r = Inl e \<or> r = Inr (ps_metadata p))"
proof -
  from assms(2) obtain now where "after_error_at now e p = (r, p')"
    by (auto simp: metadata_after_refresh_error_def split: prod.splits)
  then show ?thesis by (rule after_error_at_keeps [OF assms(1)])
qed

text \<open>One automatic refresh, step by step.\<close>

lemma refresh_if_stale_cases:
  assumes ok: "provider_ok p" and run: "refresh_metadata_if_stale E (p, w) = (r, (p', w'))"
  obtains (current) now w1 w2 where "instant_now (env_runtime E) w1 = (now, w2)" "\<not> needs_refresh_at p now"
      "r = Inr (ps_metadata p)" "p' = p" "w2 = w'" "w1 \<in> {w, snd (instant_now (env_runtime E) w)}"
  | (refreshed) d jwks w1 w2 where "fetch_replacement E p w1 = (Inr (d, jwks), w2)"
      "publish_replacement E d jwks (p, w2) = (p', w')" "r = Inr (disc_metadata d)"
      "w1 = snd (instant_now (env_runtime E) (snd (instant_now (env_runtime E) w)))"
  | (fallback) e now s t w1 w2 where "fetch_replacement E p w1 = (Inl e, w2)"
      "instant_now (env_runtime E) w2 = (now, w')" "stale_until p = Some s" "now < s"
      "r = Inr (ps_metadata p)" "p' = p\<lparr>retry_after := Some t\<rparr>" "t \<le> s" "now < t"
      "instant_nanos t \<le> instant_nanos now + 30 * 1000000000"
      "instant_nanos t = min (instant_nanos now + 30 * 1000000000) (instant_nanos s)"
      "w1 = snd (instant_now (env_runtime E) (snd (instant_now (env_runtime E) w)))"
  | (failed) e now w1 w2 where "fetch_replacement E p w1 = (Inl e, w2)"
      "instant_now (env_runtime E) w2 = (now, w')" "\<forall>s. stale_until p = Some s \<longrightarrow> s \<le> now"
      "r = Inl e" "p' = p"
      "w1 = snd (instant_now (env_runtime E) (snd (instant_now (env_runtime E) w)))"
proof -
  let ?R = "env_runtime E"
  obtain t1 w1 where t1: "instant_now ?R w = (t1, w1)" by fastforce
  show thesis
  proof (cases "needs_refresh_at p t1")
    case False
    with run t1 show thesis
      by (intro current [of w t1 w1])
        (auto simp: refresh_metadata_if_stale_def metadata_needs_refresh_def)
  next
    case first: True
    obtain t2 w2 where t2: "instant_now ?R w1 = (t2, w2)" by fastforce
    show thesis
    proof (cases "needs_refresh_at p t2")
      case False
      with run t1 t2 first show thesis
        by (intro current [of w1 t2 w2])
          (auto simp: refresh_metadata_if_stale_def metadata_needs_refresh_def)
    next
      case second: True
      obtain f q w3 where f: "refresh_metadata_from E p (p, w2) = (f, (q, w3))" by (metis prod.exhaust)
      have w2: "w2 = snd (instant_now ?R (snd (instant_now ?R w)))" using t1 t2 by simp
      have run': "(case f of Inr m \<Rightarrow> (Inr m, (q, w3))
          | Inl error \<Rightarrow> metadata_after_refresh_error ?R error (q, w3)) = (r, (p', w'))"
        using run t1 t2 first second f
        by (cases f) (auto simp: refresh_metadata_if_stale_def metadata_needs_refresh_def)
      show thesis
      proof (cases f)
        case (Inl e)
        from refresh_from_error [OF f [unfolded Inl]]
        have q: "q = p" "fetch_replacement E p w2 = (Inl e, w3)" by auto
        from run' Inl q have "metadata_after_refresh_error ?R e (p, w3) = (r, (p', w'))" by simp
        from ok this show thesis
        proof (cases rule: after_error_cases)
          case (failed now)
          with q(2) w2 show thesis by (intro that(4))
        next
          case (stale now s t)
          with q(2) w2 show thesis by (intro that(3))
        qed
      next
        case (Inr m)
        from refresh_from_ok [OF f [unfolded Inr]] obtain d jwks w4 where
          "fetch_replacement E p w2 = (Inr (d, jwks), w4)"
          "publish_replacement E d jwks (p, w4) = (q, w3)" "m = disc_metadata d" by blast
        with run' Inr w2 show thesis by (intro refreshed) auto
      qed
    qed
  qed
qed

lemma not_due_bound:
  assumes ok: "provider_ok p" and "metadata_refresh_interval p \<noteq> None" and "\<not> needs_refresh_at p now"
  shows "\<exists>r. refresh_after p = Some r \<and>
    (now < r \<or> stale_on_error p \<and>
       instant_nanos now < instant_nanos r + int (as_nanos (metadata_retain_on_error p)))"
proof -
  from ok assms(2) obtain r where r: "refresh_after p = Some r" by (auto simp: provider_ok_def)
  show ?thesis
  proof (cases "now < r")
    case False
    with assms(3) r obtain t where t: "retry_after p = Some t" "now < t"
      by (auto simp: needs_refresh_at_def split: option.splits)
    with ok obtain s where "stale_until p = Some s" "t \<le> s" unfolding provider_ok_def by blast
    with provider_ok_stale [OF ok this(1)] t r show ?thesis
      by (auto simp: less_instant_def less_eq_instant_def)
  qed (use r in auto)
qed

text \<open>A refresh keeps the invariant, the issuer and the settings.\<close>

lemma refresh_if_stale_keeps:
  assumes "provider_ok p" and "refresh_metadata_if_stale E (p, w) = (r, (p', w'))"
  shows "provider_ok p' \<and> metadata_issuer (ps_metadata p') = metadata_issuer (ps_metadata p) \<and>
    provider_settings p' = provider_settings p \<and>
    (metadata_ok (env_url E) (ps_metadata p) \<longrightarrow> metadata_ok (env_url E) (ps_metadata p')) \<and>
    (\<forall>m. r = Inr m \<longrightarrow> m = ps_metadata p')"
  using assms
proof (cases rule: refresh_if_stale_cases)
  case (refreshed d jwks w1 w2)
  with publish_facts [OF refreshed(2)] fetch_replacement_ok [OF refreshed(1)] show ?thesis by simp
next
  case (fallback e now s t w1 w2)
  with retry_keeps_ok [OF assms(1) fallback(3,7)] show ?thesis by (simp add: provider_settings_def)
qed (use assms in simp_all)

section \<open>Properties\<close>

text \<open>
  C9. The invariant of the snapshot is kept by every operation on it: each setter, the publication
  of a refreshed snapshot, the fallback after a failed refresh and the automatic refresh. Automatic
  refresh is on exactly while there is a freshness deadline, the stale deadline is the freshness
  deadline plus the retention (none if the response forbids stale use), and a retry is never
  deferred beyond it.
\<close>

theorem provider_invariant:
  assumes "provider_ok p"
  shows "provider_ok (fst (apply_setter R st (p, w))) \<and>
    provider_ok (fst (publish_replacement E d jwks (p, w'))) \<and>
    provider_ok (fst (snd (metadata_after_refresh_error R e (p, w)))) \<and>
    provider_ok (fst (snd (refresh_metadata_if_stale E (p, w'))))"
proof -
  obtain p1 v1 where s: "apply_setter R st (p, w) = (p1, v1)" by fastforce
  obtain p2 v2 where q: "publish_replacement E d jwks (p, w') = (p2, v2)" by fastforce
  obtain r p3 v3 where a: "metadata_after_refresh_error R e (p, w) = (r, (p3, v3))" by (metis prod.exhaust)
  obtain r' p4 v4 where f: "refresh_metadata_if_stale E (p, w') = (r', (p4, v4))" by (metis prod.exhaust)
  show ?thesis
    using setter.keeps_ok [OF assms s] publish_facts [OF q] after_error_keeps [OF assms a]
      refresh_if_stale_keeps [OF assms f] s q a f by simp
qed

text \<open>A provider of the example: discovery at \<^verbatim>\<open>https://op\<close>, due at instant 0, stale until 100 s.\<close>

definition example_metadata :: "bytes provider_metadata" where
  "example_metadata =
     \<lparr>metadata_issuer = \<lparr>issuer_as_url = ''https://op'', issuer_as_str = ''https://op''\<rparr>,
      authorization_endpoint = AuthUrl ''https://op/auth'', token_endpoint = TokenUrl ''https://op/token'',
      userinfo_endpoint = Some (UserInfoUrl ''https://op/me''), jwks_uri = JwksUrl ''https://op/keys'',
      end_session_endpoint = Some (EndSessionUrl ''https://op/bye''), registration_endpoint = None,
      scopes_supported = None, response_types_supported = [''code''],
      subject_types_supported = [''public''], id_token_signing_alg_values_supported = [''RS256''],
      grant_types_supported = None, token_endpoint_auth_methods_supported = None,
      authorization_response_iss_parameter_supported = True,
      userinfo_signing_alg_values_supported = None, metadata_extra = Map.empty\<rparr>"

definition example_provider :: "(bytes, bytes) provider_state" where
  "example_provider =
     \<lparr>ps_metadata = example_metadata, ps_jwks = ''https://op/keys'', refresh_after = Some (Instant 0),
      stale_until = Some (Instant (100 * 1000000000)), retry_after = None, stale_on_error = True,
      metadata_refresh_interval = Some (from_secs 60), metadata_minimum_cache_duration = from_secs 60,
      metadata_retain_on_error = from_secs 100\<rparr>"

definition example_env ::
  "(bytes \<times> json) list \<Rightarrow> (bytes, table_jws, bytes, json, bytes, script) env" where
  "example_env docs =
     \<lparr>env_display = plain_display, env_url = text_url, env_json = table_json docs,
      env_jose = table_jose docs, env_httpdate = \<lparr>parse_http_date = (\<lambda>_. None)\<rparr>,
      env_runtime = scripted, env_form = std_form, env_base64 = std_base64, env_crypto = pad_crypto\<rparr>"

definition example_world :: "(oidc_error + http_response) list \<Rightarrow> int \<Rightarrow> script" where
  "example_world answers secs =
     \<lparr>script_answers = answers, script_sent = [], script_instant = Instant (secs * 1000000000),
      script_system = SystemTime (secs * 1000000000)\<rparr>"

lemma example_provider_ok: "provider_ok example_provider"
  by (simp add: provider_ok_def example_provider_def metadata_stale_deadline_def is_zero_duration_def
      instant_checked_add_def from_secs_def nanos_per_sec_def clock_limit_def zero_duration_def)

lemma example_schemes:
  "text_scheme ''https://op'' = ''https''" "text_scheme ''https://op/auth'' = ''https''"
  "text_scheme ''https://op/token'' = ''https''" "text_scheme ''https://op/keys'' = ''https''"
  "text_scheme ''https://op/me'' = ''https''" "text_scheme ''https://op/bye'' = ''https''"
  by code_simp+

lemma example_env_simps [simp]:
  "env_display (example_env docs) = plain_display" "env_url (example_env docs) = text_url"
  "env_json (example_env docs) = table_json docs" "env_jose (example_env docs) = table_jose docs"
  "env_runtime (example_env docs) = scripted" "env_form (example_env docs) = std_form"
  "env_base64 (example_env docs) = std_base64" "env_crypto (example_env docs) = pad_crypto"
  by (simp_all add: example_env_def)

lemma text_url_simps [simp]:
  "url_as_str text_url u = u" "url_parse text_url s = Inr s" "url_scheme text_url u = text_scheme u"
  "url_query text_url u = text_query u" "url_query_pairs text_url u = text_pairs u"
  "url_cannot_be_a_base text_url u \<longleftrightarrow> CHR ''/'' \<notin> set u"
  by (simp_all add: text_url_def)

text \<open>With no answer scripted, discovery fails in the transport.\<close>

lemma example_fetch_fails:
  "\<exists>e w'. fetch_replacement (example_env docs) example_provider (example_world [] secs) = (Inl e, w') \<and>
     script_instant w' = Instant (secs * 1000000000)"
  by (simp add: fetch_replacement_def discover_from_def discover_with_cache_def discovery_url_def
      example_provider_def example_metadata_def example_world_def binds_def map_errs_def)

theorem provider_invariant_witness:
  "provider_ok (fst (apply_setter scripted (SetRetainOnError (from_secs 5))
     (example_provider, example_world [] 5)))"
  by (rule provider_invariant [OF example_provider_ok, THEN conjunct1])

text \<open>
  C17. While automatic refresh is on, the metadata that \<^verbatim>\<open>refresh_metadata_if_stale\<close> returns has just
  been fetched and published for the issuer of the snapshot, or it is the snapshot, and then a
  clock reading taken during the call lies before the freshness deadline or, if the last response
  permits stale use, before that deadline plus the configured retention.
\<close>

theorem stale_use_is_bounded:
  assumes "provider_ok p" and "metadata_refresh_interval p \<noteq> None"
    and "refresh_metadata_if_stale E (p, w) = (Inr m, (p', w'))"
  shows "(\<exists>d jwks w1 w2. fetch_replacement E p w1 = (Inr (d, jwks), w2) \<and>
       publish_replacement E d jwks (p, w2) = (p', w') \<and> m = disc_metadata d \<and>
       metadata_issuer m = metadata_issuer (ps_metadata p)) \<or>
    (\<exists>now r w1 w2. instant_now (env_runtime E) w1 = (now, w2) \<and> refresh_after p = Some r \<and>
       m = ps_metadata p \<and> ps_metadata p' = m \<and> ps_jwks p' = ps_jwks p \<and>
       (now < r \<or> stale_on_error p \<and>
          instant_nanos now < instant_nanos r + int (as_nanos (metadata_retain_on_error p))))"
  using assms(1,3)
proof (cases rule: refresh_if_stale_cases)
  case (current now w1 w2)
  from not_due_bound [OF assms(1,2) current(2)] current show ?thesis by (intro disjI2) auto
next
  case (refreshed d jwks w1 w2)
  with fetch_replacement_ok [OF refreshed(1)] show ?thesis by auto
next
  case (fallback e now s t w1 w2)
  from provider_ok_stale [OF assms(1) fallback(3)] obtain r where r: "refresh_after p = Some r"
    "stale_on_error p" "instant_nanos s = instant_nanos r + int (as_nanos (metadata_retain_on_error p))"
    by blast
  moreover have "instant_nanos now < instant_nanos s" using fallback(4) by (simp add: less_instant_def)
  moreover have "m = ps_metadata p" "ps_metadata p' = m" "ps_jwks p' = ps_jwks p"
    using fallback(5,6) by simp_all
  ultimately show ?thesis using fallback(2) by (intro disjI2) force
qed simp

lemma example_refresh_falls_back:
  "\<exists>p' w'. refresh_metadata_if_stale (example_env docs) (example_provider, example_world [] 5) =
     (Inr example_metadata, (p', w'))"
proof -
  let ?E = "example_env docs" and ?w = "example_world [] 5"
  obtain e w' where f: "fetch_replacement ?E example_provider ?w = (Inl e, w')"
    "script_instant w' = Instant (5 * 1000000000)"
    using example_fetch_fails [of docs 5] by auto
  have "needs_refresh_at example_provider (Instant (5 * 1000000000))"
    by (simp add: needs_refresh_at_def example_provider_def)
  moreover have "script_instant ?w = Instant (5 * 1000000000)" by (simp add: example_world_def)
  moreover have "stale_until example_provider = Some (Instant (100 * 1000000000))"
    "ps_metadata example_provider = example_metadata" by (simp_all add: example_provider_def)
  ultimately show ?thesis using f
    by (simp add: refresh_metadata_if_stale_def metadata_needs_refresh_def refresh_metadata_from_def
        binds_def on_snd_def metadata_after_refresh_error_def after_error_at_def Let_def)
qed

theorem stale_use_is_bounded_witness:
  "\<exists>p' w'. refresh_metadata_if_stale (example_env []) (example_provider, example_world [] 5) =
       (Inr example_metadata, (p', w')) \<and>
     ((\<exists>d jwks w1 w2. fetch_replacement (example_env []) example_provider w1 = (Inr (d, jwks), w2) \<and>
         publish_replacement (example_env []) d jwks (example_provider, w2) = (p', w') \<and>
         example_metadata = disc_metadata d \<and>
         metadata_issuer example_metadata = metadata_issuer (ps_metadata example_provider)) \<or>
      (\<exists>now r w1 w2. instant_now (env_runtime (example_env [])) w1 = (now, w2) \<and>
         refresh_after example_provider = Some r \<and>
         example_metadata = ps_metadata example_provider \<and> ps_metadata p' = example_metadata \<and>
         ps_jwks p' = ps_jwks example_provider \<and>
         (now < r \<or> stale_on_error example_provider \<and>
            instant_nanos now <
              instant_nanos r + int (as_nanos (metadata_retain_on_error example_provider)))))"
proof -
  obtain p' w' where run: "refresh_metadata_if_stale (example_env [])
      (example_provider, example_world [] 5) = (Inr example_metadata, (p', w'))"
    using example_refresh_falls_back by blast
  have "metadata_refresh_interval example_provider \<noteq> None" by (simp add: example_provider_def)
  from stale_use_is_bounded [OF example_provider_ok this run] run show ?thesis by blast
qed

text \<open>
  C33. An automatic refresh publishes a fetched replacement or changes nothing but the retry
  deadline: neither the metadata nor the keys nor any setting. If it serves the snapshot without an
  attempt, the last reading of the clock says that no refresh is due. After a failed attempt the
  clock is read once more: at the stale deadline, after it or where there is none, the error is
  reported and nothing changes; before it the snapshot is served and the next attempt is deferred to
  30 seconds after that reading or the stale deadline, whichever comes first, when it is due again.
\<close>

theorem failed_refresh_keeps_snapshot:
  assumes "provider_ok p" and "refresh_metadata_if_stale E (p, w) = (r, (p', w'))"
  shows "(\<exists>now w1. w1 \<in> {w, snd (instant_now (env_runtime E) w)} \<and>
       instant_now (env_runtime E) w1 = (now, w') \<and>
       (\<forall>d. refresh_after p = Some d \<and> d \<le> now \<longrightarrow> (\<exists>t. retry_after p = Some t \<and> now < t)) \<and>
       r = Inr (ps_metadata p) \<and> p' = p) \<or>
    (\<exists>d jwks w1 w2. w1 = snd (instant_now (env_runtime E) (snd (instant_now (env_runtime E) w))) \<and>
       fetch_replacement E p w1 = (Inr (d, jwks), w2) \<and>
       publish_replacement E d jwks (p, w2) = (p', w') \<and> r = Inr (disc_metadata d)) \<or>
    (\<exists>e now w1 w2. w1 = snd (instant_now (env_runtime E) (snd (instant_now (env_runtime E) w))) \<and>
       fetch_replacement E p w1 = (Inl e, w2) \<and> instant_now (env_runtime E) w2 = (now, w') \<and>
       (if \<exists>s. stale_until p = Some s \<and> now < s
        then r = Inr (ps_metadata p) \<and>
          (\<exists>s t. stale_until p = Some s \<and> p' = p\<lparr>retry_after := Some t\<rparr> \<and>
             instant_nanos t = min (instant_nanos now + 30 * 1000000000) (instant_nanos s) \<and>
             (\<forall>later. needs_refresh_at p' later \<longleftrightarrow>
                t \<le> later \<and> (\<exists>d. refresh_after p = Some d \<and> d \<le> later)))
        else r = Inl e \<and> p' = p))"
  using assms
proof (cases rule: refresh_if_stale_cases)
  case (fallback e now s t w1 w2)
  have later: "\<forall>later. needs_refresh_at p' later \<longleftrightarrow> t \<le> later \<and> (\<exists>d. refresh_after p = Some d \<and> d \<le> later)"
    by (auto simp: fallback(6) needs_refresh_at_def split: option.splits)
  have served: "\<exists>s. stale_until p = Some s \<and> now < s" using fallback(3,4) by blast
  show ?thesis
    by (rule disjI2, rule disjI2, rule exI [of _ e], rule exI [of _ now], rule exI [of _ w1], rule exI [of _ w2],
      simp only: served if_True, intro conjI exI) (rule fallback(1,2,3,5,6,10,11) later)+
next
  case (refreshed d jwks w1 w2)
  then show ?thesis by - (rule disjI2, rule disjI1, intro exI conjI)
next
  case (failed e now w1 w2)
  then have "\<not> (\<exists>s. stale_until p = Some s \<and> now < s)" by (auto simp: not_less)
  then show ?thesis
    by (intro disjI2, intro exI [of _ e] exI [of _ now] exI [of _ w1] exI [of _ w2], simp only: if_False)
      (intro conjI failed)
next
  case (current now w1 w2)
  have "\<forall>d. refresh_after p = Some d \<and> d \<le> now \<longrightarrow> (\<exists>t. retry_after p = Some t \<and> now < t)"
    using current(2) by (auto simp: needs_refresh_at_def split: option.splits)
  with current show ?thesis by (intro disjI1 exI [of _ now] exI [of _ w1]) simp
qed

text \<open>The example: due at instant 0, nobody answers, read at 5 s, so that the next attempt is at 35 s.\<close>

theorem failed_refresh_keeps_snapshot_witness:
  "\<exists>p' w'. refresh_metadata_if_stale (example_env []) (example_provider, example_world [] 5) =
       (Inr example_metadata, (p', w')) \<and>
     p' = example_provider\<lparr>retry_after := Some (Instant (35 * 1000000000))\<rparr>"
proof -
  obtain p' w' where run: "refresh_metadata_if_stale (example_env [])
      (example_provider, example_world [] 5) = (Inr example_metadata, (p', w'))"
    using example_refresh_falls_back by blast
  let ?w = "example_world [] 5"
  have clock: "instant_now (env_runtime (example_env [])) v = (script_instant v, v)" for v
    by (simp add: example_env_def scripted_def)
  have w: "script_instant ?w = Instant 5000000000" by (simp add: example_world_def)
  obtain e v where f: "fetch_replacement (example_env []) example_provider ?w = (Inl e, v)"
    "script_instant v = Instant 5000000000"
    using example_fetch_fails [of "[]" 5] by auto
  have stale: "stale_until example_provider = Some (Instant 100000000000)"
    and due: "needs_refresh_at example_provider (Instant 5000000000)"
    by (simp_all add: example_provider_def needs_refresh_at_def)
  have early: "\<exists>s. stale_until example_provider = Some s \<and> Instant 5000000000 < s"
    by (simp add: stale less_instant_def)
  have "\<exists>t. p' = example_provider\<lparr>retry_after := Some t\<rparr> \<and> instant_nanos t = 35000000000"
    using failed_refresh_keeps_snapshot [OF example_provider_ok run]
    unfolding clock snd_conv insert_absorb2 singleton_iff
  proof (elim disjE exE conjE)
    fix now w1 assume "w1 = ?w" "(script_instant w1, w1) = (now, w')"
      and current: "\<forall>d. refresh_after example_provider = Some d \<and> d \<le> now \<longrightarrow>
        (\<exists>t. retry_after example_provider = Some t \<and> now < t)"
    then have "now = Instant 5000000000" using w by auto
    with current due show ?thesis by (auto simp: needs_refresh_at_def split: option.splits)
  next
    fix d jwks w1 w2
    assume "w1 = ?w" "fetch_replacement (example_env []) example_provider w1 = (Inr (d, jwks), w2)"
    then show ?thesis by (simp add: f)
  next
    fix e' now w1 w2
    assume c: "w1 = ?w" "fetch_replacement (example_env []) example_provider w1 = (Inl e', w2)"
      "(script_instant w2, w2) = (now, w')"
      and final: "if \<exists>s. stale_until example_provider = Some s \<and> now < s
        then Inr example_metadata = Inr (ps_metadata example_provider) \<and>
          (\<exists>s t. stale_until example_provider = Some s \<and> p' = example_provider\<lparr>retry_after := Some t\<rparr> \<and>
             instant_nanos t = min (instant_nanos now + 30 * 1000000000) (instant_nanos s) \<and>
             (\<forall>later. needs_refresh_at p' later \<longleftrightarrow>
                t \<le> later \<and> (\<exists>d. refresh_after example_provider = Some d \<and> d \<le> later)))
        else Inr example_metadata = Inl e' \<and> p' = example_provider"
    have now: "now = Instant 5000000000" using c f by auto
    from final [unfolded now, unfolded early [THEN eqTrueI] if_True] obtain s t where
      "stale_until example_provider = Some s" "p' = example_provider\<lparr>retry_after := Some t\<rparr>"
      "instant_nanos t = min (instant_nanos (Instant 5000000000) + 30 * 1000000000) (instant_nanos s)"
      by blast
    then show ?thesis by (intro exI [of _ t]) (auto simp: stale)
  qed
  then obtain t where "p' = example_provider\<lparr>retry_after := Some t\<rparr>" "instant_nanos t = 35000000000" by blast
  moreover from this have "t = Instant (35 * 1000000000)" by (cases t) simp
  ultimately show ?thesis using run by blast
qed

end
