(* ===== verification/Authorize.thy ===== *)
theory Authorize
  imports Provider
begin

text \<open>
  src/flow/authorize.rs: the authorization request, and the pending request that is stored until
  the callback; with the record \<open>client\<close> (\<^verbatim>\<open>Client\<close> of src/client.rs), which both need. The
  optional parameters of the builder are the datatype \<open>authorize_option\<close>, so that a chain of calls
  is a list.
\<close>

section \<open>The client\<close>

record ('u, 'jwks) client =
  cl_provider :: "('u, 'jwks) provider_state"
  cl_client_id :: client_id
  cl_client_secret :: "client_secret option"

definition client_metadata :: "('u, 'jwks) client \<Rightarrow> 'u provider_metadata" where
  "client_metadata c = ps_metadata (cl_provider c)"

definition client_jwks :: "('u, 'jwks) client \<Rightarrow> 'jwks" where
  "client_jwks c = ps_jwks (cl_provider c)"

section \<open>The pending request\<close>

record pending_auth_request =
  pending_state :: bytes
  pending_nonce :: bytes
  pending_pkce_verifier :: "bytes option"
  pending_max_age :: "duration option"
  pending_redirect_uri :: "bytes option"
  pending_scopes :: "bytes list"
  pending_created_at :: system_time

definition pending_default_ttl :: duration where
  "pending_default_ttl = from_secs (10 * 60)"

definition pending_key_for :: "bytes \<Rightarrow> bytes" where
  "pending_key_for state = ''oidc4rs:pending:'' @ state"

definition validate_created_at :: "pending_auth_request \<Rightarrow> system_time \<Rightarrow> oidc_error + unit" where
  "validate_created_at p now =
     bindr (ok_or PendingAuthorizationFromFuture (duration_since now (pending_created_at p))) (\<lambda>age.
     if pending_default_ttl < age then Inl PendingAuthorizationExpired else Inr ())"

text \<open>The derived \<^verbatim>\<open>Serialize\<close> and \<^verbatim>\<open>Deserialize\<close>.\<close>

definition json_option :: "('a \<Rightarrow> json) \<Rightarrow> 'a option \<Rightarrow> json" where
  "json_option f v = (case v of None \<Rightarrow> JNull | Some x \<Rightarrow> f x)"

definition encode_pending :: "json_lib \<Rightarrow> pending_auth_request \<Rightarrow> json_error + json" where
  "encode_pending J p =
     mapr (\<lambda>created. JObject
       [(''state'', JString (pending_state p)), (''nonce'', JString (pending_nonce p)),
        (''pkce_verifier'', json_option JString (pending_pkce_verifier p)),
        (''max_age'', json_option (json_of_duration J) (pending_max_age p)),
        (''redirect_uri'', json_option JString (pending_redirect_uri p)),
        (''scopes'', JArray (map JString (pending_scopes p))), (''created_at'', created)])
       (json_of_system_time J (pending_created_at p))"

definition pending_fields :: "(bytes \<times> bool) list" where
  "pending_fields =
     [(''state'', False), (''nonce'', False), (''pkce_verifier'', False), (''max_age'', True),
      (''redirect_uri'', False), (''scopes'', False), (''created_at'', False)]"

definition decode_pending :: "json_lib \<Rightarrow> json \<Rightarrow> json_error + pending_auth_request" where
  "decode_pending J v =
     bindr (struct_members pending_fields v) (\<lambda>ms.
     bindr (required_field as_string ''state'' ms) (\<lambda>st.
     bindr (required_field as_string ''nonce'' ms) (\<lambda>n.
     bindr (option_field as_string ''pkce_verifier'' ms) (\<lambda>verifier.
     bindr (option_field (duration_of_json J) ''max_age'' ms) (\<lambda>age.
     bindr (option_field as_string ''redirect_uri'' ms) (\<lambda>redirect.
     bindr (required_field (as_list as_string) ''scopes'' ms) (\<lambda>scopes.
     bindr (required_field (system_time_of_json J) ''created_at'' ms) (\<lambda>created.
       Inr \<lparr>pending_state = st, pending_nonce = n, pending_pkce_verifier = verifier,
            pending_max_age = age, pending_redirect_uri = redirect, pending_scopes = scopes,
            pending_created_at = created\<rparr>))))))))"

text \<open>\<^verbatim>\<open>Debug\<close>; how the standard library prints durations and times is a parameter.\<close>

definition pending_debug ::
  "display_lib \<Rightarrow> (duration option \<Rightarrow> bytes) \<Rightarrow> (system_time \<Rightarrow> bytes) \<Rightarrow> pending_auth_request \<Rightarrow> bytes"
  where
  "pending_debug D show_duration show_time p =
     ''PendingAuthRequest { state: '' @ debug_str D (pending_state p) @
     '', nonce: '' @ debug_str D ''***'' @
     '', pkce_verifier: '' @ debug_option D (map_option (\<lambda>_. ''***'') (pending_pkce_verifier p)) @
     '', max_age: '' @ show_duration (pending_max_age p) @
     '', redirect_uri: '' @ debug_option D (pending_redirect_uri p) @
     '', scopes: ['' @ join_with '', '' (map (debug_str D) (pending_scopes p)) @
     ''], created_at: '' @ show_time (pending_created_at p) @ '' }''"

section \<open>The state of a request\<close>

record 'u auth_request_state =
  ars_state :: state
  ars_nonce :: nonce
  ars_pkce_verifier :: "pkce_code_verifier option"
  ars_max_age :: "duration option"
  ars_redirect_uri :: "'u redirect_url"
  ars_scopes :: scope
  ars_authorization_url :: 'u

definition storage_key :: "'u auth_request_state \<Rightarrow> bytes" where
  "storage_key s = ''oidc4rs:pending:'' @ state_str (ars_state s)"

definition to_pending ::
  "('u, 'jws, 'key, 'claims, 'jwks, 'w) env \<Rightarrow> 'u auth_request_state \<Rightarrow> 'w \<Rightarrow>
   pending_auth_request \<times> 'w" where
  "to_pending E s w =
     (case system_now (env_runtime E) w of (now, w') \<Rightarrow>
       (\<lparr>pending_state = state_str (ars_state s), pending_nonce = nonce_str (ars_nonce s),
         pending_pkce_verifier = map_option verifier_str (ars_pkce_verifier s),
         pending_max_age = ars_max_age s,
         pending_redirect_uri = Some (redirect_url_as_str (env_url E) (ars_redirect_uri s)),
         pending_scopes = scope_iter (ars_scopes s), pending_created_at = now\<rparr>, w'))"

section \<open>The builder\<close>

record ('u, 'jwks) authorize_url_builder =
  ab_client :: "('u, 'jwks) client"
  ab_url :: 'u
  ab_state :: state
  ab_nonce :: nonce
  ab_pkce_verifier :: "pkce_code_verifier option"
  ab_pkce_challenge :: "pkce_code_challenge option"
  ab_response_mode :: "response_mode option"
  ab_prompt :: "auth_prompt option"
  ab_max_age :: "duration option"
  ab_id_token_hint :: "bytes option"
  ab_extra :: "(bytes \<times> bytes) list"
  ab_redirect_uri :: "'u redirect_url"
  ab_scopes :: scope

definition new_challenge ::
  "('u, 'jws, 'key, 'claims, 'jwks, 'w) env \<Rightarrow> pkce_code_verifier \<Rightarrow> pkce_code_challenge" where
  "new_challenge E v = s256_from_verifier (env_crypto E) (env_base64 E) v"

definition request_pairs :: "('u, 'jws, 'key, 'claims, 'jwks, 'w) env \<Rightarrow> ('u, 'jwks) client \<Rightarrow>
   'u redirect_url \<Rightarrow> scope \<Rightarrow> (bytes \<times> bytes) list" where
  "request_pairs E c redirect sc =
     [(''response_type'', ''code''), (''client_id'', client_id_str (cl_client_id c)),
      (''redirect_uri'', redirect_url_as_str (env_url E) redirect), (''scope'', scope_str sc)]"

definition authorize_builder_new ::
  "('u, 'jws, 'key, 'claims, 'jwks, 'w) env \<Rightarrow> ('u, 'jwks) client \<Rightarrow> 'u redirect_url \<Rightarrow> scope \<Rightarrow> 'w \<Rightarrow>
   (oidc_error + ('u, 'jwks) authorize_url_builder) \<times> 'w" where
  "authorize_builder_new E c redirect sc w =
     (if \<not> list_ex (\<lambda>s. s = ''openid'') (scope_iter sc)
      then (Inl (InvalidAuthorizationRequest
             ''scope must include `openid` per OIDC Core 1.0 section 3.1.2''), w)
      else
        let url = append_pairs (env_url E) (request_pairs E c redirect sc)
                    (auth_as_url (authorization_endpoint (client_metadata c))) in
        (case (if cl_client_secret c = None
               then (case pkce_verifier_new_random (env_base64 E) (env_runtime E) w of
                       (v, w1) \<Rightarrow> (Some v, w1))
               else (None, w)) of (verifier, w1) \<Rightarrow>
        (case state_new_random (env_base64 E) (env_runtime E) w1 of (st, w2) \<Rightarrow>
        (case nonce_new_random (env_base64 E) (env_runtime E) w2 of (n, w3) \<Rightarrow>
          (Inr \<lparr>ab_client = c, ab_url = url, ab_state = st, ab_nonce = n, ab_pkce_verifier = verifier,
                ab_pkce_challenge = map_option (new_challenge E) verifier, ab_response_mode = None,
                ab_prompt = None, ab_max_age = None, ab_id_token_hint = None, ab_extra = [],
                ab_redirect_uri = redirect, ab_scopes = sc\<rparr>, w3)))))"

definition pkce_s256 ::
  "('u, 'jws, 'key, 'claims, 'jwks, 'w) env \<Rightarrow> ('u, 'jwks) authorize_url_builder \<Rightarrow> 'w \<Rightarrow>
   ('u, 'jwks) authorize_url_builder \<times> 'w" where
  "pkce_s256 E b w =
     (case pkce_verifier_new_random (env_base64 E) (env_runtime E) w of (v, w') \<Rightarrow>
       (b\<lparr>ab_pkce_verifier := Some v, ab_pkce_challenge := Some (new_challenge E v)\<rparr>, w'))"

datatype authorize_option =
    PkceS256
  | Prompt auth_prompt
  | MaxAge duration
  | AcrValues bytes
  | LoginHint bytes
  | UiLocales bytes
  | IdTokenHint bytes
  | ResponseModeOption response_mode
  | ExtraParam bytes bytes

fun apply_option ::
  "('u, 'jws, 'key, 'claims, 'jwks, 'w) env \<Rightarrow> authorize_option \<Rightarrow>
   ('u, 'jwks) authorize_url_builder \<times> 'w \<Rightarrow> ('u, 'jwks) authorize_url_builder \<times> 'w" where
  "apply_option E PkceS256 (b, w) = pkce_s256 E b w"
| "apply_option E (Prompt p) (b, w) = (b\<lparr>ab_prompt := Some p\<rparr>, w)"
| "apply_option E (MaxAge d) (b, w) = (b\<lparr>ab_max_age := Some d\<rparr>, w)"
| "apply_option E (AcrValues v) (b, w) = (b\<lparr>ab_extra := ab_extra b @ [(''acr_values'', v)]\<rparr>, w)"
| "apply_option E (LoginHint v) (b, w) = (b\<lparr>ab_extra := ab_extra b @ [(''login_hint'', v)]\<rparr>, w)"
| "apply_option E (UiLocales v) (b, w) = (b\<lparr>ab_extra := ab_extra b @ [(''ui_locales'', v)]\<rparr>, w)"
| "apply_option E (IdTokenHint v) (b, w) = (b\<lparr>ab_id_token_hint := Some v\<rparr>, w)"
| "apply_option E (ResponseModeOption m) (b, w) = (b\<lparr>ab_response_mode := Some m\<rparr>, w)"
| "apply_option E (ExtraParam k v) (b, w) = (b\<lparr>ab_extra := ab_extra b @ [(k, v)]\<rparr>, w)"

definition optional_pair :: "bytes \<Rightarrow> bytes option \<Rightarrow> (bytes \<times> bytes) list" where
  "optional_pair k v = (case v of None \<Rightarrow> [] | Some x \<Rightarrow> [(k, x)])"

definition build_pairs :: "('u, 'jwks) authorize_url_builder \<Rightarrow> (bytes \<times> bytes) list" where
  "build_pairs b =
     [(''state'', state_str (ab_state b)), (''nonce'', nonce_str (ab_nonce b))] @
     (case ab_pkce_challenge b of
        None \<Rightarrow> []
      | Some c \<Rightarrow> [(''code_challenge'', challenge_value c), (''code_challenge_method'', ''S256'')]) @
     optional_pair ''response_mode'' (map_option response_mode_str (ab_response_mode b)) @
     optional_pair ''prompt'' (map_option auth_prompt_str (ab_prompt b)) @
     optional_pair ''max_age'' (map_option (\<lambda>d. nat_to_dec (as_secs d)) (ab_max_age b)) @
     optional_pair ''id_token_hint'' (ab_id_token_hint b) @
     ab_extra b"

definition authorize_build ::
  "('u, 'jws, 'key, 'claims, 'jwks, 'w) env \<Rightarrow> ('u, 'jwks) authorize_url_builder \<Rightarrow>
   'u auth_request_state" where
  "authorize_build E b =
     \<lparr>ars_state = ab_state b, ars_nonce = ab_nonce b, ars_pkce_verifier = ab_pkce_verifier b,
      ars_max_age = ab_max_age b, ars_redirect_uri = ab_redirect_uri b, ars_scopes = ab_scopes b,
      ars_authorization_url = append_pairs (env_url E) (build_pairs b) (ab_url b)\<rparr>"

text \<open>A whole request: \<^verbatim>\<open>client.authorize(redirect, scope)?\<close>, a chain of options, \<^verbatim>\<open>build()\<close>.\<close>

definition authorize_request ::
  "('u, 'jws, 'key, 'claims, 'jwks, 'w) env \<Rightarrow> ('u, 'jwks) client \<Rightarrow> 'u redirect_url \<Rightarrow> scope \<Rightarrow>
   authorize_option list \<Rightarrow> 'w \<Rightarrow> (oidc_error + 'u auth_request_state) \<times> 'w" where
  "authorize_request E c redirect sc options =
     binds (authorize_builder_new E c redirect sc) (\<lambda>b w.
       case fold (apply_option E) options (b, w) of (b', w') \<Rightarrow> (Inr (authorize_build E b'), w'))"

section \<open>Lemmas\<close>

lemma option_field_json_option:
  assumes "\<And>x. f (g x) = Inr x" and "\<And>x. g x \<noteq> JNull" and "map_of ms name = Some (json_option g v)"
  shows "option_field f name ms = Inr v"
  using assms by (cases v) (auto simp: option_field_def default_field_def as_option_def json_option_def)

lemma decode_encode_pending:
  assumes "serde_time_laws J" and "encode_pending J p = Inr v"
  shows "decode_pending J v = Inr p"
proof -
  obtain created where c: "json_of_system_time J (pending_created_at p) = Inr created"
    and v: "v = JObject
       [(''state'', JString (pending_state p)), (''nonce'', JString (pending_nonce p)),
        (''pkce_verifier'', json_option JString (pending_pkce_verifier p)),
        (''max_age'', json_option (json_of_duration J) (pending_max_age p)),
        (''redirect_uri'', json_option JString (pending_redirect_uri p)),
        (''scopes'', JArray (map JString (pending_scopes p))), (''created_at'', created)]"
    using assms(2) by (auto simp: encode_pending_def mapr_eq_Inr)
  let ?ms = "[(''state'', JString (pending_state p)), (''nonce'', JString (pending_nonce p)),
        (''pkce_verifier'', json_option JString (pending_pkce_verifier p)),
        (''max_age'', json_option (json_of_duration J) (pending_max_age p)),
        (''redirect_uri'', json_option JString (pending_redirect_uri p)),
        (''scopes'', JArray (map JString (pending_scopes p))), (''created_at'', created)]"
  have ms: "struct_members pending_fields v = Inr ?ms"
    by (simp add: v map_members_Inr pending_fields_def)
  have laws: "\<And>d. duration_of_json J (json_of_duration J d) = Inr d" "\<And>d. json_of_duration J d \<noteq> JNull"
    using assms(1) by (auto simp: serde_time_laws_def)
  have fields:
    "required_field as_string ''state'' ?ms = Inr (pending_state p)"
    "required_field as_string ''nonce'' ?ms = Inr (pending_nonce p)"
    "required_field (as_list as_string) ''scopes'' ?ms = Inr (pending_scopes p)"
    by (simp_all add: required_field_def as_string_def)
  have options:
    "option_field as_string ''pkce_verifier'' ?ms = Inr (pending_pkce_verifier p)"
    "option_field as_string ''redirect_uri'' ?ms = Inr (pending_redirect_uri p)"
    "option_field (duration_of_json J) ''max_age'' ?ms = Inr (pending_max_age p)"
    by (rule option_field_json_option [where g = JString]; simp)+
      (rule option_field_json_option [where g = "json_of_duration J"]; simp add: laws)
  have created: "required_field (system_time_of_json J) ''created_at'' ?ms = Inr (pending_created_at p)"
    using assms(1) c by (simp add: required_field_def serde_time_laws_def)
  show ?thesis
    unfolding decode_pending_def ms bindr_simps fields options created by simp
qed

definition builder_bound ::
  "('u, 'jws, 'key, 'claims, 'jwks, 'w) env \<Rightarrow> ('u, 'jwks) client \<Rightarrow> 'u redirect_url \<Rightarrow> scope \<Rightarrow>
   ('u, 'jwks) authorize_url_builder \<Rightarrow> bool" where
  "builder_bound E c redirect sc b \<longleftrightarrow>
     ab_client b = c \<and> ab_redirect_uri b = redirect \<and> ab_scopes b = sc \<and>
     ab_url b = append_pairs (env_url E) (request_pairs E c redirect sc)
       (auth_as_url (authorization_endpoint (client_metadata c))) \<and>
     ab_pkce_challenge b = map_option (new_challenge E) (ab_pkce_verifier b) \<and>
     (cl_client_secret c = None \<longrightarrow> ab_pkce_verifier b \<noteq> None)"

lemma builder_new_bound:
  "authorize_builder_new E c redirect sc w = (Inr b, w') \<Longrightarrow>
     builder_bound E c redirect sc b \<and> ''openid'' \<in> set (scope_iter sc)"
  by (auto simp: authorize_builder_new_def builder_bound_def list_ex_iff Let_def
      split: if_splits prod.splits)

lemma apply_option_bound:
  "builder_bound E c redirect sc b \<Longrightarrow> apply_option E opt (b, w) = (b', w') \<Longrightarrow>
     builder_bound E c redirect sc b' \<and> ab_state b' = ab_state b \<and> ab_nonce b' = ab_nonce b"
  by (cases opt) (auto simp: builder_bound_def pkce_s256_def split: prod.splits)

lemma apply_options_bound:
  "builder_bound E c redirect sc b \<Longrightarrow> fold (apply_option E) os (b, w) = (b', w') \<Longrightarrow>
     builder_bound E c redirect sc b' \<and> ab_state b' = ab_state b \<and> ab_nonce b' = ab_nonce b"
proof (induction os arbitrary: b w)
  case (Cons opt os)
  obtain b1 w1 where s: "apply_option E opt (b, w) = (b1, w1)" by fastforce
  from apply_option_bound [OF Cons.prems(1) s] Cons.IH [of b1 w1] Cons.prems(2) s show ?case by simp
qed simp

lemma authorize_request_ok:
  assumes "authorize_request E c redirect sc os w = (Inr s, w')"
  obtains b where "builder_bound E c redirect sc b" "s = authorize_build E b"
    "''openid'' \<in> set (scope_iter sc)"
proof -
  from assms obtain b0 w0 b' where b0: "authorize_builder_new E c redirect sc w = (Inr b0, w0)"
    and f: "fold (apply_option E) os (b0, w0) = (b', w')" and s: "s = authorize_build E b'"
    unfolding authorize_request_def binds_eq_Inr by (auto simp: split_beta prod_eq_iff)
  from builder_new_bound [OF b0] apply_options_bound [OF _ f] s show thesis
    by (intro that [of b']) auto
qed

section \<open>What the options stand for\<close>

text \<open>
  The parameters of a request as a function of the options chained, independent of the builder: the
  last response mode, prompt, maximal age (in whole seconds) and ID token hint given, then the
  repeatable parameters in the order of the calls.
\<close>

primrec last_given :: "('a \<Rightarrow> 'b option) \<Rightarrow> 'a list \<Rightarrow> 'b option" where
  "last_given f [] = None"
| "last_given f (x # xs) = (case last_given f xs of None \<Rightarrow> f x | Some y \<Rightarrow> Some y)"

fun mode_given :: "authorize_option \<Rightarrow> bytes option" where
  "mode_given (ResponseModeOption ModeQuery) = Some ''query''"
| "mode_given (ResponseModeOption ModeFragment) = Some ''fragment''"
| "mode_given (ResponseModeOption ModeFormPost) = Some ''form_post''"
| "mode_given _ = None"

fun prompt_given :: "authorize_option \<Rightarrow> bytes option" where
  "prompt_given (Prompt PromptNone) = Some ''none''"
| "prompt_given (Prompt PromptLogin) = Some ''login''"
| "prompt_given (Prompt PromptConsent) = Some ''consent''"
| "prompt_given (Prompt PromptSelectAccount) = Some ''select_account''"
| "prompt_given _ = None"

fun age_given :: "authorize_option \<Rightarrow> duration option" where
  "age_given (MaxAge d) = Some d"
| "age_given _ = None"

fun hint_given :: "authorize_option \<Rightarrow> bytes option" where
  "hint_given (IdTokenHint v) = Some v"
| "hint_given _ = None"

fun extra_given :: "authorize_option \<Rightarrow> (bytes \<times> bytes) list" where
  "extra_given (AcrValues v) = [(''acr_values'', v)]"
| "extra_given (LoginHint v) = [(''login_hint'', v)]"
| "extra_given (UiLocales v) = [(''ui_locales'', v)]"
| "extra_given (ExtraParam k v) = [(k, v)]"
| "extra_given _ = []"

definition options_query :: "authorize_option list \<Rightarrow> (bytes \<times> bytes) list" where
  "options_query os =
     (case last_given mode_given os of None \<Rightarrow> [] | Some v \<Rightarrow> [(''response_mode'', v)]) @
     (case last_given prompt_given os of None \<Rightarrow> [] | Some v \<Rightarrow> [(''prompt'', v)]) @
     (case last_given age_given os of None \<Rightarrow> []
      | Some d \<Rightarrow> [(''max_age'', nat_to_dec (as_nanos d div 1000000000))]) @
     (case last_given hint_given os of None \<Rightarrow> [] | Some v \<Rightarrow> [(''id_token_hint'', v)]) @
     concat (map extra_given os)"

text \<open>What a builder holds, as options given before.\<close>

definition or_else :: "'a option \<Rightarrow> 'a option \<Rightarrow> 'a option" where
  "or_else x y = (case x of None \<Rightarrow> y | Some _ \<Rightarrow> x)"

lemma or_else_simps [simp]:
  "or_else None y = y" "or_else (Some x) y = Some x" "or_else z None = z"
  by (simp_all add: or_else_def split: option.splits)

lemma last_given_step: "or_else (last_given f (x # xs)) y = or_else (last_given f xs) (or_else (f x) y)"
  by (simp add: or_else_def split: option.splits)

lemma apply_option_given:
  assumes "apply_option E opt (b, w) = (b', w')"
  shows "map_option response_mode_str (ab_response_mode b') =
      or_else (mode_given opt) (map_option response_mode_str (ab_response_mode b))"
    and "map_option auth_prompt_str (ab_prompt b') =
      or_else (prompt_given opt) (map_option auth_prompt_str (ab_prompt b))"
    and "ab_max_age b' = or_else (age_given opt) (ab_max_age b)"
    and "ab_id_token_hint b' = or_else (hint_given opt) (ab_id_token_hint b)"
    and "ab_extra b' = ab_extra b @ extra_given opt"
    and "ab_pkce_verifier b' \<noteq> None \<longleftrightarrow> ab_pkce_verifier b \<noteq> None \<or> opt = PkceS256"
proof -
  show "map_option response_mode_str (ab_response_mode b') =
      or_else (mode_given opt) (map_option response_mode_str (ab_response_mode b))"
    using assms by (cases opt rule: mode_given.cases) (auto simp: pkce_s256_def split: prod.splits)
  show "map_option auth_prompt_str (ab_prompt b') =
      or_else (prompt_given opt) (map_option auth_prompt_str (ab_prompt b))"
    using assms by (cases opt rule: prompt_given.cases) (auto simp: pkce_s256_def split: prod.splits)
qed (use assms in \<open>cases opt; auto simp: pkce_s256_def split: prod.splits\<close>)+

lemma apply_options_given:
  "fold (apply_option E) os (b, w) = (b', w') \<Longrightarrow>
     map_option response_mode_str (ab_response_mode b') =
       or_else (last_given mode_given os) (map_option response_mode_str (ab_response_mode b)) \<and>
     map_option auth_prompt_str (ab_prompt b') =
       or_else (last_given prompt_given os) (map_option auth_prompt_str (ab_prompt b)) \<and>
     ab_max_age b' = or_else (last_given age_given os) (ab_max_age b) \<and>
     ab_id_token_hint b' = or_else (last_given hint_given os) (ab_id_token_hint b) \<and>
     ab_extra b' = ab_extra b @ concat (map extra_given os) \<and>
     (ab_pkce_verifier b' \<noteq> None \<longleftrightarrow> ab_pkce_verifier b \<noteq> None \<or> PkceS256 \<in> set os)"
proof (induction os arbitrary: b w)
  case (Cons opt os)
  obtain b1 w1 where s: "apply_option E opt (b, w) = (b1, w1)" by fastforce
  with Cons.prems have "fold (apply_option E) os (b1, w1) = (b', w')" by simp
  from Cons.IH [OF this] show ?case
    unfolding last_given_step apply_option_given(1-5) [OF s] using apply_option_given(6) [OF s] by auto
qed simp

lemma builder_new_given:
  "authorize_builder_new E c redirect sc w = (Inr b, w') \<Longrightarrow>
     ab_response_mode b = None \<and> ab_prompt b = None \<and> ab_max_age b = None \<and>
     ab_id_token_hint b = None \<and> ab_extra b = [] \<and>
     (ab_pkce_verifier b \<noteq> None \<longleftrightarrow> cl_client_secret c = None)"
  by (auto simp: authorize_builder_new_def Let_def split: if_splits prod.splits)

lemma authorize_request_given:
  assumes "authorize_request E c redirect sc os w = (Inr s, w')"
  obtains b where "builder_bound E c redirect sc b" "s = authorize_build E b"
    "''openid'' \<in> set (scope_iter sc)" "ab_max_age b = last_given age_given os"
    "ab_pkce_verifier b \<noteq> None \<longleftrightarrow> cl_client_secret c = None \<or> PkceS256 \<in> set os"
    "build_pairs b =
     [(''state'', state_str (ab_state b)), (''nonce'', nonce_str (ab_nonce b))] @
     (case ab_pkce_verifier b of
        None \<Rightarrow> []
      | Some v \<Rightarrow> [(''code_challenge'', url_safe_encode (env_base64 E) (ffi_sha256 (env_crypto E) (verifier_str v))),
                  (''code_challenge_method'', ''S256'')]) @ options_query os"
proof -
  from assms obtain b0 w0 b where b0: "authorize_builder_new E c redirect sc w = (Inr b0, w0)"
    and f: "fold (apply_option E) os (b0, w0) = (b, w')" and s: "s = authorize_build E b"
    unfolding authorize_request_def binds_eq_Inr by (auto simp: split_beta prod_eq_iff)
  from builder_new_bound [OF b0] apply_options_bound [OF _ f]
  have b: "builder_bound E c redirect sc b" "''openid'' \<in> set (scope_iter sc)" by auto
  have given: "map_option response_mode_str (ab_response_mode b) = last_given mode_given os"
    "map_option auth_prompt_str (ab_prompt b) = last_given prompt_given os"
    "ab_max_age b = last_given age_given os" "ab_id_token_hint b = last_given hint_given os"
    "ab_extra b = concat (map extra_given os)"
    "ab_pkce_verifier b \<noteq> None \<longleftrightarrow> cl_client_secret c = None \<or> PkceS256 \<in> set os"
    using apply_options_given [OF f] builder_new_given [OF b0] by auto
  have challenge: "ab_pkce_challenge b = map_option (new_challenge E) (ab_pkce_verifier b)"
    using b(1) by (simp add: builder_bound_def)
  have "build_pairs b =
     [(''state'', state_str (ab_state b)), (''nonce'', nonce_str (ab_nonce b))] @
     (case ab_pkce_verifier b of
        None \<Rightarrow> []
      | Some v \<Rightarrow> [(''code_challenge'', url_safe_encode (env_base64 E) (ffi_sha256 (env_crypto E) (verifier_str v))),
                  (''code_challenge_method'', ''S256'')]) @ options_query os"
    unfolding build_pairs_def options_query_def challenge given
    by (simp add: optional_pair_def new_challenge_def s256_from_verifier_def sha256_def as_secs_def
        nanos_per_sec_def split: option.splits)
  from that [OF b(1) s b(2) given(3) given(6) this] show thesis .
qed

lemma append_pairs_attribute:
  assumes "\<And>u. g (url_open_query U u) = g u" and "\<And>u k v. g (url_append_pair U k v u) = g u"
  shows "g (append_pairs U kvs u) = g u"
proof -
  have "g (fold (\<lambda>(k, v). url_append_pair U k v) kvs u') = g u'" for u'
    using assms(2) by (induction kvs arbitrary: u') auto
  then show ?thesis using assms(1) by (simp add: append_pairs_def)
qed

section \<open>Properties\<close>

text \<open>
  C27. The authorization URL is the endpoint with exactly the parameters of the request: the query
  is the endpoint's own, then response type, client id, redirect URI and scope, then the state and
  the nonce that are stored, then, if there is a PKCE verifier, the S256 challenge of exactly that
  verifier, then what the chained options ask for (\<open>options_query\<close>) and no other. Every other part
  of the endpoint (its scheme, and whatever opening or appending to a query leaves alone, as host and
  path are) is unchanged. The scope names \<^verbatim>\<open>openid\<close>, a verifier is there exactly for a client without
  a secret or on request, and the maximal age that is stored is the one in the URL.
\<close>

theorem authorization_url_parameters:
  fixes E :: "('u, 'jws, 'key, 'claims, 'jwks, 'w) env" and part :: "'u \<Rightarrow> bytes"
  assumes "url_laws (env_url E)" and "authorize_request E c redirect sc os w = (Inr s, w')"
  shows "url_query_pairs (env_url E) (ars_authorization_url s) =
      url_query_pairs (env_url E) (auth_as_url (authorization_endpoint (client_metadata c))) @
      [(''response_type'', ''code''), (''client_id'', client_id_str (cl_client_id c)),
       (''redirect_uri'', redirect_url_as_str (env_url E) redirect), (''scope'', scope_str sc),
       (''state'', state_str (ars_state s)), (''nonce'', nonce_str (ars_nonce s))] @
      (case ars_pkce_verifier s of
         None \<Rightarrow> []
       | Some v \<Rightarrow> [(''code_challenge'', url_safe_encode (env_base64 E) (ffi_sha256 (env_crypto E) (verifier_str v))),
                   (''code_challenge_method'', ''S256'')]) @ options_query os \<and>
    url_scheme (env_url E) (ars_authorization_url s) =
      url_scheme (env_url E) (auth_as_url (authorization_endpoint (client_metadata c))) \<and>
    ((\<forall>u k v. part (url_open_query (env_url E) u) = part u \<and> part (url_append_pair (env_url E) k v u) = part u) \<longrightarrow>
      part (ars_authorization_url s) = part (auth_as_url (authorization_endpoint (client_metadata c)))) \<and>
    ''openid'' \<in> set (scope_iter sc) \<and> ars_redirect_uri s = redirect \<and> ars_scopes s = sc \<and>
    ars_max_age s = last_given age_given os \<and>
    (ars_pkce_verifier s \<noteq> None \<longleftrightarrow> cl_client_secret c = None \<or> PkceS256 \<in> set os)"
proof -
  from authorize_request_given [OF assms(2)] obtain b where b: "builder_bound E c redirect sc b"
    and s: "s = authorize_build E b" and rest: "''openid'' \<in> set (scope_iter sc)"
      "ab_max_age b = last_given age_given os"
      "ab_pkce_verifier b \<noteq> None \<longleftrightarrow> cl_client_secret c = None \<or> PkceS256 \<in> set os"
    and pairs: "build_pairs b =
     [(''state'', state_str (ab_state b)), (''nonce'', nonce_str (ab_nonce b))] @
     (case ab_pkce_verifier b of
        None \<Rightarrow> []
      | Some v \<Rightarrow> [(''code_challenge'', url_safe_encode (env_base64 E) (ffi_sha256 (env_crypto E) (verifier_str v))),
                  (''code_challenge_method'', ''S256'')]) @ options_query os" .
  let ?a = "auth_as_url (authorization_endpoint (client_metadata c))"
  have url: "ars_authorization_url s =
      append_pairs (env_url E) (build_pairs b) (append_pairs (env_url E) (request_pairs E c redirect sc) ?a)"
    using b by (simp add: s authorize_build_def builder_bound_def)
  have "part (ars_authorization_url s) = part ?a"
    if "\<forall>u k v. part (url_open_query (env_url E) u) = part u \<and> part (url_append_pair (env_url E) k v u) = part u"
    using that by (simp add: url append_pairs_attribute)
  moreover have "url_query_pairs (env_url E) (ars_authorization_url s) =
      url_query_pairs (env_url E) ?a @ request_pairs E c redirect sc @ build_pairs b"
    "url_scheme (env_url E) (ars_authorization_url s) = url_scheme (env_url E) ?a"
    by (simp_all add: url append_pairs_query_pairs [OF assms(1)] append_pairs_scheme [OF assms(1)])
  moreover have "ars_redirect_uri s = redirect" "ars_scopes s = sc" "ars_max_age s = ab_max_age b"
    "ars_pkce_verifier s = ab_pkce_verifier b" "ars_state s = ab_state b" "ars_nonce s = ab_nonce b"
    using b by (auto simp: s authorize_build_def builder_bound_def)
  ultimately show ?thesis using rest by (simp add: request_pairs_def pairs)
qed

definition example_client :: "client_secret option \<Rightarrow> (bytes, bytes) client" where
  "example_client secret =
     \<lparr>cl_provider = example_provider, cl_client_id = ClientId ''rp'', cl_client_secret = secret\<rparr>"

lemma example_authorize:
  "\<exists>s w'. authorize_request (example_env docs) (example_client None) (RedirectUrl ''https://rp/cb'')
     scope_openid [Prompt PromptLogin, ExtraParam ''a'' ''b''] (example_world [] 5) = (Inr s, w')"
proof -
  have "list_ex (\<lambda>s. s = ''openid'') (scope_iter scope_openid)" by code_simp
  then show ?thesis
    by (simp add: authorize_request_def authorize_builder_new_def binds_def example_client_def Let_def
        split: prod.splits)
qed

theorem authorization_url_parameters_witness:
  "\<exists>s w' start challenge. authorize_request (example_env []) (example_client None) (RedirectUrl ''https://rp/cb'')
       scope_openid [Prompt PromptLogin, ExtraParam ''a'' ''b''] (example_world [] 5) = (Inr s, w') \<and>
     ars_pkce_verifier s \<noteq> None \<and> ars_redirect_uri s = RedirectUrl ''https://rp/cb'' \<and>
     url_query_pairs text_url (ars_authorization_url s) =
       start @ [(''code_challenge'', challenge), (''code_challenge_method'', ''S256''),
         (''prompt'', ''login''), (''a'', ''b'')]"
proof -
  obtain s w' where run: "authorize_request (example_env []) (example_client None)
      (RedirectUrl ''https://rp/cb'') scope_openid [Prompt PromptLogin, ExtraParam ''a'' ''b'']
      (example_world [] 5) = (Inr s, w')"
    using example_authorize by blast
  have secret: "cl_client_secret (example_client None) = None" by (simp add: example_client_def)
  have query: "options_query [Prompt PromptLogin, ExtraParam ''a'' ''b''] = [(''prompt'', ''login''), (''a'', ''b'')]"
    by (simp add: options_query_def)
  have laws: "url_laws (env_url (example_env []))" by (simp add: text_url_laws)
  note facts = authorization_url_parameters [OF laws run, unfolded query secret]
  then obtain v where "ars_pkce_verifier s = Some v" by auto
  with facts run show ?thesis by (intro exI [of _ s] exI [of _ w']) auto
qed

text \<open>
  C30. What is stored is what comes back: the JSON form of a pending request reads back as the same
  request; it holds the state, nonce, verifier, maximal age and redirect URI of the request it was
  made from; and the key it is stored under is the key under which the callback looks for its state.
\<close>

theorem pending_request_round_trip:
  assumes "serde_time_laws (env_json E)" and "to_pending E s w = (p, w')"
    and "encode_pending (env_json E) p = Inr v"
  shows "decode_pending (env_json E) v = Inr p \<and> storage_key s = pending_key_for (pending_state p) \<and>
    pending_state p = state_str (ars_state s) \<and> pending_nonce p = nonce_str (ars_nonce s) \<and>
    pending_pkce_verifier p = map_option verifier_str (ars_pkce_verifier s) \<and>
    pending_max_age p = ars_max_age s \<and>
    pending_redirect_uri p = Some (redirect_url_as_str (env_url E) (ars_redirect_uri s))"
  using decode_encode_pending [OF assms(1,3)] assms(2)
  by (auto simp: to_pending_def storage_key_def pending_key_for_def split: prod.splits)

theorem pending_request_round_trip_witness:
  "\<exists>s p w' v. to_pending (example_env []) s (example_world [] 5) = (p, w') \<and>
     encode_pending (table_json []) p = Inr v \<and> decode_pending (table_json []) v = Inr p"
proof -
  define s :: "bytes auth_request_state" where
    "s = \<lparr>ars_state = State ''st'', ars_nonce = Nonce ''n'', ars_pkce_verifier = None,
       ars_max_age = Some (from_secs 60), ars_redirect_uri = RedirectUrl ''https://rp/cb'',
       ars_scopes = scope_openid, ars_authorization_url = ''https://op/auth''\<rparr>"
  obtain p w' where p: "to_pending (example_env []) s (example_world [] 5) = (p, w')" by fastforce
  then have "pending_created_at p = SystemTime (5 * 1000000000)"
    by (auto simp: to_pending_def example_world_def)
  then have "unix_epoch \<le> pending_created_at p" by (simp add: unix_epoch_def)
  then obtain v where v: "encode_pending (table_json []) p = Inr v"
    using table_json_time_laws [of "[]"] by (auto simp: encode_pending_def serde_time_laws_def mapr_eq_Inr)
  with pending_request_round_trip [of "example_env []" s "example_world [] 5" p w' v] p
  show ?thesis by (auto simp: table_json_time_laws)
qed

text \<open>
  A pending request can be used from the instant it was created until ten minutes later, both
  included; before that it is refused as from the future, after it as expired.
\<close>

theorem pending_request_window:
  "validate_created_at p now =
     (if system_nanos now < system_nanos (pending_created_at p) then Inl PendingAuthorizationFromFuture
      else if system_nanos (pending_created_at p) + 600 * 1000000000 < system_nanos now
      then Inl PendingAuthorizationExpired
      else Inr ())"
  by (auto simp: validate_created_at_def duration_since_def less_eq_system_time_def
      pending_default_ttl_def from_secs_def nanos_per_sec_def less_duration_def)

text \<open>
  The \<^verbatim>\<open>Debug\<close> output of a pending request does not depend on its nonce, and on its PKCE verifier
  only by whether there is one.
\<close>

theorem pending_debug_redacted:
  "pending_debug D f g p =
     pending_debug D f g (p\<lparr>pending_nonce := n,
       pending_pkce_verifier := map_option (\<lambda>_. v) (pending_pkce_verifier p)\<rparr>)"
  by (simp add: pending_debug_def option.map_comp o_def)

end
