(* ===== verification/Logout.thy ===== *)
theory Logout
  imports Authorize
begin

text \<open>
  src/flow/logout.rs: the URL of an RP-initiated logout. The chain of builder calls is a list of
  \<open>logout_option\<close>.
\<close>

record ('u, 'jwks) end_session_url_builder =
  eb_client :: "('u, 'jwks) client"
  eb_id_token_hint :: "bytes option"
  eb_post_logout_redirect_uri :: "'u post_logout_redirect_url option"
  eb_state :: "state option"
  eb_client_id :: "client_id option"
  eb_logout_hint :: "logout_hint option"
  eb_ui_locales :: "bytes list"

definition end_session_builder_new :: "('u, 'jwks) client \<Rightarrow> ('u, 'jwks) end_session_url_builder" where
  "end_session_builder_new c =
     \<lparr>eb_client = c, eb_id_token_hint = None, eb_post_logout_redirect_uri = None, eb_state = None,
      eb_client_id = None, eb_logout_hint = None, eb_ui_locales = []\<rparr>"

datatype 'u logout_option =
    LogoutIdTokenHint bytes
  | LogoutRedirect "'u post_logout_redirect_url"
  | LogoutState state
  | LogoutClientId client_id
  | LogoutHintOption logout_hint
  | LogoutUiLocale bytes

fun apply_logout_option ::
  "'u logout_option \<Rightarrow> ('u, 'jwks) end_session_url_builder \<Rightarrow> ('u, 'jwks) end_session_url_builder" where
  "apply_logout_option (LogoutIdTokenHint h) b = b\<lparr>eb_id_token_hint := Some h\<rparr>"
| "apply_logout_option (LogoutRedirect u) b = b\<lparr>eb_post_logout_redirect_uri := Some u\<rparr>"
| "apply_logout_option (LogoutState s) b = b\<lparr>eb_state := Some s\<rparr>"
| "apply_logout_option (LogoutClientId i) b = b\<lparr>eb_client_id := Some i\<rparr>"
| "apply_logout_option (LogoutHintOption h) b = b\<lparr>eb_logout_hint := Some h\<rparr>"
| "apply_logout_option (LogoutUiLocale l) b = b\<lparr>eb_ui_locales := eb_ui_locales b @ [l]\<rparr>"

text \<open>The state: the caller's, or a random one if there is a redirect.\<close>

definition end_session_state ::
  "('u, 'jws, 'key, 'claims, 'jwks, 'w) env \<Rightarrow> ('u, 'jwks) end_session_url_builder \<Rightarrow> 'w \<Rightarrow>
   state option \<times> 'w" where
  "end_session_state E b w =
     (case (eb_state b, eb_post_logout_redirect_uri b) of
        (Some s, _) \<Rightarrow> (Some s, w)
      | (None, Some _) \<Rightarrow>
          (case state_new_random (env_base64 E) (env_runtime E) w of (s, w') \<Rightarrow> (Some s, w'))
      | (None, None) \<Rightarrow> (None, w))"

definition end_session_pairs ::
  "('u, 'jws, 'key, 'claims, 'jwks, 'w) env \<Rightarrow> ('u, 'jwks) end_session_url_builder \<Rightarrow> state option \<Rightarrow>
   (bytes \<times> bytes) list" where
  "end_session_pairs E b st =
     optional_pair ''id_token_hint'' (eb_id_token_hint b) @
     optional_pair ''post_logout_redirect_uri''
       (map_option (post_logout_redirect_url_as_str (env_url E)) (eb_post_logout_redirect_uri b)) @
     optional_pair ''state'' (map_option state_str st) @
     optional_pair ''client_id'' (map_option client_id_str (eb_client_id b)) @
     optional_pair ''logout_hint'' (map_option logout_hint_str (eb_logout_hint b)) @
     (if eb_ui_locales b \<noteq> [] then [(''ui_locales'', join_with '' '' (eb_ui_locales b))] else [])"

definition end_session_build ::
  "('u, 'jws, 'key, 'claims, 'jwks, 'w) env \<Rightarrow> ('u, 'jwks) end_session_url_builder \<Rightarrow> 'w \<Rightarrow>
   (oidc_error + 'u end_session_url \<times> state option) \<times> 'w" where
  "end_session_build E b w =
     (case end_session_endpoint (client_metadata (eb_client b)) of
        None \<Rightarrow> (Inl (InvalidMetadata ''end_session_endpoint not advertised''), w)
      | Some endpoint \<Rightarrow>
          (case end_session_state E b w of (st, w') \<Rightarrow>
            (let url = append_pairs (env_url E) (end_session_pairs E b st) (end_session_as_url endpoint);
                 url = (if url_query (env_url E) url = Some [] then url_set_query_none (env_url E) url else url)
             in (mapr (\<lambda>parsed. (parsed, st))
                   (map_errr (\<lambda>e. InvalidMetadata (''end_session URL: '' @ oidc_error_display (env_display E) e))
                      (end_session_url_from_str (env_url E) (url_as_str (env_url E) url))), w'))))"

section \<open>What the options stand for\<close>

text \<open>
  The parameters of the URL as a function of the options chained, independent of the builder: the
  last value given for each, in a fixed order, and the locales in the order of the calls.
\<close>

fun id_token_hint_given :: "'u logout_option \<Rightarrow> bytes option" where
  "id_token_hint_given (LogoutIdTokenHint h) = Some h"
| "id_token_hint_given _ = None"

fun redirect_given :: "'u logout_option \<Rightarrow> 'u post_logout_redirect_url option" where
  "redirect_given (LogoutRedirect u) = Some u"
| "redirect_given _ = None"

fun state_given :: "'u logout_option \<Rightarrow> state option" where
  "state_given (LogoutState s) = Some s"
| "state_given _ = None"

fun client_id_given :: "'u logout_option \<Rightarrow> client_id option" where
  "client_id_given (LogoutClientId i) = Some i"
| "client_id_given _ = None"

fun logout_hint_given :: "'u logout_option \<Rightarrow> logout_hint option" where
  "logout_hint_given (LogoutHintOption h) = Some h"
| "logout_hint_given _ = None"

fun locale_given :: "'u logout_option \<Rightarrow> bytes list" where
  "locale_given (LogoutUiLocale l) = [l]"
| "locale_given _ = []"

definition logout_query ::
  "('u \<Rightarrow> bytes) \<Rightarrow> 'u logout_option list \<Rightarrow> state option \<Rightarrow> (bytes \<times> bytes) list" where
  "logout_query url_text os st =
     (case last_given id_token_hint_given os of None \<Rightarrow> [] | Some h \<Rightarrow> [(''id_token_hint'', h)]) @
     (case last_given redirect_given os of None \<Rightarrow> []
      | Some (PostLogoutRedirectUrl u) \<Rightarrow> [(''post_logout_redirect_uri'', url_text u)]) @
     (case st of None \<Rightarrow> [] | Some (State s) \<Rightarrow> [(''state'', s)]) @
     (case last_given client_id_given os of None \<Rightarrow> [] | Some (ClientId i) \<Rightarrow> [(''client_id'', i)]) @
     (case last_given logout_hint_given os of None \<Rightarrow> [] | Some (LogoutHint h) \<Rightarrow> [(''logout_hint'', h)]) @
     (case concat (map locale_given os) of [] \<Rightarrow> []
      | l # ls \<Rightarrow> [(''ui_locales'', l @ concat (map (\<lambda>x. CHR '' '' # x) ls))])"

lemma apply_logout_option_given:
  "eb_client (apply_logout_option opt b) = eb_client b"
  "eb_id_token_hint (apply_logout_option opt b) = or_else (id_token_hint_given opt) (eb_id_token_hint b)"
  "eb_post_logout_redirect_uri (apply_logout_option opt b) =
     or_else (redirect_given opt) (eb_post_logout_redirect_uri b)"
  "eb_state (apply_logout_option opt b) = or_else (state_given opt) (eb_state b)"
  "eb_client_id (apply_logout_option opt b) = or_else (client_id_given opt) (eb_client_id b)"
  "eb_logout_hint (apply_logout_option opt b) = or_else (logout_hint_given opt) (eb_logout_hint b)"
  "eb_ui_locales (apply_logout_option opt b) = eb_ui_locales b @ locale_given opt"
  by (cases opt; simp)+

lemma logout_options_given:
  "eb_client (fold apply_logout_option os b) = eb_client b \<and>
   eb_id_token_hint (fold apply_logout_option os b) =
     or_else (last_given id_token_hint_given os) (eb_id_token_hint b) \<and>
   eb_post_logout_redirect_uri (fold apply_logout_option os b) =
     or_else (last_given redirect_given os) (eb_post_logout_redirect_uri b) \<and>
   eb_state (fold apply_logout_option os b) = or_else (last_given state_given os) (eb_state b) \<and>
   eb_client_id (fold apply_logout_option os b) = or_else (last_given client_id_given os) (eb_client_id b) \<and>
   eb_logout_hint (fold apply_logout_option os b) =
     or_else (last_given logout_hint_given os) (eb_logout_hint b) \<and>
   eb_ui_locales (fold apply_logout_option os b) = eb_ui_locales b @ concat (map locale_given os)"
proof (induction os arbitrary: b)
  case (Cons opt os)
  then show ?case unfolding last_given_step by (simp add: apply_logout_option_given)
qed simp

lemma logout_builder_given:
  defines "b \<equiv> \<lambda>os c. fold apply_logout_option os (end_session_builder_new c)"
  shows "eb_client (b os c) = c" "eb_id_token_hint (b os c) = last_given id_token_hint_given os"
    "eb_post_logout_redirect_uri (b os c) = last_given redirect_given os"
    "eb_state (b os c) = last_given state_given os" "eb_client_id (b os c) = last_given client_id_given os"
    "eb_logout_hint (b os c) = last_given logout_hint_given os"
    "eb_ui_locales (b os c) = concat (map locale_given os)"
  using logout_options_given [of os "end_session_builder_new c"]
  by (simp_all add: b_def end_session_builder_new_def)

section \<open>Lemmas\<close>

lemma join_with_space: "join_with sep (x # xs) = x @ concat (map (\<lambda>y. sep @ y) xs)"
  by (induction xs arbitrary: x) auto

lemma end_session_pairs_query:
  "end_session_pairs E (fold apply_logout_option os (end_session_builder_new c)) st =
     logout_query (url_as_str (env_url E)) os st"
proof -
  have hint: "optional_pair k x = (case x of None \<Rightarrow> [] | Some h \<Rightarrow> [(k, h)])" for k x
    by (simp add: optional_pair_def)
  have redirect: "optional_pair k (map_option (post_logout_redirect_url_as_str U) x) =
      (case x of None \<Rightarrow> [] | Some (PostLogoutRedirectUrl u) \<Rightarrow> [(k, url_as_str U u)])" for k x U
    by (simp add: optional_pair_def post_logout_redirect_url_as_str_def
        split: option.splits post_logout_redirect_url.splits)
  have names: "optional_pair k (map_option state_str y) = (case y of None \<Rightarrow> [] | Some (State s) \<Rightarrow> [(k, s)])"
    "optional_pair k (map_option client_id_str i) = (case i of None \<Rightarrow> [] | Some (ClientId s) \<Rightarrow> [(k, s)])"
    "optional_pair k (map_option logout_hint_str h) = (case h of None \<Rightarrow> [] | Some (LogoutHint s) \<Rightarrow> [(k, s)])"
    for k y i h
    by (simp_all add: optional_pair_def split: option.splits state.splits client_id.splits logout_hint.splits)
  have locales: "(if ls \<noteq> [] then [(k, join_with '' '' ls)] else []) =
      (case ls of [] \<Rightarrow> [] | l # ls \<Rightarrow> [(k, l @ concat (map (\<lambda>x. CHR '' '' # x) ls))])" for k ls
    by (cases ls) (simp_all add: join_with_space)
  show ?thesis
    unfolding end_session_pairs_def logout_query_def logout_builder_given redirect names locales
    by (simp only: hint)
qed

lemma end_session_url_final:
  assumes laws: "url_laws U" and ok: "url_scheme U u = ''https''"
  shows "\<exists>x. end_session_url_from_str U (url_as_str U
      (if url_query U (append_pairs U kvs u) = Some [] then url_set_query_none U (append_pairs U kvs u)
       else append_pairs U kvs u)) = Inr x \<and>
    url_query_pairs U (end_session_as_url x) = url_query_pairs U u @ kvs \<and>
    ((\<forall>u k v. part (url_open_query U u) = part u \<and> part (url_append_pair U k v u) = part u \<and>
        part (url_set_query_none U u) = part u) \<longrightarrow> part (end_session_as_url x) = part u)"
proof -
  let ?a = "append_pairs U kvs u"
  let ?u = "if url_query U ?a = Some [] then url_set_query_none U ?a else ?a"
  have "url_scheme U ?u = ''https''"
    using laws ok append_pairs_scheme [OF laws, of kvs u] by (auto simp: url_laws_def)
  moreover have "url_query_pairs U ?u = url_query_pairs U ?a"
    using laws by (auto simp: url_laws_def)
  moreover have "url_parse U (url_as_str U ?u) = Inr ?u" using laws unfolding url_laws_def by blast
  moreover have "part ?u = part u" if "\<forall>u k v. part (url_open_query U u) = part u \<and>
      part (url_append_pair U k v u) = part u \<and> part (url_set_query_none U u) = part u"
    using that append_pairs_attribute [where g = part and U = U] by simp
  ultimately show ?thesis
    using append_pairs_query_pairs [OF laws, of kvs u]
    by (intro exI [of _ "EndSessionUrl ?u"])
      (simp add: end_session_url_from_str_def https_url_from_str_Inr)
qed

section \<open>Properties\<close>

text \<open>
  C31. A logout URL can be built exactly if the provider advertises an end-session endpoint. It is
  that endpoint, an https URL, with exactly the parameters given: the query is the endpoint's own
  followed by \<open>logout_query\<close> of the chained options (each under its own name, the last value given,
  and no other), and any other part of the endpoint is unchanged. The state in the URL is the one
  returned: the caller's where the caller gave one, otherwise a fresh random one if there is a
  post-logout redirect, otherwise none.
\<close>

theorem logout_url_parameters:
  fixes E :: "('u, 'jws, 'key, 'claims, 'jwks, 'w) env" and part :: "'u \<Rightarrow> bytes"
  assumes "url_laws (env_url E)" and "metadata_ok (env_url E) (client_metadata c)"
  shows "case end_session_endpoint (client_metadata c) of
      None \<Rightarrow> \<exists>e. end_session_build E (fold apply_logout_option os (end_session_builder_new c)) w = (Inl e, w)
    | Some endpoint \<Rightarrow> \<exists>x st w'.
        end_session_build E (fold apply_logout_option os (end_session_builder_new c)) w = (Inr (x, st), w') \<and>
        url_scheme (env_url E) (end_session_as_url x) = ''https'' \<and>
        ((\<forall>u k v. part (url_open_query (env_url E) u) = part u \<and>
            part (url_append_pair (env_url E) k v u) = part u \<and>
            part (url_set_query_none (env_url E) u) = part u) \<longrightarrow>
          part (end_session_as_url x) = part (end_session_as_url endpoint)) \<and>
        url_query_pairs (env_url E) (end_session_as_url x) =
          url_query_pairs (env_url E) (end_session_as_url endpoint) @
          logout_query (url_as_str (env_url E)) os st \<and>
        (case last_given state_given os of
           Some s \<Rightarrow> st = Some s \<and> w' = w
         | None \<Rightarrow> if last_given redirect_given os = None then st = None \<and> w' = w
                  else \<exists>s. state_new_random (env_base64 E) (env_runtime E) w = (s, w') \<and> st = Some s)"
proof (cases "end_session_endpoint (client_metadata c)")
  case None
  then show ?thesis by (simp add: end_session_build_def logout_builder_given)
next
  case (Some endpoint)
  let ?b = "fold apply_logout_option os (end_session_builder_new c)"
  let ?q = "logout_query (url_as_str (env_url E)) os"
  obtain st w' where st: "end_session_state E ?b w = (st, w')" by fastforce
  then have st': "case last_given state_given os of
       Some s \<Rightarrow> st = Some s \<and> w' = w
     | None \<Rightarrow> if last_given redirect_given os = None then st = None \<and> w' = w
              else \<exists>s. state_new_random (env_base64 E) (env_runtime E) w = (s, w') \<and> st = Some s"
    by (auto simp: end_session_state_def logout_builder_given split: option.splits prod.splits)
  have "url_scheme (env_url E) (end_session_as_url endpoint) = ''https''"
    using assms(2) Some by (simp add: metadata_ok_def)
  from end_session_url_final [OF assms(1) this, of "?q st" part] obtain x where x:
    "end_session_url_from_str (env_url E) (url_as_str (env_url E)
      (let url = append_pairs (env_url E) (?q st) (end_session_as_url endpoint)
       in if url_query (env_url E) url = Some [] then url_set_query_none (env_url E) url else url)) = Inr x"
    "url_query_pairs (env_url E) (end_session_as_url x) =
      url_query_pairs (env_url E) (end_session_as_url endpoint) @ ?q st"
    "(\<forall>u k v. part (url_open_query (env_url E) u) = part u \<and> part (url_append_pair (env_url E) k v u) = part u \<and>
        part (url_set_query_none (env_url E) u) = part u) \<longrightarrow>
      part (end_session_as_url x) = part (end_session_as_url endpoint)"
    by (auto simp: Let_def)
  then have "end_session_build E ?b w = (Inr (x, st), w')"
    by (simp add: end_session_build_def logout_builder_given Some st Let_def end_session_pairs_query)
  moreover have "url_scheme (env_url E) (end_session_as_url x) = ''https''"
    using end_session.from_str_ok [OF x(1)] by blast
  ultimately show ?thesis unfolding Some option.case using x(2,3) st' by blast
qed

lemma example_metadata_ok: "metadata_ok text_url example_metadata"
  by (simp add: metadata_ok_def example_metadata_def text_scheme_def text_base_def)

theorem logout_url_parameters_witness:
  "\<exists>x st w'. end_session_build (example_env [])
       (fold apply_logout_option [LogoutRedirect (PostLogoutRedirectUrl ''https://rp''),
           LogoutUiLocale ''de'', LogoutUiLocale ''en''] (end_session_builder_new (example_client None)))
       (example_world [] 5) = (Inr (x, Some (State st)), w') \<and>
     url_scheme text_url (end_session_as_url x) = ''https'' \<and>
     url_query_pairs text_url (end_session_as_url x) =
       url_query_pairs text_url ''https://op/bye'' @
       [(''post_logout_redirect_uri'', ''https://rp''), (''state'', st), (''ui_locales'', ''de en'')]"
proof -
  let ?os = "[LogoutRedirect (PostLogoutRedirectUrl ''https://rp''), LogoutUiLocale ''de'', LogoutUiLocale ''en'']"
  have m: "client_metadata (example_client None) = example_metadata"
    by (simp add: client_metadata_def example_client_def example_provider_def)
  have e: "end_session_endpoint example_metadata = Some (EndSessionUrl ''https://op/bye'')"
    by (simp add: example_metadata_def)
  have ok: "url_laws (env_url (example_env []))"
    "metadata_ok (env_url (example_env [])) (client_metadata (example_client None))"
    by (simp_all add: text_url_laws m example_metadata_ok)
  have q: "logout_query text_text ?os (Some (State s)) =
      [(''post_logout_redirect_uri'', text_text ''https://rp''), (''state'', s), (''ui_locales'', ''de en'')]"
    for text_text :: "bytes \<Rightarrow> bytes" and s by (simp add: logout_query_def)
  from logout_url_parameters [OF ok, of ?os "example_world [] 5" "\<lambda>_. []"]
  obtain x st w' s where x: "end_session_build (example_env []) (fold apply_logout_option ?os
      (end_session_builder_new (example_client None))) (example_world [] 5) = (Inr (x, st), w')"
    "url_scheme text_url (end_session_as_url x) = ''https''"
    "url_query_pairs text_url (end_session_as_url x) =
      url_query_pairs text_url ''https://op/bye'' @ logout_query (url_as_str text_url) ?os st" "st = Some s"
    unfolding m e option.case by auto
  obtain y where "s = State y" by (cases s)
  with x show ?thesis unfolding q by (auto simp: q)
qed

end
