(* ===== verification/Callback.thy ===== *)
theory Callback
  imports Externals "HOL-Library.Word"
begin

text \<open>
  src/flow/callback.rs: parsing an authorization response. The percent-decoding loop works on
  8-bit words as the code does; \<open>pct_decodes\<close> is the grammar of the encoding, written
  independently as an inductive relation, and \<open>validate_encoded_component_iff\<close> relates the two.
\<close>

unbundle bit_operations_syntax

section \<open>The response\<close>

datatype authorization_response =
    Success (resp_code: bytes) bytes "bytes option"
  | ErrorResponse bytes "bytes option" "bytes option" bytes "bytes option"

fun response_state :: "authorization_response \<Rightarrow> bytes" where
  "response_state (Success code state iss) = state"
| "response_state (ErrorResponse error description error_uri state iss) = state"

fun response_issuer :: "authorization_response \<Rightarrow> bytes option" where
  "response_issuer (Success code state iss) = iss"
| "response_issuer (ErrorResponse error description error_uri state iss) = iss"

section \<open>Form encoding\<close>

definition byte_of :: "char \<Rightarrow> 8 word" where "byte_of c = of_char c"

definition char_of_byte :: "8 word \<Rightarrow> char" where "char_of_byte b = char_of (unat b)"

definition hex_value :: "8 word \<Rightarrow> 8 word option" where
  "hex_value b =
     (if 48 \<le> b \<and> b \<le> 57 then Some (b - 48)
      else if 97 \<le> b \<and> b \<le> 102 then Some (b - 97 + 10)
      else if 65 \<le> b \<and> b \<le> 70 then Some (b - 65 + 10)
      else None)"

definition invalid_form_encoding :: callback_error where
  "invalid_form_encoding = ParseError ''authorization response is not valid form encoding''"

text \<open>The \<^verbatim>\<open>while\<close> loop: \<open>decoded\<close> is the vector, the list the bytes from \<^verbatim>\<open>index\<close> on.\<close>

fun decode_loop :: "bytes \<Rightarrow> bytes \<Rightarrow> callback_error + bytes" where
  "decode_loop decoded [] = Inr decoded"
| "decode_loop decoded (c # rest) =
     (if c = CHR ''%'' then
        (case rest of
           h # l # rest' \<Rightarrow>
             (case hex_value (byte_of h) of
                None \<Rightarrow> Inl invalid_form_encoding
              | Some high \<Rightarrow>
                  (case hex_value (byte_of l) of
                     None \<Rightarrow> Inl invalid_form_encoding
                   | Some low \<Rightarrow> decode_loop (decoded @ [char_of_byte (push_bit 4 high OR low)]) rest'))
         | _ \<Rightarrow> Inl invalid_form_encoding)
      else if c = CHR ''+'' then decode_loop (decoded @ [CHR '' '']) rest
      else decode_loop (decoded @ [c]) rest)"

definition validate_encoded_component :: "bytes \<Rightarrow> callback_error + unit" where
  "validate_encoded_component component =
     bindr (decode_loop [] component)
       (\<lambda>decoded. if utf8_valid decoded then Inr () else Inl invalid_form_encoding)"

definition field_parts :: "bytes \<Rightarrow> bytes \<times> bytes" where
  "field_parts field = (case split_once (CHR ''='') field of Some p \<Rightarrow> p | None \<Rightarrow> (field, []))"

fun validate_fields :: "bytes list \<Rightarrow> callback_error + unit" where
  "validate_fields [] = Inr ()"
| "validate_fields (field # rest) =
     (case field_parts field of (name, v) \<Rightarrow>
        bindr (validate_encoded_component name) (\<lambda>_.
        bindr (validate_encoded_component v) (\<lambda>_. validate_fields rest)))"

definition validate_form_encoding :: "bytes \<Rightarrow> callback_error + unit" where
  "validate_form_encoding raw = validate_fields (split_on (CHR ''&'') raw)"

section \<open>Character sets\<close>

definition validate_chars :: "bytes \<Rightarrow> bytes \<Rightarrow> (nat \<Rightarrow> bool) \<Rightarrow> callback_error + unit" where
  "validate_chars name v allowed =
     (if list_all (\<lambda>c. allowed (of_char c)) v then Inr () else Inl (InvalidParameter name))"

definition vschar :: "nat \<Rightarrow> bool" where "vschar b \<longleftrightarrow> 32 \<le> b \<and> b \<le> 126"

definition nqschar :: "nat \<Rightarrow> bool" where
  "nqschar b \<longleftrightarrow> 32 \<le> b \<and> b \<le> 33 \<or> 35 \<le> b \<and> b \<le> 91 \<or> 93 \<le> b \<and> b \<le> 126"

definition uri_reference_char :: "nat \<Rightarrow> bool" where
  "uri_reference_char b \<longleftrightarrow> b = 33 \<or> 35 \<le> b \<and> b \<le> 91 \<or> 93 \<le> b \<and> b \<le> 126"

definition validate_vschar :: "bytes \<Rightarrow> bytes \<Rightarrow> callback_error + unit" where
  "validate_vschar name v = validate_chars name v vschar"

definition validate_nqschar :: "bytes \<Rightarrow> bytes \<Rightarrow> callback_error + unit" where
  "validate_nqschar name v = validate_chars name v nqschar"

definition validate_uri_reference_chars :: "bytes \<Rightarrow> bytes \<Rightarrow> callback_error + unit" where
  "validate_uri_reference_chars name v = validate_chars name v uri_reference_char"

section \<open>The parser\<close>

text \<open>The first pair with the name decides; an empty value counts as omitted.\<close>

definition parameter :: "(bytes \<times> bytes) list \<Rightarrow> bytes \<Rightarrow> bytes option" where
  "parameter params name =
     Option.bind (find (\<lambda>(key, _). key = name) params)
       (\<lambda>(_, v). if v \<noteq> [] then Some v else None)"

text \<open>The \<^verbatim>\<open>HashSet\<close> loop: the first name that was seen before.\<close>

fun first_duplicate :: "bytes set \<Rightarrow> (bytes \<times> bytes) list \<Rightarrow> bytes option" where
  "first_duplicate names [] = None"
| "first_duplicate names ((name, v) # params) =
     (if name \<in> names then Some name else first_duplicate (insert name names) params)"

definition validate_optional ::
  "(bytes \<Rightarrow> bytes \<Rightarrow> callback_error + unit) \<Rightarrow> bytes \<Rightarrow> bytes option \<Rightarrow> callback_error + unit" where
  "validate_optional validate name v =
     (case v of None \<Rightarrow> Inr () | Some x \<Rightarrow> validate name x)"

definition parse_authorization_response ::
  "form_lib \<Rightarrow> bytes \<Rightarrow> callback_error + authorization_response" where
  "parse_authorization_response F raw =
     bindr (validate_form_encoding raw) (\<lambda>_.
     (let params = form_parse F raw in
      case first_duplicate {} params of
        Some name \<Rightarrow> Inl (DuplicateParameter name)
      | None \<Rightarrow>
        (let code = parameter params ''code'';
             error = parameter params ''error'';
             description = parameter params ''error_description'';
             error_uri = parameter params ''error_uri'';
             state = parameter params ''state'';
             iss = parameter params ''iss''
         in
         if code \<noteq> None \<and> (error \<noteq> None \<or> description \<noteq> None \<or> error_uri \<noteq> None)
         then Inl AmbiguousResponse
         else case error of
           Some err \<Rightarrow>
             bindr (validate_nqschar ''error'' err) (\<lambda>_.
             bindr (validate_optional validate_nqschar ''error_description'' description) (\<lambda>_.
             bindr (validate_optional validate_uri_reference_chars ''error_uri'' error_uri) (\<lambda>_.
             bindr (ok_or (Missing ''state'') state) (\<lambda>st.
             bindr (validate_vschar ''state'' st) (\<lambda>_.
               Inr (ErrorResponse err description error_uri st iss))))))
         | None \<Rightarrow>
             if description \<noteq> None \<or> error_uri \<noteq> None then Inl (Missing ''error'')
             else
               bindr (ok_or (Missing ''code'') code) (\<lambda>cd.
               bindr (ok_or (Missing ''state'') state) (\<lambda>st.
               bindr (validate_vschar ''code'' cd) (\<lambda>_.
               bindr (validate_vschar ''state'' st) (\<lambda>_.
                 Inr (Success cd st iss))))))))"

section \<open>Percent-decoding against its grammar\<close>

definition hex_digits :: "(char \<times> nat) list" where
  "hex_digits = zip ''0123456789abcdefABCDEF'' ([0..<16] @ [10..<16])"

inductive pct_decodes :: "bytes \<Rightarrow> bytes \<Rightarrow> bool" where
  pct_nil: "pct_decodes [] []"
| pct_escape: "map_of hex_digits h = Some a \<Longrightarrow> map_of hex_digits l = Some b \<Longrightarrow> pct_decodes s d \<Longrightarrow>
     pct_decodes (CHR ''%'' # h # l # s) (char_of (16 * a + b) # d)"
| pct_plus: "pct_decodes s d \<Longrightarrow> pct_decodes (CHR ''+'' # s) (CHR '' '' # d)"
| pct_plain: "c \<noteq> CHR ''%'' \<Longrightarrow> c \<noteq> CHR ''+'' \<Longrightarrow> pct_decodes s d \<Longrightarrow> pct_decodes (c # s) (c # d)"

inductive_cases pct_decodes_NilE: "pct_decodes [] d"
inductive_cases pct_decodes_ConsE: "pct_decodes (c # s) d"

lemma all_chars_if: "(\<forall>n \<in> set [0..<256]. P (char_of n)) \<Longrightarrow> P c"
proof -
  assume a: "\<forall>n \<in> set [0..<256]. P (char_of n)"
  have "(of_char c :: nat) \<in> set [0..<256]" by simp
  with a have "P (char_of (of_char c :: nat))" by blast
  then show ?thesis by simp
qed

definition hex_number :: "nat \<Rightarrow> nat option" where
  "hex_number n =
     (if 48 \<le> n \<and> n \<le> 57 then Some (n - 48)
      else if 97 \<le> n \<and> n \<le> 102 then Some (n - 87)
      else if 65 \<le> n \<and> n \<le> 70 then Some (n - 55) else None)"

lemma unat_byte_of: "unat (byte_of c) = of_char c"
proof -
  have "unat (of_nat (of_char c) :: 8 word) = (of_char c :: nat)"
    by (simp add: unat_of_nat)
  then show ?thesis by (simp only: byte_of_def of_nat_of_char)
qed

lemma hex_value_number: "map_option unat (hex_value (byte_of c)) = hex_number (of_char c)"
  unfolding hex_value_def hex_number_def
  using unat_byte_of [of c] by (auto simp: word_le_nat_alt unat_sub unat_word_ariths)

lemma hex_digits_explicit: "hex_digits =
    [(CHR ''0'', 0), (CHR ''1'', 1), (CHR ''2'', 2), (CHR ''3'', 3), (CHR ''4'', 4), (CHR ''5'', 5),
     (CHR ''6'', 6), (CHR ''7'', 7), (CHR ''8'', 8), (CHR ''9'', 9), (CHR ''a'', 10), (CHR ''b'', 11),
     (CHR ''c'', 12), (CHR ''d'', 13), (CHR ''e'', 14), (CHR ''f'', 15), (CHR ''A'', 10),
     (CHR ''B'', 11), (CHR ''C'', 12), (CHR ''D'', 13), (CHR ''E'', 14), (CHR ''F'', 15)]"
  by (simp add: hex_digits_def upt_rec)

lemma hex_number_table: "hex_number (of_char c) = map_of hex_digits c"
proof (cases "hex_number (of_char c)")
  case None
  then have "c \<notin> fst ` set hex_digits"
    by (auto simp: hex_digits_explicit hex_number_def split: if_splits)
  with None show ?thesis by (simp add: map_of_eq_None_iff [THEN iffD2])
next
  case (Some m)
  define n :: nat where "n = of_char c"
  have c: "c = char_of n" by (simp add: n_def)
  have "48 \<le> n \<and> n \<le> 57 \<or> 97 \<le> n \<and> n \<le> 102 \<or> 65 \<le> n \<and> n \<le> 70"
    using Some by (auto simp: hex_number_def n_def [symmetric] split: if_splits)
  then have "n \<in> set ([48..<58] @ [97..<103] @ [65..<71])"
    by (simp only: set_append set_upt) auto
  moreover have "[48..<58] @ [97..<103] @ [65..<71] =
      [48, 49, 50, 51, 52, 53, 54, 55, 56, 57, 97, 98, 99, 100, 101, 102, 65, 66, 67, 68, 69, 70]"
    by (simp add: upt_rec)
  ultimately have "n \<in> set [48, 49, 50, 51, 52, 53, 54, 55, 56, 57, 97, 98, 99, 100, 101, 102,
      65, 66, 67, 68, 69, 70]" by argo
  then show ?thesis
    unfolding n_def [symmetric] c by (auto simp: hex_number_def hex_digits_explicit char_of_def)
qed

lemma hex_number_less: "hex_number n = Some m \<Longrightarrow> m < 16"
  by (auto simp: hex_number_def split: if_splits)

lemma hex_digits_less: "map_of hex_digits c = Some n \<Longrightarrow> n < 16"
  using hex_number_less hex_number_table by metis

lemma nibbles_combine:
  assumes "unat h < 16" and "unat l < 16"
  shows "unat (push_bit 4 h OR l :: 8 word) = 16 * unat h + unat l"
proof -
  have "\<forall>a \<in> set [0..<16]. \<forall>b \<in> set [0..<16].
      unat (push_bit 4 (of_nat a) OR of_nat b :: 8 word) = 16 * a + b"
    by code_simp
  moreover have "h = of_nat (unat h)" "l = of_nat (unat l)" by simp_all
  ultimately show ?thesis using assms by (metis atLeastLessThan_iff le0 set_upt)
qed

lemma hex_pair_byte:
  assumes "hex_value (byte_of h) = Some hi" and "hex_value (byte_of l) = Some lo"
  shows "\<exists>a b. map_of hex_digits h = Some a \<and> map_of hex_digits l = Some b \<and>
    char_of_byte (push_bit 4 hi OR lo) = char_of (16 * a + b)"
proof -
  have "map_of hex_digits h = Some (unat hi)" "map_of hex_digits l = Some (unat lo)"
    using hex_value_number [of h] hex_value_number [of l] assms by (simp_all add: hex_number_table)
  moreover from this have "unat (push_bit 4 hi OR lo) = 16 * unat hi + unat lo"
    using nibbles_combine hex_digits_less by blast
  ultimately show ?thesis by (auto simp: char_of_byte_def)
qed

lemma hex_value_None_iff: "hex_value (byte_of c) = None \<longleftrightarrow> map_of hex_digits c = None"
  using hex_value_number [of c] by (simp add: hex_number_table) (metis option.map_disc_iff)

lemma decode_loop_sound: "decode_loop acc s = Inr d \<Longrightarrow> \<exists>d'. pct_decodes s d' \<and> d = acc @ d'"
proof (induction acc s rule: decode_loop.induct)
  case (1 acc)
  then show ?case by (auto intro: pct_nil)
next
  case (2 acc c rest)
  consider (escape) "c = CHR ''%''" | (plus) "c = CHR ''+''" | (plain) "c \<noteq> CHR ''%''" "c \<noteq> CHR ''+''"
    by blast
  then show ?case
  proof cases
    case escape
    with "2.prems" obtain h l r hi lo where r: "rest = h # l # r"
      "hex_value (byte_of h) = Some hi" "hex_value (byte_of l) = Some lo"
      "decode_loop (acc @ [char_of_byte (push_bit 4 hi OR lo)]) r = Inr d"
      by (auto split: list.splits option.splits)
    with "2.IH"(1) escape obtain d' where "pct_decodes r d'"
      "d = (acc @ [char_of_byte (push_bit 4 hi OR lo)]) @ d'" by blast
    moreover from hex_pair_byte [OF r(2,3)] obtain a b where
      "map_of hex_digits h = Some a" "map_of hex_digits l = Some b"
      "char_of_byte (push_bit 4 hi OR lo) = char_of (16 * a + b)" by blast
    ultimately show ?thesis using r escape by (auto intro!: pct_escape)
  next
    case plus
    with 2 show ?thesis by (fastforce intro: pct_plus)
  next
    case plain
    with 2 show ?thesis by (fastforce intro: pct_plain)
  qed
qed

lemma decode_loop_complete: "pct_decodes s d \<Longrightarrow> decode_loop acc s = Inr (acc @ d)"
proof (induction arbitrary: acc rule: pct_decodes.induct)
  case (pct_escape h a l b s d)
  obtain hi lo where v: "hex_value (byte_of h) = Some hi" "hex_value (byte_of l) = Some lo"
    using pct_escape.hyps hex_value_None_iff by (metis option.distinct(1) option.exhaust)
  with hex_pair_byte [OF v] pct_escape show ?case by auto
qed simp_all

lemma decode_loop_error: "decode_loop acc s = Inl e \<Longrightarrow> e = invalid_form_encoding"
proof (induction acc s rule: decode_loop.induct)
  case (1 acc)
  then show ?case by simp
next
  case (2 acc c rest)
  consider (escape) "c = CHR ''%''" | (plus) "c = CHR ''+''" | (plain) "c \<noteq> CHR ''%''" "c \<noteq> CHR ''+''"
    by blast
  then show ?case
  proof cases
    case escape
    with "2.prems" consider (now) "e = invalid_form_encoding"
      | (later) h l r hi lo where "rest = h # l # r" "hex_value (byte_of h) = Some hi"
          "hex_value (byte_of l) = Some lo"
          "decode_loop (acc @ [char_of_byte (push_bit 4 hi OR lo)]) r = Inl e"
      by (auto split: list.splits option.splits)
    then show ?thesis
    proof cases
      case now
      then show ?thesis .
    next
      case later
      show ?thesis by (rule "2.IH"(1) [OF escape later(1) refl later(2,3,4)])
    qed
  next
    case plus
    with "2.prems" have "decode_loop (acc @ [CHR '' '']) rest = Inl e" by simp
    moreover have "c \<noteq> CHR ''%''" using plus by simp
    ultimately show ?thesis using "2.IH"(2) plus by blast
  next
    case plain
    with "2.prems" have "decode_loop (acc @ [c]) rest = Inl e" by simp
    with "2.IH"(3) plain show ?thesis by blast
  qed
qed

lemma validate_encoded_component_ok:
  "validate_encoded_component s = Inr () \<longleftrightarrow> (\<exists>d. pct_decodes s d \<and> utf8_valid d)"
proof (cases "decode_loop [] s")
  case (Inl e)
  with decode_loop_complete [of s _ "[]"] have "\<not> pct_decodes s d" for d by fastforce
  with Inl show ?thesis by (simp add: validate_encoded_component_def)
next
  case (Inr d)
  with decode_loop_sound have "pct_decodes s d" by fastforce
  moreover have "d' = d" if "pct_decodes s d'" for d'
    using decode_loop_complete [OF that, of "[]"] Inr by simp
  ultimately have "(\<exists>d'. pct_decodes s d' \<and> utf8_valid d') \<longleftrightarrow> utf8_valid d" by blast
  with Inr show ?thesis by (simp add: validate_encoded_component_def)
qed

lemma validate_encoded_component_error:
  "validate_encoded_component s = Inl e \<Longrightarrow> e = invalid_form_encoding"
  by (auto simp: validate_encoded_component_def bindr_eq_Inl split: if_splits dest: decode_loop_error)

section \<open>What the parser accepts\<close>

lemma first_duplicate_None:
  "first_duplicate names ps = None \<longleftrightarrow> distinct (map fst ps) \<and> names \<inter> fst ` set ps = {}"
  by (induction names ps rule: first_duplicate.induct) auto

lemma first_duplicate_Some:
  "first_duplicate names ps = Some n \<Longrightarrow>
   \<exists>pre v post. ps = pre @ (n, v) # post \<and> n \<in> names \<union> fst ` set pre \<and>
     distinct (map fst pre) \<and> names \<inter> fst ` set pre = {}"
proof (induction names ps rule: first_duplicate.induct)
  case (2 names name v ps)
  show ?case
  proof (cases "name \<in> names")
    case True
    with 2 have "n = name" by simp
    with True show ?thesis
      by (rule_tac x = "[]" in exI, rule_tac x = v in exI, rule_tac x = ps in exI) simp
  next
    case False
    with 2 obtain pre v' post where "ps = pre @ (n, v') # post" "n \<in> insert name names \<union> fst ` set pre"
      "distinct (map fst pre)" "insert name names \<inter> fst ` set pre = {}" by auto
    then show ?thesis using False
      by (rule_tac x = "(name, v) # pre" in exI, rule_tac x = v' in exI, rule_tac x = post in exI)
        auto
  qed
qed simp

lemma parameter_Some:
  assumes "distinct (map fst ps)"
  shows "parameter ps n = Some v \<longleftrightarrow> (n, v) \<in> set ps \<and> v \<noteq> []"
  using assms
proof (induction ps)
  case (Cons p ps)
  then show ?case
    by (cases p) (auto simp: parameter_def rev_image_eqI)
qed (simp add: parameter_def)

lemma parameter_None:
  assumes "distinct (map fst ps)"
  shows "parameter ps n = None \<longleftrightarrow> (\<forall>v. (n, v) \<in> set ps \<longrightarrow> v = [])"
  using parameter_Some [OF assms, of n] by (metis not_None_eq)

lemma validate_chars_ok [simp]:
  "validate_chars n v P = Inr () \<longleftrightarrow> (\<forall>c \<in> set v. P (of_char c))"
  by (simp add: validate_chars_def list_all_iff)

lemma validate_optional_ok [simp]:
  "validate_optional f n v = Inr () \<longleftrightarrow> (\<forall>x. v = Some x \<longrightarrow> f n x = Inr ())"
  by (cases v) (auto simp: validate_optional_def)

lemmas charset_defs = validate_vschar_def validate_nqschar_def validate_uri_reference_chars_def

text \<open>The parser once the encoding is valid and the names are unique.\<close>

definition response_of_parameters ::
  "(bytes \<Rightarrow> bytes option) \<Rightarrow> callback_error + authorization_response" where
  "response_of_parameters p =
     (if p ''code'' \<noteq> None \<and> (p ''error'' \<noteq> None \<or> p ''error_description'' \<noteq> None \<or> p ''error_uri'' \<noteq> None)
      then Inl AmbiguousResponse
      else case p ''error'' of
        Some err \<Rightarrow>
          bindr (validate_nqschar ''error'' err) (\<lambda>_.
          bindr (validate_optional validate_nqschar ''error_description'' (p ''error_description'')) (\<lambda>_.
          bindr (validate_optional validate_uri_reference_chars ''error_uri'' (p ''error_uri'')) (\<lambda>_.
          bindr (ok_or (Missing ''state'') (p ''state'')) (\<lambda>st.
          bindr (validate_vschar ''state'' st) (\<lambda>_.
            Inr (ErrorResponse err (p ''error_description'') (p ''error_uri'') st (p ''iss'')))))))
      | None \<Rightarrow>
          if p ''error_description'' \<noteq> None \<or> p ''error_uri'' \<noteq> None then Inl (Missing ''error'')
          else
            bindr (ok_or (Missing ''code'') (p ''code'')) (\<lambda>cd.
            bindr (ok_or (Missing ''state'') (p ''state'')) (\<lambda>st.
            bindr (validate_vschar ''code'' cd) (\<lambda>_.
            bindr (validate_vschar ''state'' st) (\<lambda>_. Inr (Success cd st (p ''iss'')))))))"

lemma parse_by_parameters:
  "parse_authorization_response F raw =
     bindr (validate_form_encoding raw) (\<lambda>_.
       case first_duplicate {} (form_parse F raw) of
         Some name \<Rightarrow> Inl (DuplicateParameter name)
       | None \<Rightarrow> response_of_parameters (parameter (form_parse F raw)))"
  unfolding parse_authorization_response_def response_of_parameters_def Let_def ..

lemma parse_eq_Inr:
  "parse_authorization_response F raw = Inr r \<longleftrightarrow>
     validate_form_encoding raw = Inr () \<and> distinct (map fst (form_parse F raw)) \<and>
     response_of_parameters (parameter (form_parse F raw)) = Inr r"
proof (cases "first_duplicate {} (form_parse F raw)")
  case None
  moreover from None have "distinct (map fst (form_parse F raw))"
    by (simp add: first_duplicate_None)
  ultimately show ?thesis by (simp add: parse_by_parameters bindr_eq_Inr)
next
  case (Some n)
  then have "\<not> distinct (map fst (form_parse F raw))"
    using first_duplicate_None [of "{}" "form_parse F raw"] by auto
  with Some show ?thesis by (simp add: parse_by_parameters bindr_eq_Inr)
qed

lemma response_Success:
  "response_of_parameters p = Inr (Success code state iss) \<longleftrightarrow>
     p ''code'' = Some code \<and> p ''state'' = Some state \<and> p ''iss'' = iss \<and>
     p ''error'' = None \<and> p ''error_description'' = None \<and> p ''error_uri'' = None \<and>
     (\<forall>c \<in> set code. vschar (of_char c)) \<and> (\<forall>c \<in> set state. vschar (of_char c))"
  by (auto simp: response_of_parameters_def bindr_eq_Inr charset_defs split: option.splits)

lemma response_Error:
  "response_of_parameters p = Inr (ErrorResponse err desc uri state iss) \<longleftrightarrow>
     p ''error'' = Some err \<and> p ''state'' = Some state \<and> p ''iss'' = iss \<and> p ''code'' = None \<and>
     p ''error_description'' = desc \<and> p ''error_uri'' = uri \<and>
     (\<forall>c \<in> set err. nqschar (of_char c)) \<and> (\<forall>c \<in> set state. vschar (of_char c)) \<and>
     (\<forall>d. desc = Some d \<longrightarrow> (\<forall>c \<in> set d. nqschar (of_char c))) \<and>
     (\<forall>u. uri = Some u \<longrightarrow> (\<forall>c \<in> set u. uri_reference_char (of_char c)))"
  by (auto simp: response_of_parameters_def bindr_eq_Inr charset_defs split: option.splits)

lemma validate_fields_ok:
  "validate_fields fs = Inr () \<longleftrightarrow>
     (\<forall>f \<in> set fs. validate_encoded_component (fst (field_parts f)) = Inr () \<and>
        validate_encoded_component (snd (field_parts f)) = Inr ())"
  by (induction fs) (auto simp: bindr_eq_Inr split: prod.splits)

lemma validate_fields_error: "validate_fields fs = Inl e \<Longrightarrow> e = invalid_form_encoding"
  by (induction fs)
    (auto simp: bindr_eq_Inl split: prod.splits dest: validate_encoded_component_error)

section \<open>Properties\<close>

text \<open>
  C24. The percent-decoding check accepts a query exactly if the name and the value of each of its
  fields decode, by the grammar of the form encoding, to bytes that are valid UTF-8: every percent
  sign is followed by two hexadecimal digits. Every rejection is the same parse error.
\<close>

theorem encoding_check_matches_grammar:
  "(validate_form_encoding raw = Inr () \<longleftrightarrow>
      list_all (\<lambda>f. (\<exists>n. pct_decodes (fst (field_parts f)) n \<and> utf8_valid n) \<and>
                    (\<exists>v. pct_decodes (snd (field_parts f)) v \<and> utf8_valid v))
        (split_on (CHR ''&'') raw)) \<and>
   (validate_form_encoding raw = Inr () \<or> validate_form_encoding raw = Inl invalid_form_encoding)"
proof -
  have "validate_form_encoding raw = Inr () \<or> validate_form_encoding raw = Inl invalid_form_encoding"
    using validate_fields_error by (cases "validate_form_encoding raw") (auto simp: validate_form_encoding_def)
  moreover have "validate_form_encoding raw = Inr () \<longleftrightarrow>
      list_all (\<lambda>f. (\<exists>n. pct_decodes (fst (field_parts f)) n \<and> utf8_valid n) \<and>
                    (\<exists>v. pct_decodes (snd (field_parts f)) v \<and> utf8_valid v))
        (split_on (CHR ''&'') raw)"
    by (simp add: validate_form_encoding_def validate_fields_ok validate_encoded_component_ok list_all_iff)
  ultimately show ?thesis by blast
qed

text \<open>The value of a parameter: present once and not empty.\<close>

definition parameter_is :: "(bytes \<times> bytes) list \<Rightarrow> bytes \<Rightarrow> bytes option \<Rightarrow> bool" where
  "parameter_is ps n x \<longleftrightarrow>
     (case x of Some v \<Rightarrow> v \<noteq> [] \<and> (n, v) \<in> set ps | None \<Rightarrow> list_all (\<lambda>(n', v). n' = n \<longrightarrow> v = []) ps)"

lemma parameter_is_iff:
  "distinct (map fst ps) \<Longrightarrow> parameter ps n = x \<longleftrightarrow> parameter_is ps n x"
  by (cases x) (auto simp: parameter_is_def parameter_Some parameter_None list_all_iff)

text \<open>
  C23. What the parser accepts. A success response: the encoding is valid, no name is repeated, code
  and state are there and not empty and made of printable ASCII, and there is none of the error
  parameters. An error response: error and state are there, no code, and every value stays within
  the characters RFC 6749 gives it. In both, the values are those of the parsed query.
\<close>

theorem accepted_responses:
  "parse_authorization_response F raw = Inr response \<longleftrightarrow>
     validate_form_encoding raw = Inr () \<and> distinct (map fst (form_parse F raw)) \<and>
     (case response of
        Success code st iss \<Rightarrow>
          parameter_is (form_parse F raw) ''code'' (Some code) \<and>
          parameter_is (form_parse F raw) ''error'' None \<and>
          parameter_is (form_parse F raw) ''error_description'' None \<and>
          parameter_is (form_parse F raw) ''error_uri'' None \<and>
          parameter_is (form_parse F raw) ''state'' (Some st) \<and>
          parameter_is (form_parse F raw) ''iss'' iss \<and>
          list_all (\<lambda>c. vschar (of_char c)) (code @ st)
      | ErrorResponse err desc uri st iss \<Rightarrow>
          parameter_is (form_parse F raw) ''code'' None \<and>
          parameter_is (form_parse F raw) ''error'' (Some err) \<and>
          parameter_is (form_parse F raw) ''error_description'' desc \<and>
          parameter_is (form_parse F raw) ''error_uri'' uri \<and>
          parameter_is (form_parse F raw) ''state'' (Some st) \<and>
          parameter_is (form_parse F raw) ''iss'' iss \<and>
          list_all (\<lambda>c. nqschar (of_char c)) (case desc of Some d \<Rightarrow> err @ d | None \<Rightarrow> err) \<and>
          list_all (\<lambda>c. uri_reference_char (of_char c)) (case uri of Some u \<Rightarrow> u | None \<Rightarrow> []) \<and>
          list_all (\<lambda>c. vschar (of_char c)) st)"
proof (cases "distinct (map fst (form_parse F raw))")
  case True
  note iff = parse_eq_Inr parameter_is_iff [OF True, symmetric]
  show ?thesis
  proof (cases response)
    case (Success code st iss)
    then show ?thesis by (auto simp: iff response_Success list_all_iff)
  next
    case (ErrorResponse err desc uri st iss)
    then show ?thesis
      by (cases desc; cases uri) (auto simp: iff response_Error list_all_iff)
  qed
next
  case False
  then show ?thesis by (simp add: parse_eq_Inr)
qed

end
