(* ===== verification/Kv_Store.thy ===== *)
theory Kv_Store
  imports Errors Rust_Time
begin

text \<open>
  src/transport/kv.rs: the trait \<^verbatim>\<open>AsyncKvStore\<close> as the locale \<open>kv_store\<close> (its documented
  semantics are the assumptions) and the in-memory store as its interpretation.

  An operation is one critical section of the mutex, so a concurrent execution is a sequence of
  operations (\<open>kv_run\<close>), in the order the lock serialises them. The instants the operations
  read are arguments and are not assumed to be in the order of the lock: \<^verbatim>\<open>put_if_absent\<close> reads
  the clock before it locks, \<^verbatim>\<open>take\<close> after it has released the lock.
\<close>

section \<open>The in-memory store\<close>

record in_memory_entry =
  entry_value :: bytes
  expires_at :: instant

text \<open>\<open>lock_poisoned\<close>: a thread panicked while it held the mutex.\<close>

record in_memory_kv_store =
  kv_entries :: "bytes \<Rightarrow> in_memory_entry option"
  lock_poisoned :: bool

definition in_memory_new :: in_memory_kv_store where
  "in_memory_new = \<lparr>kv_entries = Map.empty, lock_poisoned = False\<rparr>"

definition retain_unexpired ::
  "instant \<Rightarrow> (bytes \<Rightarrow> in_memory_entry option) \<Rightarrow> bytes \<Rightarrow> in_memory_entry option" where
  "retain_unexpired now m k =
     (case m k of Some e \<Rightarrow> if now < expires_at e then Some e else None | None \<Rightarrow> None)"

definition put_if_absent ::
  "instant \<Rightarrow> bytes \<Rightarrow> bytes \<Rightarrow> duration \<Rightarrow> in_memory_kv_store \<Rightarrow>
   (kv_error + bool) \<times> in_memory_kv_store" where
  "put_if_absent now key v ttl s =
     (if is_zero_duration ttl then (Inl InvalidTtl, s)
      else case instant_checked_add now ttl of
        None \<Rightarrow> (Inl InvalidTtl, s)
      | Some expires \<Rightarrow>
          if lock_poisoned s then (Inl (Storage ''in-memory store lock poisoned''), s)
          else (let entries = retain_unexpired now (kv_entries s) in
            case entries key of
              None \<Rightarrow>
                (Inr True, s\<lparr>kv_entries :=
                   entries(key \<mapsto> \<lparr>entry_value = v, expires_at = expires\<rparr>)\<rparr>)
            | Some _ \<Rightarrow> (Inr False, s\<lparr>kv_entries := entries\<rparr>)))"

text \<open>
  \<^verbatim>\<open>take\<close>: the critical section is the removal of the entry; whether it had expired is decided after the
  lock is released, and the clock is read only for an entry that was there.
\<close>

definition take_entry ::
  "bytes \<Rightarrow> in_memory_kv_store \<Rightarrow> (kv_error + in_memory_entry option) \<times> in_memory_kv_store" where
  "take_entry key s =
     (if lock_poisoned s then (Inl (Storage ''in-memory store lock poisoned''), s)
      else (Inr (kv_entries s key), s\<lparr>kv_entries := (kv_entries s)(key := None)\<rparr>))"

definition unexpired_value :: "instant \<Rightarrow> in_memory_entry \<Rightarrow> bytes option" where
  "unexpired_value now e = (if now < expires_at e then Some (entry_value e) else None)"

definition take_kv ::
  "instant \<Rightarrow> bytes \<Rightarrow> in_memory_kv_store \<Rightarrow> (kv_error + bytes option) \<times> in_memory_kv_store" where
  "take_kv now key s =
     (case take_entry key s of
        (r, s') \<Rightarrow> (mapr (\<lambda>entry. Option.bind entry (unexpired_value now)) r, s'))"

lemma take_kv_eq:
  "take_kv now key s =
     (if lock_poisoned s then (Inl (Storage ''in-memory store lock poisoned''), s)
      else (Inr (case kv_entries s key of
                   Some e \<Rightarrow> if now < expires_at e then Some (entry_value e) else None
                 | None \<Rightarrow> None),
            s\<lparr>kv_entries := (kv_entries s)(key := None)\<rparr>))"
  by (simp add: take_kv_def take_entry_def unexpired_value_def split: option.splits)

text \<open>What a caller can still read: the value under a key at an instant.\<close>

definition kv_live :: "in_memory_kv_store \<Rightarrow> instant \<Rightarrow> bytes \<Rightarrow> bytes option" where
  "kv_live s t k =
     (case kv_entries s k of Some e \<Rightarrow> if t < expires_at e then Some (entry_value e) else None
      | None \<Rightarrow> None)"

definition kv_usable :: "in_memory_kv_store \<Rightarrow> bool" where
  "kv_usable s \<longleftrightarrow> \<not> lock_poisoned s"

section \<open>Sequences of operations\<close>

datatype kv_op =
    PutOp instant bytes bytes duration
  | TakeOp instant bytes

datatype kv_reply = PutReply "kv_error + bool" | TakeReply "kv_error + bytes option"

fun kv_run ::
  "(instant \<Rightarrow> bytes \<Rightarrow> bytes \<Rightarrow> duration \<Rightarrow> 's \<Rightarrow> (kv_error + bool) \<times> 's) \<Rightarrow>
   (instant \<Rightarrow> bytes \<Rightarrow> 's \<Rightarrow> (kv_error + bytes option) \<times> 's) \<Rightarrow> kv_op list \<Rightarrow> 's \<Rightarrow>
   kv_reply list \<times> 's" where
  "kv_run put tk [] s = ([], s)"
| "kv_run put tk (PutOp now k v ttl # ops) s =
     (let (r, s') = put now k v ttl s; (rs, s'') = kv_run put tk ops s'
      in (PutReply r # rs, s''))"
| "kv_run put tk (TakeOp now k # ops) s =
     (let (r, s') = tk now k s; (rs, s'') = kv_run put tk ops s' in (TakeReply r # rs, s''))"

definition in_memory_run :: "kv_op list \<Rightarrow> in_memory_kv_store \<Rightarrow> kv_reply list \<times> in_memory_kv_store"
  where "in_memory_run = kv_run put_if_absent take_kv"

text \<open>The replies of a run that created an entry for a key, and those that handed one out.\<close>

fun created_for :: "bytes \<Rightarrow> kv_op list \<Rightarrow> kv_reply list \<Rightarrow> nat" where
  "created_for k (PutOp _ k' _ _ # ops) (PutReply r # rs) =
     (if k' = k \<and> r = Inr True then 1 else 0) + created_for k ops rs"
| "created_for k (_ # ops) (_ # rs) = created_for k ops rs"
| "created_for k _ _ = 0"

fun handed_out :: "bytes \<Rightarrow> kv_op list \<Rightarrow> kv_reply list \<Rightarrow> bytes list" where
  "handed_out k (TakeOp _ k' # ops) (TakeReply r # rs) =
     (if k' = k then (case r of Inr (Some v) \<Rightarrow> [v] | _ \<Rightarrow> []) else []) @ handed_out k ops rs"
| "handed_out k (_ # ops) (_ # rs) = handed_out k ops rs"
| "handed_out k _ _ = []"

section \<open>The contract of a store\<close>

text \<open>
  The trait's documentation: \<^verbatim>\<open>put_if_absent\<close> creates a value with a bounded lifetime or returns
  false and leaves the stored value; \<^verbatim>\<open>take\<close> removes and returns a value; a missing or expired
  key is \<^verbatim>\<open>Ok(None)\<close>. \<open>live\<close> is the abstraction, \<open>usable\<close> says the backend works.
\<close>

locale kv_store =
  fixes put :: "instant \<Rightarrow> bytes \<Rightarrow> bytes \<Rightarrow> duration \<Rightarrow> 's \<Rightarrow> (kv_error + bool) \<times> 's"
    and tk :: "instant \<Rightarrow> bytes \<Rightarrow> 's \<Rightarrow> (kv_error + bytes option) \<times> 's"
    and live :: "'s \<Rightarrow> instant \<Rightarrow> bytes \<Rightarrow> bytes option"
    and usable :: "'s \<Rightarrow> bool"
  assumes tk_result: "usable s \<Longrightarrow> fst (tk now k s) = Inr (live s now k)"
    and tk_unusable: "\<not> usable s \<Longrightarrow> \<exists>e. tk now k s = (Inl e, s)"
    and tk_live: "usable s \<Longrightarrow> live (snd (tk now k s)) = (\<lambda>t k'. if k' = k then None else live s t k')"
    and tk_usable: "usable (snd (tk now k s)) = usable s"
    and put_created: "put now k v ttl s = (Inr True, s') \<Longrightarrow> live s now k = None \<and>
          live s' now k = Some v \<and> (\<forall>t w. live s' t k = Some w \<longrightarrow> w = v)"
    and put_kept: "put now k v ttl s = (Inr False, s') \<Longrightarrow> live s now k \<noteq> None \<and>
          (\<forall>t w. live s' t k = Some w \<longrightarrow> live s t k = Some w) \<and> live s' now k = live s now k"
    and put_other: "k' \<noteq> k \<Longrightarrow> put now k v ttl s = (r, s') \<Longrightarrow>
          (live s' t k' = Some w \<longrightarrow> live s t k' = Some w) \<and> (now \<le> t \<longrightarrow> live s' t k' = live s t k')"
    and put_error: "put now k v ttl s = (Inl e, s') \<Longrightarrow> s' = s"
    and put_usable: "usable (snd (put now k v ttl s)) = usable s"
begin

text \<open>A key that no instant can read yields nothing until it is created again.\<close>

definition gone :: "'s \<Rightarrow> bytes \<Rightarrow> bool" where
  "gone s k \<longleftrightarrow> (\<forall>t. live s t k = None)"

lemma tk_gone: "tk now k s = (Inr r, s') \<Longrightarrow> gone s' k"
  using tk_live [of s now k] tk_unusable [of s now k] by (cases "usable s") (auto simp: gone_def)

lemma tk_gone_other: "tk now k' s = (r, s') \<Longrightarrow> gone s k \<Longrightarrow> gone s' k"
  using tk_live [of s now k'] tk_unusable [of s now k'] by (cases "usable s") (auto simp: gone_def)

lemma tk_some_not_gone: "tk now k s = (Inr (Some v), s') \<Longrightarrow> \<not> gone s k"
  using tk_result [of s now k] tk_unusable [of s now k] unfolding gone_def
  by (cases "usable s") (auto intro!: exI [of _ now] dest: sym [of "Some v"])

lemma put_gone: "put now k' v ttl s = (r, s') \<Longrightarrow> \<not> (k' = k \<and> r = Inr True) \<Longrightarrow>
    gone s k \<Longrightarrow> gone s' k"
proof (cases "k' = k")
  case True
  assume a: "put now k' v ttl s = (r, s')" "\<not> (k' = k \<and> r = Inr True)" "gone s k"
  from a True consider e where "r = Inl e" | "r = Inr False"
    by (cases r) auto
  then show ?thesis
    using a True put_kept [of now k v ttl s s'] put_error [of now k v ttl s _ s']
    by cases (auto simp: gone_def)
next
  case False
  assume "put now k' v ttl s = (r, s')" "gone s k"
  then have "live s' t k = Some w \<Longrightarrow> False" for t w
    using put_other [of k k' now v ttl s r s' t w] False by (auto simp: gone_def)
  then show ?thesis by (meson gone_def option.exhaust)
qed

text \<open>Single use: a value is handed out at most as often as its key was created.\<close>

lemma handed_out_le_created:
  "kv_run put tk ops s = (rs, s') \<Longrightarrow>
   length (handed_out k ops rs) \<le> (if gone s k then 0 else 1) + created_for k ops rs"
proof (induction ops arbitrary: s rs s')
  case Nil
  then show ?case by simp
next
  case (Cons op ops)
  show ?case
  proof (cases op)
    case (PutOp now k' v ttl)
    obtain r s1 where r: "put now k' v ttl s = (r, s1)" by fastforce
    obtain rs1 where run: "kv_run put tk ops s1 = (rs1, s')" and rs: "rs = PutReply r # rs1"
      using Cons.prems PutOp r by (auto split: prod.splits)
    show ?thesis
      using Cons.IH [OF run] put_gone [OF r, of k] PutOp rs by (auto split: if_splits)
  next
    case (TakeOp now k')
    obtain r s1 where r: "tk now k' s = (r, s1)" by fastforce
    obtain rs1 where run: "kv_run put tk ops s1 = (rs1, s')" and rs: "rs = TakeReply r # rs1"
      using Cons.prems TakeOp r by (auto split: prod.splits)
    have out: "k' = k \<Longrightarrow> r = Inr x \<Longrightarrow> gone s1 k" for x using tk_gone r by blast
    have some: "k' = k \<Longrightarrow> r = Inr (Some x) \<Longrightarrow> \<not> gone s k" for x using tk_some_not_gone r by blast
    show ?thesis
      using Cons.IH [OF run] tk_gone_other [OF r, of k] TakeOp rs out some
      by (auto split: if_splits sum.splits option.splits)
  qed
qed

text \<open>Without a creation, operations only take away what can be read under a key.\<close>

lemma put_shrinks:
  assumes "put now k' v ttl s = (r, s')" and "\<not> (k' = k \<and> r = Inr True)" and "live s' t k = Some w"
  shows "live s t k = Some w"
proof (cases "k' = k")
  case True
  with assms consider e where "r = Inl e" | "r = Inr False" by (cases r) auto
  then show ?thesis
    using assms True put_kept [of now k v ttl s s'] put_error [of now k v ttl s _ s'] by cases auto
qed (use assms put_other [of k k' now v ttl s r s' t w] in auto)

lemma tk_shrinks: "tk now k' s = (r, s') \<Longrightarrow> live s' t k = Some w \<Longrightarrow> live s t k = Some w"
  using tk_live [of s now k'] tk_unusable [of s now k'] by (cases "usable s") (auto split: if_splits)

lemma run_shrinks:
  "kv_run put tk ops s = (rs, s') \<Longrightarrow> created_for k ops rs = 0 \<Longrightarrow> live s' t k = Some w \<Longrightarrow>
     live s t k = Some w"
proof (induction ops arbitrary: s rs)
  case (Cons op ops)
  show ?case
  proof (cases op)
    case (PutOp now k' v ttl)
    obtain r s1 where r: "put now k' v ttl s = (r, s1)" by fastforce
    obtain rs1 where run: "kv_run put tk ops s1 = (rs1, s')" and rs: "rs = PutReply r # rs1"
      using Cons.prems PutOp r by (auto split: prod.splits)
    from Cons.prems(2) have other: "\<not> (k' = k \<and> r = Inr True)" and none: "created_for k ops rs1 = 0"
      unfolding PutOp rs by (simp_all split: if_splits)
    show ?thesis by (rule put_shrinks [OF r other Cons.IH [OF run none Cons.prems(3)]])
  next
    case (TakeOp now k')
    obtain r s1 where r: "tk now k' s = (r, s1)" by fastforce
    obtain rs1 where run: "kv_run put tk ops s1 = (rs1, s')" and rs: "rs = TakeReply r # rs1"
      using Cons.prems TakeOp r by (auto split: prod.splits)
    from Cons.prems(2) have "created_for k ops rs1 = 0" unfolding TakeOp rs by simp
    then show ?thesis by (rule tk_shrinks [OF r Cons.IH [OF run _ Cons.prems(3)]])
  qed
qed simp

lemma run_gone:
  "kv_run put tk ops s = (rs, s') \<Longrightarrow> created_for k ops rs = 0 \<Longrightarrow> gone s k \<Longrightarrow> gone s' k"
  using run_shrinks unfolding gone_def by (metis not_None_eq)

lemma run_usable: "usable (snd (kv_run put tk ops s)) = usable s"
proof (induction ops arbitrary: s)
  case (Cons op ops)
  show ?case
    using put_usable tk_usable Cons.IH by (cases op) (simp_all add: split_beta)
qed simp

text \<open>A value that was put, and that nobody took, is what the next take of the key returns.\<close>

lemma put_then_take:
  assumes "put now k v ttl s = (Inr True, s')" and "usable s"
  shows "fst (tk now k s') = Inr (Some v)"
  using assms put_created [OF assms(1)] put_usable [of now k v ttl s] tk_result [of s' now k] by simp

text \<open>A second take finds nothing, whatever time it reads.\<close>

lemma take_take:
  assumes "usable s"
  shows "fst (tk now' k (snd (tk now k s))) = Inr None"
  using assms tk_live [of s now k] tk_result [of "snd (tk now k s)" now' k] by (simp add: tk_usable)

end

section \<open>The in-memory store keeps the contract\<close>

lemma put_if_absent_cases:
  assumes "put_if_absent now k v ttl s = (r, s')"
  obtains (error) e where "r = Inl e" "s' = s"
  | (created) u where "r = Inr True" "\<not> lock_poisoned s" "instant_checked_add now ttl = Some u"
      "now < u" "retain_unexpired now (kv_entries s) k = None"
      "s' = s\<lparr>kv_entries := (retain_unexpired now (kv_entries s))
                 (k \<mapsto> \<lparr>entry_value = v, expires_at = u\<rparr>)\<rparr>"
  | (kept) e where "r = Inr False" "\<not> lock_poisoned s"
      "retain_unexpired now (kv_entries s) k = Some e"
      "s' = s\<lparr>kv_entries := retain_unexpired now (kv_entries s)\<rparr>"
proof -
  have later: "now < u" if "\<not> is_zero_duration ttl" "instant_checked_add now ttl = Some u" for u
    using that by (cases ttl) (auto simp: instant_checked_add_def is_zero_duration_def time_order_defs
      split: if_splits)
  show thesis
    using assms later
    by (auto simp: put_if_absent_def Let_def split: if_splits option.splits
        intro: error created kept)
qed

lemma kv_live_retain:
  "kv_live (s\<lparr>kv_entries := retain_unexpired now (kv_entries s)\<rparr>) t k = Some w \<Longrightarrow>
     kv_live s t k = Some w"
  "now \<le> t \<Longrightarrow>
     kv_live (s\<lparr>kv_entries := retain_unexpired now (kv_entries s)\<rparr>) t k = kv_live s t k"
  by (auto simp: kv_live_def retain_unexpired_def split: option.splits if_splits)

lemma kv_live_upd:
  "kv_live (s\<lparr>kv_entries := m(k \<mapsto> e)\<rparr>) t k' =
     (if k' = k then (if t < expires_at e then Some (entry_value e) else None)
      else kv_live (s\<lparr>kv_entries := m\<rparr>) t k')"
  by (simp add: kv_live_def)

lemma put_if_absent_other:
  assumes "put_if_absent now k v ttl s = (r, s')" and "k' \<noteq> k"
  shows "s' = s \<or>
    kv_live s' t k' = kv_live (s\<lparr>kv_entries := retain_unexpired now (kv_entries s)\<rparr>) t k'"
  using assms by (auto elim!: put_if_absent_cases simp: kv_live_upd)

interpretation mem: kv_store put_if_absent take_kv kv_live kv_usable
proof
  fix s :: in_memory_kv_store and now k
  show "kv_usable s \<Longrightarrow> fst (take_kv now k s) = Inr (kv_live s now k)"
    by (simp add: take_kv_eq kv_live_def kv_usable_def)
  show "\<not> kv_usable s \<Longrightarrow> \<exists>e. take_kv now k s = (Inl e, s)"
    by (simp add: take_kv_eq kv_usable_def)
  show "kv_usable s \<Longrightarrow>
      kv_live (snd (take_kv now k s)) = (\<lambda>t k'. if k' = k then None else kv_live s t k')"
    by (auto simp: take_kv_eq kv_live_def kv_usable_def fun_eq_iff)
  show "kv_usable (snd (take_kv now k s)) = kv_usable s"
    by (simp add: take_kv_eq kv_usable_def)
next
  fix s s' :: in_memory_kv_store and now k v ttl
  show "put_if_absent now k v ttl s = (Inr True, s') \<Longrightarrow> kv_live s now k = None \<and>
      kv_live s' now k = Some v \<and> (\<forall>t w. kv_live s' t k = Some w \<longrightarrow> w = v)"
    by (erule put_if_absent_cases)
      (auto simp: kv_live_upd, auto simp: kv_live_def retain_unexpired_def split: option.splits if_splits)
  show "put_if_absent now k v ttl s = (Inr False, s') \<Longrightarrow> kv_live s now k \<noteq> None \<and>
      (\<forall>t w. kv_live s' t k = Some w \<longrightarrow> kv_live s t k = Some w) \<and>
      kv_live s' now k = kv_live s now k"
    by (erule put_if_absent_cases)
      (auto simp: kv_live_def retain_unexpired_def split: option.splits if_splits)
next
  fix s s' :: in_memory_kv_store and now k k' v ttl r t w
  assume "k' \<noteq> k" "put_if_absent now k v ttl s = (r, s')"
  then show "(kv_live s' t k' = Some w \<longrightarrow> kv_live s t k' = Some w) \<and>
      (now \<le> t \<longrightarrow> kv_live s' t k' = kv_live s t k')"
    using put_if_absent_other [of now k v ttl s r s' k' t] kv_live_retain [where s = s and now = now and t = t and k = k'] by metis
next
  fix s s' :: in_memory_kv_store and now k v ttl e
  show "put_if_absent now k v ttl s = (Inl e, s') \<Longrightarrow> s' = s"
    by (erule put_if_absent_cases) auto
  show "kv_usable (snd (put_if_absent now k v ttl s)) = kv_usable s"
    by (cases "put_if_absent now k v ttl s") (auto elim!: put_if_absent_cases simp: kv_usable_def)
qed

section \<open>Properties\<close>

text \<open>
  C25. Single use: in every sequence of operations on a fresh in-memory store, whatever instants they
  read, the values handed out for a key are at most as many as the calls that reported its creation.
  A pending authorization can complete at most once.
\<close>

theorem values_are_single_use:
  "length (handed_out k ops (fst (in_memory_run ops in_memory_new))) \<le>
     created_for k ops (fst (in_memory_run ops in_memory_new))"
proof -
  obtain rs s where run: "in_memory_run ops in_memory_new = (rs, s)" by fastforce
  moreover have "mem.gone in_memory_new k" by (simp add: mem.gone_def kv_live_def in_memory_new_def)
  ultimately show ?thesis
    using mem.handed_out_le_created [of ops in_memory_new rs s k] by (simp add: in_memory_run_def)
qed

text \<open>Operations that leave the entry of a key alone: no take of it, and puts only before an instant.\<close>

fun leaves_entry :: "bytes \<Rightarrow> int \<Rightarrow> kv_op \<Rightarrow> bool" where
  "leaves_entry k expiry (PutOp t _ _ _) \<longleftrightarrow> instant_nanos t < expiry"
| "leaves_entry k expiry (TakeOp _ k') \<longleftrightarrow> k' \<noteq> k"

lemma put_if_absent_leaves:
  assumes "put_if_absent t k' v' ttl s = (r, s')" and "kv_entries s k = Some e" and "t < expires_at e"
  shows "kv_entries s' k = Some e \<and> lock_poisoned s' = lock_poisoned s \<and> \<not> (k' = k \<and> r = Inr True)"
  using assms by (auto elim!: put_if_absent_cases simp: retain_unexpired_def split: if_splits)

lemma run_leaves_entry:
  "kv_run put_if_absent take_kv ops s = (rs, s') \<Longrightarrow> kv_entries s k = Some e \<Longrightarrow> \<not> lock_poisoned s \<Longrightarrow>
     \<forall>op \<in> set ops. leaves_entry k (instant_nanos (expires_at e)) op \<Longrightarrow>
     kv_entries s' k = Some e \<and> \<not> lock_poisoned s' \<and> created_for k ops rs = 0"
proof (induction ops arbitrary: s rs)
  case (Cons op ops)
  show ?case
  proof (cases op)
    case (PutOp t k' v ttl)
    obtain r s1 where r: "put_if_absent t k' v ttl s = (r, s1)" by fastforce
    obtain rs1 where run: "kv_run put_if_absent take_kv ops s1 = (rs1, s')" and rs: "rs = PutReply r # rs1"
      using Cons.prems(1) PutOp r by (auto split: prod.splits)
    have "t < expires_at e" using Cons.prems(4) by (simp add: PutOp less_instant_def)
    from put_if_absent_leaves [OF r Cons.prems(2) this] Cons.prems(3,4) show ?thesis
      using Cons.IH [OF run] by (auto simp: PutOp rs)
  next
    case (TakeOp t k')
    obtain r s1 where r: "take_kv t k' s = (r, s1)" by fastforce
    obtain rs1 where run: "kv_run put_if_absent take_kv ops s1 = (rs1, s')" and rs: "rs = TakeReply r # rs1"
      using Cons.prems(1) TakeOp r by (auto split: prod.splits)
    have "kv_entries s1 k = Some e" "\<not> lock_poisoned s1"
      using r Cons.prems(2-4) by (auto simp: take_kv_eq TakeOp split: if_splits)
    then show ?thesis using Cons.IH [OF run] Cons.prems(4) by (simp add: TakeOp rs)
  qed
qed simp

text \<open>
  C26. The life of an entry. A put that reports creation found nothing to take under its key, and the
  entry lives for exactly its time to live: after any further operations that do not take it (with
  puts, under this key or others, before its expiry), none of which created an entry for the key, a
  take returns the value put before the instant \<open>now + ttl\<close> and nothing from then on, and a put
  with a valid lifetime creates an entry exactly from then on. After a take no take returns anything,
  while what other keys hold stays as it is.
\<close>

theorem put_take_contract:
  assumes "put_if_absent now k v ttl s = (Inr True, s1)"
    and "\<forall>op \<in> set ops. leaves_entry k (instant_nanos now + int (as_nanos ttl)) op"
    and "in_memory_run ops s1 = (rs, s2)"
  shows "fst (take_kv now k s) = Inr None \<and> created_for k ops rs = 0 \<and>
    (\<forall>t. fst (take_kv t k s2) =
       Inr (if instant_nanos t < instant_nanos now + int (as_nanos ttl) then Some v else None)) \<and>
    (\<forall>t v2 ttl2. 0 < as_nanos ttl2 \<and> instant_nanos t + int (as_nanos ttl2) < clock_limit \<longrightarrow>
       fst (put_if_absent t k v2 ttl2 s2) =
         Inr (\<not> instant_nanos t < instant_nanos now + int (as_nanos ttl))) \<and>
    (\<forall>t t'. fst (take_kv t' k (snd (take_kv t k s2))) = Inr None) \<and>
    (\<forall>t t' k'. k' \<noteq> k \<longrightarrow> fst (take_kv t' k' (snd (take_kv t k s2))) = fst (take_kv t' k' s2))"
proof -
  from assms(1) obtain u where u: "\<not> lock_poisoned s" "instant_nanos u = instant_nanos now + int (as_nanos ttl)"
    and none: "retain_unexpired now (kv_entries s) k = None"
    and s1: "kv_entries s1 k = Some \<lparr>entry_value = v, expires_at = u\<rparr>" "\<not> lock_poisoned s1"
    by (auto elim!: put_if_absent_cases dest!: instant_checked_add_Some)
  have s2: "kv_entries s2 k = Some \<lparr>entry_value = v, expires_at = u\<rparr>" "\<not> lock_poisoned s2"
    "created_for k ops rs = 0"
    using run_leaves_entry [OF assms(3) [unfolded in_memory_run_def] s1] assms(2) u(2) by simp_all
  have "fst (take_kv now k s) = Inr None"
    using u(1) none by (auto simp: take_kv_eq retain_unexpired_def split: option.splits)
  moreover have "fst (put_if_absent t k v2 ttl2 s2) = Inr (\<not> t < u)"
    if "0 < as_nanos ttl2" "instant_nanos t + int (as_nanos ttl2) < clock_limit" for t v2 ttl2
    using that s2 by (cases ttl2) (simp add: put_if_absent_def is_zero_duration_def
        instant_checked_add_def retain_unexpired_def time_order_defs)
  moreover have "fst (take_kv t k s2) = Inr (if t < u then Some v else None)" for t
    using s2 by (simp add: take_kv_eq)
  moreover have "fst (take_kv t' k (snd (take_kv t k s2))) = Inr None" for t t'
    using s2 by (simp add: take_kv_eq)
  moreover have "fst (take_kv t' k' (snd (take_kv t k s2))) = fst (take_kv t' k' s2)" if "k' \<noteq> k" for t t' k'
    using that s2 by (simp add: take_kv_eq)
  ultimately show ?thesis using s2(3) u(2) by (simp add: less_instant_def)
qed

theorem put_take_contract_witness:
  "fst (take_kv (Instant 999999999) ''k'' (snd (in_memory_run
       [PutOp (Instant 1) ''k'' ''x'' (from_secs 5), TakeOp (Instant 2) ''other'']
       (snd (put_if_absent (Instant 0) ''k'' ''v'' (from_secs 1) in_memory_new))))) = Inr (Some ''v'') \<and>
   fst (take_kv (Instant 1000000000) ''k'' (snd (in_memory_run
       [PutOp (Instant 1) ''k'' ''x'' (from_secs 5), TakeOp (Instant 2) ''other'']
       (snd (put_if_absent (Instant 0) ''k'' ''v'' (from_secs 1) in_memory_new))))) = Inr None"
proof -
  let ?s1 = "snd (put_if_absent (Instant 0) ''k'' ''v'' (from_secs 1) in_memory_new)"
  let ?ops = "[PutOp (Instant 1) ''k'' ''x'' (from_secs 5), TakeOp (Instant 2) ''other'']"
  have put: "put_if_absent (Instant 0) ''k'' ''v'' (from_secs 1) in_memory_new = (Inr True, ?s1)"
    by (simp add: put_if_absent_def in_memory_new_def from_secs_def nanos_per_sec_def
        is_zero_duration_def instant_checked_add_def clock_limit_def retain_unexpired_def
        zero_duration_def)
  have ops: "\<forall>op \<in> set ?ops.
      leaves_entry ''k'' (instant_nanos (Instant 0) + int (as_nanos (from_secs 1))) op"
    by (simp add: from_secs_def nanos_per_sec_def)
  have run: "in_memory_run ?ops ?s1 = (fst (in_memory_run ?ops ?s1), snd (in_memory_run ?ops ?s1))" by simp
  from put_take_contract [OF put ops run] show ?thesis by (simp add: from_secs_def nanos_per_sec_def)
qed

end
