(* ===== verification/Client.thy ===== *)
theory Client
  imports Logout Callback Kv_Store
begin

text \<open>
  src/client.rs, the operations of \<^verbatim>\<open>Client\<close> above the provider snapshot: construction, completing
  an authorization, the token endpoint, UserInfo. An operation works on a pair of the client and
  the world; the key-value store of the application is a parameter \<open>kv_take\<close> that runs on the world.
  An error is a \<open>failure\<close> where the operation builds a token request, since that can panic.
\<close>

section \<open>Construction\<close>

definition client_discover ::
  "('u, 'jws, 'key, 'claims, 'jwks, 'w) env \<Rightarrow> 'u issuer_url \<Rightarrow> client_id \<Rightarrow> client_secret option \<Rightarrow> 'w \<Rightarrow>
   (oidc_error + ('u, 'jwks) client) \<times> 'w" where
  "client_discover E issuer cid secret =
     binds (discover_from E issuer) (\<lambda>d w.
       case discovered_cache_policy (env_httpdate E) (env_runtime E) d default_metadata_refresh_interval
              default_metadata_minimum_cache_duration w of (policy, w1) \<Rightarrow>
      (case metadata_cache_deadlines (env_runtime E) policy default_metadata_retain_on_error w1 of
         ((refresh, stale, stale_allowed), w2) \<Rightarrow>
      (let jwks = new_jwks E (disc_metadata d) in
       binds (map_errs Jose (jwks_keys (env_jose E) jwks)) (\<lambda>_.
         lifts (Inr \<lparr>cl_provider =
             \<lparr>ps_metadata = disc_metadata d, ps_jwks = jwks, refresh_after = refresh,
              stale_until = stale, retry_after = None, stale_on_error = stale_allowed,
              metadata_refresh_interval = Some default_metadata_refresh_interval,
              metadata_minimum_cache_duration = default_metadata_minimum_cache_duration,
              metadata_retain_on_error = default_metadata_retain_on_error\<rparr>,
           cl_client_id = cid, cl_client_secret = secret\<rparr>)) w2)))"

definition client_from_parts ::
  "('u, 'jws, 'key, 'claims, 'jwks, 'w) env \<Rightarrow> 'u provider_metadata \<Rightarrow> client_id \<Rightarrow>
   client_secret option \<Rightarrow> oidc_error + ('u, 'jwks) client" where
  "client_from_parts E m cid secret =
     bindr (validate_metadata m) (\<lambda>_.
       Inr \<lparr>cl_provider =
             \<lparr>ps_metadata = m, ps_jwks = new_jwks E m, refresh_after = None, stale_until = None,
              retry_after = None, stale_on_error = True, metadata_refresh_interval = None,
              metadata_minimum_cache_duration = default_metadata_minimum_cache_duration,
              metadata_retain_on_error = default_metadata_retain_on_error\<rparr>,
            cl_client_id = cid, cl_client_secret = secret\<rparr>)"

definition client_verifier :: "('u, 'jwks) client \<Rightarrow> id_token_verifier" where
  "client_verifier c = verifier_from_metadata (client_metadata c) (client_id_str (cl_client_id c))"

definition build_end_session_url :: "('u, 'jwks) client \<Rightarrow> ('u, 'jwks) end_session_url_builder" where
  "build_end_session_url c = end_session_builder_new c"

text \<open>An operation on the provider snapshot, run on the client.\<close>

definition on_provider ::
  "(('u, 'jwks) provider_state \<times> 'w \<Rightarrow> 'r \<times> (('u, 'jwks) provider_state \<times> 'w)) \<Rightarrow>
   ('u, 'jwks) client \<times> 'w \<Rightarrow> 'r \<times> (('u, 'jwks) client \<times> 'w)" where
  "on_provider m s =
     (case m (cl_provider (fst s), snd s) of (r, (p, w)) \<Rightarrow> (r, (fst s\<lparr>cl_provider := p\<rparr>, w)))"

definition client_refresh_if_stale ::
  "('u, 'jws, 'key, 'claims, 'jwks, 'w) env \<Rightarrow> ('u, 'jwks) client \<times> 'w \<Rightarrow>
   (oidc_error + 'u provider_metadata) \<times> (('u, 'jwks) client \<times> 'w)" where
  "client_refresh_if_stale E = on_provider (refresh_metadata_if_stale E)"

section \<open>The token endpoint\<close>

definition decode_error_body :: "json \<Rightarrow> json_error + bytes \<times> bytes option" where
  "decode_error_body v =
     bindr (struct_members [(''error'', False), (''error_description'', True)] v) (\<lambda>ms.
     bindr (required_field as_string ''error'' ms) (\<lambda>e.
     bindr (option_field as_string ''error_description'' ms) (\<lambda>d. Inr (e, d))))"

definition parse_token_error :: "json_lib \<Rightarrow> http_response \<Rightarrow> oidc_error" where
  "parse_token_error J resp =
     (case from_json_slice J decode_error_body (resp_body resp) of
        Inr (e, d) \<Rightarrow> TokenEndpoint (resp_status resp) e d
      | Inl _ \<Rightarrow> TokenEndpoint (resp_status resp) ''invalid_response'' None)"

definition decode_userinfo_error_body :: "json \<Rightarrow> json_error + bytes option \<times> bytes option" where
  "decode_userinfo_error_body v =
     bindr (struct_members [(''error'', False), (''error_description'', True)] v) (\<lambda>ms.
     bindr (option_field as_string ''error'' ms) (\<lambda>e.
     bindr (option_field as_string ''error_description'' ms) (\<lambda>d. Inr (e, d))))"

definition parse_userinfo_error :: "json_lib \<Rightarrow> http_response \<Rightarrow> oidc_error" where
  "parse_userinfo_error J resp =
     (case from_json_slice J decode_userinfo_error_body (resp_body resp) of
        Inr (e, d) \<Rightarrow>
          UserInfoError (resp_status resp) (case e of Some x \<Rightarrow> x | None \<Rightarrow> ''userinfo_error'') d
      | Inl _ \<Rightarrow> UserInfoError (resp_status resp) ''invalid_response'' None)"

definition post_token_request ::
  "('u, 'jws, 'key, 'claims, 'jwks, 'w) env \<Rightarrow> 'u built_token_request \<Rightarrow> 'w \<Rightarrow>
   (oidc_error + token_response) \<times> 'w" where
  "post_token_request E built =
     (let req = \<lparr>req_method = Post, req_url = req_url (built_http built),
                 req_headers = req_headers (built_http built), req_body = req_body (built_http built)\<rparr>
      in binds (http_execute (env_runtime E) req) (\<lambda>resp.
         lifts (if resp_status resp \<noteq> 200 then Inl (parse_token_error (env_json E) resp)
                else map_errr Json (from_json_slice (env_json E)
                       (decode_token_response (env_display E)) (resp_body resp)))))"

definition exchange_code_with_metadata ::
  "('u, 'jwks) client \<Rightarrow> bytes \<Rightarrow> 'u provider_metadata \<Rightarrow> oidc_error + 'u code_token_request" where
  "exchange_code_with_metadata c code m =
     mapr (\<lambda>method. code_request_new (token_endpoint m) (cl_client_id c) (cl_client_secret c) code (Some method))
       (auth_method_from_metadata (token_endpoint_auth_methods_supported m) (cl_client_secret c \<noteq> None))"

definition exchange_code :: "('u, 'jwks) client \<Rightarrow> bytes \<Rightarrow> oidc_error + 'u code_token_request" where
  "exchange_code c code = exchange_code_with_metadata c code (client_metadata c)"

definition exchange_refresh_token ::
  "('u, 'jwks) client \<Rightarrow> refresh_token \<Rightarrow> oidc_error + 'u refresh_token_request" where
  "exchange_refresh_token c token =
     mapr (\<lambda>method. refresh_request_new (token_endpoint (client_metadata c)) (cl_client_id c)
             (cl_client_secret c) token (Some method))
       (auth_method_from_metadata (token_endpoint_auth_methods_supported (client_metadata c))
          (cl_client_secret c \<noteq> None))"

section \<open>Completing an authorization\<close>

definition take_pending_request ::
  "('u, 'jws, 'key, 'claims, 'jwks, 'w) env \<Rightarrow> (bytes \<Rightarrow> 'w \<Rightarrow> (kv_error + bytes option) \<times> 'w) \<Rightarrow>
   bytes \<Rightarrow> 'w \<Rightarrow> (oidc_error + pending_auth_request) \<times> 'w" where
  "take_pending_request E kv_take st =
     binds (map_errs oidc_error_from_kv (kv_take (pending_key_for st))) (\<lambda>raw.
     binds (lifts (ok_or (AuthorizationResponseError (Missing ''state'')) raw)) (\<lambda>raw.
     lifts (map_errr Json (from_json_slice (env_json E) (decode_pending (env_json E)) raw))))"

definition validate_pending_request ::
  "'w runtime \<Rightarrow> pending_auth_request \<Rightarrow> bytes \<Rightarrow> 'w \<Rightarrow> (oidc_error + unit) \<times> 'w" where
  "validate_pending_request R pending callback_state w =
     (if pending_state pending \<noteq> callback_state
      then (Inl (AuthorizationResponseError
              (ParseError ''state mismatch between callback and pending entry'')), w)
      else case system_now R w of (now, w') \<Rightarrow> (validate_created_at pending now, w'))"

text \<open>The \<^verbatim>\<open>match response.issuer()\<close>.\<close>

definition check_callback_issuer ::
  "'u provider_metadata \<Rightarrow> authorization_response \<Rightarrow> oidc_error + unit" where
  "check_callback_issuer m response =
     (let expected = issuer_as_str (metadata_issuer m) in
      case response_issuer response of
        Some actual \<Rightarrow>
          if actual \<noteq> expected then Inl (AuthorizationResponseError (IssuerMismatch expected actual))
          else Inr ()
      | None \<Rightarrow>
          if authorization_response_iss_parameter_supported m
          then Inl (AuthorizationResponseError (Missing ''iss'')) else Inr ())"

text \<open>The \<^verbatim>\<open>match response\<close>.\<close>

definition response_code_or_error :: "authorization_response \<Rightarrow> bytes \<Rightarrow> oidc_error + bytes" where
  "response_code_or_error response callback_state =
     (case response of
        Success code st iss \<Rightarrow> Inr code
      | ErrorResponse err description error_uri st iss \<Rightarrow>
          Inl (AuthorizationResponseError (ProviderError err description error_uri callback_state iss)))"

definition set_from_pending ::
  "pending_auth_request \<Rightarrow> 'u code_token_request \<Rightarrow> 'u code_token_request" where
  "set_from_pending pending builder =
     (let b = (case pending_redirect_uri pending of Some uri \<Rightarrow> code_set_redirect_uri uri builder
                 | None \<Rightarrow> builder)
      in case pending_pkce_verifier pending of Some v \<Rightarrow> code_set_pkce_verifier v b | None \<Rightarrow> b)"

record completed_authorization =
  ca_token_response :: token_response
  ca_pending :: pending_auth_request
  ca_callback_state :: bytes

definition complete_authorization_from_pending ::
  "('u, 'jws, 'key, 'claims, 'jwks, 'w) env \<Rightarrow> authorization_response \<Rightarrow> pending_auth_request \<Rightarrow>
   ('u, 'jwks) client \<times> 'w \<Rightarrow> (failure + completed_authorization) \<times> (('u, 'jwks) client \<times> 'w)" where
  "complete_authorization_from_pending E response pending =
     binds (map_errs Err (client_refresh_if_stale E)) (\<lambda>m.
     (let callback_state = response_state response in
     binds (on_snd (map_errs Err (validate_pending_request (env_runtime E) pending callback_state))) (\<lambda>_.
     binds (lifts (map_errr Err (check_callback_issuer m response))) (\<lambda>_.
     binds (lifts (map_errr Err (response_code_or_error response callback_state))) (\<lambda>code.
     binds (\<lambda>s. (map_errr Err (exchange_code_with_metadata (fst s) code m), s)) (\<lambda>builder.
     binds (lifts (code_request_build (env_url E) (env_form E) (env_base64 E)
              (set_from_pending pending builder))) (\<lambda>built.
     binds (on_snd (map_errs Err (post_token_request E built))) (\<lambda>token_response.
       lifts (Inr \<lparr>ca_token_response = token_response, ca_pending = pending,
                   ca_callback_state = callback_state\<rparr>)))))))))"

definition complete_authorization ::
  "('u, 'jws, 'key, 'claims, 'jwks, 'w) env \<Rightarrow> (bytes \<Rightarrow> 'w \<Rightarrow> (kv_error + bytes option) \<times> 'w) \<Rightarrow>
   bytes \<Rightarrow> ('u, 'jwks) client \<times> 'w \<Rightarrow>
   (failure + completed_authorization) \<times> (('u, 'jwks) client \<times> 'w)" where
  "complete_authorization E kv_take callback_query =
     binds (lifts (map_errr (\<lambda>e. Err (AuthorizationResponseError e))
              (parse_authorization_response (env_form E) callback_query))) (\<lambda>response.
     binds (on_snd (map_errs Err (take_pending_request E kv_take (response_state response)))) (\<lambda>pending.
     complete_authorization_from_pending E response pending))"

definition ca_parse_id_token ::
  "('u, 'jws, 'key, 'claims, 'jwks, 'w) env \<Rightarrow> completed_authorization \<Rightarrow>
   oidc_error + 'claims id_token option" where
  "ca_parse_id_token E ca =
     (case resp_id_token (ca_token_response ca) of
        None \<Rightarrow> Inr None
      | Some raw \<Rightarrow> mapr Some (map_errr Jose (id_token_parse (env_jose E) raw)))"

definition ca_context :: "completed_authorization \<Rightarrow> bytes \<Rightarrow> verify_context" where
  "ca_context ca cid =
     \<lparr>expected_nonce = Some (pending_nonce (ca_pending ca)),
      ctx_access_token = Some (access_token_str (resp_access_token (ca_token_response ca))),
      ctx_client_id = Some cid, ctx_clock_skew = None,
      expected_max_age = pending_max_age (ca_pending ca)\<rparr>"

definition ca_verify_id_token ::
  "('u, 'jws, 'key, 'claims, 'jwks, 'w) env \<Rightarrow> completed_authorization \<Rightarrow> id_token_verifier \<Rightarrow> bytes \<Rightarrow>
   'jwks \<Rightarrow> 'w \<Rightarrow> (oidc_error + 'claims) \<times> 'w" where
  "ca_verify_id_token E ca v cid jwks =
     binds (lifts (bindr (ca_parse_id_token E ca)
              (ok_or (InvalidAuthorizationRequest ''no id_token in token_response'')))) (\<lambda>t.
     verify_id_token_with (env_display E) (env_jose E) (env_json E) (env_crypto E) (env_base64 E)
       (env_runtime E) v t jwks (ca_context ca cid))"

section \<open>UserInfo\<close>

text \<open>
  \<^verbatim>\<open>str::trim\<close> removes the characters with the Unicode property \<^verbatim>\<open>White_Space\<close>; these are their
  UTF-8 encodings.
\<close>

definition white_space :: "bytes list" where
  "white_space =
     map (\<lambda>n. [char_of (n :: nat)]) [9, 10, 11, 12, 13, 32] @
     [[CHR 0xC2, CHR 0x85], [CHR 0xC2, CHR 0xA0], [CHR 0xE1, CHR 0x9A, CHR 0x80]] @
     map (\<lambda>n. [CHR 0xE2, CHR 0x80, char_of (n :: nat)])
       [128, 129, 130, 131, 132, 133, 134, 135, 136, 137, 138, 168, 169, 175] @
     [[CHR 0xE2, CHR 0x81, CHR 0x9F], [CHR 0xE3, CHR 0x80, CHR 0x80]]"

function trim_prefixes :: "bytes list \<Rightarrow> bytes \<Rightarrow> bytes" where
  "trim_prefixes ps s =
     (case find (\<lambda>p. p \<noteq> [] \<and> take (length p) s = p) ps of
        None \<Rightarrow> s | Some p \<Rightarrow> trim_prefixes ps (drop (length p) s))"
  by auto
termination
proof (relation "measure (\<lambda>(ps, s). length s)")
  fix ps :: "bytes list" and s p
  assume "find (\<lambda>p. p \<noteq> [] \<and> take (length p) s = p) ps = Some p"
  then have "p \<noteq> []" "take (length p) s = p" by (auto simp: find_Some_iff)
  then have "0 < length p" "s \<noteq> []" by auto
  then show "((ps, drop (length p) s), (ps, s)) \<in> measure (\<lambda>(ps, s). length s)" by simp
qed simp

declare trim_prefixes.simps [simp del]

definition str_trim :: "bytes \<Rightarrow> bytes" where
  "str_trim s = rev (trim_prefixes (map rev white_space) (rev (trim_prefixes white_space s)))"

definition content_type_essence_is :: "bytes \<Rightarrow> bytes \<Rightarrow> bool" where
  "content_type_essence_is content_type essence =
     (let head = (case split_once (CHR '';'') content_type of Some (h, p) \<Rightarrow> h | None \<Rightarrow> content_type)
      in eq_ignore_ascii_case (str_trim head) essence)"

definition userinfo_request :: "'u url_lib \<Rightarrow> 'u userinfo_url \<Rightarrow> access_token \<Rightarrow> http_request" where
  "userinfo_request U endpoint token =
     \<lparr>req_method = Get, req_url = url_as_str U (userinfo_as_url endpoint),
      req_headers = [(''Accept'', ''application/json, application/jwt;q=0.9''),
                     (''Authorization'', ''Bearer '' @ access_token_str token)],
      req_body = None\<rparr>"

definition read_userinfo ::
  "('u, 'jws, 'key, 'claims, 'jwks, 'w) env \<Rightarrow> ('u, 'jwks) client \<Rightarrow> http_response \<Rightarrow> 'w \<Rightarrow>
   (oidc_error + user_info) \<times> 'w" where
  "read_userinfo E c resp =
     (let content_type = (case header_value (resp_headers resp) ''content-type'' of
                            Some v \<Rightarrow> v | None \<Rightarrow> ''application/json'') in
      if content_type_essence_is content_type ''application/jwt'' then
        if \<not> utf8_valid (resp_body resp)
        then lifts (Inl (InvalidAuthorizationRequest ''userinfo JWT body is not valid UTF-8''))
        else user_info_from_signed_jwt (env_display E) (env_jose E) (env_json E) (env_runtime E)
               (resp_body resp)
               (user_info_verifier_from_metadata (client_metadata c) (client_id_str (cl_client_id c)))
               (client_jwks c)
      else if content_type_essence_is content_type ''application/json''
      then lifts (user_info_from_json (env_json E) (resp_body resp))
      else lifts (Inl (InvalidAuthorizationRequest
             (''unexpected userinfo Content-Type: '' @ debug_str (env_display E) content_type))))"

definition fetch_userinfo ::
  "('u, 'jws, 'key, 'claims, 'jwks, 'w) env \<Rightarrow> access_token \<Rightarrow> bytes \<Rightarrow> ('u, 'jwks) client \<times> 'w \<Rightarrow>
   (oidc_error + user_info) \<times> (('u, 'jwks) client \<times> 'w)" where
  "fetch_userinfo E token expected_subject =
     binds (client_refresh_if_stale E) (\<lambda>_ s.
     binds (lifts (ok_or (InvalidMetadata ''provider metadata missing userinfo_endpoint'')
              (userinfo_endpoint (client_metadata (fst s))))) (\<lambda>endpoint.
     binds (on_snd (http_execute (env_runtime E) (userinfo_request (env_url E) endpoint token))) (\<lambda>resp.
     if resp_status resp \<noteq> 200 then lifts (Inl (parse_userinfo_error (env_json E) resp))
     else binds (on_snd (read_userinfo E (fst s) resp)) (\<lambda>u.
       lifts (mapr (\<lambda>_. u) (verify_subject u expected_subject))))) s)"

section \<open>Lemmas\<close>

lemma on_provider_eq:
  "on_provider m (c, w) = (r, (c', w')) \<longleftrightarrow>
     (\<exists>p. m (cl_provider c, w) = (r, (p, w')) \<and> c' = c\<lparr>cl_provider := p\<rparr>)"
  by (auto simp: on_provider_def split: prod.splits)

lemma client_refresh_fields:
  "client_refresh_if_stale E (c, w) = (r, (c', w')) \<Longrightarrow>
     cl_client_id c' = cl_client_id c \<and> cl_client_secret c' = cl_client_secret c"
  by (auto simp: client_refresh_if_stale_def on_provider_eq)

lemma validate_pending_ok:
  "validate_pending_request R p st w = (Inr (), w') \<longleftrightarrow>
     pending_state p = st \<and> (\<exists>now. system_now R w = (now, w') \<and> validate_created_at p now = Inr ())"
  by (auto simp: validate_pending_request_def split: prod.splits)

lemma check_callback_issuer_ok:
  "check_callback_issuer m response = Inr () \<longleftrightarrow>
     (case response_issuer response of
        Some iss \<Rightarrow> iss = issuer_as_str (metadata_issuer m)
      | None \<Rightarrow> \<not> authorization_response_iss_parameter_supported m)"
  by (auto simp: check_callback_issuer_def Let_def split: option.splits)

lemma response_code_ok:
  "response_code_or_error response st = Inr code \<longleftrightarrow> (\<exists>s iss. response = Success code s iss)"
  by (auto simp: response_code_or_error_def split: authorization_response.splits)

lemma post_token_request_ok:
  assumes "req_method (built_http built) = Post"
  shows "post_token_request E built w = (Inr tr, w') \<longleftrightarrow>
     (\<exists>resp. http_execute (env_runtime E) (built_http built) w = (Inr resp, w') \<and> resp_status resp = 200 \<and>
        from_json_slice (env_json E) (decode_token_response (env_display E)) (resp_body resp) = Inr tr)"
proof -
  have "\<lparr>req_method = Post, req_url = req_url (built_http built),
      req_headers = req_headers (built_http built), req_body = req_body (built_http built)\<rparr> =
      built_http built"
    using assms by simp
  then show ?thesis by (auto simp: post_token_request_def binds_eq_Inr Let_def)
qed

text \<open>The token request that belongs to a code and a pending request.\<close>

definition token_exchange ::
  "('u, 'jws, 'key, 'claims, 'jwks, 'w) env \<Rightarrow> ('u, 'jwks) client \<Rightarrow> 'u provider_metadata \<Rightarrow> bytes \<Rightarrow>
   pending_auth_request \<Rightarrow> 'u built_token_request \<Rightarrow> bool" where
  "token_exchange E c m code pending built \<longleftrightarrow>
     (\<exists>r. code_request_build (env_url E) (env_form E) (env_base64 E) r = Inr built \<and>
        code_endpoint r = token_endpoint m \<and> code_client_id r = cl_client_id c \<and>
        code_client_secret r = cl_client_secret c \<and> code_code r = code \<and>
        code_redirect_uri r = pending_redirect_uri pending \<and>
        code_pkce_verifier r = pending_pkce_verifier pending \<and>
        (needs_secret (code_method r) \<longleftrightarrow> cl_client_secret c \<noteq> None))"

lemma exchange_fields:
  assumes "exchange_code_with_metadata c code m = Inr b"
  shows "code_endpoint b = token_endpoint m \<and> code_client_id b = cl_client_id c \<and>
    code_client_secret b = cl_client_secret c \<and> code_code b = code \<and> code_redirect_uri b = None \<and>
    code_pkce_verifier b = None \<and> (needs_secret (code_method b) \<longleftrightarrow> cl_client_secret c \<noteq> None)"
  using assms auth_method_compatible
  by (auto simp: exchange_code_with_metadata_def mapr_eq_Inr code_request_new_def code_method_def
      method_or_basic_def)

lemma set_from_pending_fields:
  assumes "code_redirect_uri b = None" and "code_pkce_verifier b = None"
  shows "code_redirect_uri (set_from_pending p b) = pending_redirect_uri p"
    "code_pkce_verifier (set_from_pending p b) = pending_pkce_verifier p"
    "code_endpoint (set_from_pending p b) = code_endpoint b"
    "code_client_id (set_from_pending p b) = code_client_id b"
    "code_client_secret (set_from_pending p b) = code_client_secret b"
    "code_code (set_from_pending p b) = code_code b"
    "code_auth_method (set_from_pending p b) = code_auth_method b"
    "code_method (set_from_pending p b) = code_method b"
  using assms by (auto simp: set_from_pending_def code_set_redirect_uri_def code_set_pkce_verifier_def
      Let_def code_method_def split: option.splits)

lemma exchange_token_exchange:
  assumes "exchange_code_with_metadata c code m = Inr b"
    and "code_request_build (env_url E) (env_form E) (env_base64 E) (set_from_pending p b) = Inr built"
  shows "token_exchange E c m code p built"
  unfolding token_exchange_def
  using exchange_fields [OF assms(1)] assms(2) set_from_pending_fields [of b p]
  by (intro exI [of _ "set_from_pending p b"]) simp

lemma complete_from_pending_ok:
  assumes "complete_authorization_from_pending E response pending (c, w) = (Inr ca, (c', w'))"
  obtains m w1 now w2 code st iss built resp where
    "client_refresh_if_stale E (c, w) = (Inr m, (c', w1))"
    "response = Success code st iss" "pending_state pending = st"
    "system_now (env_runtime E) w1 = (now, w2)" "validate_created_at pending now = Inr ()"
    "check_callback_issuer m response = Inr ()" "token_exchange E c m code pending built"
    "http_execute (env_runtime E) (built_http built) w2 = (Inr resp, w')" "resp_status resp = 200"
    "from_json_slice (env_json E) (decode_token_response (env_display E)) (resp_body resp) =
       Inr (ca_token_response ca)"
    "ca_pending ca = pending" "ca_callback_state ca = st"
proof -
  from assms obtain m c1 w1 w2 code b built tr where
    m: "client_refresh_if_stale E (c, w) = (Inr m, (c1, w1))"
    and v: "validate_pending_request (env_runtime E) pending (response_state response) w1 = (Inr (), w2)"
    and i: "check_callback_issuer m response = Inr ()"
    and code: "response_code_or_error response (response_state response) = Inr code"
    and b: "exchange_code_with_metadata c1 code m = Inr b"
    and built: "code_request_build (env_url E) (env_form E) (env_base64 E) (set_from_pending pending b) = Inr built"
    and tr: "post_token_request E built w2 = (Inr tr, w')" and c': "c' = c1"
    and ca: "ca = \<lparr>ca_token_response = tr, ca_pending = pending, ca_callback_state = response_state response\<rparr>"
    unfolding complete_authorization_from_pending_def Let_def
    by (auto simp: binds_eq_Inr on_snd_eq)
  obtain st iss where r: "response = Success code st iss" using code by (auto simp: response_code_ok)
  obtain now where now: "system_now (env_runtime E) w1 = (now, w2)" "validate_created_at pending now = Inr ()"
    "pending_state pending = st" using v r by (auto simp: validate_pending_ok)
  obtain resp where "http_execute (env_runtime E) (built_http built) w2 = (Inr resp, w')"
    "resp_status resp = 200"
    "from_json_slice (env_json E) (decode_token_response (env_display E)) (resp_body resp) = Inr tr"
    using tr code.request_line [OF built] by (auto simp: post_token_request_ok)
  moreover have "token_exchange E c m code pending built"
    using exchange_token_exchange [OF b built] client_refresh_fields [OF m]
    by (simp add: token_exchange_def)
  ultimately show thesis
    using m c' r now i ca by (intro that [of m w1 code st iss now w2 built resp]) auto
qed

lemma take_pending_ok:
  "take_pending_request E kv st w = (Inr p, w') \<longleftrightarrow>
     (\<exists>raw. kv (pending_key_for st) w = (Inr (Some raw), w') \<and>
        from_json_slice (env_json E) (decode_pending (env_json E)) raw = Inr p)"
  by (auto simp: take_pending_request_def io_simps)

lemma complete_ok:
  assumes "complete_authorization E kv q (c, w) = (Inr ca, (c', w'))"
  obtains response raw w1 where "parse_authorization_response (env_form E) q = Inr response"
    "kv (pending_key_for (response_state response)) w = (Inr (Some raw), w1)"
    "from_json_slice (env_json E) (decode_pending (env_json E)) raw = Inr (ca_pending ca)"
    "complete_authorization_from_pending E response (ca_pending ca) (c, w1) = (Inr ca, (c', w'))"
proof -
  from assms obtain response p w1 where "parse_authorization_response (env_form E) q = Inr response"
    "take_pending_request E kv (response_state response) w = (Inr p, w1)"
    and f: "complete_authorization_from_pending E response p (c, w1) = (Inr ca, (c', w'))"
    unfolding complete_authorization_def by (auto simp: binds_eq_Inr on_snd_eq)
  moreover have "ca_pending ca = p" using complete_from_pending_ok [OF f] by metis
  ultimately show thesis by (auto simp: take_pending_ok intro: that)
qed

section \<open>Properties\<close>

text \<open>
  C2. An authorization completes only for a callback that is bound to it: the callback parses as a
  success response, the store handed out (and so consumed) an entry under its state, the entry
  reads as a pending request with that state, made at most ten minutes before, the issuer of the
  callback is the provider's (and is there if the provider announces it), and the token request
  carries the callback's code with the redirect URI and the PKCE verifier of that pending request
  to the provider's token endpoint, authenticated with a secret exactly if the client has one.
\<close>

theorem completion_is_bound:
  assumes "complete_authorization E kv q (c, w) = (Inr ca, (c', w'))"
  shows "\<exists>code st iss raw w1 m w2 now w3 built resp.
    parse_authorization_response (env_form E) q = Inr (Success code st iss) \<and>
    kv (pending_key_for st) w = (Inr (Some raw), w1) \<and>
    from_json_slice (env_json E) (decode_pending (env_json E)) raw = Inr (ca_pending ca) \<and>
    pending_state (ca_pending ca) = st \<and>
    client_refresh_if_stale E (c, w1) = (Inr m, (c', w2)) \<and>
    system_now (env_runtime E) w2 = (now, w3) \<and>
    system_nanos (pending_created_at (ca_pending ca)) \<le> system_nanos now \<and>
    system_nanos now \<le> system_nanos (pending_created_at (ca_pending ca)) + 600 * 1000000000 \<and>
    (iss = Some (issuer_as_str (metadata_issuer m)) \<or>
       iss = None \<and> \<not> authorization_response_iss_parameter_supported m) \<and>
    token_exchange E c m code (ca_pending ca) built \<and>
    http_execute (env_runtime E) (built_http built) w3 = (Inr resp, w') \<and> resp_status resp = 200 \<and>
    from_json_slice (env_json E) (decode_token_response (env_display E)) (resp_body resp) =
      Inr (ca_token_response ca)"
proof -
  from complete_ok [OF assms] obtain response raw w1 where
    p: "parse_authorization_response (env_form E) q = Inr response"
    and kv: "kv (pending_key_for (response_state response)) w = (Inr (Some raw), w1)"
    and raw: "from_json_slice (env_json E) (decode_pending (env_json E)) raw = Inr (ca_pending ca)"
    and f: "complete_authorization_from_pending E response (ca_pending ca) (c, w1) = (Inr ca, (c', w'))" .
  from complete_from_pending_ok [OF f] obtain m w2 now w3 code st iss built resp where
    r: "client_refresh_if_stale E (c, w1) = (Inr m, (c', w2))" "response = Success code st iss"
      "pending_state (ca_pending ca) = st" "system_now (env_runtime E) w2 = (now, w3)"
      "validate_created_at (ca_pending ca) now = Inr ()" "check_callback_issuer m response = Inr ()"
      "token_exchange E c m code (ca_pending ca) built"
      "http_execute (env_runtime E) (built_http built) w3 = (Inr resp, w')" "resp_status resp = 200"
      "from_json_slice (env_json E) (decode_token_response (env_display E)) (resp_body resp) =
         Inr (ca_token_response ca)" by metis
  have "system_nanos (pending_created_at (ca_pending ca)) \<le> system_nanos now"
    "system_nanos now \<le> system_nanos (pending_created_at (ca_pending ca)) + 600 * 1000000000"
    using r(5) by (auto simp: validate_created_at_def bindr_eq_Inr duration_since_def
        less_eq_system_time_def less_duration_def pending_default_ttl_def from_secs_def
        nanos_per_sec_def split: if_splits)
  moreover have "iss = Some (issuer_as_str (metadata_issuer m)) \<or>
       iss = None \<and> \<not> authorization_response_iss_parameter_supported m"
    using r(2,6) by (cases iss) (auto simp: check_callback_issuer_ok)
  ultimately show ?thesis
    using p kv raw r by (intro exI conjI) auto
qed

definition example_pending :: pending_auth_request where
  "example_pending =
     \<lparr>pending_state = ''st'', pending_nonce = ''n-1'', pending_pkce_verifier = Some ''v'',
      pending_max_age = None, pending_redirect_uri = Some ''https://rp/cb'',
      pending_scopes = [''openid''], pending_created_at = SystemTime 0\<rparr>"

definition example_pending_json :: json where
  "example_pending_json = JObject
     [(''state'', JString ''st''), (''nonce'', JString ''n-1''), (''pkce_verifier'', JString ''v''),
      (''max_age'', JNull), (''redirect_uri'', JString ''https://rp/cb''),
      (''scopes'', JArray [JString ''openid'']), (''created_at'', JArray [JNumber (PosInt 0)])]"

definition example_token_json :: json where
  "example_token_json = JObject
     [(''access_token'', JString ''at''), (''token_type'', JString ''Bearer''),
      (''id_token'', JString ''RS256.k1.P.k1'')]"

definition example_login_claims :: json where
  "example_login_claims = JObject
     [(''iss'', JString ''https://op''), (''sub'', JString ''alice''), (''aud'', JString ''rp''),
      (''nonce'', JString ''n-1'')]"

definition example_token_response :: token_response where
  "example_token_response =
     \<lparr>resp_access_token = AccessToken ''at'', resp_token_type = ''Bearer'', resp_expires_in = None,
      resp_refresh_token = None, resp_id_token = Some ''RS256.k1.P.k1'', resp_scope = None\<rparr>"

definition example_user_json :: json where
  "example_user_json = JObject [(''sub'', JString ''alice''), (''email'', JString ''a@op'')]"

definition completion_docs :: "(bytes \<times> json) list" where
  "completion_docs =
     [(''R'', example_pending_json), (''T'', example_token_json), (''U'', example_user_json),
      (''P'', example_login_claims)]"

text \<open>A client made from parts: no automatic refresh.\<close>

definition parts_client :: "(bytes, bytes) client" where
  "parts_client =
     \<lparr>cl_provider = example_provider\<lparr>refresh_after := None, stale_until := None,
        metadata_refresh_interval := None\<rparr>,
      cl_client_id = ClientId ''rp'', cl_client_secret = None\<rparr>"

definition answer :: "bytes \<Rightarrow> oidc_error + http_response" where
  "answer body = Inr \<lparr>resp_status = 200, resp_headers = [], resp_body = body\<rparr>"

lemma example_callback_parses:
  "parse_authorization_response std_form ''code=abc&state=st&iss=https://op'' =
     Inr (Success ''abc'' ''st'' (Some ''https://op''))"
  by code_simp

lemma parts_client_current:
  "client_refresh_if_stale (example_env docs) (parts_client, w) = (Inr example_metadata, (parts_client, w))"
  by (simp add: client_refresh_if_stale_def on_provider_def refresh_metadata_if_stale_def
      metadata_needs_refresh_def needs_refresh_at_def parts_client_def example_provider_def)

lemma completion_docs_read:
  "from_json_slice (table_json completion_docs) (decode_pending (table_json completion_docs)) ''R'' =
     Inr example_pending"
  "from_json_slice (table_json completion_docs) (decode_token_response D) ''T'' =
     Inr example_token_response"
  by (simp_all add: from_json_slice_def table_json_def completion_docs_def example_pending_json_def
      example_token_json_def decode_pending_def decode_token_response_def struct_members_def
      map_members_def pending_fields_def token_response_fields_def required_field_def option_field_def
      default_field_def as_string_def as_option_def as_list_def deserialize_access_token_def
      access_token_new_def example_pending_def example_token_response_def mapr_def)

definition example_store :: "bytes \<Rightarrow> script \<Rightarrow> (kv_error + bytes option) \<times> script" where
  "example_store key w = (Inr (if key = ''oidc4rs:pending:st'' then Some ''R'' else None), w)"

lemma example_exchange:
  "exchange_code_with_metadata parts_client ''abc'' example_metadata =
     Inr (code_request_new (TokenUrl ''https://op/token'') (ClientId ''rp'') None ''abc'' (Some AuthNone))"
  by (simp add: exchange_code_with_metadata_def example_metadata_def parts_client_def
      auth_method_from_metadata_def)

lemma example_built:
  "\<exists>built. code_request_build text_url std_form std_base64 (set_from_pending example_pending
     (code_request_new (TokenUrl ''https://op/token'') (ClientId ''rp'') None ''abc'' (Some AuthNone))) =
     Inr built"
  by (simp add: code_request_build_def set_from_pending_def example_pending_def code_set_redirect_uri_def
      code_set_pkce_verifier_def code_request_new_def Let_def method_or_basic_def needs_secret_def
      authenticate_client_def)

text \<open>The example on any runtime whose clocks stand at the reading 30 s and that answers with the token.\<close>

definition env_with ::
  "(bytes \<times> json) list \<Rightarrow> 'w runtime \<Rightarrow> (bytes, table_jws, bytes, json, bytes, 'w) env" where
  "env_with docs R =
     \<lparr>env_display = plain_display, env_url = text_url, env_json = table_json docs,
      env_jose = table_jose docs, env_httpdate = \<lparr>parse_http_date = (\<lambda>_. None)\<rparr>,
      env_runtime = R, env_form = std_form, env_base64 = std_base64, env_crypto = pad_crypto\<rparr>"

lemma env_with_simps [simp]:
  "env_display (env_with docs R) = plain_display" "env_url (env_with docs R) = text_url"
  "env_json (env_with docs R) = table_json docs" "env_jose (env_with docs R) = table_jose docs"
  "env_runtime (env_with docs R) = R" "env_form (env_with docs R) = std_form"
  "env_base64 (env_with docs R) = std_base64" "env_crypto (env_with docs R) = pad_crypto"
  by (simp_all add: env_with_def)

lemma example_env_with: "example_env docs = env_with docs scripted"
  by (simp add: example_env_def env_with_def)

lemma completes_with:
  assumes "kv ''oidc4rs:pending:st'' w0 = (Inr (Some ''R''), w)" and "instant_now R w = (t, w)"
    and "system_now R w = (SystemTime (30 * 1000000000), w)"
    and "\<And>r. \<exists>w'. http_execute R r w = (answer ''T'', w')"
  shows "\<exists>w'. complete_authorization (env_with completion_docs R) kv
     ''code=abc&state=st&iss=https://op'' (parts_client, w0) =
     (Inr \<lparr>ca_token_response = example_token_response, ca_pending = example_pending,
           ca_callback_state = ''st''\<rparr>, (parts_client, w'))"
proof -
  let ?E = "env_with completion_docs R"
  obtain built where built: "code_request_build text_url std_form std_base64
     (set_from_pending example_pending
       (code_request_new (TokenUrl ''https://op/token'') (ClientId ''rp'') None ''abc'' (Some AuthNone))) =
     Inr built" using example_built by blast
  have refresh: "client_refresh_if_stale ?E (parts_client, w) = (Inr example_metadata, (parts_client, w))"
    by (simp add: client_refresh_if_stale_def on_provider_def refresh_metadata_if_stale_def
      metadata_needs_refresh_def needs_refresh_at_def parts_client_def example_provider_def assms(2))
  have valid: "validate_pending_request R example_pending ''st'' w = (Inr (), w)"
    by (simp add: validate_pending_request_def example_pending_def validate_created_at_def assms(3)
        duration_since_def pending_default_ttl_def from_secs_def nanos_per_sec_def)
  have iss: "check_callback_issuer example_metadata (Success ''abc'' ''st'' (Some ''https://op'')) = Inr ()"
    by (simp add: check_callback_issuer_def example_metadata_def)
  obtain w' where "http_execute R (built_http built) w = (answer ''T'', w')" using assms(4) by blast
  then have tr: "post_token_request ?E built w = (Inr example_token_response, w')"
    using completion_docs_read(2) [of plain_display] code.request_line [OF built]
    by (simp add: post_token_request_ok answer_def)
  have "complete_authorization_from_pending ?E (Success ''abc'' ''st'' (Some ''https://op''))
      example_pending (parts_client, w) =
      (Inr \<lparr>ca_token_response = example_token_response, ca_pending = example_pending,
            ca_callback_state = ''st''\<rparr>, (parts_client, w'))"
    using valid iss built tr refresh
    by (simp add: complete_authorization_from_pending_def binds_def map_errs_def
        on_snd_def response_code_or_error_def example_exchange Let_def)
  moreover have "take_pending_request ?E kv ''st'' w0 = (Inr example_pending, w)"
    using completion_docs_read(1) assms(1) by (simp add: take_pending_ok pending_key_for_def)
  ultimately show ?thesis
    by (simp add: complete_authorization_def example_callback_parses binds_def on_snd_def map_errs_def)
qed

lemma example_completion:
  "\<exists>w'. complete_authorization (example_env completion_docs) example_store
     ''code=abc&state=st&iss=https://op'' (parts_client, example_world [answer ''T''] 30) =
     (Inr \<lparr>ca_token_response = example_token_response, ca_pending = example_pending,
           ca_callback_state = ''st''\<rparr>, (parts_client, w'))"
  unfolding example_env_with
  by (rule completes_with [where w = "example_world [answer ''T''] 30"])
    (simp_all add: example_store_def example_world_def)

theorem completion_is_bound_witness:
  "\<exists>ca w' code st iss raw w1 m w2 now w3.
     complete_authorization (example_env completion_docs) example_store
       ''code=abc&state=st&iss=https://op'' (parts_client, example_world [answer ''T''] 30) =
       (Inr ca, (parts_client, w')) \<and>
     parse_authorization_response std_form ''code=abc&state=st&iss=https://op'' =
       Inr (Success code st iss) \<and>
     example_store (pending_key_for st) (example_world [answer ''T''] 30) = (Inr (Some raw), w1) \<and>
     pending_state (ca_pending ca) = st \<and>
     client_refresh_if_stale (example_env completion_docs) (parts_client, w1) =
       (Inr m, (parts_client, w2)) \<and>
     system_now (env_runtime (example_env completion_docs)) w2 = (now, w3) \<and>
     system_nanos now \<le> system_nanos (pending_created_at (ca_pending ca)) + 600 * 1000000000"
proof -
  obtain ca w' where run: "complete_authorization (example_env completion_docs) example_store
     ''code=abc&state=st&iss=https://op'' (parts_client, example_world [answer ''T''] 30) =
     (Inr ca, (parts_client, w'))" using example_completion by blast
  have form: "env_form (example_env completion_docs) = std_form" by simp
  from completion_is_bound [OF run, unfolded form] run show ?thesis by metis
qed

text \<open>
  C34. A callback that is not acceptable costs no token request. The completion first does the
  refresh of the metadata, if one is due (if none is, that is a reading of the clock). If that fails,
  or the callback has a wrong state, comes before the creation of the request or more than ten
  minutes after it, names an issuer other than that of the current metadata, names none although it
  is promised, or is an error response of the provider, then the completion ends with an error right
  there: after the refresh and at most one more reading of the clock nothing happens to the client or
  the world, so that no code and no credentials are sent.
\<close>

theorem rejected_callback_sends_nothing:
  assumes "client_refresh_if_stale E (c, w) = (refreshed, (c1, w1))"
    and "system_now (env_runtime E) w1 = (now, w2)"
    and "case refreshed of Inl e \<Rightarrow> True
      | Inr m \<Rightarrow> pending_state pending \<noteq> response_state response \<or>
          system_nanos now < system_nanos (pending_created_at pending) \<or>
          system_nanos (pending_created_at pending) + 10 * 60 * 1000000000 < system_nanos now \<or>
          (case response_issuer response of
             Some iss \<Rightarrow> iss \<noteq> issuer_as_str (metadata_issuer m)
           | None \<Rightarrow> authorization_response_iss_parameter_supported m) \<or>
          (\<exists>err description uri st iss. response = ErrorResponse err description uri st iss)"
  shows "(\<exists>e. complete_authorization_from_pending E response pending (c, w) =
      (Inl (Err e), (c1, if (\<exists>e. refreshed = Inl e) \<or> pending_state pending \<noteq> response_state response
                         then w1 else w2))) \<and>
    (\<forall>t v. instant_now (env_runtime E) w = (t, v) \<and>
       (refresh_after (cl_provider c) = None \<or>
        (\<exists>d. (refresh_after (cl_provider c) = Some d \<or> retry_after (cl_provider c) = Some d) \<and> t < d)) \<longrightarrow>
       c1 = c \<and> w1 = v)"
proof
  show "\<forall>t v. instant_now (env_runtime E) w = (t, v) \<and>
       (refresh_after (cl_provider c) = None \<or>
        (\<exists>d. (refresh_after (cl_provider c) = Some d \<or> retry_after (cl_provider c) = Some d) \<and> t < d)) \<longrightarrow>
       c1 = c \<and> w1 = v"
  proof (intro allI impI, elim conjE)
    fix t v assume now: "instant_now (env_runtime E) w = (t, v)"
      and "refresh_after (cl_provider c) = None \<or>
        (\<exists>d. (refresh_after (cl_provider c) = Some d \<or> retry_after (cl_provider c) = Some d) \<and> t < d)"
    then have "\<not> needs_refresh_at (cl_provider c) t" by (auto simp: needs_refresh_at_def)
    with now assms(1) show "c1 = c \<and> w1 = v"
      by (simp add: client_refresh_if_stale_def on_provider_def refresh_metadata_if_stale_def
          metadata_needs_refresh_def)
  qed
  show "\<exists>e. complete_authorization_from_pending E response pending (c, w) =
      (Inl (Err e), (c1, if (\<exists>e. refreshed = Inl e) \<or> pending_state pending \<noteq> response_state response
                         then w1 else w2))"
  proof (cases refreshed)
    case (Inl e)
    then show ?thesis
      using assms(1) by (simp add: complete_authorization_from_pending_def binds_def map_errs_def)
  next
    case (Inr m)
    let ?v = "validate_pending_request (env_runtime E) pending (response_state response) w1"
    let ?w = "if pending_state pending \<noteq> response_state response then w1 else w2"
    obtain x where v: "?v = (x, ?w)"
      using assms(2) by (cases "pending_state pending = response_state response")
        (simp_all add: validate_pending_request_def)
    have "x = Inr () \<Longrightarrow> check_callback_issuer m response = Inr () \<Longrightarrow>
        \<exists>e. response_code_or_error response (response_state response) = Inl e"
      using assms(2,3) Inr v check_callback_issuer_ok [of m response] pending_request_window [of pending now]
      by (auto simp: validate_pending_request_def response_code_or_error_def split: if_splits option.splits)
    then consider (v) e where "x = Inl e"
      | (i) e where "x = Inr ()" "check_callback_issuer m response = Inl e"
      | (r) e where "x = Inr ()" "check_callback_issuer m response = Inr ()"
          "response_code_or_error response (response_state response) = Inl e"
      by (cases x; cases "check_callback_issuer m response") auto
    then show ?thesis
      using assms(1) Inr v
      by cases (simp_all add: complete_authorization_from_pending_def binds_def map_errs_def on_snd_def Let_def)
  qed
qed

theorem rejected_callback_sends_nothing_witness:
  "\<exists>e. complete_authorization_from_pending (example_env [])
       (ErrorResponse ''access_denied'' None None ''st'' (Some ''https://op'')) example_pending
       (parts_client, example_world [] 30) = (Inl (Err e), (parts_client, example_world [] 30))"
proof -
  have r: "client_refresh_if_stale (example_env []) (parts_client, example_world [] 30) =
      (Inr (client_metadata parts_client), (parts_client, example_world [] 30))"
    by (simp add: client_refresh_if_stale_def on_provider_def refresh_metadata_if_stale_def
        metadata_needs_refresh_def client_metadata_def parts_client_def needs_refresh_at_def)
  have s: "system_now (env_runtime (example_env [])) (example_world [] 30) =
      (SystemTime (30 * 1000000000), example_world [] 30)" by (simp add: example_world_def)
  from rejected_callback_sends_nothing [OF r s,
      of example_pending "ErrorResponse ''access_denied'' None None ''st'' (Some ''https://op'')"]
  show ?thesis by (simp cong: if_cong)
qed

end
