(* ===== verification/Client_Safety.thy ===== *)
theory Client_Safety
  imports Client
begin

text \<open>
  src/client.rs: what holds of a \<^verbatim>\<open>Client\<close> over its life. It starts from sound metadata, every
  operation keeps the invariant of its snapshot, its credentials and its issuer, and the claims and
  UserInfo it hands out are bound to what was asked for.
\<close>

section \<open>The invariant of a client\<close>

definition client_kept ::
  "('u, 'jws, 'key, 'claims, 'jwks, 'w) env \<Rightarrow> ('u, 'jwks) client \<Rightarrow> ('u, 'jwks) client \<Rightarrow> bool" where
  "client_kept E c c' \<longleftrightarrow>
     provider_ok (cl_provider c') \<and> cl_client_id c' = cl_client_id c \<and>
     cl_client_secret c' = cl_client_secret c \<and>
     metadata_issuer (client_metadata c') = metadata_issuer (client_metadata c) \<and>
     provider_settings (cl_provider c') = provider_settings (cl_provider c) \<and>
     (metadata_ok (env_url E) (client_metadata c) \<longrightarrow> metadata_ok (env_url E) (client_metadata c'))"

lemma client_kept_refl: "provider_ok (cl_provider c) \<Longrightarrow> client_kept E c c"
  by (simp add: client_kept_def)

lemma client_refresh_kept:
  assumes "provider_ok (cl_provider c)" and "client_refresh_if_stale E (c, w) = (r, (c', w'))"
  shows "client_kept E c c' \<and> (\<forall>m. r = Inr m \<longrightarrow> m = client_metadata c')"
proof -
  from assms(2) obtain p where "refresh_metadata_if_stale E (cl_provider c, w) = (r, (p, w'))"
    and c': "c' = c\<lparr>cl_provider := p\<rparr>"
    by (auto simp: client_refresh_if_stale_def on_provider_eq)
  from refresh_if_stale_keeps [OF assms(1) this(1)] show ?thesis
    by (simp add: c' client_kept_def client_metadata_def)
qed

text \<open>What comes after the refresh does not touch the client.\<close>

lemma binds_client:
  assumes "fst (snd (m (c, w))) = c1" and "\<And>x w1. fst (snd (f x (c1, w1))) = c1"
  shows "fst (snd (binds m f (c, w))) = c1"
  using assms by (auto simp: binds_def split: prod.splits sum.splits)

lemma on_snd_client [simp]: "fst (snd (on_snd m (c, w))) = c"
  by (auto simp: on_snd_def split: prod.splits)

lemma lifts_client [simp]: "fst (snd (lifts r (c, w))) = c"
  by (simp add: lifts_def)

lemma map_errs_state [simp]: "snd (map_errs g m s) = snd (m s)"
  by (simp add: map_errs_def split: prod.splits)

lemma from_pending_client:
  "fst (snd (complete_authorization_from_pending E response pending (c, w))) =
     fst (snd (client_refresh_if_stale E (c, w)))"
  unfolding complete_authorization_from_pending_def Let_def
  by (intro binds_client) simp_all

lemma fetch_userinfo_client:
  "fst (snd (fetch_userinfo E token subject (c, w))) = fst (snd (client_refresh_if_stale E (c, w)))"
  unfolding fetch_userinfo_def by (intro binds_client) (auto intro!: binds_client)

lemma completion_kept:
  assumes "provider_ok (cl_provider c)" and "complete_authorization E kv q (c, w) = (r, (c', w'))"
  shows "client_kept E c c'"
proof (cases "\<exists>response pending w1. complete_authorization_from_pending E response pending (c, w1) = (r, (c', w'))")
  case True
  then obtain response pending w1 where
    "complete_authorization_from_pending E response pending (c, w1) = (r, (c', w'))" by blast
  then have "c' = fst (snd (client_refresh_if_stale E (c, w1)))"
    using from_pending_client [of E response pending c w1] by simp
  then show ?thesis
    using client_refresh_kept [OF assms(1)] by (metis prod.collapse)
next
  case False
  with assms(2) have "c' = c"
    by (auto simp: complete_authorization_def binds_def map_errs_def on_snd_def
        split: prod.splits sum.splits)
  then show ?thesis using client_kept_refl [OF assms(1)] by simp
qed

lemma fetch_userinfo_kept:
  assumes "provider_ok (cl_provider c)" and "fetch_userinfo E token subject (c, w) = (r, (c', w'))"
  shows "client_kept E c c'"
  using client_refresh_kept [OF assms(1), of E w] fetch_userinfo_client [of E token subject c w] assms(2)
  by (metis fst_conv prod.collapse snd_conv)

text \<open>Completing an authorization reaches no \<^verbatim>\<open>expect\<close>.\<close>

lemma binds_no_panic:
  assumes "\<And>p. fst (m s) \<noteq> Inl (Panic p)" and "\<And>x t p. fst (f x t) \<noteq> Inl (Panic p)"
  shows "fst (binds m f s) \<noteq> Inl (Panic p)"
  using assms by (auto simp: binds_def split: prod.splits sum.splits) (metis fst_conv)+

lemma map_Err_no_panic:
  "fst (map_errs Err m s) \<noteq> Inl (Panic p)" "map_errr (\<lambda>e. Err (g e)) r \<noteq> Inl (Panic p)"
  "map_errr Err r' \<noteq> Inl (Panic p)"
  by (auto simp: map_errs_def map_errr_eq_Inl split: prod.splits)

lemma on_snd_result [simp]: "fst (on_snd m s) = fst (m (snd s))"
  by (simp add: on_snd_def split: prod.splits)

lemma completion_no_panic:
  assumes "form_laws (env_form E)"
  shows "fst (complete_authorization E kv q s) \<noteq> Inl (Panic p)"
  unfolding complete_authorization_def complete_authorization_from_pending_def Let_def
  by (intro binds_no_panic) (auto simp: map_Err_no_panic code.never_panics [OF assms])

section \<open>What the operations return\<close>

lemma client_discover_ok:
  assumes "client_discover E issuer cid secret w = (Inr c, w')"
  obtains d w1 w2 where "discover_from E issuer w = (Inr d, w1)" "client_metadata c = disc_metadata d"
    "client_jwks c = new_jwks E (disc_metadata d)" "jwks_keys (env_jose E) (client_jwks c) w2 = (Inr (), w')"
    "cl_client_id c = cid" "cl_client_secret c = secret" "provider_ok (cl_provider c)"
    "provider_settings (cl_provider c) = (Some (from_secs 3600), from_secs 60, from_secs 86400)"
proof -
  from assms obtain d w1 where d: "discover_from E issuer w = (Inr d, w1)"
    by (auto simp: client_discover_def binds_eq_Inr)
  obtain policy w3 where p: "discovered_cache_policy (env_httpdate E) (env_runtime E) d
      default_metadata_refresh_interval default_metadata_minimum_cache_duration w1 = (policy, w3)" by fastforce
  obtain r s b w2 where m: "metadata_cache_deadlines (env_runtime E) policy
      default_metadata_retain_on_error w3 = ((r, s, b), w2)" by (metis prod.exhaust)
  from assms d p m have k: "jwks_keys (env_jose E) (new_jwks E (disc_metadata d)) w2 = (Inr (), w')"
    and c: "c = \<lparr>cl_provider =
             \<lparr>ps_metadata = disc_metadata d, ps_jwks = new_jwks E (disc_metadata d), refresh_after = r,
              stale_until = s, retry_after = None, stale_on_error = b,
              metadata_refresh_interval = Some default_metadata_refresh_interval,
              metadata_minimum_cache_duration = default_metadata_minimum_cache_duration,
              metadata_retain_on_error = default_metadata_retain_on_error\<rparr>,
           cl_client_id = cid, cl_client_secret = secret\<rparr>"
    by (auto simp: client_discover_def binds_eq_Inr Let_def binds_step)
  show thesis
    using d k cache_deadlines_stale [OF m]
    by (intro that [of d w1 w2])
      (simp_all add: c client_metadata_def client_jwks_def provider_ok_def provider_settings_def
        default_metadata_refresh_interval_def default_metadata_minimum_cache_duration_def
        default_metadata_retain_on_error_def)
qed

lemma ca_verify_ok:
  assumes "crypto_laws (env_crypto E)" and "ca_verify_id_token E ca v cid jwks w = (Inr claims, w')"
  obtains raw t alg_id key w1 now w2 jws payload where "resp_id_token (ca_token_response ca) = Some raw"
    "id_token_parse (env_jose E) raw = Inr t" "check_alg v (header_alg t) = Inr ()"
    "algorithm_try_from (env_jose E) (header_alg t) = Inr alg_id"
    "jwks_select (env_jose E) jwks (header_kid t) (header_alg t) w = (Inr (Some key), w1)"
    "jws_from_compact (env_jose E) (id_token_raw t) = Inr jws"
    "jws_verify_signature (env_jose E) jws key = Inr True" "jws_payload (env_jose E) jws key = Inr payload"
    "system_now (env_runtime E) w1 = (now, w2)"
    "process_to_claims (env_jose E) (id_token_consumer v (ca_context ca cid)) now payload = Inr claims"
    "azp_ok (env_jose E) claims (ca_context ca cid) (expected_audience v)"
    "nonce_ok (env_jose E) claims (ca_context ca cid)"
    "at_hash_ok (env_jose E) (env_crypto E) (env_base64 E) claims (ca_context ca cid) alg_id key"
proof -
  from assms(2) obtain t where t: "ca_parse_id_token E ca = Inr (Some t)"
    and run: "verify_id_token_with (env_display E) (env_jose E) (env_json E) (env_crypto E) (env_base64 E)
      (env_runtime E) v t jwks (ca_context ca cid) w = (Inr claims, w')"
    by (auto simp: ca_verify_id_token_def binds_eq_Inr bindr_eq_Inr)
  from t obtain raw where "resp_id_token (ca_token_response ca) = Some raw"
    "id_token_parse (env_jose E) raw = Inr t"
    by (auto simp: ca_parse_id_token_def mapr_eq_Inr split: option.splits)
  with run [unfolded verify_steps check_azp_ok check_nonce_ok [OF assms(1)]
      check_at_hash_ok [OF assms(1)] signed_payload_ok] show thesis by (blast intro: that)
qed

text \<open>The body of a UserInfo response, as its content type says.\<close>

definition user_info_body ::
  "('u, 'jws, 'key, 'claims, 'jwks, 'w) env \<Rightarrow> ('u, 'jwks) client \<Rightarrow> http_response \<Rightarrow> 'w \<Rightarrow> user_info \<Rightarrow> bool" where
  "user_info_body E c resp w u \<longleftrightarrow>
     (let content_types = (case header_value (resp_headers resp) ''content-type'' of Some v \<Rightarrow> v
                | None \<Rightarrow> ''application/json'') in
      if content_type_essence_is content_types ''application/jwt'' then
        (\<exists>t key w1 now w2. id_token_parse (env_jose E) (resp_body resp) = Inr t \<and>
           jwks_select (env_jose E) (client_jwks c) (header_kid t) (header_alg t) w = (Inr (Some key), w1) \<and>
           system_now (env_runtime E) w1 = (now, w2) \<and>
           user_info_accepted (env_jose E) (env_json E)
             (user_info_verifier_from_metadata (client_metadata c) (client_id_str (cl_client_id c)))
             (resp_body resp) t key now u)
      else content_type_essence_is content_types ''application/json'' \<and>
        from_json_slice (env_json E) decode_user_info (resp_body resp) = Inr u)"

lemma read_userinfo_ok:
  "read_userinfo E c resp w = (Inr u, w') \<Longrightarrow> user_info_body E c resp w u"
  unfolding read_userinfo_def user_info_body_def Let_def
  by (auto simp: signed_user_info_ok user_info_from_json_def split: if_splits)

lemma fetch_userinfo_ok:
  assumes "fetch_userinfo E token subject (c, w) = (Inr u, (c', w'))"
  obtains m w1 endpoint resp w2 where "client_refresh_if_stale E (c, w) = (Inr m, (c', w1))"
    "userinfo_endpoint (client_metadata c') = Some endpoint"
    "http_execute (env_runtime E) (userinfo_request (env_url E) endpoint token) w1 = (Inr resp, w2)"
    "resp_status resp = 200" "user_info_body E c' resp w2 u" "ui_sub u = subject"
proof -
  from assms obtain m c1 w1 endpoint resp w2 v where
    m: "client_refresh_if_stale E (c, w) = (Inr m, (c1, w1))"
    and e: "userinfo_endpoint (client_metadata c1) = Some endpoint"
    and r: "http_execute (env_runtime E) (userinfo_request (env_url E) endpoint token) w1 = (Inr resp, w2)"
    and u: "resp_status resp = 200" "c' = c1" "read_userinfo E c1 resp w2 = (Inr u, v)" "ui_sub u = subject"
    unfolding fetch_userinfo_def
    by (auto simp: binds_eq_Inr on_snd_eq mapr_eq_Inr verify_subject_def split: if_splits)
  show thesis
    using m e r u(1) read_userinfo_ok [OF u(3)] u(4) unfolding u(2) [symmetric] by (rule that)
qed

section \<open>Properties\<close>

text \<open>
  C18. A client made by discovery works with metadata it can trust: the document was fetched with
  status 200 from the well-known URL under the issuer, names exactly that issuer (byte for byte), all
  its endpoints are https, it lists a response type and the algorithm RS256, and the key set is that of
  its own \<^verbatim>\<open>jwks_uri\<close>, fetched before the client exists. Refresh starts on, with the default settings.
\<close>

theorem discovered_client_is_sound:
  assumes "client_discover E issuer cid secret w = (Inr c, w')"
  shows "(\<exists>url resp w1. discovery_url (env_url E) issuer = Inr url \<and>
      http_execute (env_runtime E) (accept_json_request (url_as_str (env_url E) url)) w = (Inr resp, w1) \<and>
      resp_status resp = 200) \<and>
    metadata_issuer (client_metadata c) = issuer \<and> metadata_ok (env_url E) (client_metadata c) \<and>
    response_types_supported (client_metadata c) \<noteq> [] \<and>
    ''RS256'' \<in> set (id_token_signing_alg_values_supported (client_metadata c)) \<and>
    client_jwks c = new_jwks E (client_metadata c) \<and>
    (\<exists>w2. jwks_keys (env_jose E) (client_jwks c) w2 = (Inr (), w')) \<and>
    provider_ok (cl_provider c) \<and>
    provider_settings (cl_provider c) = (Some (from_secs 3600), from_secs 60, from_secs 86400) \<and>
    cl_client_id c = cid \<and> cl_client_secret c = secret"
proof -
  from client_discover_ok [OF assms] obtain d w1 w2 where d: "discover_from E issuer w = (Inr d, w1)"
    and c: "client_metadata c = disc_metadata d" "client_jwks c = new_jwks E (disc_metadata d)"
    "jwks_keys (env_jose E) (client_jwks c) w2 = (Inr (), w')"
    "cl_client_id c = cid" "cl_client_secret c = secret" "provider_ok (cl_provider c)"
    "provider_settings (cl_provider c) = (Some (from_secs 3600), from_secs 60, from_secs 86400)" .
  note run = d [unfolded discover_from_def]
  from discover_with_cache_ok [OF run] obtain url resp where "discovery_url (env_url E) issuer = Inr url"
    "http_execute (env_runtime E) (accept_json_request (url_as_str (env_url E) url)) w = (Inr resp, w1)"
    "resp_status resp = 200" by (metis decode_discovery_ok)
  with discover_with_cache_issuer [OF run] c show ?thesis by (auto simp: validate_metadata_Inr)
qed

definition example_issuer :: "bytes issuer_url" where
  "example_issuer = \<lparr>issuer_as_url = ''https://op'', issuer_as_str = ''https://op''\<rparr>"

definition example_metadata_json :: json where
  "example_metadata_json = JObject
     [(''issuer'', JString ''https://op''), (''authorization_endpoint'', JString ''https://op/auth''),
      (''token_endpoint'', JString ''https://op/token''), (''userinfo_endpoint'', JString ''https://op/me''),
      (''jwks_uri'', JString ''https://op/keys''), (''end_session_endpoint'', JString ''https://op/bye''),
      (''response_types_supported'', JArray [JString ''code'']),
      (''subject_types_supported'', JArray [JString ''public'']),
      (''id_token_signing_alg_values_supported'', JArray [JString ''RS256'']),
      (''authorization_response_iss_parameter_supported'', JBool True)]"

lemma example_urls:
  "issuer_url_from_str text_url ''https://op'' = Inr example_issuer"
  "auth_url_from_str text_url ''https://op/auth'' = Inr (AuthUrl ''https://op/auth'')"
  "token_url_from_str text_url ''https://op/token'' = Inr (TokenUrl ''https://op/token'')"
  "userinfo_url_from_str text_url ''https://op/me'' = Inr (UserInfoUrl ''https://op/me'')"
  "jwks_url_from_str text_url ''https://op/keys'' = Inr (JwksUrl ''https://op/keys'')"
  "end_session_url_from_str text_url ''https://op/bye'' = Inr (EndSessionUrl ''https://op/bye'')"
  by code_simp+

lemma example_metadata_decodes:
  "decode_metadata D text_url example_metadata_json = Inr example_metadata"
  by (simp add: decode_metadata_def example_metadata_json_def map_members_def metadata_fields_def
      required_field_def option_field_def default_field_def as_parsed_def as_string_def as_list_def
      as_option_def as_bool_def example_urls example_issuer_def example_metadata_def extra_members_def)

lemma example_discovery:
  "\<exists>c w'. client_discover (example_env [(''M'', example_metadata_json)]) example_issuer (ClientId ''rp'') None
     (example_world [answer ''M''] 5) = (Inr c, w')"
proof -
  let ?E = "example_env [(''M'', example_metadata_json)]" and ?w = "example_world [answer ''M''] 5"
  have "\<exists>d w1. discover_from ?E example_issuer ?w = (Inr d, w1)"
    by (simp add: discover_from_def discover_with_cache_def discovery_url_def example_issuer_def binds_def
        map_errs_def example_world_def answer_def decode_discovery_def from_json_slice_def table_json_def
        example_metadata_decodes validate_metadata_def)
      (simp add: example_metadata_def)
  then obtain d w1 where d: "discover_from ?E example_issuer ?w = (Inr d, w1)" by blast
  obtain policy w3 where p: "discovered_cache_policy (env_httpdate ?E) (env_runtime ?E) d
      default_metadata_refresh_interval default_metadata_minimum_cache_duration w1 = (policy, w3)" by fastforce
  obtain r s b w2 where m: "metadata_cache_deadlines (env_runtime ?E) policy
      default_metadata_retain_on_error w3 = ((r, s, b), w2)" by (metis prod.exhaust)
  show ?thesis using d p m by (simp add: client_discover_def binds_def map_errs_def Let_def)
qed

theorem discovered_client_is_sound_witness:
  "\<exists>c w'. client_discover (example_env [(''M'', example_metadata_json)]) example_issuer (ClientId ''rp'') None
       (example_world [answer ''M''] 5) = (Inr c, w') \<and>
     metadata_issuer (client_metadata c) = example_issuer \<and> metadata_ok text_url (client_metadata c) \<and>
     provider_ok (cl_provider c)"
proof -
  obtain c w' where "client_discover (example_env [(''M'', example_metadata_json)]) example_issuer
      (ClientId ''rp'') None (example_world [answer ''M''] 5) = (Inr c, w')" using example_discovery by blast
  with discovered_client_is_sound [OF this] show ?thesis by auto
qed

text \<open>
  C21. Over its life a client keeps what it is: completing an authorization and fetching UserInfo,
  whatever they return, leave the snapshot invariant intact, the credentials, the issuer and the
  settings unchanged and the endpoints https; and a completion never panics.
\<close>

theorem client_operations_keep_invariant:
  assumes "provider_ok (cl_provider c)" and "form_laws (env_form E)"
  shows "client_kept E c (fst (snd (complete_authorization E kv q (c, w)))) \<and>
    client_kept E c (fst (snd (fetch_userinfo E token subject (c, w)))) \<and>
    fst (complete_authorization E kv q (c, w)) \<noteq> Inl (Panic p)"
  using completion_kept [OF assms(1), of E kv q w] fetch_userinfo_kept [OF assms(1), of E token subject w]
    completion_no_panic [OF assms(2)] by (metis prod.collapse)

theorem client_operations_keep_invariant_witness:
  "client_kept (example_env []) parts_client
     (fst (snd (fetch_userinfo (example_env []) (AccessToken ''at'') ''alice'' (parts_client, example_world [] 5)))) \<and>
   fst (complete_authorization (example_env []) example_store ''code=abc&state=st''
     (parts_client, example_world [] 5)) \<noteq> Inl (Panic [])"
proof -
  have p: "provider_ok (cl_provider parts_client)"
    by (simp add: provider_ok_def parts_client_def example_provider_def)
  have f: "form_laws (env_form (example_env []))" by (simp add: std_form_laws)
  note kept = client_operations_keep_invariant [OF p f]
  show ?thesis by (rule conjI [OF kept [THEN conjunct2, THEN conjunct1] kept [THEN conjunct2, THEN conjunct2]])
qed

text \<open>
  C19. UserInfo is about the expected subject and comes from the provider: what \<^verbatim>\<open>fetch_userinfo\<close>
  returns has the subject that was asked for (the one of the ID token), and was read from a 200
  response to a GET with the bearer token on the UserInfo endpoint of the current metadata: a JSON
  body, or a JWT that passes the provider's signature, issuer, audience and algorithm checks. Any
  other content type is refused.
\<close>

theorem user_info_is_bound:
  assumes "fetch_userinfo E token subject (c, w) = (Inr u, (c', w'))"
  shows "ui_sub u = subject \<and>
    (\<exists>m w1 endpoint resp w2. client_refresh_if_stale E (c, w) = (Inr m, (c', w1)) \<and>
      userinfo_endpoint (client_metadata c') = Some endpoint \<and>
      http_execute (env_runtime E)
        \<lparr>req_method = Get, req_url = userinfo_url_as_str (env_url E) endpoint,
         req_headers = [(''Accept'', ''application/json, application/jwt;q=0.9''),
                        (''Authorization'', ''Bearer '' @ access_token_str token)],
         req_body = None\<rparr> w1 = (Inr resp, w2) \<and>
      resp_status resp = 200 \<and> user_info_body E c' resp w2 u)"
  using fetch_userinfo_ok [OF assms] unfolding userinfo_request_def userinfo_url_as_str_def by metis

text \<open>Trimming does nothing to a text that begins and ends with other characters.\<close>

lemma trim_prefixes_plain:
  "hd s \<notin> hd ` set ps \<Longrightarrow> trim_prefixes ps s = s"
proof -
  assume hd: "hd s \<notin> hd ` set ps"
  have "\<not> (p \<noteq> [] \<and> take (length p) s = p)" if "p \<in> set ps" for p
    using hd imageI [OF that, of hd] by (cases p; cases s) auto
  then have "find (\<lambda>p. p \<noteq> [] \<and> take (length p) s = p) ps = None"
    by (auto simp: find_None_iff)
  then show ?thesis by (simp add: trim_prefixes.simps)
qed

lemma str_trim_plain:
  assumes "hd s \<notin> hd ` set white_space" "hd (rev s) \<notin> (\<lambda>p. hd (rev p)) ` set white_space"
  shows "str_trim s = s"
  using assms by (simp add: str_trim_def trim_prefixes_plain image_image)

lemma plain_content_type:
  assumes "hd s \<notin> hd ` set white_space" "hd (rev s) \<notin> (\<lambda>p. hd (rev p)) ` set white_space"
    and "CHR '';'' \<notin> set s"
  shows "content_type_essence_is s essence \<longleftrightarrow> eq_ignore_ascii_case s essence"
proof -
  from assms(3) have "split_once (CHR '';'') s = None" by (simp add: split_once_None)
  then show ?thesis by (simp add: content_type_essence_is_def str_trim_plain [OF assms(1,2)])
qed

lemma content_types:
  "content_type_essence_is ''application/json'' ''application/jwt'' = False"
  "content_type_essence_is ''application/json'' ''application/json'' = True"
  "content_type_essence_is ''text/html'' ''application/jwt'' = False"
  "content_type_essence_is ''text/html'' ''application/json'' = False"
  by (simp_all add: plain_content_type white_space_def char_of_def eq_ignore_ascii_case_def)

lemma example_user_info:
  "\<exists>u w'. fetch_userinfo (example_env completion_docs) (AccessToken ''at'') ''alice''
     (parts_client, example_world [answer ''U''] 5) = (Inr u, (parts_client, w'))"
proof -
  have "\<exists>u. from_json_slice (table_json completion_docs) decode_user_info ''U'' = Inr u \<and> ui_sub u = ''alice''"
    by (simp add: from_json_slice_def table_json_def completion_docs_def example_user_json_def
        decode_user_info_def map_members_def user_info_fields_def required_field_def option_field_def
        default_field_def as_string_def as_option_def)
  moreover have "userinfo_endpoint (client_metadata parts_client) = Some (UserInfoUrl ''https://op/me'')"
    by (simp add: client_metadata_def parts_client_def example_provider_def example_metadata_def)
  ultimately show ?thesis using content_types(1,2)
    by (auto simp: fetch_userinfo_def binds_def on_snd_def parts_client_current example_world_def answer_def
        read_userinfo_def header_value_def Let_def user_info_from_json_def verify_subject_def mapr_def)
qed

theorem user_info_is_bound_witness:
  "\<exists>u w'. fetch_userinfo (example_env completion_docs) (AccessToken ''at'') ''alice''
     (parts_client, example_world [answer ''U''] 5) = (Inr u, (parts_client, w')) \<and> ui_sub u = ''alice''"
proof -
  obtain u w' where "fetch_userinfo (example_env completion_docs) (AccessToken ''at'') ''alice''
     (parts_client, example_world [answer ''U''] 5) = (Inr u, (parts_client, w'))"
    using example_user_info by blast
  with user_info_is_bound [OF this] show ?thesis by blast
qed

end
