(* ===== verification/Hyper_Client.thy ===== *)
theory Hyper_Client
  imports Client_Safety
begin

text \<open>
  src/transport/hyper_client.rs: the HTTP client that the crate ships, an adapter to \<^verbatim>\<open>hyper\<close>. The
  crates \<^verbatim>\<open>http\<close>, \<^verbatim>\<open>hyper\<close>, \<^verbatim>\<open>hyper-util\<close> and \<^verbatim>\<open>hyper-rustls\<close> are the record \<open>hyper_lib\<close>; what they
  document and the adapter relies on is \<open>hyper_laws\<close>. The trait's own contract, on which the callers
  in \<^verbatim>\<open>client.rs\<close> rely, is the locale \<open>http_client\<close>, and the adapter is its interpretation.
\<close>

section \<open>The crates\<close>

text \<open>
  A request of the crate \<^verbatim>\<open>http\<close>, its headers in the order in which they were appended. Header names
  are \<^verbatim>\<open>HeaderName\<close>s (as their text), values \<^verbatim>\<open>HeaderValue\<close>s (as their bytes).
\<close>

record 'uri hyper_request =
  hyper_method :: bytes
  hyper_uri :: 'uri
  hyper_headers :: "(bytes \<times> bytes) list"
  hyper_body :: bytes

text \<open>
  \<open>'b\<close> is the connector builder with the roots of the platform, \<open>'c\<close> the pooled client, \<open>'resp\<close> the
  response before its body is read. An error of these crates is carried as its text.
\<close>

record ('b, 'c, 'uri, 'resp, 'w) hyper_lib =
  with_native_roots :: "'w \<Rightarrow> (bytes + 'b) \<times> 'w"
  pooled_client :: "'b \<Rightarrow> 'c"
  uri_parse :: "bytes \<Rightarrow> bytes + 'uri"
  header_name_try_from :: "bytes \<Rightarrow> bytes + bytes"
  header_value_try_from :: "bytes \<Rightarrow> bytes + bytes"
  header_value_to_str :: "bytes \<Rightarrow> bytes option"
  builder_body :: "'uri hyper_request \<Rightarrow> bytes + 'uri hyper_request"
  send_request :: "'c \<Rightarrow> 'uri hyper_request \<Rightarrow> 'w \<Rightarrow> (bytes + 'resp) \<times> 'w"
  response_status :: "'resp \<Rightarrow> nat"
  response_headers :: "'resp \<Rightarrow> (bytes \<times> bytes) list"
  collect_body :: "'resp \<Rightarrow> 'w \<Rightarrow> (bytes + bytes) \<times> 'w"

text \<open>A control character of a header value (a tab is none), visible ASCII with the space, and the
  characters of a header name (RFC 9110).\<close>

definition header_control :: "char \<Rightarrow> bool" where
  "header_control c \<longleftrightarrow> (let n = of_char c in n < 32 \<and> n \<noteq> 9 \<or> n = (127::nat))"

definition printable :: "char \<Rightarrow> bool" where
  "printable c \<longleftrightarrow> (let n = of_char c in 32 \<le> n \<and> n < (127::nat))"

definition token_char :: "char \<Rightarrow> bool" where
  "token_char c \<longleftrightarrow>
     (let n = of_char c in 48 \<le> n \<and> n \<le> 57 \<or> 65 \<le> n \<and> n \<le> 90 \<or> 97 \<le> n \<and> n \<le> (122::nat)) \<or>
     c \<in> set ''!#$%&*+-.^_`|~'' \<or> c = CHR 0x27"

text \<open>
  \<^verbatim>\<open>HeaderName\<close> takes the names of RFC 9110 and puts them in lower case; \<^verbatim>\<open>HeaderValue\<close> takes visible
  ASCII, refuses control characters and keeps the bytes; the builder returns the request it was given,
  and can fail only where a header map is full.
\<close>

definition hyper_laws :: "('b, 'c, 'uri, 'resp, 'w) hyper_lib \<Rightarrow> bool" where
  "hyper_laws H \<longleftrightarrow>
     (\<forall>k. k \<noteq> [] \<and> length k < 2 ^ 15 \<and> list_all token_char k \<longrightarrow>
        header_name_try_from H k = Inr (map ascii_lower k)) \<and>
     (\<forall>v. list_all printable v \<longrightarrow> header_value_try_from H v = Inr v) \<and>
     (\<forall>v v'. header_value_try_from H v = Inr v' \<longrightarrow> v' = v \<and> \<not> list_ex header_control v) \<and>
     (\<forall>r. length (hyper_headers r) < 2 ^ 14 \<longrightarrow> builder_body H r = Inr r) \<and>
     (\<forall>r q. builder_body H r = Inr q \<longrightarrow> q = r)"

section \<open>The adapter\<close>

definition hyper_client_new ::
  "('b, 'c, 'uri, 'resp, 'w) hyper_lib \<Rightarrow> 'w \<Rightarrow> (oidc_error + 'c) \<times> 'w" where
  "hyper_client_new H =
     binds (map_errs (\<lambda>err. Http (''failed to load native roots: '' @ err)) (with_native_roots H))
       (\<lambda>b. lifts (Inr (pooled_client H b)))"

fun hyper_method_of :: "http_method \<Rightarrow> bytes" where
  "hyper_method_of Get = ''GET''"
| "hyper_method_of Post = ''POST''"

text \<open>The loop over the headers: each is checked and appended.\<close>

fun append_headers ::
  "('b, 'c, 'uri, 'resp, 'w) hyper_lib \<Rightarrow> display_lib \<Rightarrow> (bytes \<times> bytes) list \<Rightarrow>
   'uri hyper_request \<Rightarrow> oidc_error + 'uri hyper_request" where
  "append_headers H D [] builder = Inr builder"
| "append_headers H D ((name, value) # rest) builder =
     bindr (map_errr (\<lambda>err. Http (''invalid header name '' @ debug_str D name @ '': '' @ err))
              (header_name_try_from H name)) (\<lambda>header_name.
     bindr (map_errr (\<lambda>err. Http (''invalid header value for '' @ debug_str D name @ '': '' @ err))
              (header_value_try_from H value)) (\<lambda>header_value.
     append_headers H D rest
       (builder\<lparr>hyper_headers := hyper_headers builder @ [(header_name, header_value)]\<rparr>)))"

definition build_request ::
  "('b, 'c, 'uri, 'resp, 'w) hyper_lib \<Rightarrow> display_lib \<Rightarrow> http_request \<Rightarrow>
   oidc_error + 'uri hyper_request" where
  "build_request H D req =
     bindr (map_errr (\<lambda>err. Http (''invalid request URL: '' @ err)) (uri_parse H (req_url req))) (\<lambda>uri.
     bindr (append_headers H D (req_headers req)
              \<lparr>hyper_method = hyper_method_of (req_method req), hyper_uri = uri, hyper_headers = [],
               hyper_body = []\<rparr>) (\<lambda>builder.
     map_errr (\<lambda>err. Http (''failed to build request: '' @ err))
       (builder_body H (builder\<lparr>hyper_body := (case req_body req of Some b \<Rightarrow> b | None \<Rightarrow> [])\<rparr>))))"

text \<open>The headers of a response: a value that is no text reads as empty.\<close>

definition readable_headers ::
  "('b, 'c, 'uri, 'resp, 'w) hyper_lib \<Rightarrow> (bytes \<times> bytes) list \<Rightarrow> (bytes \<times> bytes) list" where
  "readable_headers H headers =
     map (\<lambda>(name, value).
       (name, case header_value_to_str H value of Some s \<Rightarrow> s | None \<Rightarrow> [])) headers"

definition hyper_execute ::
  "('b, 'c, 'uri, 'resp, 'w) hyper_lib \<Rightarrow> display_lib \<Rightarrow> 'c \<Rightarrow> http_request \<Rightarrow> 'w \<Rightarrow>
   (oidc_error + http_response) \<times> 'w" where
  "hyper_execute H D client req =
     binds (lifts (build_request H D req)) (\<lambda>request.
     binds (map_errs Http (send_request H client request)) (\<lambda>response.
     binds (map_errs Http (collect_body H response)) (\<lambda>body.
     lifts (Inr \<lparr>resp_status = response_status H response,
                 resp_headers = readable_headers H (response_headers H response),
                 resp_body = body\<rparr>))))"

section \<open>The contract of the trait\<close>

text \<open>
  \<^verbatim>\<open>AsyncHttpClient\<close>: a transport failure is an \<^verbatim>\<open>OidcError::Http\<close>; a response of any status is a
  success, which the callers inspect.
\<close>

locale http_client =
  fixes execute :: "http_request \<Rightarrow> 'w \<Rightarrow> (oidc_error + http_response) \<times> 'w"
  assumes transport_error: "execute r w = (Inl e, w') \<Longrightarrow> \<exists>s. e = Http s"
begin

lemma token_endpoint_error:
  assumes "http_execute (env_runtime E) = execute" and "post_token_request E built w = (Inl e, w')"
  shows "(\<exists>s. e = Http s) \<or>
    (\<exists>resp. execute (built_http built \<lparr>req_method := Post\<rparr>) w = (Inr resp, w') \<and>
       (if resp_status resp \<noteq> 200 then e = parse_token_error (env_json E) resp
        else \<exists>j. e = Json j \<and> from_json_slice (env_json E) (decode_token_response (env_display E))
          (resp_body resp) = Inl j))"
proof -
  have r: "\<lparr>req_method = Post, req_url = req_url r, req_headers = req_headers r, req_body = req_body r\<rparr> =
    r\<lparr>req_method := Post\<rparr>" for r :: http_request by simp
  from assms(2) show ?thesis
    unfolding post_token_request_def Let_def r assms(1)
    by (auto simp: binds_eq_Inl map_errr_eq_Inl split: if_splits dest: transport_error)
qed

end

lemma append_headers_error: "append_headers H D hs b = Inl e \<Longrightarrow> \<exists>s. e = Http s"
  by (induction H D hs b rule: append_headers.induct) (auto simp: res_simps)

lemma build_request_error: "build_request H D req = Inl e \<Longrightarrow> \<exists>s. e = Http s"
  unfolding build_request_def by (auto simp: res_simps dest: append_headers_error)

interpretation hyper: http_client "hyper_execute H D c"
proof
  fix r w e w' assume "hyper_execute H D c r w = (Inl e, w')"
  then show "\<exists>s. e = Http s"
    unfolding hyper_execute_def binds_eq_Inl map_errs_eq_Inl lifts_simp
    using build_request_error by blast
qed

section \<open>What is sent\<close>

text \<open>The request as it leaves: header names in lower case, everything else as it was asked for.\<close>

definition on_the_wire :: "'uri \<Rightarrow> http_request \<Rightarrow> 'uri hyper_request" where
  "on_the_wire uri req =
     \<lparr>hyper_method = hyper_method_of (req_method req), hyper_uri = uri,
      hyper_headers = map (\<lambda>(k, v). (map ascii_lower k, v)) (req_headers req),
      hyper_body = (case req_body req of Some b \<Rightarrow> b | None \<Rightarrow> [])\<rparr>"

definition sendable_header :: "bytes \<times> bytes \<Rightarrow> bool" where
  "sendable_header h \<longleftrightarrow>
     fst h \<noteq> [] \<and> length (fst h) < 2 ^ 15 \<and> list_all token_char (fst h) \<and> list_all printable (snd h)"

lemma append_headers_sendable:
  "hyper_laws H \<Longrightarrow> list_all sendable_header hs \<Longrightarrow>
     append_headers H D hs b =
       Inr (b\<lparr>hyper_headers := hyper_headers b @ map (\<lambda>(k, v). (map ascii_lower k, v)) hs\<rparr>)"
  by (induction H D hs b rule: append_headers.induct) (simp_all add: hyper_laws_def sendable_header_def)

lemma build_request_sendable:
  assumes "hyper_laws H" and "uri_parse H (req_url req) = Inr uri"
    and "list_all sendable_header (req_headers req)" and "length (req_headers req) < 2 ^ 14"
  shows "build_request H D req = Inr (on_the_wire uri req)"
proof -
  have "builder_body H (on_the_wire uri req) = Inr (on_the_wire uri req)"
    using assms(1,4) by (simp add: hyper_laws_def on_the_wire_def)
  then show ?thesis
    by (simp add: build_request_def assms(2) append_headers_sendable [OF assms(1,3)] on_the_wire_def)
qed

lemma append_headers_clean:
  "hyper_laws H \<Longrightarrow> append_headers H D hs b = Inr b' \<Longrightarrow> (k, v) \<in> set hs \<Longrightarrow> \<not> list_ex header_control v"
proof (induction H D hs b rule: append_headers.induct)
  case (2 H D n x rest builder)
  then show ?case by (auto simp: res_simps hyper_laws_def)
qed simp

lemma build_request_clean:
  "hyper_laws H \<Longrightarrow> build_request H D req = Inr q \<Longrightarrow> (k, v) \<in> set (req_headers req) \<Longrightarrow>
     \<not> list_ex header_control v"
  unfolding build_request_def by (auto simp: res_simps dest: append_headers_clean)

lemma unclean_request_not_sent:
  assumes "hyper_laws H" and "(k, v) \<in> set (req_headers req)" and "list_ex header_control v"
  shows "\<exists>s. hyper_execute H D c req w = (Inl (Http s), w)"
proof -
  from build_request_clean [OF assms(1) _ assms(2)] assms(3) obtain e where
    e: "build_request H D req = Inl e" by (cases "build_request H D req") auto
  with build_request_error [OF e] show ?thesis by (auto simp: hyper_execute_def binds_def)
qed

text \<open>The requests of the crate: for documents, to the token endpoint, for UserInfo.\<close>

inductive library_request ::
  "'u url_lib \<Rightarrow> form_lib \<Rightarrow> base64_lib \<Rightarrow> http_request \<Rightarrow> bool" for U F B where
  document: "library_request U F B (accept_json_request url)"
| code: "code_request_build U F B r = Inr b \<Longrightarrow> library_request U F B (built_http b)"
| refresh: "refresh_request_build U F B r' = Inr b \<Longrightarrow> library_request U F B (built_http b)"
| user_info: "list_all printable (access_token_str t) \<Longrightarrow>
    library_request U F B (userinfo_request U endpoint t)"

lemma header_names_sendable:
  "sendable_header (''Accept'', ''application/json'')"
  "sendable_header (''Content-Type'', ''application/x-www-form-urlencoded'')"
  "sendable_header (''Accept'', ''application/json, application/jwt;q=0.9'')"
  "sendable_header (''Authorization'', ''Basic '' @ v) \<longleftrightarrow> list_all printable v"
  "sendable_header (''Authorization'', ''Bearer '' @ v) \<longleftrightarrow> list_all printable v"
  by (simp_all add: sendable_header_def token_char_def printable_def)

lemmas our_headers = header_names_sendable [unfolded append_Cons append_Nil]

lemma authenticated_headers_sendable:
  assumes "authenticate_client F B m cid secret form = Inr fh"
    and "\<And>d. list_all printable (standard_encode B d)"
  shows "list_all sendable_header (snd fh) \<and> length (snd fh) < 2 ^ 14"
proof -
  from assms(1) have "snd fh = token_request_headers \<or>
      (\<exists>v. snd fh = token_request_headers @ [(''Authorization'', ''Basic '' @ standard_encode B v)])"
    by (auto simp: authenticate_client_def Let_def res_simps split: token_auth_method.splits)
  then show ?thesis
    using assms(2) by (auto simp: token_request_headers_def our_headers)
qed

lemma library_request_sendable:
  assumes "library_request U F B r" and "\<And>d. list_all printable (standard_encode B d)"
  shows "list_all sendable_header (req_headers r) \<and> length (req_headers r) < 2 ^ 14"
  using assms(1)
proof cases
  case (code r' b)
  then obtain fh where "authenticate_client F B (code_method r') (code_client_id r') (code_client_secret r')
      (code_form r') = Inr fh" "b = finish_request U F (code_endpoint r') fh"
    using code.build_Inr [OF code(2)] by blast
  with authenticated_headers_sendable [OF _ assms(2)] code(1) show ?thesis
    by (simp add: finish_request_def)
next
  case (refresh r' b)
  then obtain fh where "authenticate_client F B (refresh_method r') (refresh_client_id r')
      (refresh_client_secret r') (refresh_form r') = Inr fh" "b = finish_request U F (refresh_endpoint r') fh"
    using refresh.build_Inr [OF refresh(2)] by blast
  with authenticated_headers_sendable [OF _ assms(2)] refresh(1) show ?thesis
    by (simp add: finish_request_def)
qed (simp_all add: accept_json_request_def userinfo_request_def our_headers)

section \<open>An example\<close>

text \<open>The crates on the scripted world: it records what is sent and replays answers.\<close>

definition relay_hyper :: "(unit, unit, bytes, http_response, script) hyper_lib" where
  "relay_hyper =
     \<lparr>with_native_roots = (\<lambda>w. (Inr (), w)), pooled_client = (\<lambda>_. ()), uri_parse = Inr,
      header_name_try_from = (\<lambda>k. if k \<noteq> [] \<and> list_all token_char k then Inr (map ascii_lower k)
        else Inl ''invalid HTTP header name''),
      header_value_try_from = (\<lambda>v. if list_ex header_control v then Inl ''failed to parse header value''
        else Inr v),
      header_value_to_str = (\<lambda>v. if list_all printable v then Some v else None),
      builder_body = Inr,
      send_request = (\<lambda>_ q w.
        case http_execute scripted
          \<lparr>req_method = (if hyper_method q = ''GET'' then Get else Post), req_url = hyper_uri q,
           req_headers = hyper_headers q, req_body = Some (hyper_body q)\<rparr> w of
          (Inl e, w') \<Rightarrow> (Inl ''connection refused'', w') | (Inr r, w') \<Rightarrow> (Inr r, w')),
      response_status = resp_status, response_headers = resp_headers,
      collect_body = (\<lambda>r w. (Inr (resp_body r), w))\<rparr>"

lemma printable_not_control: "printable c \<Longrightarrow> \<not> header_control c"
  by (auto simp: printable_def header_control_def Let_def)

lemma relay_hyper_laws: "hyper_laws relay_hyper"
  unfolding hyper_laws_def relay_hyper_def
  by (auto simp: list_all_iff list_ex_iff dest: printable_not_control)

lemma relay_simps [simp]:
  "uri_parse relay_hyper u = Inr u" "response_status relay_hyper r = resp_status r"
  "collect_body relay_hyper r w = (Inr (resp_body r), w)" "response_headers relay_hyper r = resp_headers r"
  "header_value_to_str relay_hyper v = (if list_all printable v then Some v else None)"
  "send_request relay_hyper hc q w =
    (case http_execute scripted
       \<lparr>req_method = (if hyper_method q = ''GET'' then Get else Post), req_url = hyper_uri q,
        req_headers = hyper_headers q, req_body = Some (hyper_body q)\<rparr> w of
       (Inl e, w') \<Rightarrow> (Inl ''connection refused'', w') | (Inr r, w') \<Rightarrow> (Inr r, w'))"
  by (simp_all add: relay_hyper_def)

definition relay_runtime :: "script runtime" where
  "relay_runtime = scripted\<lparr>http_execute := hyper_execute relay_hyper plain_display ()\<rparr>"

lemma relay_runtime_simps [simp]:
  "http_execute relay_runtime = hyper_execute relay_hyper plain_display ()"
  "instant_now relay_runtime w = (script_instant w, w)"
  by (simp_all add: relay_runtime_def)

lemma relay_execute:
  assumes "list_all sendable_header (req_headers r) \<and> length (req_headers r) < 2 ^ 14"
    and "script_answers w = [Inr a]" and "resp_headers a = []"
  shows "\<exists>w'. hyper_execute relay_hyper D () r w = (Inr a, w')"
proof -
  have "build_request relay_hyper D r = Inr (on_the_wire (req_url r) r)"
    using assms(1) by (intro build_request_sendable relay_hyper_laws) simp_all
  with assms(2,3) show ?thesis
    by (simp add: hyper_execute_def binds_def map_errs_def readable_headers_def)
qed

lemma std_base64_printable: "list_all printable (standard_encode std_base64 d)"
proof -
  have "printable c" if "c \<in> set (b64_encode d)" for c
    using b64_encode_safe [OF that] by (auto simp: printable_def url_safe_char_def Let_def)
  then show ?thesis by (simp add: std_base64_def list_all_iff)
qed

section \<open>Properties\<close>

text \<open>
  C36. Every request the crate makes reaches the provider as it was made. With the shipped HTTP client, a
  discovery or key request, a token request of either grant and a UserInfo request with a printable
  token are sent exactly once, with their method, body and headers (the names in lower case, as HTTP
  has them), and what comes back is returned with its status, whatever it is: a redirect is not
  followed. The transport's errors are \<^verbatim>\<open>OidcError::Http\<close>.
\<close>

theorem library_requests_are_sent:
  assumes "hyper_laws H" and "\<And>d. list_all printable (standard_encode B d)"
    and "library_request U F B req" and "uri_parse H (req_url req) = Inr uri"
  shows "hyper_execute H D client req w =
    (case send_request H client
        \<lparr>hyper_method = (if req_method req = Get then ''GET'' else ''POST''), hyper_uri = uri,
         hyper_headers = map (\<lambda>(k, v). (map ascii_lower k, v)) (req_headers req),
         hyper_body = (case req_body req of Some b \<Rightarrow> b | None \<Rightarrow> [])\<rparr> w of
       (Inl e, w1) \<Rightarrow> (Inl (Http e), w1)
     | (Inr response, w1) \<Rightarrow>
         (case collect_body H response w1 of
            (Inl e, w2) \<Rightarrow> (Inl (Http e), w2)
          | (Inr body, w2) \<Rightarrow>
              (Inr \<lparr>resp_status = response_status H response,
                    resp_headers = readable_headers H (response_headers H response),
                    resp_body = body\<rparr>, w2)))"
proof -
  have "(if req_method req = Get then ''GET'' else ''POST'') = hyper_method_of (req_method req)"
    by (cases "req_method req") simp_all
  then show ?thesis
    using build_request_sendable [OF assms(1,4)] library_request_sendable [OF assms(3,2)]
    by (simp add: hyper_execute_def on_the_wire_def binds_def map_errs_def split: prod.splits sum.splits)
qed

theorem library_requests_are_sent_witness:
  "hyper_execute relay_hyper plain_display () (accept_json_request ''https://op/keys'')
     (example_world [Inr \<lparr>resp_status = 302, resp_headers = [(''location'', ''/x'')], resp_body = []\<rparr>] 5) =
   (Inr \<lparr>resp_status = 302, resp_headers = [(''location'', ''/x'')], resp_body = []\<rparr>,
    example_world [] 5 \<lparr>script_sent := [\<lparr>req_method = Get, req_url = ''https://op/keys'',
      req_headers = [(''accept'', ''application/json'')], req_body = Some []\<rparr>]\<rparr>)"
proof -
  have req: "library_request text_url std_form std_base64 (accept_json_request ''https://op/keys'')"
    by (rule library_request.document)
  have uri: "uri_parse relay_hyper (req_url (accept_json_request ''https://op/keys'')) = Inr ''https://op/keys''"
    by (simp add: accept_json_request_def)
  have lower: "map ascii_lower ''Accept'' = ''accept''" by code_simp
  have location: "readable_headers relay_hyper [(''location'', ''/x'')] = [(''location'', ''/x'')]"
    by (simp add: readable_headers_def printable_def)
  show ?thesis
    unfolding library_requests_are_sent [OF relay_hyper_laws std_base64_printable req uri]
    by (simp add: accept_json_request_def lower [simplified] location example_world_def)
qed

text \<open>
  C20. An access token cannot smuggle a header. A token endpoint may answer with any text as the access
  token; if it holds a control character such as a line break, \<^verbatim>\<open>fetch_userinfo\<close> on the shipped HTTP client
  ends with an error, and nothing is sent to the UserInfo endpoint: all that happened is the refresh of
  the metadata that precedes every call.
\<close>

theorem access_token_cannot_inject:
  assumes "hyper_laws H" and "http_execute (env_runtime E) = hyper_execute H D client"
    and "list_ex header_control (access_token_str token)"
    and "fetch_userinfo E token subject (c, w) = (r, (c', w'))"
  shows "(\<exists>e. r = Inl e) \<and> (\<exists>r'. client_refresh_if_stale E (c, w) = (r', (c', w')))"
proof -
  have blocked: "\<exists>s. hyper_execute H D client (userinfo_request (env_url E) endpoint token) w1 = (Inl (Http s), w1)"
    for endpoint w1
    by (rule unclean_request_not_sent [OF assms(1), of "''Authorization''"
          "''Bearer '' @ access_token_str token"])
      (use assms(3) in \<open>simp_all add: userinfo_request_def\<close>)
  show ?thesis
  proof (cases r)
    case (Inr u)
    from fetch_userinfo_ok [OF assms(4) [unfolded Inr]] blocked show ?thesis
      by (metis Inl_Inr_False assms(2) prod.inject)
  next
    case (Inl e)
    obtain r1 c1 w1 where first: "client_refresh_if_stale E (c, w) = (r1, (c1, w1))"
      by (metis prod.exhaust)
    have "(c', w') = (c1, w1)"
    proof (cases r1)
      case (Inr m)
      show ?thesis
      proof (cases "userinfo_endpoint (client_metadata c1)")
        case (Some endpoint)
        with Inr Inl first assms(2,4) blocked [of endpoint w1] show ?thesis
          by (auto simp: fetch_userinfo_def binds_def on_snd_def)
      qed (use Inr first assms(4) in \<open>auto simp: fetch_userinfo_def binds_def\<close>)
    qed (use first assms(4) in \<open>auto simp: fetch_userinfo_def binds_def\<close>)
    with first Inl show ?thesis by blast
  qed
qed

theorem access_token_cannot_inject_witness:
  "\<exists>e. fetch_userinfo (env_with completion_docs relay_runtime)
     (AccessToken (''at'' @ [CHR 0x0A] @ ''X-Role: admin'')) ''alice''
     (parts_client, example_world [answer ''U''] 5) =
     (Inl e, (parts_client, example_world [answer ''U''] 5))"
proof -
  let ?E = "env_with completion_docs relay_runtime" and ?w = "example_world [answer ''U''] 5"
  let ?t = "AccessToken (''at'' @ [CHR 0x0A] @ ''X-Role: admin'')"
  obtain r c' w' where run: "fetch_userinfo ?E ?t ''alice'' (parts_client, ?w) = (r, (c', w'))"
    by (metis prod.exhaust)
  have "http_execute (env_runtime ?E) = hyper_execute relay_hyper plain_display ()" by simp
  moreover have "list_ex header_control (access_token_str ?t)" by (simp add: header_control_def)
  ultimately have "(\<exists>e. r = Inl e) \<and> (\<exists>r'. client_refresh_if_stale ?E (parts_client, ?w) = (r', (c', w')))"
    by (rule access_token_cannot_inject [OF relay_hyper_laws _ _ run])
  moreover have "client_refresh_if_stale ?E (parts_client, ?w) = (Inr example_metadata, (parts_client, ?w))"
    by (simp add: client_refresh_if_stale_def on_provider_def refresh_metadata_if_stale_def
      metadata_needs_refresh_def needs_refresh_at_def parts_client_def example_provider_def)
  ultimately show ?thesis using run by auto
qed

text \<open>
  C35. What the token endpoint answers is never mistaken for tokens: on the shipped HTTP client a token
  request that fails does so with a transport error, with \<^verbatim>\<open>TokenEndpoint\<close> carrying the status of a
  response other than 200 and the OAuth error of its body (\<^verbatim>\<open>invalid_response\<close> where the body is not
  one), or with the JSON error of a 200 response that is no token response.
\<close>

theorem token_endpoint_errors:
  assumes "http_execute (env_runtime E) = hyper_execute H D client"
    and "post_token_request E built w = (Inl e, w')"
  shows "(\<exists>s. e = Http s) \<or>
    (\<exists>resp. hyper_execute H D client (built_http built \<lparr>req_method := Post\<rparr>) w = (Inr resp, w') \<and>
       (if resp_status resp \<noteq> 200
        then e = (case from_json_slice (env_json E) decode_error_body (resp_body resp) of
                    Inr (code, description) \<Rightarrow> TokenEndpoint (resp_status resp) code description
                  | Inl _ \<Rightarrow> TokenEndpoint (resp_status resp) ''invalid_response'' None)
        else \<exists>j. e = Json j \<and> from_json_slice (env_json E) (decode_token_response (env_display E))
          (resp_body resp) = Inl j))"
  using hyper.token_endpoint_error [OF assms] unfolding parse_token_error_def .

theorem token_endpoint_errors_witness:
  "\<exists>built e w' resp. code_request_build text_url std_form std_base64
      (set_from_pending example_pending
        (code_request_new (TokenUrl ''https://op/token'') (ClientId ''rp'') None ''abc'' (Some AuthNone))) =
      Inr built \<and>
    post_token_request (env_with [] relay_runtime) built
      (example_world [Inr \<lparr>resp_status = 400, resp_headers = [], resp_body = ''?''\<rparr>] 5) = (Inl e, w') \<and>
    hyper_execute relay_hyper plain_display () (built_http built \<lparr>req_method := Post\<rparr>)
      (example_world [Inr \<lparr>resp_status = 400, resp_headers = [], resp_body = ''?''\<rparr>] 5) = (Inr resp, w') \<and>
    resp_status resp \<noteq> 200"
proof -
  let ?a = "\<lparr>resp_status = 400, resp_headers = [], resp_body = ''?''\<rparr>"
  obtain built where built: "code_request_build text_url std_form std_base64
      (set_from_pending example_pending
        (code_request_new (TokenUrl ''https://op/token'') (ClientId ''rp'') None ''abc'' (Some AuthNone))) =
      Inr built" using example_built by blast
  have "req_method (built_http built) = Post" using code.request_line [OF built] by blast
  then have same: "\<lparr>req_method = Post, req_url = req_url (built_http built),
      req_headers = req_headers (built_http built), req_body = req_body (built_http built)\<rparr> = built_http built"
    by simp
  from library_request_sendable [OF library_request.code [OF built] std_base64_printable]
  obtain w' where exec: "hyper_execute relay_hyper plain_display () (built_http built) (example_world [Inr ?a] 5) =
      (Inr ?a, w')"
    using relay_execute [of "built_http built" "example_world [Inr ?a] 5" ?a]
    by (auto simp: example_world_def)
  have post: "post_token_request (env_with [] relay_runtime) built (example_world [Inr ?a] 5) =
      (Inl (TokenEndpoint 400 ''invalid_response'' None), w')"
    unfolding post_token_request_def Let_def same
    by (simp add: binds_def exec parse_token_error_def from_json_slice_def table_json_def)
  have "http_execute (env_runtime (env_with [] relay_runtime)) = hyper_execute relay_hyper plain_display ()"
    by simp
  from token_endpoint_errors [OF this post] built post show ?thesis
    by (fastforce split: if_splits)
qed

end
