(* ===== verification/Refresh_Concurrency.thy ===== *)
theory Refresh_Concurrency
  imports Provider
begin

text \<open>
  src/client.rs, the automatic and the forced metadata refresh as tasks that run concurrently on one
  \<^verbatim>\<open>Client\<close>. A task is at one of the points between two of its accesses to shared state: the
  provider snapshot behind the \<^verbatim>\<open>RwLock\<close>, the world, the single-flight lock
  \<^verbatim>\<open>metadata_refresh_lock\<close>. Each such access is one step; steps of other tasks, setters and changes of
  the world come in between, and a task can be dropped where it awaits.
\<close>

section \<open>Tasks\<close>

datatype refresh_kind = Automatic | Forced

text \<open>
  Where a task is. \<open>FirstCheck\<close> and \<open>SecondCheck\<close> hold the clone of the snapshot whose age is tested
  next, \<open>Fetching\<close> the clone the discovery starts from, \<open>Filling\<close> a new key set whose keys are
  fetched next, \<open>Fetched\<close> the replacement to publish, \<open>Failing\<close> an error to handle, \<open>Deferring\<close> the
  error and the instant at which it was seen, before the write lock is taken.
\<close>

datatype ('u, 'jwks) refresh_phase =
    Idle
  | FirstCheck "('u, 'jwks) provider_state"
  | Waiting refresh_kind
  | Locked refresh_kind
  | SecondCheck "('u, 'jwks) provider_state"
  | Fetching refresh_kind "('u, 'jwks) provider_state"
  | Filling refresh_kind "'u discovered_metadata" 'jwks
  | Fetched refresh_kind "'u discovered_metadata" 'jwks
  | Failing refresh_kind oidc_error
  | Deferring oidc_error instant
  | Finished "oidc_error + 'u provider_metadata"

record ('u, 'jwks, 'w) refresh_system =
  sys_provider :: "('u, 'jwks) provider_state"
  sys_world :: 'w
  sys_lock :: "nat option"
  sys_tasks :: "nat \<Rightarrow> ('u, 'jwks) refresh_phase"

definition put_phase ::
  "nat \<Rightarrow> ('u, 'jwks) refresh_phase \<Rightarrow> ('u, 'jwks, 'w) refresh_system \<Rightarrow> ('u, 'jwks, 'w) refresh_system" where
  "put_phase i ph s = s\<lparr>sys_tasks := (sys_tasks s)(i := ph)\<rparr>"

text \<open>The end of a task that holds the lock: the guard is dropped.\<close>

definition release_with ::
  "nat \<Rightarrow> ('u, 'jwks) refresh_phase \<Rightarrow> ('u, 'jwks, 'w) refresh_system \<Rightarrow> ('u, 'jwks, 'w) refresh_system" where
  "release_with i ph s = s\<lparr>sys_tasks := (sys_tasks s)(i := ph), sys_lock := None\<rparr>"

text \<open>The next step of a task; \<open>None\<close> where it waits for the lock or is not running.\<close>

definition task_step ::
  "('u, 'jws, 'key, 'claims, 'jwks, 'w) env \<Rightarrow> nat \<Rightarrow> ('u, 'jwks, 'w) refresh_system \<Rightarrow>
   ('u, 'jwks, 'w) refresh_system option" where
  "task_step E i s =
     (case sys_tasks s i of
        Idle \<Rightarrow> None
      | Finished r \<Rightarrow> None
      | FirstCheck p \<Rightarrow>
          (case metadata_needs_refresh (env_runtime E) p (sys_world s) of (stale, w) \<Rightarrow>
             Some (put_phase i (if stale then Waiting Automatic else Finished (Inr (ps_metadata p)))
               (s\<lparr>sys_world := w\<rparr>)))
      | Waiting k \<Rightarrow>
          if sys_lock s = None then Some (put_phase i (Locked k) (s\<lparr>sys_lock := Some i\<rparr>)) else None
      | Locked k \<Rightarrow>
          Some (put_phase i (case k of Automatic \<Rightarrow> SecondCheck (sys_provider s)
                             | Forced \<Rightarrow> Fetching Forced (sys_provider s)) s)
      | SecondCheck p \<Rightarrow>
          (case metadata_needs_refresh (env_runtime E) p (sys_world s) of (stale, w) \<Rightarrow>
             Some (if stale then put_phase i (Fetching Automatic p) (s\<lparr>sys_world := w\<rparr>)
                   else release_with i (Finished (Inr (ps_metadata p))) (s\<lparr>sys_world := w\<rparr>)))
      | Fetching k p \<Rightarrow>
          (case discover_from E (metadata_issuer (ps_metadata p)) (sys_world s) of
             (Inl e, w) \<Rightarrow> Some (put_phase i (Failing k e) (s\<lparr>sys_world := w\<rparr>))
           | (Inr d, w) \<Rightarrow>
               Some (put_phase i
                 (if jwks_uri (disc_metadata d) = jwks_uri (ps_metadata p) then Fetched k d (ps_jwks p)
                  else Filling k d (new_jwks E (disc_metadata d))) (s\<lparr>sys_world := w\<rparr>)))
      | Filling k d jwks \<Rightarrow>
          (case jwks_keys (env_jose E) jwks (sys_world s) of
             (Inl e, w) \<Rightarrow> Some (put_phase i (Failing k (Jose e)) (s\<lparr>sys_world := w\<rparr>))
           | (Inr _, w) \<Rightarrow> Some (put_phase i (Fetched k d jwks) (s\<lparr>sys_world := w\<rparr>)))
      | Fetched k d jwks \<Rightarrow>
          (case publish_replacement E d jwks (sys_provider s, sys_world s) of (p, w) \<Rightarrow>
             Some (release_with i (Finished (Inr (disc_metadata d))) (s\<lparr>sys_provider := p, sys_world := w\<rparr>)))
      | Failing k e \<Rightarrow>
          (case k of
             Forced \<Rightarrow> Some (release_with i (Finished (Inl e)) s)
           | Automatic \<Rightarrow>
               (case instant_now (env_runtime E) (sys_world s) of
                  (now, w) \<Rightarrow> Some (put_phase i (Deferring e now) (s\<lparr>sys_world := w\<rparr>))))
      | Deferring e now \<Rightarrow>
          (case after_error_at now e (sys_provider s) of
             (r, p) \<Rightarrow> Some (release_with i (Finished r) (s\<lparr>sys_provider := p\<rparr>))))"

fun awaits :: "('u, 'jwks) refresh_phase \<Rightarrow> bool" where
  "awaits (Waiting k) = True"
| "awaits (Fetching k p) = True"
| "awaits (Filling k d jwks) = True"
| "awaits ph = False"

fun holds_lock :: "('u, 'jwks) refresh_phase \<Rightarrow> bool" where
  "holds_lock (Locked k) = True"
| "holds_lock (SecondCheck p) = True"
| "holds_lock (Fetching k p) = True"
| "holds_lock (Filling k d jwks) = True"
| "holds_lock (Fetched k d jwks) = True"
| "holds_lock (Failing k e) = True"
| "holds_lock (Deferring e now) = True"
| "holds_lock ph = False"

fun at_rest :: "('u, 'jwks) refresh_phase \<Rightarrow> bool" where
  "at_rest Idle = True"
| "at_rest (Finished r) = True"
| "at_rest ph = False"

text \<open>A future that is dropped at an await, and with it the guard, if it holds it.\<close>

definition drop_task ::
  "nat \<Rightarrow> ('u, 'jwks, 'w) refresh_system \<Rightarrow> ('u, 'jwks, 'w) refresh_system" where
  "drop_task i s = (if holds_lock (sys_tasks s i) then release_with i Idle s else put_phase i Idle s)"

definition start_task ::
  "refresh_kind \<Rightarrow> nat \<Rightarrow> ('u, 'jwks, 'w) refresh_system \<Rightarrow> ('u, 'jwks, 'w) refresh_system" where
  "start_task k i s =
     put_phase i (case k of Automatic \<Rightarrow> FirstCheck (sys_provider s) | Forced \<Rightarrow> Waiting Forced) s"

section \<open>The system\<close>

inductive refresh_steps ::
  "('u, 'jws, 'key, 'claims, 'jwks, 'w) env \<Rightarrow> ('u, 'jwks, 'w) refresh_system \<Rightarrow>
   ('u, 'jwks, 'w) refresh_system \<Rightarrow> bool" for E where
  start: "at_rest (sys_tasks s i) \<Longrightarrow> refresh_steps E s (start_task k i s)"
| proceed: "task_step E i s = Some s' \<Longrightarrow> refresh_steps E s s'"
| dropped: "awaits (sys_tasks s i) \<Longrightarrow> refresh_steps E s (drop_task i s)"
| configure: "apply_setter (env_runtime E) st (sys_provider s, sys_world s) = (p, w) \<Longrightarrow>
    refresh_steps E s (s\<lparr>sys_provider := p, sys_world := w\<rparr>)"
| elsewhere: "refresh_steps E s (s\<lparr>sys_world := w\<rparr>)"

definition refresh_start :: "('u, 'jwks) provider_state \<Rightarrow> 'w \<Rightarrow> ('u, 'jwks, 'w) refresh_system" where
  "refresh_start p w =
     \<lparr>sys_provider = p, sys_world = w, sys_lock = None, sys_tasks = (\<lambda>_. Idle)\<rparr>"

inductive refresh_reachable ::
  "('u, 'jws, 'key, 'claims, 'jwks, 'w) env \<Rightarrow> ('u, 'jwks) provider_state \<Rightarrow> 'w \<Rightarrow>
   ('u, 'jwks, 'w) refresh_system \<Rightarrow> bool" for E p w where
  initially: "refresh_reachable E p w (refresh_start p w)"
| later: "refresh_reachable E p w s \<Longrightarrow> refresh_steps E s s' \<Longrightarrow> refresh_reachable E p w s'"

section \<open>The invariant of the system\<close>

text \<open>A snapshot of one provider: its issuer, https endpoints, and the key set of its own \<^verbatim>\<open>jwks_uri\<close>.\<close>

definition snapshot_ok ::
  "('u, 'jws, 'key, 'claims, 'jwks, 'w) env \<Rightarrow> 'u issuer_url \<Rightarrow> 'u provider_metadata \<Rightarrow> 'jwks \<Rightarrow> bool" where
  "snapshot_ok E issuer m jwks \<longleftrightarrow>
     metadata_issuer m = issuer \<and> metadata_ok (env_url E) m \<and> jwks = new_jwks E m"

text \<open>
  What a task knows at each point. The clone it fetches from is still the metadata and keys that are
  published; what it will publish is a snapshot of the same provider.
\<close>

fun phase_ok ::
  "('u, 'jws, 'key, 'claims, 'jwks, 'w) env \<Rightarrow> 'u issuer_url \<Rightarrow> ('u, 'jwks) provider_state \<Rightarrow>
   ('u, 'jwks) refresh_phase \<Rightarrow> bool" where
  "phase_ok E issuer p (FirstCheck q) \<longleftrightarrow> snapshot_ok E issuer (ps_metadata q) (ps_jwks q)"
| "phase_ok E issuer p (SecondCheck q) \<longleftrightarrow> ps_metadata q = ps_metadata p \<and> ps_jwks q = ps_jwks p"
| "phase_ok E issuer p (Fetching k q) \<longleftrightarrow> ps_metadata q = ps_metadata p \<and> ps_jwks q = ps_jwks p"
| "phase_ok E issuer p (Filling k d jwks) \<longleftrightarrow> snapshot_ok E issuer (disc_metadata d) jwks"
| "phase_ok E issuer p (Fetched k d jwks) \<longleftrightarrow> snapshot_ok E issuer (disc_metadata d) jwks"
| "phase_ok E issuer p (Finished (Inr m)) \<longleftrightarrow> snapshot_ok E issuer m (new_jwks E m)"
| "phase_ok E issuer p ph \<longleftrightarrow> True"

definition system_ok ::
  "('u, 'jws, 'key, 'claims, 'jwks, 'w) env \<Rightarrow> 'u issuer_url \<Rightarrow> ('u, 'jwks, 'w) refresh_system \<Rightarrow> bool" where
  "system_ok E issuer s \<longleftrightarrow>
     provider_ok (sys_provider s) \<and>
     snapshot_ok E issuer (ps_metadata (sys_provider s)) (ps_jwks (sys_provider s)) \<and>
     (\<forall>i. holds_lock (sys_tasks s i) \<longleftrightarrow> sys_lock s = Some i) \<and>
     (\<forall>i. phase_ok E issuer (sys_provider s) (sys_tasks s i))"

lemma phase_ok_same_snapshot:
  "ps_metadata p' = ps_metadata p \<Longrightarrow> ps_jwks p' = ps_jwks p \<Longrightarrow>
     phase_ok E issuer p' ph = phase_ok E issuer p ph"
  by (cases "(E, issuer, p, ph)" rule: phase_ok.cases) auto

lemma phase_ok_without_lock:
  "\<not> holds_lock ph \<Longrightarrow> phase_ok E issuer p' ph = phase_ok E issuer p ph"
  by (cases "(E, issuer, p, ph)" rule: phase_ok.cases) auto

lemma new_jwks_cong: "jwks_uri m = jwks_uri m' \<Longrightarrow> new_jwks E m = new_jwks E m'"
  by (simp add: new_jwks_def)

section \<open>Every step keeps the invariant\<close>

lemma put_phase_keeps:
  assumes "system_ok E issuer s" and "holds_lock ph \<longleftrightarrow> holds_lock (sys_tasks s i)"
    and "phase_ok E issuer (sys_provider s) ph"
  shows "system_ok E issuer (put_phase i ph (s\<lparr>sys_world := w\<rparr>))"
  using assms by (auto simp: system_ok_def put_phase_def)

lemmas put_phase_keeps_world = put_phase_keeps [where w = "sys_world s" and s = s for s, simplified]

lemma release_with_keeps:
  assumes "system_ok E issuer s" and "holds_lock (sys_tasks s i)" and "\<not> holds_lock ph"
    and "phase_ok E issuer p ph" and "provider_ok p" and "snapshot_ok E issuer (ps_metadata p) (ps_jwks p)"
  shows "system_ok E issuer (release_with i ph (s\<lparr>sys_provider := p, sys_world := w\<rparr>))"
proof -
  have others: "\<not> holds_lock (sys_tasks s j)" if "j \<noteq> i" for j
    using assms(1,2) that by (auto simp: system_ok_def)
  moreover have "phase_ok E issuer (sys_provider s) (sys_tasks s j)" for j
    using assms(1) by (auto simp: system_ok_def)
  ultimately have "phase_ok E issuer p (sys_tasks s j)" if "j \<noteq> i" for j
    using phase_ok_without_lock that by metis
  with others assms show ?thesis by (auto simp: system_ok_def release_with_def)
qed

lemma acquire_keeps:
  assumes "system_ok E issuer s" and "sys_tasks s i = Waiting k" and "sys_lock s = None"
  shows "system_ok E issuer (put_phase i (Locked k) (s\<lparr>sys_lock := Some i\<rparr>))"
  using assms by (auto simp: system_ok_def put_phase_def)

lemma same_snapshot_keeps:
  assumes "system_ok E issuer s" and "provider_ok p" and "ps_metadata p = ps_metadata (sys_provider s)"
    and "ps_jwks p = ps_jwks (sys_provider s)"
  shows "system_ok E issuer (s\<lparr>sys_provider := p, sys_world := w\<rparr>)"
  using assms phase_ok_same_snapshot [OF assms(3,4), of E] by (auto simp: system_ok_def)

lemma release_with_keeps_provider:
  assumes "system_ok E issuer s" and "holds_lock (sys_tasks s i)" and "\<not> holds_lock ph"
    and "phase_ok E issuer (sys_provider s) ph"
  shows "system_ok E issuer (release_with i ph (s\<lparr>sys_world := w\<rparr>))"
    and "system_ok E issuer (release_with i ph s)"
proof -
  have "system_ok E issuer (release_with i ph (s\<lparr>sys_world := v\<rparr>))" for v
    using release_with_keeps [OF assms, of v] assms(1) by (simp add: system_ok_def)
  from this [of w] this [of "sys_world s"] show "system_ok E issuer (release_with i ph (s\<lparr>sys_world := w\<rparr>))"
    and "system_ok E issuer (release_with i ph s)" by simp_all
qed

lemma task_phase_ok: "system_ok E issuer s \<Longrightarrow> phase_ok E issuer (sys_provider s) (sys_tasks s i)"
  by (simp add: system_ok_def)

lemma fetched_phase_ok:
  assumes "snapshot_ok E issuer (ps_metadata p) (ps_jwks p)"
    and "discover_from E (metadata_issuer (ps_metadata p)) w = (Inr d, w')"
  shows "phase_ok E issuer q (if jwks_uri (disc_metadata d) = jwks_uri (ps_metadata p) then Fetched k d (ps_jwks p)
    else Filling k d (new_jwks E (disc_metadata d)))"
  using assms discover_with_cache_issuer [OF assms(2) [unfolded discover_from_def]]
    new_jwks_cong [of "disc_metadata d" "ps_metadata p" E]
  by (auto simp: snapshot_ok_def)

text \<open>What a step of a task does, case by case.\<close>

lemma task_step_cases:
  assumes "task_step E i s = Some s'"
  obtains
    (fresh) q w where "sys_tasks s i = FirstCheck q"
      "s' = put_phase i (Finished (Inr (ps_metadata q))) (s\<lparr>sys_world := w\<rparr>)"
  | (due) q w where "sys_tasks s i = FirstCheck q" "s' = put_phase i (Waiting Automatic) (s\<lparr>sys_world := w\<rparr>)"
  | (acquired) k where "sys_tasks s i = Waiting k" "sys_lock s = None"
      "s' = put_phase i (Locked k) (s\<lparr>sys_lock := Some i\<rparr>)"
  | (rechecked) "sys_tasks s i = Locked Automatic" "s' = put_phase i (SecondCheck (sys_provider s)) s"
  | (forced) "sys_tasks s i = Locked Forced" "s' = put_phase i (Fetching Forced (sys_provider s)) s"
  | (settled) q w where "sys_tasks s i = SecondCheck q"
      "s' = release_with i (Finished (Inr (ps_metadata q))) (s\<lparr>sys_world := w\<rparr>)"
  | (still_due) q w where "sys_tasks s i = SecondCheck q"
      "s' = put_phase i (Fetching Automatic q) (s\<lparr>sys_world := w\<rparr>)"
  | (undiscovered) k q e w where "sys_tasks s i = Fetching k q"
      "s' = put_phase i (Failing k e) (s\<lparr>sys_world := w\<rparr>)"
  | (discovered) k q d w where "sys_tasks s i = Fetching k q"
      "discover_from E (metadata_issuer (ps_metadata q)) (sys_world s) = (Inr d, w)"
      "s' = put_phase i (if jwks_uri (disc_metadata d) = jwks_uri (ps_metadata q) then Fetched k d (ps_jwks q)
         else Filling k d (new_jwks E (disc_metadata d))) (s\<lparr>sys_world := w\<rparr>)"
  | (unfilled) k d jwks e w where "sys_tasks s i = Filling k d jwks"
      "s' = put_phase i (Failing k e) (s\<lparr>sys_world := w\<rparr>)"
  | (filled) k d jwks w where "sys_tasks s i = Filling k d jwks"
      "s' = put_phase i (Fetched k d jwks) (s\<lparr>sys_world := w\<rparr>)"
  | (published) k d jwks q w where "sys_tasks s i = Fetched k d jwks"
      "publish_replacement E d jwks (sys_provider s, sys_world s) = (q, w)"
      "s' = release_with i (Finished (Inr (disc_metadata d))) (s\<lparr>sys_provider := q, sys_world := w\<rparr>)"
  | (failed) e where "sys_tasks s i = Failing Forced e" "s' = release_with i (Finished (Inl e)) s"
  | (deferred) e now w where "sys_tasks s i = Failing Automatic e"
      "s' = put_phase i (Deferring e now) (s\<lparr>sys_world := w\<rparr>)"
  | (fell_back) e now r q where "sys_tasks s i = Deferring e now"
      "after_error_at now e (sys_provider s) = (r, q)"
      "s' = release_with i (Finished r) (s\<lparr>sys_provider := q, sys_world := sys_world s\<rparr>)"
proof (cases "sys_tasks s i")
  case (FirstCheck q)
  with assms fresh [of q] due [of q] show thesis by (auto simp: task_step_def split: prod.splits if_splits)
next
  case (Waiting k)
  with assms acquired show thesis by (auto simp: task_step_def split: if_splits)
next
  case (Locked k)
  with assms rechecked forced show thesis by (cases k) (auto simp: task_step_def)
next
  case (SecondCheck q)
  with assms settled [of q] still_due [of q] show thesis by (auto simp: task_step_def split: prod.splits if_splits)
next
  case (Fetching k q)
  with assms undiscovered [of k q] discovered [of k q] show thesis
    by (auto simp: task_step_def split: prod.splits sum.splits)
next
  case (Filling k d jwks)
  with assms unfilled [of k d jwks] filled [of k d jwks] show thesis
    by (auto simp: task_step_def split: prod.splits sum.splits)
next
  case (Fetched k d jwks)
  with assms published [of k d jwks] show thesis by (auto simp: task_step_def split: prod.splits)
next
  case (Failing k e)
  with assms failed [of e] deferred [of e] show thesis
    by (cases k) (auto simp: task_step_def split: prod.splits)
next
  case (Deferring e now)
  with assms fell_back [of e now] show thesis by (auto simp: task_step_def split: prod.splits)
qed (use assms in \<open>simp_all add: task_step_def\<close>)

lemma task_step_keeps:
  assumes ok: "system_ok E issuer s" and step: "task_step E i s = Some s'"
  shows "system_ok E issuer s'"
proof -
  note phase = task_phase_ok [OF ok, of i]
  have p: "provider_ok (sys_provider s)"
    and snap: "snapshot_ok E issuer (ps_metadata (sys_provider s)) (ps_jwks (sys_provider s))"
    using ok by (simp_all add: system_ok_def)
  note put = put_phase_keeps [OF ok] and put_only = put_phase_keeps_world [OF ok]
  from step show ?thesis
  proof (cases rule: task_step_cases)
    case (fresh q w)
    with phase have "phase_ok E issuer (sys_provider s) (Finished (Inr (ps_metadata q)))"
      by (auto simp: snapshot_ok_def)
    with fresh show ?thesis by (auto simp del: phase_ok.simps(6) intro!: put)
  next
    case (acquired k)
    with acquire_keeps [OF ok] show ?thesis by simp
  next
    case (settled q w)
    with phase snap show ?thesis
      unfolding settled(2) by (intro release_with_keeps_provider [OF ok]) (auto simp: snapshot_ok_def)
  next
    case (discovered k q d w)
    with phase snap have "snapshot_ok E issuer (ps_metadata q) (ps_jwks q)" by simp
    from fetched_phase_ok [OF this discovered(2)] discovered show ?thesis by (auto intro!: put split: if_splits)
  next
    case (published k d jwks q w)
    from published(1) phase publish_facts [OF published(2)] show ?thesis
      unfolding published(3) by (intro release_with_keeps [OF ok]) (auto simp: snapshot_ok_def)
  next
    case (failed e)
    then show ?thesis by (auto intro!: release_with_keeps_provider [OF ok])
  next
    case (fell_back e now r q)
    from fell_back(1) snap after_error_at_keeps [OF p fell_back(2)] show ?thesis
      unfolding fell_back(3) by (intro release_with_keeps [OF ok]) (auto simp: snapshot_ok_def)
  qed (use phase in \<open>auto intro!: put put_only\<close>)
qed

lemma refresh_steps_keeps:
  assumes "system_ok E issuer s" and "refresh_steps E s s'"
  shows "system_ok E issuer s'"
  using assms(2)
proof (cases rule: refresh_steps.cases)
  case (start i k)
  then have "\<not> holds_lock (sys_tasks s i)" by (cases "sys_tasks s i") auto
  with assms(1) have "system_ok E issuer (put_phase i
      (case k of Automatic \<Rightarrow> FirstCheck (sys_provider s) | Forced \<Rightarrow> Waiting Forced) s)"
    by (intro put_phase_keeps_world) (auto simp: system_ok_def split: refresh_kind.splits)
  with start show ?thesis by (simp add: start_task_def)
next
  case (proceed i)
  with task_step_keeps [OF assms(1)] show ?thesis by blast
next
  case (dropped i)
  show ?thesis
  proof (cases "holds_lock (sys_tasks s i)")
    case True
    then have "system_ok E issuer (release_with i Idle s)"
      by (intro release_with_keeps_provider [OF assms(1)]) auto
    with True dropped show ?thesis by (simp add: drop_task_def)
  next
    case False
    then have "system_ok E issuer (put_phase i Idle s)"
      by (intro put_phase_keeps_world [OF assms(1)]) auto
    with False dropped show ?thesis by (simp add: drop_task_def)
  qed
next
  case (configure st p w)
  have "provider_ok p"
    using setter.keeps_ok [OF _ configure(2)] assms(1) by (simp add: system_ok_def)
  with setter.keeps_snapshot [OF configure(2)] configure(1) assms(1) show ?thesis
    by (auto intro: same_snapshot_keeps)
next
  case (elsewhere w)
  with assms(1) show ?thesis by (simp add: system_ok_def)
qed

lemma reachable_ok:
  assumes "refresh_reachable E p w s" and "provider_ok p" and "snapshot_ok E issuer (ps_metadata p) (ps_jwks p)"
  shows "system_ok E issuer s"
  using assms(1)
proof (induction rule: refresh_reachable.induct)
  case initially
  with assms(2,3) show ?case by (simp add: system_ok_def refresh_start_def)
next
  case (later s s')
  then show ?case by (blast intro: refresh_steps_keeps)
qed

section \<open>Progress and solo runs\<close>

fun phase_rank :: "('u, 'jwks) refresh_phase \<Rightarrow> nat" where
  "phase_rank Idle = 0"
| "phase_rank (Finished r) = 0"
| "phase_rank (Deferring e now) = 1"
| "phase_rank (Failing k e) = 2"
| "phase_rank (Fetched k d jwks) = 2"
| "phase_rank (Filling k d jwks) = 3"
| "phase_rank (Fetching k p) = 4"
| "phase_rank (SecondCheck p) = 5"
| "phase_rank (Locked k) = 6"
| "phase_rank (Waiting k) = 7"
| "phase_rank (FirstCheck p) = 8"

lemmas phase_updates = put_phase_def release_with_def

lemma task_step_rank:
  "task_step E i s = Some s' \<Longrightarrow>
     \<exists>ph. sys_tasks s' = (sys_tasks s)(i := ph) \<and> phase_rank ph < phase_rank (sys_tasks s i)"
  by (cases "sys_tasks s i")
    (auto simp: task_step_def phase_updates split: prod.splits sum.splits if_splits refresh_kind.splits)

lemma task_step_None:
  "task_step E i s = None \<longleftrightarrow>
     at_rest (sys_tasks s i) \<or> (\<exists>k. sys_tasks s i = Waiting k) \<and> sys_lock s \<noteq> None"
  by (cases "sys_tasks s i")
    (auto simp: task_step_def split: prod.splits sum.splits if_splits refresh_kind.splits)

fun run_task ::
  "('u, 'jws, 'key, 'claims, 'jwks, 'w) env \<Rightarrow> nat \<Rightarrow> nat \<Rightarrow> ('u, 'jwks, 'w) refresh_system \<Rightarrow>
   ('u, 'jwks, 'w) refresh_system" where
  "run_task E i 0 s = s"
| "run_task E i (Suc n) s = (case task_step E i s of None \<Rightarrow> s | Some s' \<Rightarrow> run_task E i n s')"

lemma run_task_finished: "sys_tasks s i = Finished r \<Longrightarrow> run_task E i n s = s"
  by (cases n) (auto simp: task_step_def)

lemma run_next: "task_step E i s = Some s' \<Longrightarrow> run_task E i (Suc n) s = run_task E i n s'"
  by simp

lemma run_failing:
  assumes "sys_tasks s i = Failing k e"
  shows "run_task E i (Suc (Suc n)) s =
    (case (case k of Forced \<Rightarrow> (Inl e, (sys_provider s, sys_world s))
           | Automatic \<Rightarrow>
               metadata_after_refresh_error (env_runtime E) e (sys_provider s, sys_world s)) of
       (r, (p, w)) \<Rightarrow> release_with i (Finished r) (s\<lparr>sys_provider := p, sys_world := w\<rparr>))"
  using assms
  by (auto simp: task_step_def run_task_finished phase_updates metadata_after_refresh_error_def
      split: refresh_kind.splits prod.splits)

lemma run_fetched:
  assumes "sys_tasks s i = Fetched k d jwks"
  shows "run_task E i (Suc n) s =
    (case publish_replacement E d jwks (sys_provider s, sys_world s) of (p, w) \<Rightarrow>
       release_with i (Finished (Inr (disc_metadata d))) (s\<lparr>sys_provider := p, sys_world := w\<rparr>))"
  using assms by (auto simp: task_step_def run_task_finished phase_updates split: prod.splits)

lemma run_filling:
  assumes "sys_tasks s i = Filling k d jwks"
  shows "run_task E i (Suc n) s =
    (case jwks_keys (env_jose E) jwks (sys_world s) of
       (Inl e, w) \<Rightarrow> run_task E i n (put_phase i (Failing k (Jose e)) (s\<lparr>sys_world := w\<rparr>))
     | (Inr _, w) \<Rightarrow> run_task E i n (put_phase i (Fetched k d jwks) (s\<lparr>sys_world := w\<rparr>)))"
  using assms by (auto simp: task_step_def split: prod.splits sum.splits)

declare run_task.simps(2) [simp del]

text \<open>What a task that holds the lock and fetches ends with, if nothing comes in between.\<close>

lemma run_fetching:
  assumes "sys_tasks s i = Fetching k (sys_provider s)"
  shows "run_task E i (Suc (Suc (Suc (Suc n)))) s =
    (case (case refresh_metadata_from E (sys_provider s) (sys_provider s, sys_world s) of
             (Inr m, u) \<Rightarrow> (Inr m, u)
           | (Inl e, u) \<Rightarrow> (case k of Forced \<Rightarrow> (Inl e, u)
                           | Automatic \<Rightarrow> metadata_after_refresh_error (env_runtime E) e u)) of
       (r, (p, w)) \<Rightarrow> release_with i (Finished r) (s\<lparr>sys_provider := p, sys_world := w\<rparr>))"
proof -
  let ?p = "sys_provider s"
  obtain r w where d: "discover_from E (metadata_issuer (ps_metadata ?p)) (sys_world s) = (r, w)" by fastforce
  show ?thesis
  proof (cases r)
    case (Inl e)
    have "task_step E i s = Some (put_phase i (Failing k e) (s\<lparr>sys_world := w\<rparr>))"
      using assms d Inl by (simp add: task_step_def)
    then show ?thesis using d Inl
      by (simp add: run_next run_failing put_phase_def release_with_def refresh_metadata_from_def
          fetch_replacement_def binds_def on_snd_def split: refresh_kind.splits prod.splits)
  next
    case (Inr d')
    show ?thesis
    proof (cases "jwks_uri (disc_metadata d') = jwks_uri (ps_metadata ?p)")
      case True
      then have "task_step E i s = Some (put_phase i (Fetched k d' (ps_jwks ?p)) (s\<lparr>sys_world := w\<rparr>))"
        using assms d Inr by (simp add: task_step_def)
      then show ?thesis using d Inr True
        by (simp add: run_next run_fetched put_phase_def release_with_def refresh_metadata_from_def
            fetch_replacement_def binds_def on_snd_def split: prod.splits)
    next
      case False
      then have "task_step E i s =
          Some (put_phase i (Filling k d' (new_jwks E (disc_metadata d'))) (s\<lparr>sys_world := w\<rparr>))"
        using assms d Inr by (simp add: task_step_def)
      then show ?thesis using d Inr False
        by (cases "jwks_keys (env_jose E) (new_jwks E (disc_metadata d')) w")
          (auto simp: run_next run_filling run_fetched run_failing put_phase_def release_with_def
            refresh_metadata_from_def fetch_replacement_def binds_def on_snd_def map_errs_def Let_def
            split: refresh_kind.splits prod.splits sum.splits)
    qed
  qed
qed

text \<open>An automatic refresh from its start, if nothing comes in between.\<close>

lemma run_automatic:
  assumes free: "sys_lock s = None"
  shows "run_task E i 8 (start_task Automatic i s) =
    (case refresh_metadata_if_stale E (sys_provider s, sys_world s) of (r, (p, w)) \<Rightarrow>
       release_with i (Finished r) (s\<lparr>sys_provider := p, sys_world := w\<rparr>))"
proof -
  let ?p = "sys_provider s"
  obtain b w1 where b: "metadata_needs_refresh (env_runtime E) ?p (sys_world s) = (b, w1)" by fastforce
  obtain b' w2 where b': "metadata_needs_refresh (env_runtime E) ?p w1 = (b', w2)" by fastforce
  let ?s1 = "s\<lparr>sys_world := w1, sys_tasks := (sys_tasks s)(i := Waiting Automatic)\<rparr>"
  let ?s2 = "?s1\<lparr>sys_tasks := (sys_tasks s)(i := Locked Automatic), sys_lock := Some i\<rparr>"
  let ?s3 = "?s2\<lparr>sys_tasks := (sys_tasks s)(i := SecondCheck ?p)\<rparr>"
  let ?s4 = "?s3\<lparr>sys_world := w2, sys_tasks := (sys_tasks s)(i := Fetching Automatic ?p)\<rparr>"
  have eight: "(8::nat) = Suc (Suc (Suc (Suc (Suc (Suc (Suc (Suc 0)))))))" by simp
  have first: "task_step E i (start_task Automatic i s) =
      Some (if b then ?s1 else release_with i (Finished (Inr (ps_metadata ?p))) (s\<lparr>sys_world := w1\<rparr>))"
    using b free by (simp add: task_step_def start_task_def phase_updates)
  have more: "task_step E i ?s1 = Some ?s2" "task_step E i ?s2 = Some ?s3"
    "task_step E i ?s3 = Some (if b' then ?s4
       else release_with i (Finished (Inr (ps_metadata ?p))) (s\<lparr>sys_world := w2\<rparr>))"
    using b' free by (simp_all add: task_step_def phase_updates)
  have last: "run_task E i (Suc (Suc (Suc (Suc 0)))) ?s4 =
      (case (case refresh_metadata_from E ?p (?p, w2) of (Inr m, u) \<Rightarrow> (Inr m, u)
           | (Inl e, u) \<Rightarrow> metadata_after_refresh_error (env_runtime E) e u) of
       (r, (p, w)) \<Rightarrow> release_with i (Finished r) (s\<lparr>sys_provider := p, sys_world := w\<rparr>))"
    using run_fetching [of ?s4 i Automatic E 0]
    by (simp only: refresh_kind.case) (simp add: release_with_def)
  show ?thesis
    unfolding eight run_next [OF first]
    using b b' run_next [OF more(1)] run_next [OF more(2)] run_next [OF more(3)] last
    by (auto simp: refresh_metadata_if_stale_def run_task_finished release_with_def)
qed

lemma run_forced:
  assumes "sys_lock s = None"
  shows "run_task E i 6 (start_task Forced i s) =
    (case refresh_metadata E (sys_provider s, sys_world s) of (r, (p, w)) \<Rightarrow>
       release_with i (Finished r) (s\<lparr>sys_provider := p, sys_world := w\<rparr>))"
proof -
  let ?p = "sys_provider s"
  let ?s1 = "s\<lparr>sys_tasks := (sys_tasks s)(i := Locked Forced), sys_lock := Some i\<rparr>"
  let ?s2 = "?s1\<lparr>sys_tasks := (sys_tasks s)(i := Fetching Forced ?p)\<rparr>"
  have six: "(6::nat) = Suc (Suc (Suc (Suc (Suc (Suc 0)))))" by simp
  have steps: "task_step E i (start_task Forced i s) = Some ?s1" "task_step E i ?s1 = Some ?s2"
    using assms by (simp_all add: task_step_def start_task_def phase_updates)
  have "run_task E i (Suc (Suc (Suc (Suc 0)))) ?s2 =
      (case refresh_metadata_from E ?p (?p, sys_world s) of (r, (p, w)) \<Rightarrow>
        release_with i (Finished r) (s\<lparr>sys_provider := p, sys_world := w\<rparr>))"
    using run_fetching [of ?s2 i Forced E 0]
    by (auto simp: release_with_def split: prod.splits sum.splits)
  then show ?thesis
    unfolding six run_next [OF steps(1)] run_next [OF steps(2)] by (simp add: refresh_metadata_def)
qed

text \<open>How many own steps the running tasks have left, at most.\<close>

definition running :: "('u, 'jwks, 'w) refresh_system \<Rightarrow> nat set" where
  "running s = {i. \<not> at_rest (sys_tasks s i)}"

definition steps_left :: "('u, 'jwks, 'w) refresh_system \<Rightarrow> nat" where
  "steps_left s = (\<Sum>i \<in> running s. phase_rank (sys_tasks s i))"

definition some_task_steps ::
  "('u, 'jws, 'key, 'claims, 'jwks, 'w) env \<Rightarrow> ('u, 'jwks, 'w) refresh_system \<Rightarrow>
   ('u, 'jwks, 'w) refresh_system \<Rightarrow> bool" where
  "some_task_steps E s s' \<longleftrightarrow> (\<exists>i. task_step E i s = Some s')"

lemma rank_zero: "phase_rank ph = 0 \<longleftrightarrow> at_rest ph"
  by (cases ph) auto

lemma rank_le: "phase_rank ph \<le> 8"
  by (cases ph) auto

lemma steps_left_le: "finite (running s) \<Longrightarrow> steps_left s \<le> 8 * card (running s)"
  using sum_bounded_above [of "running s" "\<lambda>i. phase_rank (sys_tasks s i)" 8]
  by (simp add: steps_left_def rank_le)

lemma steps_left_less:
  assumes "finite (running s)" and "task_step E i s = Some s'"
  shows "running s' \<subseteq> running s \<and> steps_left s' < steps_left s"
proof -
  obtain ph where ph: "sys_tasks s' = (sys_tasks s)(i := ph)" "phase_rank ph < phase_rank (sys_tasks s i)"
    using task_step_rank [OF assms(2)] by blast
  then have i: "i \<in> running s" using rank_zero [of "sys_tasks s i"] by (auto simp: running_def)
  then have sub: "running s' \<subseteq> running s" using ph by (auto simp: running_def split: if_splits)
  have "steps_left s' = (\<Sum>j \<in> running s. phase_rank (sys_tasks s' j))"
    unfolding steps_left_def
    by (rule sum.mono_neutral_left [OF assms(1) sub]) (auto simp: running_def rank_zero)
  also have "\<dots> < steps_left s"
    unfolding steps_left_def
    by (rule sum_strict_mono_ex1 [OF assms(1)]) (use i ph in auto)
  finally show ?thesis using sub by blast
qed

lemma steps_bounded:
  "(some_task_steps E ^^ n) s s' \<Longrightarrow> finite (running s) \<Longrightarrow> n + steps_left s' \<le> steps_left s"
proof (induction n arbitrary: s)
  case (Suc n)
  from Suc.prems(1) obtain s1 where s1: "some_task_steps E s s1" "(some_task_steps E ^^ n) s1 s'"
    by (blast elim: relpowp_Suc_E2)
  then obtain i where "task_step E i s = Some s1" by (auto simp: some_task_steps_def)
  from steps_left_less [OF Suc.prems(2) this] Suc.IH [OF s1(2)] Suc.prems(2) finite_subset
  show ?case by fastforce
qed simp

text \<open>A task waits only for the task that holds the lock, and that one can go on.\<close>

lemma someone_steps:
  assumes "system_ok E issuer s" and "i \<in> running s"
  shows "\<exists>s'. some_task_steps E s s'"
proof (cases "task_step E i s")
  case None
  with assms(2) obtain j where j: "sys_lock s = Some j" by (auto simp: task_step_None running_def)
  with assms(1) have "holds_lock (sys_tasks s j)" by (simp add: system_ok_def)
  then have "task_step E j s \<noteq> None"
    unfolding task_step_None by (cases "sys_tasks s j") auto
  then show ?thesis by (auto simp: some_task_steps_def)
qed (auto simp: some_task_steps_def)

lemma run_to_rest:
  "system_ok E issuer s \<Longrightarrow> finite (running s) \<Longrightarrow> \<exists>s'. (some_task_steps E)\<^sup>*\<^sup>* s s' \<and> running s' = {}"
proof (induction "steps_left s" arbitrary: s rule: less_induct)
  case less
  show ?case
  proof (cases "running s = {}")
    case False
    then obtain j where "j \<in> running s" by blast
    from someone_steps [OF less.prems(1) this] obtain s1 i where s1: "task_step E i s = Some s1"
      unfolding some_task_steps_def by blast
    note smaller = steps_left_less [OF less.prems(2) s1]
    then have "finite (running s1)" using less.prems(2) finite_subset by blast
    with less.hyps [of s1] smaller task_step_keeps [OF less.prems(1) s1] obtain s' where
      "(some_task_steps E)\<^sup>*\<^sup>* s1 s'" "running s' = {}" by blast
    with s1 show ?thesis
      by (metis converse_rtranclp_into_rtranclp some_task_steps_def)
  qed blast
qed

lemma finite_running:
  "refresh_reachable E p w s \<Longrightarrow> finite (running s)"
proof (induction rule: refresh_reachable.induct)
  case initially
  then show ?case by (simp add: running_def refresh_start_def)
next
  case (later s s')
  from later.hyps(2) show ?case
  proof (cases rule: refresh_steps.cases)
    case (start i k)
    then have "running s' \<subseteq> insert i (running s)" by (auto simp: start_task_def running_def phase_updates)
    then show ?thesis using later.IH by (rule finite_subset [OF _ finite.insertI])
  next
    case (proceed i)
    from steps_left_less [OF later.IH this] show ?thesis
      by (intro finite_subset [OF _ later.IH]) simp
  next
    case (dropped i)
    then have "running s' \<subseteq> running s" by (auto simp: drop_task_def running_def phase_updates split: if_splits)
    then show ?thesis by (rule finite_subset [OF _ later.IH])
  next
    case (configure st q v)
    with later.IH show ?thesis by (simp add: running_def)
  next
    case (elsewhere v)
    with later.IH show ?thesis by (simp add: running_def)
  qed
qed

section \<open>Properties\<close>

text \<open>
  C10. Whatever tasks, setters, dropped futures and changes of the world interleave, the published
  snapshot is always consistent: its deadlines satisfy the invariant, its metadata is that of the
  issuer the client was made for, with https endpoints, and its key set is the one of its own
  \<^verbatim>\<open>jwks_uri\<close>. What a refresh returns is metadata of that issuer too.
\<close>

theorem snapshots_stay_consistent:
  assumes "refresh_reachable E p w s" and "provider_ok p"
    and "snapshot_ok E issuer (ps_metadata p) (ps_jwks p)"
  shows "provider_ok (sys_provider s) \<and>
    snapshot_ok E issuer (ps_metadata (sys_provider s)) (ps_jwks (sys_provider s)) \<and>
    (\<forall>i m. sys_tasks s i = Finished (Inr m) \<longrightarrow> metadata_issuer m = issuer \<and> metadata_ok (env_url E) m)"
  using reachable_ok [OF assms] unfolding system_ok_def
  by (metis phase_ok.simps(6) snapshot_ok_def)

text \<open>Two tasks of which one is inside the critical section.\<close>

definition example_system :: "(bytes, bytes, script) refresh_system" where
  "example_system =
     \<lparr>sys_provider = example_provider, sys_world = example_world [] 5, sys_lock = Some 0,
      sys_tasks = (\<lambda>_. Idle)(0 := Locked Automatic, 1 := Waiting Forced)\<rparr>"

lemma example_snapshot_ok:
  "snapshot_ok (example_env docs) \<lparr>issuer_as_url = ''https://op'', issuer_as_str = ''https://op''\<rparr>
     (ps_metadata example_provider) (ps_jwks example_provider)"
  by (simp add: snapshot_ok_def metadata_ok_def example_provider_def example_metadata_def new_jwks_def
      example_schemes)

lemma example_system_reachable:
  "refresh_reachable (example_env docs) example_provider (example_world [] 5) example_system"
proof -
  let ?E = "example_env docs" and ?w = "example_world [] 5"
  let ?s0 = "refresh_start example_provider ?w"
  let ?s1 = "start_task Automatic 0 ?s0"
  let ?s2 = "start_task Forced 1 ?s1"
  let ?s3 = "put_phase 0 (Waiting Automatic) ?s2"
  have due: "metadata_needs_refresh scripted example_provider ?w = (True, ?w)"
    by (simp add: metadata_needs_refresh_def needs_refresh_at_def example_provider_def example_world_def)
  have "refresh_reachable ?E example_provider ?w ?s1"
    by (rule later [OF initially start]) (simp add: refresh_start_def)
  then have "refresh_reachable ?E example_provider ?w ?s2"
    by (rule later [OF _ start]) (simp add: refresh_start_def start_task_def phase_updates)
  then have "refresh_reachable ?E example_provider ?w ?s3"
    by (rule later [OF _ proceed [where i = 0]])
      (simp add: task_step_def refresh_start_def start_task_def phase_updates due fun_upd_twist)
  then show ?thesis
    by (rule later [OF _ proceed [where i = 0]])
      (simp add: task_step_def refresh_start_def start_task_def phase_updates example_system_def fun_upd_twist)
qed

theorem snapshots_stay_consistent_witness:
  "provider_ok (sys_provider example_system) \<and>
    snapshot_ok (example_env []) \<lparr>issuer_as_url = ''https://op'', issuer_as_str = ''https://op''\<rparr>
      (ps_metadata (sys_provider example_system)) (ps_jwks (sys_provider example_system))"
  using snapshots_stay_consistent [OF example_system_reachable [of "[]"] example_provider_ok
      example_snapshot_ok [of "[]"]] by blast

text \<open>
  C11. Refreshes are single-flight: at most one task is past the lock at any time, and it is the one
  the lock is recorded for; and while a task fetches a replacement, the metadata and the keys it
  started from are still the published ones, so that a refresh never overwrites another's result.
\<close>

theorem refresh_is_single_flight:
  assumes "refresh_reachable E p w s" and "provider_ok p"
    and "snapshot_ok E issuer (ps_metadata p) (ps_jwks p)" and "holds_lock (sys_tasks s i)"
  shows "sys_lock s = Some i \<and> (\<forall>j. holds_lock (sys_tasks s j) \<longrightarrow> j = i) \<and>
    (\<forall>k q. sys_tasks s i = Fetching k q \<longrightarrow>
       ps_metadata q = ps_metadata (sys_provider s) \<and> ps_jwks q = ps_jwks (sys_provider s))"
proof -
  note ok = reachable_ok [OF assms(1-3)]
  from ok have lock: "holds_lock (sys_tasks s j) \<longleftrightarrow> sys_lock s = Some j" for j
    by (simp add: system_ok_def)
  with assms(4) task_phase_ok [OF ok, of i] show ?thesis by auto
qed

theorem refresh_is_single_flight_witness:
  "sys_lock example_system = Some 0 \<and> {j. holds_lock (sys_tasks example_system j)} = {0}"
proof -
  have "holds_lock (sys_tasks example_system 0)" by (simp add: example_system_def)
  from refresh_is_single_flight [OF example_system_reachable [of "[]"] example_provider_ok
      example_snapshot_ok [of "[]"] this] this show ?thesis by blast
qed

text \<open>
  C12. Publication is atomic and takes nothing back: a step of a refresh leaves the settings of the
  client as they are at that moment (a setter that ran during the fetch is not undone), and it
  replaces metadata and keys together, by what that task fetched, or leaves both alone.
\<close>

theorem publication_is_atomic:
  assumes "refresh_reachable E p w s" and "provider_ok p"
    and "snapshot_ok E issuer (ps_metadata p) (ps_jwks p)" and "task_step E i s = Some s'"
  shows "provider_settings (sys_provider s') = provider_settings (sys_provider s) \<and>
    (ps_metadata (sys_provider s') = ps_metadata (sys_provider s) \<and>
       ps_jwks (sys_provider s') = ps_jwks (sys_provider s) \<or>
     (\<exists>k d jwks. sys_tasks s i = Fetched k d jwks \<and> sys_lock s = Some i \<and>
        ps_metadata (sys_provider s') = disc_metadata d \<and> ps_jwks (sys_provider s') = jwks \<and>
        sys_tasks s' i = Finished (Inr (disc_metadata d))))"
proof -
  from reachable_ok [OF assms(1-3)] have p: "provider_ok (sys_provider s)"
    and lock: "holds_lock (sys_tasks s i) \<longleftrightarrow> sys_lock s = Some i" by (simp_all add: system_ok_def)
  note publish = publish_facts [of E _ _ "sys_provider s" "sys_world s"]
  note failed = after_error_at_keeps [OF p]
  show ?thesis
    using assms(4) lock
    by (cases "sys_tasks s i")
      (auto simp: task_step_def phase_updates dest: publish failed
        split: prod.splits sum.splits if_splits refresh_kind.splits)
qed

theorem publication_is_atomic_witness:
  "\<exists>s'. task_step (example_env []) 0 example_system = Some s' \<and>
     provider_settings (sys_provider s') = provider_settings (sys_provider example_system)"
proof -
  have "task_step (example_env []) 0 example_system =
      Some (put_phase 0 (SecondCheck example_provider) example_system)"
    by (simp add: task_step_def example_system_def)
  from publication_is_atomic [OF example_system_reachable [of "[]"] example_provider_ok
      example_snapshot_ok [of "[]"] this] this show ?thesis by blast
qed

text \<open>
  C13. Refreshes end: in every reachable state finitely many tasks run; however their own steps
  interleave, they make at most eight each, so no task can keep going round; and no state is stuck,
  since a task waits only for the holder of the lock: the tasks can always be run to their end.
\<close>

theorem refreshes_end:
  assumes "refresh_reachable E p w s" and "provider_ok p"
    and "snapshot_ok E issuer (ps_metadata p) (ps_jwks p)"
  shows "finite (running s) \<and>
    (\<forall>n s'. (some_task_steps E ^^ n) s s' \<longrightarrow> n \<le> 8 * card (running s)) \<and>
    (\<forall>s'. (some_task_steps E)\<^sup>*\<^sup>* s s' \<longrightarrow> running s' \<noteq> {} \<longrightarrow> (\<exists>s''. some_task_steps E s' s'')) \<and>
    (\<exists>s'. (some_task_steps E)\<^sup>*\<^sup>* s s' \<and> running s' = {})"
proof -
  note ok = reachable_ok [OF assms] and fin = finite_running [OF assms(1)]
  have bound: "n \<le> 8 * card (running s)" if "(some_task_steps E ^^ n) s s'" for n s'
    using steps_bounded [OF that fin] steps_left_le [OF fin] by simp
  have "system_ok E issuer s'" if "(some_task_steps E)\<^sup>*\<^sup>* s s'" for s'
    using that ok
  proof (induction rule: rtranclp_induct)
    case (step y z)
    then show ?case using task_step_keeps unfolding some_task_steps_def by blast
  qed
  with someone_steps have "\<exists>s''. some_task_steps E s' s''"
    if "(some_task_steps E)\<^sup>*\<^sup>* s s'" "running s' \<noteq> {}" for s' using that by blast
  with bound fin run_to_rest [OF ok fin] show ?thesis by blast
qed

theorem refreshes_end_witness:
  "\<exists>s'. (some_task_steps (example_env []))\<^sup>*\<^sup>* example_system s' \<and> running s' = {}"
  using refreshes_end [OF example_system_reachable [of "[]"] example_provider_ok
      example_snapshot_ok [of "[]"]] by blast

text \<open>
  C14. The step-by-step refresh implements the operation on the snapshot that the other theories use:
  run without interference, an automatic refresh ends after at most eight steps and a forced one
  after at most six with the result, the snapshot and the world of \<open>refresh_metadata_if_stale\<close> and
  \<open>refresh_metadata\<close>, and with the lock free.
\<close>

theorem solo_refresh_refines:
  assumes "sys_lock s = None"
  shows "run_task E i 8 (start_task Automatic i s) =
      (case refresh_metadata_if_stale E (sys_provider s, sys_world s) of (r, (p, w)) \<Rightarrow>
         release_with i (Finished r) (s\<lparr>sys_provider := p, sys_world := w\<rparr>)) \<and>
    run_task E i 6 (start_task Forced i s) =
      (case refresh_metadata E (sys_provider s, sys_world s) of (r, (p, w)) \<Rightarrow>
         release_with i (Finished r) (s\<lparr>sys_provider := p, sys_world := w\<rparr>))"
  using run_automatic [OF assms] run_forced [OF assms] by blast

theorem solo_refresh_refines_witness:
  "\<exists>p w. run_task (example_env []) 0 8
      (start_task Automatic 0 (refresh_start example_provider (example_world [] 5))) =
      release_with 0 (Finished (Inr example_metadata))
        (refresh_start example_provider (example_world [] 5)\<lparr>sys_provider := p, sys_world := w\<rparr>)"
proof -
  let ?s = "refresh_start example_provider (example_world [] 5)"
  have "sys_lock ?s = None" by (simp add: refresh_start_def)
  note solo = solo_refresh_refines [OF this, of "example_env []" 0, THEN conjunct1]
  obtain p w where "refresh_metadata_if_stale (example_env []) (sys_provider ?s, sys_world ?s) =
      (Inr example_metadata, (p, w))"
    using example_refresh_falls_back [of "[]"] by (auto simp: refresh_start_def)
  with solo have "run_task (example_env []) 0 8 (start_task Automatic 0 ?s) =
      release_with 0 (Finished (Inr example_metadata)) (?s\<lparr>sys_provider := p, sys_world := w\<rparr>)" by simp
  then show ?thesis by blast
qed

end
