(* ===== verification/Login_Concurrency.thy ===== *)
theory Login_Concurrency
  imports Refresh_Concurrency Client_Safety
begin

text \<open>
  src/client.rs, \<^verbatim>\<open>Client::complete_authorization\<close> as tasks that run concurrently: many callbacks on one
  \<^verbatim>\<open>Client\<close> and one in-memory store, between refreshes, setters, other uses of the store and dropped
  futures. A task is at one of the points between two of its accesses to something shared, and it
  refreshes the metadata as the task of the same number in \<open>Refresh_Concurrency\<close>, step by step.
\<close>

section \<open>Tasks\<close>

text \<open>
  \<open>Taking\<close> removes the entry next, \<open>Reading\<close> reads the clock for it, \<open>Resuming\<close> has the pending request
  and starts the refresh, \<open>Refreshing\<close> runs it, \<open>Checking\<close> reads the clock for the pending request
  and prepares the token request, \<open>Posting\<close> has it in flight. The bytes are the value that was taken.
\<close>

datatype 'u login_phase =
    Absent
  | Taking authorization_response
  | Reading authorization_response in_memory_entry
  | Resuming authorization_response bytes pending_auth_request
  | Refreshing authorization_response bytes pending_auth_request
  | Checking authorization_response bytes pending_auth_request "'u provider_metadata"
  | Posting authorization_response pending_auth_request "'u built_token_request"
  | Ended "failure + completed_authorization"

text \<open>
  The last three fields are a history: the entries that were created in the store, the queries of the
  callbacks, and for each token request that was issued the key and the value that was taken for it.
  No step reads them.
\<close>

record ('u, 'jwks, 'w) login_system =
  lg_refresh :: "('u, 'jwks, 'w) refresh_system"
  lg_store :: in_memory_kv_store
  lg_phases :: "nat \<Rightarrow> 'u login_phase"
  lg_created :: "(bytes \<times> bytes) list"
  lg_queries :: "bytes list"
  lg_issued :: "((bytes \<times> bytes) \<times> http_request) list"

text \<open>The fields of \<^verbatim>\<open>Client\<close> that never change.\<close>

type_synonym credentials = "client_id \<times> client_secret option"

definition client_of :: "credentials \<Rightarrow> ('u, 'jwks) provider_state \<Rightarrow> ('u, 'jwks) client" where
  "client_of cr p = \<lparr>cl_provider = p, cl_client_id = fst cr, cl_client_secret = snd cr\<rparr>"

definition put_login ::
  "nat \<Rightarrow> 'u login_phase \<Rightarrow> ('u, 'jwks, 'w) login_system \<Rightarrow> ('u, 'jwks, 'w) login_system" where
  "put_login i ph s = s\<lparr>lg_phases := (lg_phases s)(i := ph)\<rparr>"

definition lg_world :: "('u, 'jwks, 'w) login_system \<Rightarrow> 'w" where
  "lg_world s = sys_world (lg_refresh s)"

definition with_world :: "'w \<Rightarrow> ('u, 'jwks, 'w) login_system \<Rightarrow> ('u, 'jwks, 'w) login_system" where
  "with_world w s = s\<lparr>lg_refresh := (lg_refresh s)\<lparr>sys_world := w\<rparr>\<rparr>"

section \<open>The steps of a task\<close>

text \<open>The end of \<^verbatim>\<open>take_pending_request\<close>, with the clock's reading.\<close>

definition after_take ::
  "('u, 'jws, 'key, 'claims, 'jwks, 'w) env \<Rightarrow> authorization_response \<Rightarrow> bytes option \<Rightarrow> 'u login_phase" where
  "after_take E response raw =
     (case raw of
        None \<Rightarrow> Ended (Inl (Err (AuthorizationResponseError (Missing ''state''))))
      | Some v \<Rightarrow>
          (case from_json_slice (env_json E) (decode_pending (env_json E)) v of
             Inl e \<Rightarrow> Ended (Inl (Err (Json e)))
           | Inr pending \<Rightarrow> Resuming response v pending))"

text \<open>\<^verbatim>\<open>complete_authorization_from_pending\<close> between the check of the pending request and the POST.\<close>

definition prepare_exchange ::
  "('u, 'jws, 'key, 'claims, 'jwks, 'w) env \<Rightarrow> ('u, 'jwks) client \<Rightarrow> authorization_response \<Rightarrow>
   pending_auth_request \<Rightarrow> 'u provider_metadata \<Rightarrow> failure + 'u built_token_request" where
  "prepare_exchange E c response pending m =
     bindr (map_errr Err (check_callback_issuer m response)) (\<lambda>_.
     bindr (map_errr Err (response_code_or_error response (response_state response))) (\<lambda>code.
     bindr (map_errr Err (exchange_code_with_metadata c code m)) (\<lambda>builder.
     code_request_build (env_url E) (env_form E) (env_base64 E) (set_from_pending pending builder))))"

definition completed ::
  "authorization_response \<Rightarrow> pending_auth_request \<Rightarrow> oidc_error + token_response \<Rightarrow>
   failure + completed_authorization" where
  "completed response pending r =
     mapr (\<lambda>t. \<lparr>ca_token_response = t, ca_pending = pending, ca_callback_state = response_state response\<rparr>)
       (map_errr Err r)"

definition login_step ::
  "('u, 'jws, 'key, 'claims, 'jwks, 'w) env \<Rightarrow> credentials \<Rightarrow> nat \<Rightarrow> ('u, 'jwks, 'w) login_system \<Rightarrow>
   ('u, 'jwks, 'w) login_system option" where
  "login_step E cr i s =
     (case lg_phases s i of
        Absent \<Rightarrow> None
      | Ended r \<Rightarrow> None
      | Taking response \<Rightarrow>
          (case take_entry (pending_key_for (response_state response)) (lg_store s) of
             (Inl e, store) \<Rightarrow>
               Some (put_login i (Ended (Inl (Err (oidc_error_from_kv e)))) (s\<lparr>lg_store := store\<rparr>))
           | (Inr None, store) \<Rightarrow> Some (put_login i (after_take E response None) (s\<lparr>lg_store := store\<rparr>))
           | (Inr (Some entry), store) \<Rightarrow>
               Some (put_login i (Reading response entry) (s\<lparr>lg_store := store\<rparr>)))
      | Reading response entry \<Rightarrow>
          (case instant_now (env_runtime E) (lg_world s) of
             (now, w) \<Rightarrow>
               Some (put_login i (after_take E response (unexpired_value now entry)) (with_world w s)))
      | Resuming response raw pending \<Rightarrow>
          Some (put_login i (Refreshing response raw pending)
            (s\<lparr>lg_refresh := start_task Automatic i (lg_refresh s)\<rparr>))
      | Refreshing response raw pending \<Rightarrow>
          (case sys_tasks (lg_refresh s) i of
             Finished (Inl e) \<Rightarrow> Some (put_login i (Ended (Inl (Err e))) s)
           | Finished (Inr m) \<Rightarrow> Some (put_login i (Checking response raw pending m) s)
           | _ \<Rightarrow> map_option (\<lambda>rs. s\<lparr>lg_refresh := rs\<rparr>) (task_step E i (lg_refresh s)))
      | Checking response raw pending m \<Rightarrow>
          (case validate_pending_request (env_runtime E) pending (response_state response) (lg_world s) of
             (Inl e, w) \<Rightarrow> Some (put_login i (Ended (Inl (Err e))) (with_world w s))
           | (Inr _, w) \<Rightarrow>
               (case prepare_exchange E (client_of cr (sys_provider (lg_refresh s))) response pending m of
                  Inl f \<Rightarrow> Some (put_login i (Ended (Inl f)) (with_world w s))
                | Inr built \<Rightarrow>
                    Some (put_login i (Posting response pending built) (with_world w
                      (s\<lparr>lg_issued := ((pending_key_for (response_state response), raw), built_http built) #
                         lg_issued s\<rparr>)))))
      | Posting response pending built \<Rightarrow>
          (case post_token_request E built (lg_world s) of
             (r, w) \<Rightarrow> Some (put_login i (Ended (completed response pending r)) (with_world w s))))"

fun active :: "'u login_phase \<Rightarrow> bool" where
  "active Absent = False"
| "active (Ended r) = False"
| "active ph = True"

fun refreshing :: "'u login_phase \<Rightarrow> bool" where
  "refreshing (Refreshing response raw pending) = True"
| "refreshing ph = False"

text \<open>\<^verbatim>\<open>complete_authorization\<close> is called with the query of a callback.\<close>

definition begin_login ::
  "('u, 'jws, 'key, 'claims, 'jwks, 'w) env \<Rightarrow> bytes \<Rightarrow> nat \<Rightarrow> ('u, 'jwks, 'w) login_system \<Rightarrow>
   ('u, 'jwks, 'w) login_system" where
  "begin_login E q i s =
     put_login i (case parse_authorization_response (env_form E) q of
        Inl e \<Rightarrow> Ended (Inl (Err (AuthorizationResponseError e)))
      | Inr response \<Rightarrow> Taking response) (s\<lparr>lg_queries := q # lg_queries s\<rparr>)"

text \<open>The future of a task is dropped: at the store, in the refresh where that awaits, or at the POST.\<close>

definition droppable :: "nat \<Rightarrow> ('u, 'jwks, 'w) login_system \<Rightarrow> bool" where
  "droppable i s \<longleftrightarrow>
     (case lg_phases s i of
        Taking response \<Rightarrow> True
      | Refreshing response raw pending \<Rightarrow> awaits (sys_tasks (lg_refresh s) i)
      | Posting response pending built \<Rightarrow> True
      | _ \<Rightarrow> False)"

definition drop_login :: "nat \<Rightarrow> ('u, 'jwks, 'w) login_system \<Rightarrow> ('u, 'jwks, 'w) login_system" where
  "drop_login i s =
     put_login i Absent
       (if refreshing (lg_phases s i) then s\<lparr>lg_refresh := drop_task i (lg_refresh s)\<rparr> else s)"

section \<open>The system\<close>

text \<open>
  Besides the tasks: an entry is put into the store (a login that starts, or anything else), one is
  removed, and everything of \<open>Refresh_Concurrency\<close> that is not a step of a login's own refresh.
\<close>

inductive login_steps ::
  "('u, 'jws, 'key, 'claims, 'jwks, 'w) env \<Rightarrow> credentials \<Rightarrow> ('u, 'jwks, 'w) login_system \<Rightarrow>
   ('u, 'jwks, 'w) login_system \<Rightarrow> bool" for E cr where
  callback: "\<not> active (lg_phases s i) \<Longrightarrow> at_rest (sys_tasks (lg_refresh s) i) \<Longrightarrow>
    login_steps E cr s (begin_login E q i s)"
| proceed: "login_step E cr i s = Some s' \<Longrightarrow> login_steps E cr s s'"
| dropped: "droppable i s \<Longrightarrow> login_steps E cr s (drop_login i s)"
| stored: "put_if_absent now k v ttl (lg_store s) = (r, store) \<Longrightarrow>
    login_steps E cr s (s\<lparr>lg_store := store,
      lg_created := (if r = Inr True then [(k, v)] else []) @ lg_created s\<rparr>)"
| removed: "login_steps E cr s (s\<lparr>lg_store := snd (take_entry k (lg_store s))\<rparr>)"
| beside: "refresh_steps E (lg_refresh s) rs \<Longrightarrow>
    (\<And>i. active (lg_phases s i) \<Longrightarrow> sys_tasks rs i = sys_tasks (lg_refresh s) i) \<Longrightarrow>
    login_steps E cr s (s\<lparr>lg_refresh := rs\<rparr>)"

definition login_start :: "('u, 'jwks) provider_state \<Rightarrow> 'w \<Rightarrow> ('u, 'jwks, 'w) login_system" where
  "login_start p w =
     \<lparr>lg_refresh = refresh_start p w, lg_store = in_memory_new, lg_phases = (\<lambda>_. Absent),
      lg_created = [], lg_queries = [], lg_issued = []\<rparr>"

inductive login_reachable ::
  "('u, 'jws, 'key, 'claims, 'jwks, 'w) env \<Rightarrow> credentials \<Rightarrow> ('u, 'jwks) provider_state \<Rightarrow> 'w \<Rightarrow>
   ('u, 'jwks, 'w) login_system \<Rightarrow> bool" for E cr p w where
  initially: "login_reachable E cr p w (login_start p w)"
| later: "login_reachable E cr p w s \<Longrightarrow> login_steps E cr s s' \<Longrightarrow> login_reachable E cr p w s'"

lemma login_updates [simp]:
  "lg_refresh (put_login i ph s) = lg_refresh s" "lg_store (put_login i ph s) = lg_store s"
  "lg_phases (put_login i ph s) = (lg_phases s)(i := ph)" "lg_created (put_login i ph s) = lg_created s"
  "lg_issued (put_login i ph s) = lg_issued s" "lg_queries (put_login i ph s) = lg_queries s"
  "lg_refresh (with_world w s) = (lg_refresh s)\<lparr>sys_world := w\<rparr>" "lg_store (with_world w s) = lg_store s"
  "lg_phases (with_world w s) = lg_phases s" "lg_created (with_world w s) = lg_created s"
  "lg_issued (with_world w s) = lg_issued s" "lg_queries (with_world w s) = lg_queries s"
  by (simp_all add: put_login_def with_world_def)

text \<open>What a step of a task does, case by case.\<close>

lemma login_step_cases:
  assumes "login_step E cr i s = Some s'"
  obtains
    (refused) response x st f where "lg_phases s i = Taking response"
      "take_entry (pending_key_for (response_state response)) (lg_store s) = (x, st)" "\<And>e. x \<noteq> Inr (Some e)"
      "s' = put_login i (Ended (Inl f)) (s\<lparr>lg_store := st\<rparr>)"
  | (taken) response entry st where "lg_phases s i = Taking response"
      "take_entry (pending_key_for (response_state response)) (lg_store s) = (Inr (Some entry), st)"
      "s' = put_login i (Reading response entry) (s\<lparr>lg_store := st\<rparr>)"
  | (unread) response entry f w where "lg_phases s i = Reading response entry"
      "s' = put_login i (Ended (Inl f)) (with_world w s)"
  | (read) response entry pending w where "lg_phases s i = Reading response entry"
      "from_json_slice (env_json E) (decode_pending (env_json E)) (entry_value entry) = Inr pending"
      "s' = put_login i (Resuming response (entry_value entry) pending) (with_world w s)"
  | (resumed) response raw pending where "lg_phases s i = Resuming response raw pending"
      "s' = put_login i (Refreshing response raw pending)
         (s\<lparr>lg_refresh := start_task Automatic i (lg_refresh s)\<rparr>)"
  | (refresh) response raw pending rs where "lg_phases s i = Refreshing response raw pending"
      "task_step E i (lg_refresh s) = Some rs" "s' = s\<lparr>lg_refresh := rs\<rparr>"
  | (unrefreshed) response raw pending e where "lg_phases s i = Refreshing response raw pending"
      "sys_tasks (lg_refresh s) i = Finished (Inl e)" "s' = put_login i (Ended (Inl (Err e))) s"
  | (refreshed) response raw pending m where "lg_phases s i = Refreshing response raw pending"
      "sys_tasks (lg_refresh s) i = Finished (Inr m)" "s' = put_login i (Checking response raw pending m) s"
  | (rejected) response raw pending m f w where "lg_phases s i = Checking response raw pending m"
      "s' = put_login i (Ended (Inl f)) (with_world w s)"
  | (issued) response raw pending m u w built where "lg_phases s i = Checking response raw pending m"
      "validate_pending_request (env_runtime E) pending (response_state response) (lg_world s) = (Inr u, w)"
      "prepare_exchange E (client_of cr (sys_provider (lg_refresh s))) response pending m = Inr built"
      "s' = put_login i (Posting response pending built) (with_world w
         (s\<lparr>lg_issued := ((pending_key_for (response_state response), raw), built_http built) # lg_issued s\<rparr>))"
  | (posted) response pending built r w where "lg_phases s i = Posting response pending built"
      "post_token_request E built (lg_world s) = (r, w)"
      "s' = put_login i (Ended (completed response pending r)) (with_world w s)"
proof (cases "lg_phases s i")
  case (Taking response)
  with assms refused [of response] taken [of response] show thesis
    by (auto simp: login_step_def after_take_def split: prod.splits sum.splits option.splits)
next
  case (Reading response entry)
  with assms unread [of response entry] read [of response entry] show thesis
    by (auto simp: login_step_def after_take_def unexpired_value_def
        split: prod.splits sum.splits option.splits if_splits)
next
  case (Resuming response raw pending)
  with assms resumed show thesis by (simp add: login_step_def)
next
  case (Refreshing response raw pending)
  with assms refresh [of response raw pending] unrefreshed [of response raw pending]
    refreshed [of response raw pending]
  show thesis by (auto simp: login_step_def split: refresh_phase.splits sum.splits)
next
  case (Checking response raw pending m)
  with assms rejected [of response raw pending m] issued [of response raw pending m] show thesis
    by (auto simp: login_step_def split: prod.splits sum.splits)
next
  case (Posting response pending built)
  with assms posted show thesis by (auto simp: login_step_def split: prod.splits)
qed (use assms in \<open>simp_all add: login_step_def\<close>)

section \<open>Every value that was taken is used once\<close>

text \<open>
  The values in the store, in the hands of a task, and behind a token request are never more than
  were put in: each step that hands one on gives it up.
\<close>

fun holds_value :: "bytes \<times> bytes \<Rightarrow> 'u login_phase \<Rightarrow> bool" where
  "holds_value kv (Reading response entry) \<longleftrightarrow>
     kv = (pending_key_for (response_state response), entry_value entry)"
| "holds_value kv (Resuming response raw pending) \<longleftrightarrow> kv = (pending_key_for (response_state response), raw)"
| "holds_value kv (Refreshing response raw pending) \<longleftrightarrow> kv = (pending_key_for (response_state response), raw)"
| "holds_value kv (Checking response raw pending m) \<longleftrightarrow> kv = (pending_key_for (response_state response), raw)"
| "holds_value kv ph \<longleftrightarrow> False"

definition in_store :: "bytes \<times> bytes \<Rightarrow> in_memory_kv_store \<Rightarrow> nat" where
  "in_store kv st = (if map_option entry_value (kv_entries st (fst kv)) = Some (snd kv) then 1 else 0)"

definition held :: "bytes \<times> bytes \<Rightarrow> ('u, 'jwks, 'w) login_system \<Rightarrow> nat" where
  "held kv s = card {i. holds_value kv (lg_phases s i)}"

definition issued_for :: "bytes \<times> bytes \<Rightarrow> ('u, 'jwks, 'w) login_system \<Rightarrow> nat" where
  "issued_for kv s = length (filter (\<lambda>x. fst x = kv) (lg_issued s))"

definition tokens :: "bytes \<times> bytes \<Rightarrow> ('u, 'jwks, 'w) login_system \<Rightarrow> nat" where
  "tokens kv s = issued_for kv s + held kv s + in_store kv (lg_store s)"

lemma card_fun_upd:
  assumes "finite {j. P (f j)}"
  shows "card {j. P ((f(i := x)) j)} + (if P (f i) then 1 else 0) =
    card {j. P (f j)} + (if P x then 1 else (0::nat))"
proof -
  let ?A = "{j. P (f j)} - {i}"
  have new: "{j. P ((f(i := x)) j)} = (if P x then insert i ?A else ?A)" by auto
  have old: "card {j. P (f j)} = card ?A + (if P (f i) then 1 else 0)"
    using assms card.remove [of "{j. P (f j)}" i] by auto
  have "card (insert i ?A) = Suc (card ?A)"
    by (rule card_insert_disjoint) (use assms in auto)
  then show ?thesis unfolding new old by (simp del: insert_Diff_single)
qed

lemma holds_active: "holds_value kv ph \<Longrightarrow> active ph"
  by (cases "(kv, ph)" rule: holds_value.cases) auto

lemma finite_holders:
  "finite {i. active (lg_phases s i)} \<Longrightarrow> finite {i. holds_value kv (lg_phases s i)}"
  by (rule finite_subset [rotated]) (auto dest: holds_active)

lemma tokens_put_login:
  "finite {i. active (lg_phases s i)} \<Longrightarrow>
     tokens kv (put_login i ph s) + (if holds_value kv (lg_phases s i) then 1 else 0) =
     tokens kv s + (if holds_value kv ph then 1 else 0)"
  using card_fun_upd [where P = "holds_value kv" and f = "lg_phases s", OF finite_holders]
  by (simp add: tokens_def held_def issued_for_def)

lemma finite_active_put:
  "finite {i. active (lg_phases s i)} \<Longrightarrow> finite {j. active (((lg_phases s)(i := ph)) j)}"
  by (rule finite_subset [of _ "insert i {i. active (lg_phases s i)}"]) auto

lemma take_entry_in_store: "take_entry k st = (x, st') \<Longrightarrow> in_store kv st' \<le> in_store kv st"
  by (auto simp: take_entry_def in_store_def split: if_splits)

lemma taken_entry_in_store:
  "take_entry k st = (Inr (Some entry), st') \<Longrightarrow>
     in_store kv st' + (if kv = (k, entry_value entry) then 1 else 0) \<le> in_store kv st"
  by (auto simp: take_entry_def in_store_def split: if_splits)

lemma put_in_store:
  assumes "put_if_absent now k v ttl st = (r, st')"
  shows "in_store kv st' \<le> in_store kv st + (if r = Inr True \<and> kv = (k, v) then 1 else 0)"
  using assms
  by (cases rule: put_if_absent_cases)
    (auto simp: in_store_def retain_unexpired_def split: option.splits if_splits)

lemma tokens_world [simp]: "tokens kv (with_world w s) = tokens kv s"
  by (simp add: tokens_def held_def issued_for_def)

lemma tokens_refresh [simp]: "tokens kv (s\<lparr>lg_refresh := rs\<rparr>) = tokens kv s"
  by (simp add: tokens_def held_def issued_for_def)

lemma tokens_queries [simp]: "tokens kv (s\<lparr>lg_queries := qs\<rparr>) = tokens kv s"
  by (simp add: tokens_def held_def issued_for_def)

lemma tokens_issued [simp]:
  "tokens kv (s\<lparr>lg_issued := x # lg_issued s\<rparr>) = tokens kv s + (if fst x = kv then 1 else 0)"
  by (simp add: tokens_def held_def issued_for_def)

lemma tokens_store:
  "tokens kv (s\<lparr>lg_store := st\<rparr>) + in_store kv (lg_store s) = tokens kv s + in_store kv st"
  by (simp add: tokens_def held_def issued_for_def)

lemma login_step_tokens:
  fixes s :: "('u, 'jwks, 'w) login_system"
  assumes fin: "finite {i. active (lg_phases s i)}" and step: "login_step E cr i s = Some s'"
  shows "tokens kv s' \<le> tokens kv s \<and> lg_created s' = lg_created s \<and> finite {i. active (lg_phases s' i)}"
proof -
  have put: "tokens kv (put_login i ph t) + (if holds_value kv (lg_phases s i) then 1 else 0) =
      tokens kv t + (if holds_value kv ph then 1 else 0) \<and> finite {j. active (lg_phases (put_login i ph t) j)}"
    if "lg_phases t = lg_phases s" for ph and t :: "('u, 'jwks, 'w) login_system"
    using fin that tokens_put_login [of t kv i ph] finite_active_put [of s i ph] by simp
  note store = tokens_store [where kv = kv and s = s]
  from step show ?thesis
  proof (cases rule: login_step_cases)
    case (refused response x st f)
    with put [of "s\<lparr>lg_store := st\<rparr>" "Ended (Inl f)"] store [of st] refused
      take_entry_in_store [OF refused(2), of kv]
    show ?thesis by simp
  next
    case (taken response entry st)
    with put [of "s\<lparr>lg_store := st\<rparr>" "Reading response entry"] store [of st]
      taken_entry_in_store [OF taken(2), of kv]
    show ?thesis by (auto split: if_splits)
  next
    case (unread response entry f w)
    with put [of "with_world w s" "Ended (Inl f)"] show ?thesis by simp
  next
    case (read response entry pending w)
    with put [of "with_world w s" "Resuming response (entry_value entry) pending"] show ?thesis by simp
  next
    case (resumed response raw pending)
    with put [of "s\<lparr>lg_refresh := start_task Automatic i (lg_refresh s)\<rparr>" "Refreshing response raw pending"]
    show ?thesis by simp
  next
    case (refresh response raw pending rs)
    with fin show ?thesis by simp
  next
    case (unrefreshed response raw pending e)
    with put [of s "Ended (Inl (Err e))"] show ?thesis by simp
  next
    case (refreshed response raw pending m)
    with put [of s "Checking response raw pending m"] show ?thesis by simp
  next
    case (rejected response raw pending m f w)
    with put [of "with_world w s" "Ended (Inl f)"] show ?thesis by simp
  next
    case (issued response raw pending m u w built)
    with put [of "with_world w (s\<lparr>lg_issued := ((pending_key_for (response_state response), raw), built_http built) #
        lg_issued s\<rparr>)" "Posting response pending built"]
    show ?thesis by (auto split: if_splits)
  next
    case (posted response pending built r w)
    with put [of "with_world w s" "Ended (completed response pending r)"] show ?thesis by simp
  qed
qed

definition used_once :: "('u, 'jwks, 'w) login_system \<Rightarrow> bool" where
  "used_once s \<longleftrightarrow>
     finite {i. active (lg_phases s i)} \<and> (\<forall>kv. tokens kv s \<le> count_list (lg_created s) kv)"

lemma used_once_mono:
  assumes "used_once s" and "\<And>kv. tokens kv s' \<le> tokens kv s" and "lg_created s' = lg_created s"
    and "finite {i. active (lg_phases s' i)}"
  shows "used_once s'"
  using assms unfolding used_once_def by (metis le_trans)

lemma used_once_put:
  assumes "used_once s" and "lg_phases t = lg_phases s" and "\<And>kv. tokens kv t \<le> tokens kv s"
    and "lg_created t = lg_created s" and "\<And>kv. \<not> holds_value kv ph"
  shows "used_once (put_login i ph t)"
proof (rule used_once_mono [OF assms(1)])
  have fin: "finite {i. active (lg_phases t i)}" using assms(1,2) by (simp add: used_once_def)
  show "tokens kv (put_login i ph t) \<le> tokens kv s" for kv
    using tokens_put_login [OF fin, of kv i ph] assms(3) [of kv] assms(5) [of kv] by simp
  show "finite {j. active (lg_phases (put_login i ph t) j)}"
    using finite_active_put [OF fin] by simp
qed (simp add: assms(4))

lemma begin_holds: "\<not> holds_value kv (case parse_authorization_response F q of
    Inl e \<Rightarrow> Ended (Inl (Err (AuthorizationResponseError e))) | Inr response \<Rightarrow> Taking response)"
  by (simp split: sum.splits)

lemma login_steps_used_once:
  assumes ok: "used_once s" and "login_steps E cr s s'"
  shows "used_once s'"
  using assms(2)
proof (cases rule: login_steps.cases)
  case (callback i q)
  show ?thesis
    unfolding callback(1) begin_login_def
    by (rule used_once_put [OF ok]) (simp_all add: begin_holds)
next
  case (proceed i)
  have fin: "finite {i. active (lg_phases s i)}" using ok by (simp add: used_once_def)
  show ?thesis
    by (rule used_once_mono [OF ok]) (simp_all add: login_step_tokens [OF fin proceed])
next
  case (dropped i)
  show ?thesis
    unfolding dropped(1) drop_login_def by (rule used_once_put [OF ok]) simp_all
next
  case (stored now k v ttl r store)
  have "tokens kv s' \<le> count_list (lg_created s') kv" for kv
  proof -
    have "tokens kv s' \<le> tokens kv s + (if r = Inr True \<and> kv = (k, v) then 1 else 0)"
      using put_in_store [OF stored(2), of kv] stored(1) by (simp add: tokens_def held_def issued_for_def)
    also have "\<dots> \<le> count_list (lg_created s) kv + (if r = Inr True \<and> kv = (k, v) then 1 else 0)"
      using ok by (cases kv) (simp add: used_once_def)
    also have "\<dots> = count_list (lg_created s') kv" using stored(1) by auto
    finally show ?thesis .
  qed
  with ok stored(1) show ?thesis by (simp add: used_once_def)
next
  case (removed k)
  obtain r st where r: "take_entry k (lg_store s) = (r, st)" by fastforce
  from take_entry_in_store [OF r] have "tokens kv s' \<le> tokens kv s" for kv
    using removed r by (simp add: tokens_def held_def issued_for_def)
  with ok removed show ?thesis by (intro used_once_mono [OF ok]) (auto simp: used_once_def)
next
  case (beside rs)
  with ok show ?thesis by (intro used_once_mono [OF ok]) (auto simp: used_once_def)
qed

section \<open>What every task knows\<close>

definition pending_of ::
  "('u, 'jws, 'key, 'claims, 'jwks, 'w) env \<Rightarrow> bytes \<Rightarrow> pending_auth_request \<Rightarrow> bool" where
  "pending_of E raw pending \<longleftrightarrow>
     from_json_slice (env_json E) (decode_pending (env_json E)) raw = Inr pending"

definition received ::
  "('u, 'jws, 'key, 'claims, 'jwks, 'w) env \<Rightarrow> bytes list \<Rightarrow> authorization_response \<Rightarrow> bool" where
  "received E qs response \<longleftrightarrow> (\<exists>q \<in> set qs. parse_authorization_response (env_form E) q = Inr response)"

fun login_phase_ok ::
  "('u, 'jws, 'key, 'claims, 'jwks, 'w) env \<Rightarrow> 'u issuer_url \<Rightarrow> bytes list \<Rightarrow> 'u login_phase \<Rightarrow> bool" where
  "login_phase_ok E issuer qs (Taking response) \<longleftrightarrow> received E qs response"
| "login_phase_ok E issuer qs (Reading response entry) \<longleftrightarrow> received E qs response"
| "login_phase_ok E issuer qs (Resuming response raw pending) \<longleftrightarrow>
     received E qs response \<and> pending_of E raw pending"
| "login_phase_ok E issuer qs (Refreshing response raw pending) \<longleftrightarrow>
     received E qs response \<and> pending_of E raw pending"
| "login_phase_ok E issuer qs (Checking response raw pending m) \<longleftrightarrow>
     received E qs response \<and> pending_of E raw pending \<and> metadata_issuer m = issuer \<and>
     metadata_ok (env_url E) m"
| "login_phase_ok E issuer qs ph \<longleftrightarrow> True"

text \<open>
  A token request that belongs to the key and value it was issued for: it carries the code of a success
  response that was received, whose state is that of the pending request the value reads as, and whose
  issuer is the client's; with that request's redirect URI and verifier, and the client's credentials.
\<close>

definition request_bound ::
  "('u, 'jws, 'key, 'claims, 'jwks, 'w) env \<Rightarrow> credentials \<Rightarrow> 'u issuer_url \<Rightarrow> bytes list \<Rightarrow>
   bytes \<times> bytes \<Rightarrow> http_request \<Rightarrow> bool" where
  "request_bound E cr issuer qs kv req \<longleftrightarrow>
     (\<exists>code st iss pending m p built. received E qs (Success code st iss) \<and> fst kv = pending_key_for st \<and> pending_of E (snd kv) pending \<and>
        pending_state pending = st \<and> metadata_issuer m = issuer \<and> metadata_ok (env_url E) m \<and>
        check_callback_issuer m (Success code st iss) = Inr () \<and>
        token_exchange E (client_of cr p) m code pending built \<and> req = built_http built)"

definition logins_ok ::
  "('u, 'jws, 'key, 'claims, 'jwks, 'w) env \<Rightarrow> credentials \<Rightarrow> 'u issuer_url \<Rightarrow>
   ('u, 'jwks, 'w) login_system \<Rightarrow> bool" where
  "logins_ok E cr issuer s \<longleftrightarrow>
     system_ok E issuer (lg_refresh s) \<and>
     (\<forall>i. login_phase_ok E issuer (lg_queries s) (lg_phases s i)) \<and>
     (\<forall>i. active (lg_phases s i) \<and> \<not> refreshing (lg_phases s i) \<longrightarrow> at_rest (sys_tasks (lg_refresh s) i)) \<and>
     (\<forall>i. refreshing (lg_phases s i) \<longrightarrow> sys_tasks (lg_refresh s) i \<noteq> Idle) \<and>
     (\<forall>(kv, req) \<in> set (lg_issued s). request_bound E cr issuer (lg_queries s) kv req)"

lemma login_phase_ok_mono: "login_phase_ok E issuer qs ph \<Longrightarrow> set qs \<subseteq> set qs' \<Longrightarrow> login_phase_ok E issuer qs' ph"
  by (cases ph) (auto simp: received_def)

lemma request_bound_mono: "request_bound E cr issuer qs kv req \<Longrightarrow> set qs \<subseteq> set qs' \<Longrightarrow> request_bound E cr issuer qs' kv req"
  unfolding request_bound_def received_def by blast

lemma prepare_exchange_bound:
  assumes "prepare_exchange E (client_of cr p) response pending m = Inr built"
    and "validate_pending_request R pending (response_state response) w = (Inr u, w')"
    and "received E qs response" and "pending_of E raw pending" and "metadata_issuer m = issuer"
    and "metadata_ok (env_url E) m"
  shows "request_bound E cr issuer qs (pending_key_for (response_state response), raw) (built_http built)"
proof -
  from assms(1) obtain code b where i: "check_callback_issuer m response = Inr ()"
    and c: "response_code_or_error response (response_state response) = Inr code"
    and b: "exchange_code_with_metadata (client_of cr p) code m = Inr b"
    and built: "code_request_build (env_url E) (env_form E) (env_base64 E) (set_from_pending pending b) = Inr built"
    by (auto simp: prepare_exchange_def bindr_eq_Inr)
  from c obtain iss where r: "response = Success code (response_state response) iss"
    by (auto simp: response_code_ok)
  have "pending_state pending = response_state response"
    using assms(2) by (simp add: validate_pending_ok)
  with i r assms(3-6) exchange_token_exchange [OF b built] show ?thesis
    unfolding request_bound_def fst_conv snd_conv by metis
qed

text \<open>What a step of a login does to the refreshes: a step of theirs, of its own task, or nothing.\<close>

lemma task_step_others: "task_step E i s = Some s' \<Longrightarrow> j \<noteq> i \<Longrightarrow> sys_tasks s' j = sys_tasks s j"
  by (drule task_step_rank) auto

lemma task_step_not_idle: "task_step E i s = Some s' \<Longrightarrow> sys_tasks s' i \<noteq> Idle"
  by (cases "sys_tasks s i")
    (auto simp: task_step_def phase_updates split: prod.splits sum.splits if_splits refresh_kind.splits)

lemma login_step_refresh:
  assumes "login_step E cr i s = Some s'"
    and "\<not> refreshing (lg_phases s i) \<Longrightarrow> at_rest (sys_tasks (lg_refresh s) i)"
  shows "(refresh_steps E (lg_refresh s) (lg_refresh s') \<or> lg_refresh s' = lg_refresh s) \<and>
    (\<forall>j. j \<noteq> i \<longrightarrow> sys_tasks (lg_refresh s') j = sys_tasks (lg_refresh s) j \<and> lg_phases s' j = lg_phases s j) \<and>
    (active (lg_phases s' i) \<and> \<not> refreshing (lg_phases s' i) \<longrightarrow> at_rest (sys_tasks (lg_refresh s') i)) \<and>
    (refreshing (lg_phases s' i) \<longrightarrow> sys_tasks (lg_refresh s') i \<noteq> Idle)"
  using assms(1)
proof (cases rule: login_step_cases)
  case (resumed response raw pending)
  have "refresh_steps E (lg_refresh s) (start_task Automatic i (lg_refresh s))"
    using assms(2) resumed(1) by (intro refresh_steps.start) simp
  then show ?thesis by (simp add: resumed(2) start_task_def put_phase_def)
next
  case (refresh response raw pending rs)
  then show ?thesis
    using task_step_others [OF refresh(2)] refresh_steps.proceed [OF refresh(2)] task_step_not_idle [OF refresh(2)]
    by simp
qed (use assms(2) in \<open>auto simp: refresh_steps.elsewhere\<close>)

lemma login_step_queries: "login_step E cr i s = Some s' \<Longrightarrow> lg_queries s' = lg_queries s"
  by (erule login_step_cases) simp_all

lemma login_step_phase_ok:
  assumes step: "login_step E cr i s = Some s'" and ok: "logins_ok E cr issuer s"
  shows "login_phase_ok E issuer (lg_queries s) (lg_phases s' i) \<and>
    (\<forall>(kv, req) \<in> set (lg_issued s'). request_bound E cr issuer (lg_queries s) kv req)"
proof -
  from ok have phase: "login_phase_ok E issuer (lg_queries s) (lg_phases s i)"
    and issued: "\<forall>(kv, req) \<in> set (lg_issued s). request_bound E cr issuer (lg_queries s) kv req"
    and sys: "system_ok E issuer (lg_refresh s)"
    by (simp_all add: logins_ok_def)
  from step show ?thesis
  proof (cases rule: login_step_cases)
    case (refreshed response raw pending m)
    with phase issued task_phase_ok [OF sys, of i] show ?thesis by (auto simp: snapshot_ok_def)
  next
    case i: (issued response raw pending m u w built)
    with phase have "received E (lg_queries s) response" "pending_of E raw pending" "metadata_issuer m = issuer"
      "metadata_ok (env_url E) m"
      by simp_all
    from prepare_exchange_bound [OF i(3,2) this] i(4) issued show ?thesis by auto
  qed (use phase issued in \<open>auto simp: pending_of_def\<close>)
qed

lemma login_steps_keep:
  assumes ok: "logins_ok E cr issuer s" and "login_steps E cr s s'"
  shows "logins_ok E cr issuer s'"
  using assms(2)
proof (cases rule: login_steps.cases)
  case (callback i q)
  have "login_phase_ok E issuer (lg_queries s') (lg_phases s' j)" for j
    using ok callback(1)
    by (auto simp: logins_ok_def begin_login_def received_def split: sum.splits
        intro: login_phase_ok_mono)
  moreover have "request_bound E cr issuer (lg_queries s') kv req" if "(kv, req) \<in> set (lg_issued s')" for kv req
    using ok callback(1) that by (auto simp: logins_ok_def begin_login_def intro: request_bound_mono)
  ultimately show ?thesis
    using ok callback by (auto simp: logins_ok_def begin_login_def split: sum.splits)
next
  case (proceed i)
  have "\<not> refreshing (lg_phases s i) \<Longrightarrow> at_rest (sys_tasks (lg_refresh s) i)"
  proof -
    assume "\<not> refreshing (lg_phases s i)"
    moreover have "active (lg_phases s i)"
      using proceed by (cases "lg_phases s i") (auto simp: login_step_def)
    ultimately show ?thesis using ok by (simp add: logins_ok_def)
  qed
  note r = login_step_refresh [OF proceed this] and p = login_step_phase_ok [OF proceed ok]
  have "system_ok E issuer (lg_refresh s')" and q: "lg_queries s' = lg_queries s"
    using r login_step_queries [OF proceed] refresh_steps_keeps [of E issuer "lg_refresh s" "lg_refresh s'"] ok
    by (auto simp: logins_ok_def)
  moreover have "login_phase_ok E issuer (lg_queries s) (lg_phases s' j)" for j
    using r p ok by (cases "j = i") (auto simp: logins_ok_def)
  moreover have "active (lg_phases s' j) \<and> \<not> refreshing (lg_phases s' j) \<longrightarrow> at_rest (sys_tasks (lg_refresh s') j)" for j
    using r ok by (cases "j = i") (auto simp: logins_ok_def)
  moreover have "refreshing (lg_phases s' j) \<longrightarrow> sys_tasks (lg_refresh s') j \<noteq> Idle" for j
    using r ok by (cases "j = i") (auto simp: logins_ok_def)
  ultimately show ?thesis using p by (simp add: logins_ok_def q)
next
  case (dropped i)
  show ?thesis
  proof (cases "refreshing (lg_phases s i)")
    case True
    with dropped have "awaits (sys_tasks (lg_refresh s) i)"
      by (cases "lg_phases s i") (auto simp: droppable_def)
    from refresh_steps_keeps [OF _ refresh_steps.dropped [OF this, of E], of issuer] ok
    have "system_ok E issuer (drop_task i (lg_refresh s))" by (simp add: logins_ok_def)
    with ok True dropped show ?thesis
      by (auto simp: logins_ok_def drop_login_def drop_task_def phase_updates)
  next
    case False
    with ok dropped show ?thesis by (auto simp: logins_ok_def drop_login_def)
  qed
next
  case (stored now k v ttl r store)
  with ok show ?thesis by (simp add: logins_ok_def)
next
  case (removed k)
  with ok show ?thesis by (simp add: logins_ok_def)
next
  case (beside rs)
  have "refreshing ph \<Longrightarrow> active ph" for ph :: "'a login_phase" by (cases ph) auto
  with beside ok refresh_steps_keeps [OF _ beside(2)] show ?thesis by (auto simp: logins_ok_def)
qed

lemma reachable_used_once: "login_reachable E cr p w s \<Longrightarrow> used_once s"
proof (induction rule: login_reachable.induct)
  case initially
  show ?case
    by (simp add: used_once_def login_start_def tokens_def held_def issued_for_def in_store_def in_memory_new_def)
next
  case (later s s')
  from login_steps_used_once [OF later.IH later.hyps(2)] show ?case .
qed

lemma issued_created:
  assumes "used_once s" and "(kv, req) \<in> set (lg_issued s)"
  shows "kv \<in> set (lg_created s)"
proof -
  have "filter (\<lambda>x. fst x = kv) (lg_issued s) \<noteq> []"
    using assms(2) by (force simp: filter_empty_conv)
  then have "1 \<le> issued_for kv s" unfolding issued_for_def by (simp add: Suc_le_eq)
  moreover have "tokens kv s \<le> count_list (lg_created s) kv"
    using assms(1) by (cases kv) (simp add: used_once_def)
  ultimately have "count_list (lg_created s) kv \<noteq> 0" by (simp add: tokens_def)
  then show ?thesis using count_notin by fastforce
qed

lemma reachable_logins_ok:
  assumes "login_reachable E cr p w s" and "provider_ok p" and "snapshot_ok E issuer (ps_metadata p) (ps_jwks p)"
  shows "logins_ok E cr issuer s"
  using assms(1)
proof (induction rule: login_reachable.induct)
  case initially
  have "system_ok E issuer (refresh_start p w)"
    using assms(2,3) by (simp add: system_ok_def refresh_start_def)
  then show ?case by (simp add: logins_ok_def login_start_def refresh_start_def)
next
  case (later s s')
  from login_steps_keep [OF later.IH later.hyps(2)] show ?case .
qed

end
