(* ===== verification/Login_Runs.thy ===== *)
theory Login_Runs
  imports Login_Concurrency
begin

text \<open>
  What the interleaved logins of \<open>Login_Concurrency\<close> amount to: a login that runs alone does what the
  sequential \<^verbatim>\<open>complete_authorization\<close> of \<open>Client\<close> does, and logins that run side by side all end. The
  properties of both theories stand at the end, with the example they are applied to.
\<close>

section \<open>A login that runs alone\<close>

fun run_login ::
  "('u, 'jws, 'key, 'claims, 'jwks, 'w) env \<Rightarrow> credentials \<Rightarrow> nat \<Rightarrow> nat \<Rightarrow> ('u, 'jwks, 'w) login_system \<Rightarrow>
   ('u, 'jwks, 'w) login_system" where
  "run_login E cr i 0 s = s"
| "run_login E cr i (Suc n) s = (case login_step E cr i s of None \<Rightarrow> s | Some s' \<Rightarrow> run_login E cr i n s')"

text \<open>\<^verbatim>\<open>take\<close> on a store that nobody else uses: its result, and the clock it may read.\<close>

definition store_peek ::
  "'w runtime \<Rightarrow> in_memory_kv_store \<Rightarrow> bytes \<Rightarrow> 'w \<Rightarrow> (kv_error + bytes option) \<times> 'w" where
  "store_peek R st key w =
     (case fst (take_entry key st) of
        Inl e \<Rightarrow> (Inl e, w)
      | Inr None \<Rightarrow> (Inr None, w)
      | Inr (Some e) \<Rightarrow> map_prod (\<lambda>now. Inr (unexpired_value now e)) id (instant_now R w))"

lemma run_login_next: "login_step E cr i s = Some s' \<Longrightarrow> run_login E cr i (Suc n) s = run_login E cr i n s'"
  by simp

lemma run_login_ended: "lg_phases s i = Ended r \<Longrightarrow> run_login E cr i n s = s"
  by (cases n) (auto simp: login_step_def)

lemma run_login_more:
  "lg_phases (run_login E cr i n s) i = Ended r \<Longrightarrow> run_login E cr i (n + j) s = run_login E cr i n s"
proof (induction n arbitrary: s)
  case (Suc n)
  then show ?case by (cases "login_step E cr i s") auto
qed (simp add: run_login_ended)

declare run_login.simps(2) [simp del]

lemma run_login_refreshing:
  "lg_phases s i = Refreshing response raw pending \<Longrightarrow>
     sys_tasks (run_task E i n (lg_refresh s)) i = Finished r \<Longrightarrow>
     \<exists>k \<le> n. run_login E cr i (k + m) s = run_login E cr i m (s\<lparr>lg_refresh := run_task E i n (lg_refresh s)\<rparr>)"
proof (induction n arbitrary: s)
  case 0
  then show ?case by simp
next
  case (Suc n)
  show ?case
  proof (cases "\<exists>r. sys_tasks (lg_refresh s) i = Finished r")
    case True
    then obtain r where "sys_tasks (lg_refresh s) i = Finished r" by blast
    then have "run_task E i (Suc n) (lg_refresh s) = lg_refresh s" by (rule run_task_finished)
    then show ?thesis by (intro exI [of _ 0]) simp
  next
    case False
    with Suc.prems(2) obtain rs where rs: "task_step E i (lg_refresh s) = Some rs"
      by (cases "task_step E i (lg_refresh s)") (auto simp: run_task.simps(2))
    then have step: "login_step E cr i s = Some (s\<lparr>lg_refresh := rs\<rparr>)"
      using False Suc.prems(1) by (cases "sys_tasks (lg_refresh s) i") (auto simp: login_step_def)
    have run: "run_task E i (Suc n) (lg_refresh s) = run_task E i n rs" by (rule run_next [OF rs])
    from Suc.IH [of "s\<lparr>lg_refresh := rs\<rparr>"] Suc.prems run obtain k where
      "k \<le> n" "run_login E cr i (k + m) (s\<lparr>lg_refresh := rs\<rparr>) =
        run_login E cr i m (s\<lparr>lg_refresh := run_task E i n rs\<rparr>)" by auto
    then show ?thesis
      by (intro exI [of _ "Suc k"]) (simp add: run_login_next [OF step] run)
  qed
qed

text \<open>What follows the refresh.\<close>

definition after_refresh ::
  "('u, 'jws, 'key, 'claims, 'jwks, 'w) env \<Rightarrow> ('u, 'jwks) client \<Rightarrow> authorization_response \<Rightarrow>
   pending_auth_request \<Rightarrow> oidc_error + 'u provider_metadata \<Rightarrow> 'w \<Rightarrow>
   (failure + completed_authorization) \<times> 'w" where
  "after_refresh E c response pending r w =
     (case r of
        Inl e \<Rightarrow> (Inl (Err e), w)
      | Inr m \<Rightarrow>
          (case validate_pending_request (env_runtime E) pending (response_state response) w of
             (Inl e, w1) \<Rightarrow> (Inl (Err e), w1)
           | (Inr _, w1) \<Rightarrow>
               (case prepare_exchange E c response pending m of
                  Inl f \<Rightarrow> (Inl f, w1)
                | Inr built \<Rightarrow>
                    (case post_token_request E built w1 of (t, w2) \<Rightarrow> (completed response pending t, w2)))))"

lemma from_pending_eq:
  assumes "client_refresh_if_stale E (c, w) = (r, (c1, w1))"
  shows "complete_authorization_from_pending E response pending (c, w) =
    (case after_refresh E c1 response pending r w1 of (x, w2) \<Rightarrow> (x, (c1, w2)))"
proof (cases r)
  case (Inl e)
  with assms show ?thesis
    by (simp add: complete_authorization_from_pending_def after_refresh_def binds_def map_errs_def Let_def)
next
  case (Inr m)
  obtain v w2 where v: "validate_pending_request (env_runtime E) pending (response_state response) w1 = (v, w2)"
    by fastforce
  show ?thesis
  proof (cases v)
    case (Inl e)
    with assms Inr v show ?thesis
      by (simp add: complete_authorization_from_pending_def after_refresh_def binds_def map_errs_def on_snd_def Let_def)
  next
    case valid: (Inr u)
    show ?thesis
    proof (cases "prepare_exchange E c1 response pending m")
      case (Inl f)
      with assms Inr v valid show ?thesis
        by (auto simp: complete_authorization_from_pending_def after_refresh_def prepare_exchange_def binds_def
            map_errs_def on_snd_def bindr_eq_Inl map_errr_eq_Inl Let_def)
    next
      case (Inr built)
      obtain t w3 where "post_token_request E built w2 = (t, w3)" by fastforce
      with assms \<open>r = Inr m\<close> v valid Inr show ?thesis
        by (cases t) (auto simp: complete_authorization_from_pending_def after_refresh_def prepare_exchange_def
            binds_def map_errs_def on_snd_def bindr_eq_Inr completed_def Let_def)
    qed
  qed
qed

lemma run_login_finish:
  assumes "lg_phases s i = Refreshing response raw pending" and "sys_tasks (lg_refresh s) i = Finished r"
    and "after_refresh E (client_of cr (sys_provider (lg_refresh s))) response pending r (lg_world s) = (x, w)"
  shows "\<exists>issued. run_login E cr i 3 s = put_login i (Ended x) (with_world w (s\<lparr>lg_issued := issued\<rparr>)) \<and>
    (\<forall>ca. x = Inr ca \<longrightarrow>
      (\<exists>req. issued = ((pending_key_for (response_state response), raw), req) # lg_issued s))"
proof -
  have three: "(3::nat) = Suc (Suc (Suc 0))" by simp
  show ?thesis
  proof (cases r)
    case (Inl e)
    with assms have "login_step E cr i s = Some (put_login i (Ended x) s)" "w = lg_world s" "x = Inl (Err e)"
      by (auto simp: login_step_def after_refresh_def)
    then show ?thesis
      unfolding three
      by (intro exI [of _ "lg_issued s"])
        (simp add: run_login_next run_login_ended put_login_def with_world_def lg_world_def)
  next
    case (Inr m)
    let ?s1 = "put_login i (Checking response raw pending m) s"
    have s1: "login_step E cr i s = Some ?s1" using assms Inr by (simp add: login_step_def)
    obtain v w1 where v: "validate_pending_request (env_runtime E) pending (response_state response) (lg_world s) = (v, w1)"
      by fastforce
    have world: "lg_world ?s1 = lg_world s" by (simp add: lg_world_def)
    show ?thesis
    proof (cases v)
      case (Inl e)
      with v Inr assms(3) have "login_step E cr i ?s1 = Some (put_login i (Ended x) (with_world w ?s1))"
        "x = Inl (Err e)"
        by (auto simp: login_step_def after_refresh_def world)
      then show ?thesis
        unfolding three run_login_next [OF s1]
        by (intro exI [of _ "lg_issued s"])
          (simp add: run_login_next run_login_ended put_login_def with_world_def)
    next
      case valid: (Inr u)
      show ?thesis
      proof (cases "prepare_exchange E (client_of cr (sys_provider (lg_refresh s))) response pending m")
        case (Inl f)
        with v valid \<open>r = Inr m\<close> assms(3)
        have "login_step E cr i ?s1 = Some (put_login i (Ended x) (with_world w ?s1))" "x = Inl f"
          by (auto simp: login_step_def after_refresh_def world)
        then show ?thesis
          unfolding three run_login_next [OF s1]
          by (intro exI [of _ "lg_issued s"])
            (simp add: run_login_next run_login_ended put_login_def with_world_def)
      next
        case (Inr built)
        let ?issued = "((pending_key_for (response_state response), raw), built_http built) # lg_issued s"
        let ?s2 = "put_login i (Posting response pending built) (with_world w1 (?s1\<lparr>lg_issued := ?issued\<rparr>))"
        have s2: "login_step E cr i ?s1 = Some ?s2"
          using v valid Inr by (simp add: login_step_def world)
        have "login_step E cr i ?s2 = Some (put_login i (Ended x) (with_world w ?s2))"
          using v valid Inr \<open>r = Inr m\<close> assms(3)
          by (auto simp: login_step_def after_refresh_def lg_world_def split: prod.splits)
        then show ?thesis
          unfolding three run_login_next [OF s1] run_login_next [OF s2]
          by (intro exI [of _ ?issued])
            (simp add: run_login_next run_login_ended put_login_def with_world_def)
      qed
    qed
  qed
qed

lemma with_world_same: "with_world (lg_world s) (s\<lparr>lg_store := st\<rparr>) = s\<lparr>lg_store := st\<rparr>"
  by (simp add: with_world_def lg_world_def)

text \<open>The entry was there: its clock is read next.\<close>

lemma run_login_reading:
  assumes phase: "lg_phases s i = Taking response"
    and x: "take_entry (pending_key_for (response_state response)) (lg_store s) = (Inr (Some e), st)"
    and t: "take_pending_request E (store_peek (env_runtime E) (lg_store s)) (response_state response) (lg_world s) =
      (r, w)"
    and s1: "s1 = with_world w (s\<lparr>lg_store := st\<rparr>)"
  shows "case r of
      Inl e \<Rightarrow> run_login E cr i 2 s = put_login i (Ended (Inl (Err e))) s1
    | Inr pending \<Rightarrow> \<exists>raw. \<forall>n. run_login E cr i (Suc (Suc n)) s =
        run_login E cr i n (put_login i (Resuming response raw pending) s1)"
proof -
  let ?s0 = "put_login i (Reading response e) (s\<lparr>lg_store := st\<rparr>)"
  have two: "(2::nat) = Suc (Suc 0)" by simp
  have s0: "login_step E cr i s = Some ?s0" using phase x by (simp add: login_step_def)
  obtain now w1 where now: "instant_now (env_runtime E) (lg_world s) = (now, w1)" by fastforce
  have "lg_world ?s0 = lg_world s" by (simp add: lg_world_def)
  with now have step: "login_step E cr i ?s0 =
      Some (put_login i (after_take E response (unexpired_value now e)) (with_world w1 ?s0))"
    by (simp add: login_step_def)
  have put: "put_login i ph (with_world w1 ?s0) = put_login i ph (with_world w1 (s\<lparr>lg_store := st\<rparr>))" for ph
    by (simp add: put_login_def with_world_def)
  have r: "w = w1 \<and> (case after_take E response (unexpired_value now e) of
      Ended y \<Rightarrow> (\<exists>err. r = Inl err \<and> y = Inl (Err err)) | Resuming y raw pending \<Rightarrow> r = Inr pending | _ \<Rightarrow> False)"
    using t x now
    by (auto simp: take_pending_request_def store_peek_def binds_def map_errs_def after_take_def
        split: option.splits sum.splits)
  show ?thesis
  proof (cases r)
    case (Inl err)
    with r have "after_take E response (unexpired_value now e) = Ended (Inl (Err err))"
      by (auto split: login_phase.splits)
    with Inl r step show ?thesis
      by (simp add: two run_login_next [OF s0] run_login_next [OF step] put s1)
  next
    case (Inr pending)
    with r obtain raw where "after_take E response (unexpired_value now e) = Resuming response raw pending"
      by (auto simp: after_take_def split: option.splits sum.splits)
    with Inr r step show ?thesis
      by (auto simp: run_login_next [OF s0] run_login_next [OF step] put s1)
  qed
qed

lemma run_login_taking:
  assumes phase: "lg_phases s i = Taking response"
    and t: "take_pending_request E (store_peek (env_runtime E) (lg_store s)) (response_state response) (lg_world s) =
      (r, w)"
    and s1: "s1 = with_world w (s\<lparr>lg_store := snd (take_entry (pending_key_for (response_state response)) (lg_store s))\<rparr>)"
  shows "case r of
      Inl e \<Rightarrow> run_login E cr i 2 s = put_login i (Ended (Inl (Err e))) s1
    | Inr pending \<Rightarrow> \<exists>raw. \<forall>n. run_login E cr i (Suc (Suc n)) s =
        run_login E cr i n (put_login i (Resuming response raw pending) s1)"
proof -
  obtain x st where x: "take_entry (pending_key_for (response_state response)) (lg_store s) = (x, st)" by fastforce
  have two: "(2::nat) = Suc (Suc 0)" by simp
  consider e where "x = Inl e" | "x = Inr None" | e where "x = Inr (Some e)"
    by (cases x) (auto simp: not_None_eq intro: option.exhaust)
  then show ?thesis
  proof cases
    case (1 e)
    with phase x have "login_step E cr i s =
        Some (put_login i (Ended (Inl (Err (oidc_error_from_kv e)))) (s\<lparr>lg_store := st\<rparr>))"
      by (simp add: login_step_def)
    moreover from t x 1 have "r = Inl (oidc_error_from_kv e)" "w = lg_world s"
      by (auto simp: take_pending_request_def store_peek_def binds_def map_errs_def)
    ultimately show ?thesis by (simp add: two run_login_next run_login_ended s1 x with_world_same)
  next
    case 2
    with phase x have "login_step E cr i s = Some (put_login i (after_take E response None) (s\<lparr>lg_store := st\<rparr>))"
      by (simp add: login_step_def)
    moreover from t x 2 have "r = Inl (AuthorizationResponseError (Missing ''state''))" "w = lg_world s"
      by (auto simp: take_pending_request_def store_peek_def binds_def map_errs_def)
    ultimately show ?thesis by (simp add: two run_login_next run_login_ended s1 x with_world_same after_take_def)
  next
    case (3 e)
    with run_login_reading [OF phase x [unfolded 3] t] x s1 show ?thesis by simp
  qed
qed

lemma run_login_from_resuming:
  assumes phase: "lg_phases s i = Resuming response raw pending" and free: "sys_lock (lg_refresh s) = None"
    and c: "complete_authorization_from_pending E response pending
      (client_of cr (sys_provider (lg_refresh s)), lg_world s) = (x, (c', w'))"
  shows "\<exists>rs issued. run_login E cr i 12 s =
      s\<lparr>lg_refresh := rs, lg_phases := (lg_phases s)(i := Ended x), lg_issued := issued\<rparr> \<and>
    sys_provider rs = cl_provider c' \<and> sys_world rs = w' \<and> sys_lock rs = None \<and>
    (\<forall>ca. x = Inr ca \<longrightarrow>
      (\<exists>req. issued = ((pending_key_for (response_state response), raw), req) # lg_issued s))"
proof -
  let ?rs0 = "lg_refresh s" and ?rs1 = "start_task Automatic i (lg_refresh s)"
  let ?s1 = "put_login i (Refreshing response raw pending) (s\<lparr>lg_refresh := ?rs1\<rparr>)"
  have s1: "login_step E cr i s = Some ?s1" using phase by (simp add: login_step_def)
  obtain r p w1 where r: "refresh_metadata_if_stale E (sys_provider ?rs0, sys_world ?rs0) = (r, (p, w1))"
    by (metis prod.exhaust)
  let ?rs2 = "release_with i (Finished r) (?rs0\<lparr>sys_provider := p, sys_world := w1\<rparr>)"
  let ?s2 = "?s1\<lparr>lg_refresh := ?rs2\<rparr>"
  have rs2: "run_task E i 8 ?rs1 = ?rs2" using run_automatic [OF free, of E i] r by simp
  then have finished: "sys_tasks (run_task E i 8 (lg_refresh ?s1)) i = Finished r" by (simp add: release_with_def)
  have "lg_phases ?s1 i = Refreshing response raw pending" by simp
  from run_login_refreshing [OF this finished, of cr 3] rs2 obtain k where
    k: "k \<le> 8" "run_login E cr i (k + 3) ?s1 = run_login E cr i 3 ?s2" by auto
  have client: "client_refresh_if_stale E (client_of cr (sys_provider ?rs0), lg_world s) = (r, (client_of cr p, w1))"
    using r by (simp add: client_refresh_if_stale_def on_provider_def client_of_def lg_world_def)
  obtain y w2 where y: "after_refresh E (client_of cr p) response pending r w1 = (y, w2)" by fastforce
  with c from_pending_eq [OF client] have eq: "y = x" "c' = client_of cr p" "w2 = w'" by auto
  have "lg_phases ?s2 i = Refreshing response raw pending" "sys_tasks (lg_refresh ?s2) i = Finished r"
    by (simp_all add: release_with_def)
  from run_login_finish [OF this, of E cr y w2] y obtain issued where
    fin: "run_login E cr i 3 ?s2 = put_login i (Ended y) (with_world w2 (?s2\<lparr>lg_issued := issued\<rparr>))"
    and issued: "\<forall>ca. y = Inr ca \<longrightarrow>
      (\<exists>req. issued = ((pending_key_for (response_state response), raw), req) # lg_issued s)"
    by (auto simp: release_with_def lg_world_def)
  with k(2) have "lg_phases (run_login E cr i (k + 3) ?s1) i = Ended y" by simp
  from run_login_more [OF this, of "8 - k"] k fin
  have "run_login E cr i 11 ?s1 = put_login i (Ended y) (with_world w2 (?s2\<lparr>lg_issued := issued\<rparr>))" by simp
  moreover have "run_login E cr i 12 s = run_login E cr i 11 ?s1"
    using run_login_next [OF s1, of 11] by simp
  ultimately show ?thesis
    by (intro exI [of _ "?rs2\<lparr>sys_world := w2\<rparr>"] exI [of _ issued])
      (use issued in \<open>simp add: eq put_login_def with_world_def release_with_def client_of_def\<close>)
qed

section \<open>Progress\<close>

fun login_rank :: "'u login_phase \<Rightarrow> nat" where
  "login_rank (Taking response) = 14"
| "login_rank (Reading response entry) = 13"
| "login_rank (Resuming response raw pending) = 12"
| "login_rank (Refreshing response raw pending) = 3"
| "login_rank (Checking response raw pending m) = 2"
| "login_rank (Posting response pending built) = 1"
| "login_rank ph = 0"

text \<open>The own steps that the login and the refresh of one number have left, at most.\<close>

definition work :: "('u, 'jwks, 'w) login_system \<Rightarrow> nat \<Rightarrow> nat" where
  "work s i = login_rank (lg_phases s i) + phase_rank (sys_tasks (lg_refresh s) i)"

definition busy :: "('u, 'jwks, 'w) login_system \<Rightarrow> nat set" where
  "busy s = {i. active (lg_phases s i) \<or> \<not> at_rest (sys_tasks (lg_refresh s) i)}"

text \<open>A step of a task: of a login, or of a refresh that no login runs.\<close>

definition own_step ::
  "('u, 'jws, 'key, 'claims, 'jwks, 'w) env \<Rightarrow> credentials \<Rightarrow> ('u, 'jwks, 'w) login_system \<Rightarrow>
   ('u, 'jwks, 'w) login_system \<Rightarrow> bool" where
  "own_step E cr s s' \<longleftrightarrow>
     (\<exists>i. login_step E cr i s = Some s') \<or>
     (\<exists>i rs. \<not> active (lg_phases s i) \<and> task_step E i (lg_refresh s) = Some rs \<and> s' = s\<lparr>lg_refresh := rs\<rparr>)"

lemma login_rank_zero: "login_rank ph = 0 \<longleftrightarrow> \<not> active ph"
  by (cases ph) auto

lemma work_zero: "work s i = 0 \<longleftrightarrow> i \<notin> busy s"
  by (simp add: work_def busy_def login_rank_zero rank_zero)

lemma sum_support_less:
  fixes f g :: "nat \<Rightarrow> nat"
  assumes "finite {j. f j \<noteq> 0}" and "g i < f i" and "\<And>j. j \<noteq> i \<Longrightarrow> g j = f j"
  shows "{j. g j \<noteq> 0} \<subseteq> {j. f j \<noteq> 0} \<and> sum g {j. g j \<noteq> 0} < sum f {j. f j \<noteq> 0}"
proof -
  have le: "g j \<le> f j" for j using assms(2) assms(3) [of j] by (cases "j = i") simp_all
  have sub: "{j. g j \<noteq> 0} \<subseteq> {j. f j \<noteq> 0}"
  proof
    fix j assume "j \<in> {j. g j \<noteq> 0}"
    with le [of j] show "j \<in> {j. f j \<noteq> 0}" by simp
  qed
  have "sum g {j. g j \<noteq> 0} = sum g {j. f j \<noteq> 0}"
    by (rule sum.mono_neutral_left [OF assms(1) sub]) simp
  also have "\<dots> < sum f {j. f j \<noteq> 0}"
  proof (rule sum_strict_mono_ex1 [OF assms(1)])
    show "\<exists>j\<in>{j. f j \<noteq> 0}. g j < f j" using assms(2) by (intro bexI [of _ i]) simp_all
  qed (simp add: le)
  finally show ?thesis using sub by blast
qed

definition work_left :: "('u, 'jwks, 'w) login_system \<Rightarrow> nat" where
  "work_left s = sum (work s) (busy s)"

lemma busy_support: "busy s = {i. work s i \<noteq> 0}"
  unfolding work_zero by simp

lemma work_left_less:
  assumes "finite (busy s)" and "work s' i < work s i" and "\<And>j. j \<noteq> i \<Longrightarrow> work s' j = work s j"
  shows "finite (busy s') \<and> work_left s' < work_left s"
proof -
  have "finite {j. work s j \<noteq> 0}" using assms(1) unfolding busy_support .
  from sum_support_less [OF this assms(2,3)]
  have "busy s' \<subseteq> busy s" "work_left s' < work_left s"
    unfolding work_left_def busy_support by simp_all
  then show ?thesis using finite_subset assms(1) by blast
qed

lemma login_step_work:
  assumes step: "login_step E cr i s = Some s'" and ok: "logins_ok E cr issuer s"
  shows "work s' i < work s i \<and> (\<forall>j. j \<noteq> i \<longrightarrow> work s' j = work s j)"
  using step
proof (cases rule: login_step_cases)
  case (resumed response raw pending)
  with ok have "at_rest (sys_tasks (lg_refresh s) i)" by (simp add: logins_ok_def)
  then have "phase_rank (sys_tasks (lg_refresh s) i) = 0" by (simp add: rank_zero)
  with resumed show ?thesis by (simp add: work_def start_task_def put_phase_def)
next
  case (refresh response raw pending rs)
  with task_step_rank [OF refresh(2)] show ?thesis by (auto simp: work_def)
qed (auto simp: work_def)

lemma own_step_work:
  assumes "own_step E cr s s'" and ok: "logins_ok E cr issuer s" and "finite (busy s)"
  shows "logins_ok E cr issuer s' \<and> finite (busy s') \<and> work_left s' < work_left s"
proof -
  from assms(1) consider i where "login_step E cr i s = Some s'"
    | i rs where "\<not> active (lg_phases s i)" "task_step E i (lg_refresh s) = Some rs" "s' = s\<lparr>lg_refresh := rs\<rparr>"
    unfolding own_step_def by blast
  then show ?thesis
  proof cases
    case (1 i)
    from login_step_work [OF 1 ok] work_left_less [OF assms(3), of s' i]
      login_steps_keep [OF ok login_steps.proceed [OF 1]]
    show ?thesis by blast
  next
    case (2 i rs)
    from task_step_rank [OF 2(2)] obtain ph where ph: "sys_tasks rs = (sys_tasks (lg_refresh s))(i := ph)"
      "phase_rank ph < phase_rank (sys_tasks (lg_refresh s) i)" by blast
    then have "work s' i < work s i" "\<And>j. j \<noteq> i \<Longrightarrow> work s' j = work s j" by (simp_all add: work_def 2(3))
    note less = work_left_less [OF assms(3) this]
    have "login_steps E cr s s'"
      unfolding 2(3)
      by (rule login_steps.beside [OF refresh_steps.proceed [OF 2(2)]]) (use 2(1) ph(1) in auto)
    from login_steps_keep [OF ok this] less show ?thesis by blast
  qed
qed

lemma work_le:
  assumes "logins_ok E cr issuer s"
  shows "work s i \<le> 14"
proof (cases "active (lg_phases s i) \<and> \<not> refreshing (lg_phases s i)")
  case True
  with assms have "phase_rank (sys_tasks (lg_refresh s) i) = 0" by (simp add: logins_ok_def rank_zero)
  then show ?thesis by (cases "lg_phases s i") (simp_all add: work_def)
next
  case False
  with rank_le [of "sys_tasks (lg_refresh s) i"] show ?thesis
    by (cases "lg_phases s i") (simp_all add: work_def)
qed

lemma work_left_le:
  assumes "logins_ok E cr issuer s" and "finite (busy s)"
  shows "work_left s \<le> 14 * card (busy s)"
  using sum_bounded_above [of "busy s" "work s" 14] work_le [OF assms(1)] by (simp add: work_left_def)

lemma own_steps_bounded:
  "(own_step E cr ^^ n) s s' \<Longrightarrow> logins_ok E cr issuer s \<Longrightarrow> finite (busy s) \<Longrightarrow>
     n + work_left s' \<le> work_left s \<and> logins_ok E cr issuer s' \<and> finite (busy s')"
proof (induction n arbitrary: s)
  case (Suc n)
  from Suc.prems(1) obtain t where t: "own_step E cr s t" "(own_step E cr ^^ n) t s'"
    by (blast elim: relpowp_Suc_E2)
  from own_step_work [OF t(1) Suc.prems(2,3)] Suc.IH [OF t(2)] show ?case by fastforce
qed simp

text \<open>Whoever cannot go on waits for the lock of the refresh, and its holder can.\<close>

lemma active_step:
  assumes "login_step E cr i s = None" and "active (lg_phases s i)"
    and "\<And>j. refreshing (lg_phases s j) \<Longrightarrow> sys_tasks (lg_refresh s) j \<noteq> Idle"
  shows "refreshing (lg_phases s i) \<and> task_step E i (lg_refresh s) = None \<and> sys_lock (lg_refresh s) \<noteq> None"
proof (cases "lg_phases s i")
  case (Refreshing response raw pending)
  with assms(1) have t: "task_step E i (lg_refresh s) = None \<and> (\<forall>r. sys_tasks (lg_refresh s) i \<noteq> Finished r)"
    by (auto simp: login_step_def split: refresh_phase.splits sum.splits)
  moreover have "sys_tasks (lg_refresh s) i \<noteq> Idle" using assms(3) [of i] Refreshing by simp
  moreover from t have "at_rest (sys_tasks (lg_refresh s) i) \<or> sys_lock (lg_refresh s) \<noteq> None"
    by (auto simp: task_step_None)
  ultimately show ?thesis using Refreshing by (cases "sys_tasks (lg_refresh s) i") auto
qed (use assms in \<open>auto simp: login_step_def split: prod.splits sum.splits option.splits\<close>)

lemma refresh_step_is_own:
  assumes "task_step E j (lg_refresh s) = Some rs"
    and "active (lg_phases s j) \<Longrightarrow> refreshing (lg_phases s j)"
  shows "\<exists>s'. own_step E cr s s'"
proof (cases "active (lg_phases s j)")
  case True
  with assms(2) obtain response raw pending where ph: "lg_phases s j = Refreshing response raw pending"
    by (cases "lg_phases s j") auto
  have "login_step E cr j s = Some (s\<lparr>lg_refresh := rs\<rparr>)"
    using assms(1) ph by (cases "sys_tasks (lg_refresh s) j") (auto simp: login_step_def task_step_def)
  then show ?thesis unfolding own_step_def by blast
next
  case False
  with assms(1) show ?thesis unfolding own_step_def by blast
qed

lemma someone_own_step:
  assumes ok: "logins_ok E cr issuer s" and "i \<in> busy s"
  shows "\<exists>s'. own_step E cr s s'"
proof -
  from ok have sys: "system_ok E issuer (lg_refresh s)"
    and rest: "\<And>j. active (lg_phases s j) \<Longrightarrow> \<not> refreshing (lg_phases s j) \<Longrightarrow> at_rest (sys_tasks (lg_refresh s) j)"
    and idle: "\<And>j. refreshing (lg_phases s j) \<Longrightarrow> sys_tasks (lg_refresh s) j \<noteq> Idle"
    by (simp_all add: logins_ok_def)
  have held: "\<exists>s'. own_step E cr s s'" if "sys_lock (lg_refresh s) \<noteq> None"
  proof -
    from that obtain j where "sys_lock (lg_refresh s) = Some j" by blast
    with sys have h: "holds_lock (sys_tasks (lg_refresh s) j)" by (simp add: system_ok_def)
    then obtain rs where rs: "task_step E j (lg_refresh s) = Some rs"
      by (cases "task_step E j (lg_refresh s)") (auto simp: task_step_None, cases "sys_tasks (lg_refresh s) j", auto)
    have "\<not> at_rest (sys_tasks (lg_refresh s) j)" using h by (cases "sys_tasks (lg_refresh s) j") auto
    with rest have "active (lg_phases s j) \<Longrightarrow> refreshing (lg_phases s j)" by blast
    from refresh_step_is_own [OF rs this] show ?thesis by blast
  qed
  show ?thesis
  proof (cases "active (lg_phases s i)")
    case True
    show ?thesis
    proof (cases "login_step E cr i s")
      case None
      from active_step [OF None True idle] held show ?thesis by blast
    next
      case (Some s')
      then show ?thesis unfolding own_step_def by blast
    qed
  next
    case False
    with assms(2) have "\<not> at_rest (sys_tasks (lg_refresh s) i)" by (simp add: busy_def)
    show ?thesis
    proof (cases "task_step E i (lg_refresh s)")
      case None
      with \<open>\<not> at_rest (sys_tasks (lg_refresh s) i)\<close> held show ?thesis by (auto simp: task_step_None)
    next
      case (Some rs)
      with False show ?thesis unfolding own_step_def by blast
    qed
  qed
qed

text \<open>The refreshes of the logins are those of \<open>Refresh_Concurrency\<close>, so finitely many of them run.\<close>

lemma login_steps_refresh:
  assumes ok: "logins_ok E cr issuer s" and "login_steps E cr s s'"
  shows "refresh_steps E (lg_refresh s) (lg_refresh s') \<or> lg_refresh s' = lg_refresh s"
  using assms(2)
proof (cases rule: login_steps.cases)
  case (proceed i)
  have "active (lg_phases s i)" using proceed by (cases "lg_phases s i") (auto simp: login_step_def)
  with ok have "\<not> refreshing (lg_phases s i) \<Longrightarrow> at_rest (sys_tasks (lg_refresh s) i)"
    by (simp add: logins_ok_def)
  from login_step_refresh [OF proceed this] show ?thesis by blast
next
  case (dropped i)
  show ?thesis
  proof (cases "refreshing (lg_phases s i)")
    case True
    with dropped have "awaits (sys_tasks (lg_refresh s) i)"
      by (cases "lg_phases s i") (auto simp: droppable_def)
    with True dropped(1) show ?thesis by (simp add: drop_login_def refresh_steps.dropped)
  qed (simp add: dropped(1) drop_login_def)
qed (simp_all add: begin_login_def)

lemma refreshes_reachable:
  assumes "login_reachable E cr p w s" and "provider_ok p" and "snapshot_ok E issuer (ps_metadata p) (ps_jwks p)"
  shows "refresh_reachable E p w (lg_refresh s)"
  using assms(1)
proof (induction rule: login_reachable.induct)
  case initially
  show ?case by (simp add: login_start_def refresh_reachable.initially)
next
  case (later s s')
  from login_steps_refresh [OF reachable_logins_ok [OF later.hyps(1) assms(2,3)] later.hyps(2)] later.IH show ?case
    using refresh_reachable.later by metis
qed

lemma finite_busy:
  assumes "login_reachable E cr p w s" and "provider_ok p" and "snapshot_ok E issuer (ps_metadata p) (ps_jwks p)"
  shows "finite (busy s)"
proof -
  have "busy s = {i. active (lg_phases s i)} \<union> running (lg_refresh s)"
    by (auto simp: busy_def running_def)
  then show ?thesis
    using reachable_used_once [OF assms(1)] finite_running [OF refreshes_reachable [OF assms]]
    by (simp add: used_once_def)
qed

lemma run_logins_to_rest:
  "logins_ok E cr issuer s \<Longrightarrow> finite (busy s) \<Longrightarrow> \<exists>s'. (own_step E cr)\<^sup>*\<^sup>* s s' \<and> busy s' = {}"
proof (induction "work_left s" arbitrary: s rule: less_induct)
  case less
  show ?case
  proof (cases "busy s = {}")
    case False
    then obtain i where "i \<in> busy s" by blast
    from someone_own_step [OF less.prems(1) this] obtain s1 where s1: "own_step E cr s s1" by blast
    from own_step_work [OF this less.prems] less.hyps [of s1] obtain s' where
      "(own_step E cr)\<^sup>*\<^sup>* s1 s'" "busy s' = {}" by blast
    with s1 show ?thesis by (blast intro: converse_rtranclp_into_rtranclp)
  qed blast
qed

section \<open>The whole of a login that runs alone\<close>

lemma solo_login:
  assumes free: "sys_lock (lg_refresh s) = None"
    and c: "complete_authorization E (store_peek (env_runtime E) (lg_store s)) q
      (client_of cr (sys_provider (lg_refresh s)), lg_world s) = (r, (c', w'))"
  shows "\<exists>rs issued. run_login E cr i 14 (begin_login E q i s) =
      s\<lparr>lg_refresh := rs,
        lg_store := (case parse_authorization_response (env_form E) q of
          Inl e \<Rightarrow> lg_store s
        | Inr response \<Rightarrow> snd (take_entry (pending_key_for (response_state response)) (lg_store s))),
        lg_phases := (lg_phases s)(i := Ended r), lg_queries := q # lg_queries s, lg_issued := issued\<rparr> \<and>
    sys_provider rs = cl_provider c' \<and> sys_world rs = w' \<and> sys_lock rs = None \<and>
    (\<forall>ca response. r = Inr ca \<and> parse_authorization_response (env_form E) q = Inr response \<longrightarrow>
      (\<exists>raw req. issued = ((pending_key_for (response_state response), raw), req) # lg_issued s))"
proof (cases "parse_authorization_response (env_form E) q")
  case (Inl e)
  with c have c': "r = Inl (Err (AuthorizationResponseError e))" "sys_provider (lg_refresh s) = cl_provider c'"
    "lg_world s = w'"
    by (auto simp: complete_authorization_def binds_def client_of_def)
  then show ?thesis
    using Inl free
    by (intro exI [of _ "lg_refresh s"] exI [of _ "lg_issued s"])
      (simp add: begin_login_def run_login_ended put_login_def lg_world_def)
next
  case (Inr response)
  let ?k = "pending_key_for (response_state response)" and ?c = "client_of cr (sys_provider (lg_refresh s))"
  let ?s0 = "begin_login E q i s"
  have s0: "?s0 = put_login i (Taking response) (s\<lparr>lg_queries := q # lg_queries s\<rparr>)"
    by (simp add: begin_login_def Inr)
  obtain x w1 where t: "take_pending_request E (store_peek (env_runtime E) (lg_store s)) (response_state response)
      (lg_world s) = (x, w1)" by fastforce
  have start: "lg_phases ?s0 i = Taking response" "lg_store ?s0 = lg_store s" "lg_world ?s0 = lg_world s"
    by (simp_all add: s0 lg_world_def)
  let ?s1 = "with_world w1 (?s0\<lparr>lg_store := snd (take_entry ?k (lg_store s))\<rparr>)"
  note taking = run_login_taking [OF start(1), of E x w1 ?s1 cr, unfolded start(2,3), OF t refl]
  show ?thesis
  proof (cases x)
    case (Inl e)
    with c t Inr have c': "r = Inl (Err e)" "cl_provider c' = sys_provider (lg_refresh s)" "w' = w1"
      by (auto simp: complete_authorization_def binds_def on_snd_def map_errs_def client_of_def)
    have "run_login E cr i 2 ?s0 = put_login i (Ended r) ?s1" using taking Inl c'(1) by simp
    moreover from this run_login_more [of E cr i 2 ?s0 r 12]
    have "run_login E cr i 14 ?s0 = run_login E cr i 2 ?s0" by simp
    ultimately show ?thesis
      using Inr c' free
      by (intro exI [of _ "(lg_refresh s)\<lparr>sys_world := w1\<rparr>"] exI [of _ "lg_issued s"])
        (simp add: s0 put_login_def with_world_def)
  next
    case (Inr pending)
    with taking obtain raw where "\<forall>n. run_login E cr i (Suc (Suc n)) ?s0 =
        run_login E cr i n (put_login i (Resuming response raw pending) ?s1)" by auto
    from this [THEN spec, of 12] have run: "run_login E cr i 14 ?s0 =
        run_login E cr i 12 (put_login i (Resuming response raw pending) ?s1)" by simp
    let ?s2 = "put_login i (Resuming response raw pending) ?s1"
    have s2: "lg_phases ?s2 i = Resuming response raw pending" "sys_lock (lg_refresh ?s2) = None"
      "sys_provider (lg_refresh ?s2) = sys_provider (lg_refresh s)" "lg_world ?s2 = w1"
      "lg_issued ?s2 = lg_issued s"
      using free by (simp_all add: s0 lg_world_def)
    have "complete_authorization_from_pending E response pending (?c, w1) = (r, (c', w'))"
      using c t Inr \<open>parse_authorization_response (env_form E) q = Inr response\<close>
      by (simp add: complete_authorization_def binds_def on_snd_def map_errs_def)
    then have "complete_authorization_from_pending E response pending
        (client_of cr (sys_provider (lg_refresh ?s2)), lg_world ?s2) = (r, (c', w'))"
      unfolding s2(3,4) .
    from run_login_from_resuming [OF s2(1,2) this] obtain rs issued where
      fin: "run_login E cr i 12 ?s2 =
        ?s2\<lparr>lg_refresh := rs, lg_phases := (lg_phases ?s2)(i := Ended r), lg_issued := issued\<rparr>"
      and rs: "sys_provider rs = cl_provider c'" "sys_world rs = w'" "sys_lock rs = None"
      and issued: "\<forall>ca. r = Inr ca \<longrightarrow> (\<exists>req. issued = ((?k, raw), req) # lg_issued ?s2)"
      by (elim exE conjE) (rule that)
    have "run_login E cr i 14 ?s0 =
        ?s2\<lparr>lg_refresh := rs, lg_phases := (lg_phases ?s2)(i := Ended r), lg_issued := issued\<rparr>"
      using run fin by simp
    with rs issued s2(5) \<open>parse_authorization_response (env_form E) q = Inr response\<close> show ?thesis
      by (intro exI [of _ rs] exI [of _ issued]) (auto simp: s0 put_login_def with_world_def)
  qed
qed

text \<open>Steps of one task are steps of the system.\<close>

lemma run_login_reachable:
  "login_reachable E cr p w s \<Longrightarrow> login_reachable E cr p w (run_login E cr i n s)"
proof (induction n arbitrary: s)
  case (Suc n)
  show ?case
  proof (cases "login_step E cr i s")
    case None
    with Suc.prems show ?thesis by (simp add: run_login.simps(2))
  next
    case (Some s')
    from Suc.IH [OF login_reachable.later [OF Suc.prems login_steps.proceed [OF Some]]] Some
    show ?thesis by (simp add: run_login_next)
  qed
qed simp

section \<open>Properties\<close>

text \<open>One entry is stored, and a callback with its state arrives.\<close>

definition stored_once :: in_memory_kv_store where
  "stored_once = snd (put_if_absent (Instant 0) ''oidc4rs:pending:st'' ''R'' (from_secs 600) in_memory_new)"

lemma stored_once_put:
  "put_if_absent (Instant 0) ''oidc4rs:pending:st'' ''R'' (from_secs 600) in_memory_new = (Inr True, stored_once)"
  by (simp add: stored_once_def put_if_absent_def in_memory_new_def from_secs_def nanos_per_sec_def
      is_zero_duration_def instant_checked_add_def clock_limit_def retain_unexpired_def zero_duration_def)

lemma stored_once_entry:
  obtains s where "take_entry ''oidc4rs:pending:st'' stored_once =
     (Inr (Some \<lparr>entry_value = ''R'', expires_at = Instant (600 * 1000000000)\<rparr>), s)"
  by (simp add: stored_once_def put_if_absent_def in_memory_new_def from_secs_def nanos_per_sec_def
      is_zero_duration_def instant_checked_add_def clock_limit_def retain_unexpired_def take_entry_def
      zero_duration_def)

definition example_credentials :: credentials where
  "example_credentials = (cl_client_id parts_client, cl_client_secret parts_client)"

definition example_logins :: "(bytes, bytes, script) login_system" where
  "example_logins = login_start (cl_provider parts_client) (example_world [answer ''T''] 30)
     \<lparr>lg_store := stored_once, lg_created := [(''oidc4rs:pending:st'', ''R'')]\<rparr>"

abbreviation example_query :: bytes where
  "example_query \<equiv> ''code=abc&state=st&iss=https://op''"

lemma example_client_of: "client_of example_credentials (cl_provider parts_client) = parts_client"
  by (simp add: client_of_def example_credentials_def)

lemma example_logins_reachable:
  "login_reachable (example_env docs) example_credentials (cl_provider parts_client)
     (example_world [answer ''T''] 30) example_logins"
proof -
  let ?s = "login_start (cl_provider parts_client) (example_world [answer ''T''] 30)"
  have "put_if_absent (Instant 0) ''oidc4rs:pending:st'' ''R'' (from_secs 600) (lg_store ?s) = (Inr True, stored_once)"
    using stored_once_put by (simp add: login_start_def)
  from login_reachable.later [OF login_reachable.initially login_steps.stored [OF this]]
  show ?thesis by (simp add: example_logins_def login_start_def)
qed

lemma example_called_reachable:
  "login_reachable (example_env docs) example_credentials (cl_provider parts_client)
     (example_world [answer ''T''] 30) (begin_login (example_env docs) example_query 0 example_logins)"
  by (rule login_reachable.later [OF example_logins_reachable login_steps.callback])
    (simp_all add: example_logins_def login_start_def refresh_start_def)

lemma example_peek_completes:
  "\<exists>w'. complete_authorization (example_env completion_docs) (store_peek scripted (lg_store example_logins))
     example_query (client_of example_credentials (sys_provider (lg_refresh example_logins)), lg_world example_logins) =
     (Inr \<lparr>ca_token_response = example_token_response, ca_pending = example_pending,
           ca_callback_state = ''st''\<rparr>, (parts_client, w'))"
proof -
  let ?w = "example_world [answer ''T''] 30"
  obtain s1 where s1: "take_entry ''oidc4rs:pending:st'' stored_once =
      (Inr (Some \<lparr>entry_value = ''R'', expires_at = Instant (600 * 1000000000)\<rparr>), s1)"
    by (rule stored_once_entry)
  have now: "instant_now scripted ?w = (Instant (30 * 1000000000), ?w)"
    "system_now scripted ?w = (SystemTime (30 * 1000000000), ?w)"
    by (simp_all add: example_world_def)
  have "store_peek scripted stored_once ''oidc4rs:pending:st'' ?w = (Inr (Some ''R''), ?w)"
    by (simp add: store_peek_def s1 unexpired_value_def less_instant_def example_world_def)
  from completes_with [where kv = "store_peek scripted stored_once" and R = scripted, OF this now] have "\<exists>w'. complete_authorization (env_with completion_docs scripted)
      (store_peek scripted stored_once) example_query (parts_client, ?w) =
      (Inr \<lparr>ca_token_response = example_token_response, ca_pending = example_pending,
            ca_callback_state = ''st''\<rparr>, (parts_client, w'))"
    by (simp add: example_world_def)
  moreover have "lg_store example_logins = stored_once" "lg_world example_logins = ?w"
    "client_of example_credentials (sys_provider (lg_refresh example_logins)) = parts_client"
    by (simp_all add: example_logins_def login_start_def lg_world_def refresh_start_def example_client_of)
  ultimately show ?thesis by (simp add: example_env_with)
qed

text \<open>The system after that callback ran to its end.\<close>

lemma example_login_ended:
  obtains s req where "s = run_login (example_env completion_docs) example_credentials 0 14
      (begin_login (example_env completion_docs) example_query 0 example_logins)"
    and "login_reachable (example_env completion_docs) example_credentials (cl_provider parts_client)
      (example_world [answer ''T''] 30) s"
    and "lg_issued s = [((''oidc4rs:pending:st'', ''R''), req)]"
    and "lg_created s = [(''oidc4rs:pending:st'', ''R'')]" and "lg_queries s = [example_query]"
proof -
  let ?E = "example_env completion_docs"
  let ?s = "run_login ?E example_credentials 0 14 (begin_login ?E example_query 0 example_logins)"
  have reach: "login_reachable ?E example_credentials (cl_provider parts_client) (example_world [answer ''T''] 30) ?s"
    by (rule run_login_reachable [OF example_called_reachable])
  from example_peek_completes obtain ca w' where run: "complete_authorization ?E
      (store_peek (env_runtime ?E) (lg_store example_logins)) example_query
      (client_of example_credentials (sys_provider (lg_refresh example_logins)), lg_world example_logins) =
      (Inr ca, (parts_client, w'))" by auto
  have free: "sys_lock (lg_refresh example_logins) = None"
    by (simp add: example_logins_def login_start_def refresh_start_def)
  have parsed: "parse_authorization_response (env_form ?E) example_query =
      Inr (Success ''abc'' ''st'' (Some ''https://op''))" by (simp add: example_callback_parses)
  from solo_login [OF free run, of 0] parsed obtain raw req where
    issued: "lg_issued ?s = [((''oidc4rs:pending:st'', raw), req)]" "lg_created ?s = lg_created example_logins"
      "lg_queries ?s = [example_query]"
    by (auto simp: pending_key_for_def example_logins_def login_start_def)
  have created: "lg_created ?s = [(''oidc4rs:pending:st'', ''R'')]"
    using issued(2) by (simp add: example_logins_def)
  have "raw = ''R''" using issued_created [OF reachable_used_once [OF reach]] issued(1) created by simp
  with reach issued(1,3) created show thesis by (intro that [OF refl]) simp_all
qed

text \<open>
  C6. A stored value is exchanged once: under every interleaving of callbacks, refreshes, setters, other
  uses of the store and dropped futures, the token requests that were issued for a value, the tasks
  that hold it, and the store together never count more than the times an entry with that key and
  value was created. So a callback that is replayed while the first one is still running, or after it
  was dropped, sends no second code.
\<close>

theorem stored_value_is_exchanged_once:
  assumes "login_reachable E cr p w s"
  shows "length (filter (\<lambda>x. fst x = (k, v)) (lg_issued s)) + card {i. holds_value (k, v) (lg_phases s i)} +
      in_store (k, v) (lg_store s) \<le> count_list (lg_created s) (k, v)"
  using reachable_used_once [OF assms] unfolding used_once_def tokens_def issued_for_def held_def by blast

theorem stored_value_is_exchanged_once_witness:
  "\<exists>(s :: (bytes, bytes, script) login_system) req. lg_issued s = [((''oidc4rs:pending:st'', ''R''), req)] \<and>
     in_store (''oidc4rs:pending:st'', ''R'') (lg_store s) = 0"
proof -
  obtain s req where s: "login_reachable (example_env completion_docs) example_credentials
      (cl_provider parts_client) (example_world [answer ''T''] 30) s"
    "lg_issued s = [((''oidc4rs:pending:st'', ''R''), req)]" "lg_created s = [(''oidc4rs:pending:st'', ''R'')]"
    using example_login_ended by blast
  from stored_value_is_exchanged_once [OF s(1), of "''oidc4rs:pending:st''" "''R''"] s(2,3)
  have "in_store (''oidc4rs:pending:st'', ''R'') (lg_store s) = 0" by simp
  with s(2) show ?thesis by blast
qed

text \<open>
  C7. Every token request belongs to one login, whatever runs beside it: it was issued for an entry
  that was created under the key of its state, the entry reads as a pending request with that state,
  the code was received in a callback with that state from the client's issuer (or without an issuer,
  from a provider that does not promise one), and it goes to an https endpoint of that issuer with the
  redirect URI and the PKCE verifier of the pending request and the credentials of the client. No
  interleaving mixes the code of one login with the verifier of another.
\<close>

theorem issued_requests_are_bound:
  assumes "login_reachable E cr p w s" and "provider_ok p"
    and "snapshot_ok E issuer (ps_metadata p) (ps_jwks p)" and "((k, v), req) \<in> set (lg_issued s)"
  shows "(k, v) \<in> set (lg_created s) \<and>
    (\<exists>q code st iss pending m r built. q \<in> set (lg_queries s) \<and>
       parse_authorization_response (env_form E) q = Inr (Success code st iss) \<and>
       k = pending_key_for st \<and>
       from_json_slice (env_json E) (decode_pending (env_json E)) v = Inr pending \<and> pending_state pending = st \<and>
       metadata_issuer m = issuer \<and> metadata_ok (env_url E) m \<and>
       (iss = Some (issuer_as_str issuer) \<or> iss = None \<and> \<not> authorization_response_iss_parameter_supported m) \<and>
       code_request_build (env_url E) (env_form E) (env_base64 E) r = Inr built \<and> built_http built = req \<and>
       code_endpoint r = token_endpoint m \<and> code_code r = code \<and>
       code_redirect_uri r = pending_redirect_uri pending \<and>
       code_pkce_verifier r = pending_pkce_verifier pending \<and>
       code_client_id r = fst cr \<and> code_client_secret r = snd cr)"
proof -
  have "request_bound E cr issuer (lg_queries s) (k, v) req"
    using reachable_logins_ok [OF assms(1-3)] assms(4) by (auto simp: logins_ok_def)
  then obtain code st iss pending m c built where
    b: "received E (lg_queries s) (Success code st iss)" "k = pending_key_for st" "pending_of E v pending"
      "pending_state pending = st" "metadata_issuer m = issuer" "metadata_ok (env_url E) m"
      "check_callback_issuer m (Success code st iss) = Inr ()"
      "token_exchange E (client_of cr c) m code pending built" "req = built_http built"
    by (auto simp: request_bound_def)
  from b(5,7) have iss: "iss = Some (issuer_as_str issuer) \<or>
      iss = None \<and> \<not> authorization_response_iss_parameter_supported m"
    by (cases iss) (auto simp: check_callback_issuer_ok)
  from b(8) obtain r where
    "code_request_build (env_url E) (env_form E) (env_base64 E) r = Inr built" "code_endpoint r = token_endpoint m"
    "code_code r = code" "code_redirect_uri r = pending_redirect_uri pending"
    "code_pkce_verifier r = pending_pkce_verifier pending" "code_client_id r = fst cr" "code_client_secret r = snd cr"
    by (auto simp: token_exchange_def client_of_def)
  moreover obtain q where "q \<in> set (lg_queries s)"
    "parse_authorization_response (env_form E) q = Inr (Success code st iss)"
    using b(1) by (auto simp: received_def)
  moreover have "(k, v) \<in> set (lg_created s)"
    by (rule issued_created [OF reachable_used_once [OF assms(1)] assms(4)])
  ultimately show ?thesis using b(2-6,9) iss unfolding pending_of_def by blast
qed

lemma parts_client_provider_ok: "provider_ok (cl_provider parts_client)"
  by (simp add: provider_ok_def parts_client_def example_provider_def)

lemma parts_client_snapshot_ok:
  "snapshot_ok (example_env docs) \<lparr>issuer_as_url = ''https://op'', issuer_as_str = ''https://op''\<rparr>
     (ps_metadata (cl_provider parts_client)) (ps_jwks (cl_provider parts_client))"
  using example_snapshot_ok [of docs] by (simp add: parts_client_def)

theorem issued_requests_are_bound_witness:
  "\<exists>(s :: (bytes, bytes, script) login_system) req r built.
     lg_issued s = [((''oidc4rs:pending:st'', ''R''), req)] \<and>
     code_request_build text_url std_form std_base64 r = Inr built \<and> built_http built = req \<and>
     code_code r = ''abc'' \<and> code_pkce_verifier r = Some ''v''"
proof -
  let ?E = "example_env completion_docs"
  obtain s req where s: "login_reachable ?E example_credentials (cl_provider parts_client)
      (example_world [answer ''T''] 30) s"
    "lg_issued s = [((''oidc4rs:pending:st'', ''R''), req)]" "lg_queries s = [example_query]"
    using example_login_ended by blast
  have i: "((''oidc4rs:pending:st'', ''R''), req) \<in> set (lg_issued s)" using s(2) by simp
  note bound = issued_requests_are_bound [OF s(1) parts_client_provider_ok parts_client_snapshot_ok i]
  obtain q code st iss pending r built where q: "q \<in> set (lg_queries s)"
    "parse_authorization_response (env_form ?E) q = Inr (Success code st iss)"
    and pending: "from_json_slice (env_json ?E) (decode_pending (env_json ?E)) ''R'' = Inr pending"
    and r: "code_request_build (env_url ?E) (env_form ?E) (env_base64 ?E) r = Inr built" "built_http built = req"
      "code_code r = code" "code_pkce_verifier r = pending_pkce_verifier pending"
    using bound by blast
  from q s(3) have "code = ''abc''" by (simp add: example_callback_parses)
  moreover from pending have "pending_pkce_verifier pending = Some ''v''"
    by (auto simp: completion_docs_read(1) example_pending_def)
  ultimately show ?thesis using s(2) r by auto
qed

text \<open>
  C15. Logins end: in every reachable state finitely many tasks have work left; however their own steps
  interleave, they make at most fourteen each, those of their refreshes included, so none can go
  round; and no state is stuck: as long as a task has work left one of them can go on, since a task
  waits only for the holder of the refresh lock, and they can always be run to their end.
\<close>

theorem logins_end:
  assumes "login_reachable E cr p w s" and "provider_ok p"
    and "snapshot_ok E issuer (ps_metadata p) (ps_jwks p)"
  shows "finite (busy s) \<and>
    (\<forall>n s'. (own_step E cr ^^ n) s s' \<longrightarrow> n \<le> 14 * card (busy s)) \<and>
    (\<forall>s'. (own_step E cr)\<^sup>*\<^sup>* s s' \<longrightarrow> busy s' \<noteq> {} \<longrightarrow> (\<exists>s''. own_step E cr s' s'')) \<and>
    (\<exists>s'. (own_step E cr)\<^sup>*\<^sup>* s s' \<and> busy s' = {})"
proof -
  note ok = reachable_logins_ok [OF assms] and fin = finite_busy [OF assms]
  have bound: "n \<le> 14 * card (busy s)" if "(own_step E cr ^^ n) s s'" for n s'
    using own_steps_bounded [OF that ok fin] work_left_le [OF ok fin] by simp
  have "logins_ok E cr issuer s'" if "(own_step E cr)\<^sup>*\<^sup>* s s'" for s'
    using own_steps_bounded [OF _ ok fin] that by (metis rtranclp_imp_relpowp)
  with someone_own_step have "\<exists>s''. own_step E cr s' s''"
    if "(own_step E cr)\<^sup>*\<^sup>* s s'" "busy s' \<noteq> {}" for s' using that by blast
  with bound fin run_logins_to_rest [OF ok fin] show ?thesis by blast
qed

theorem logins_end_witness:
  "\<exists>s'. (own_step (example_env completion_docs) example_credentials)\<^sup>*\<^sup>*
     (begin_login (example_env completion_docs) example_query 0 example_logins) s' \<and> busy s' = {}"
  using logins_end [OF example_called_reachable parts_client_provider_ok parts_client_snapshot_ok] by blast

text \<open>
  C16. The interleaved login implements \<open>complete_authorization\<close>: a task that nothing interrupts, started
  while no refresh holds the lock, ends after at most fourteen steps with the result, the snapshot and
  the world of the sequential operation on the same store; the entry of its state is gone from the
  store, the lock is free, and no other task has moved.
\<close>

theorem solo_login_refines:
  assumes "sys_lock (lg_refresh s) = None"
    and "complete_authorization E (store_peek (env_runtime E) (lg_store s)) q
      (client_of cr (sys_provider (lg_refresh s)), lg_world s) = (r, (c', w'))"
  shows "\<exists>rs issued. run_login E cr i 14 (begin_login E q i s) =
      s\<lparr>lg_refresh := rs,
        lg_store := (case parse_authorization_response (env_form E) q of
          Inl e \<Rightarrow> lg_store s
        | Inr response \<Rightarrow> snd (take_entry (pending_key_for (response_state response)) (lg_store s))),
        lg_phases := (lg_phases s)(i := Ended r), lg_queries := q # lg_queries s, lg_issued := issued\<rparr> \<and>
    sys_provider rs = cl_provider c' \<and> sys_world rs = w' \<and> sys_lock rs = None"
  using solo_login [OF assms] by blast

theorem solo_login_refines_witness:
  "\<exists>ca. lg_phases (run_login (example_env completion_docs) example_credentials 0 14
      (begin_login (example_env completion_docs) example_query 0 example_logins)) 0 = Ended (Inr ca)"
proof -
  let ?E = "example_env completion_docs"
  from example_peek_completes obtain ca w' where run: "complete_authorization ?E
      (store_peek (env_runtime ?E) (lg_store example_logins)) example_query
      (client_of example_credentials (sys_provider (lg_refresh example_logins)), lg_world example_logins) =
      (Inr ca, (parts_client, w'))" by auto
  have "sys_lock (lg_refresh example_logins) = None"
    by (simp add: example_logins_def login_start_def refresh_start_def)
  from solo_login_refines [OF this run, of 0] show ?thesis by auto
qed

end
