(* ===== verification/Honest_Login.thy ===== *)
theory Honest_Login
  imports Login_Runs
begin

text \<open>
  The other direction of the security properties: a login that the user and the provider carry out as
  the protocol says completes. With the key-value store as part of the world, which the properties of
  whole logins share.
\<close>

section \<open>The store beside the world\<close>

text \<open>
  The key-value store as part of the world: a world is a pair of the rest and an in-memory store.
  \<^verbatim>\<open>take\<close> removes the entry and then, if there was one, reads the clock.
\<close>

definition store_take ::
  "('x \<times> in_memory_kv_store) runtime \<Rightarrow> bytes \<Rightarrow> 'x \<times> in_memory_kv_store \<Rightarrow>
   (kv_error + bytes option) \<times> ('x \<times> in_memory_kv_store)" where
  "store_take R key w =
     (case take_entry key (snd w) of
        (Inl e, s) \<Rightarrow> (Inl e, (fst w, s))
      | (Inr None, s) \<Rightarrow> (Inr None, (fst w, s))
      | (Inr (Some e), s) \<Rightarrow>
          (case instant_now R (fst w, s) of (now, w') \<Rightarrow> (Inr (unexpired_value now e), w')))"

lemma store_take_value:
  assumes "store_take R key (x, s) = (Inr (Some v), w')"
  shows "\<exists>now. kv_live s now key = Some v"
  using assms
  by (auto simp: store_take_def take_entry_def unexpired_value_def kv_live_def
      split: if_splits option.splits prod.splits)

lemma store_take_gone:
  assumes "mem.gone s key" and "\<not> lock_poisoned s"
  shows "store_take R key (x, s) = (Inr None, (x, snd (take_entry key s)))"
proof -
  have "kv_entries s key = None"
  proof (cases "kv_entries s key")
    case (Some e)
    then have "kv_live s (Instant (instant_nanos (expires_at e) - 1)) key = Some (entry_value e)"
      by (simp add: kv_live_def less_instant_def)
    with assms(1) show ?thesis by (simp add: mem.gone_def)
  qed
  with assms(2) show ?thesis by (simp add: store_take_def take_entry_def)
qed

text \<open>The scripted world of the examples with a store beside it.\<close>

definition scripted_with_store :: "(script \<times> in_memory_kv_store) runtime" where
  "scripted_with_store = \<lparr>
     http_execute = (\<lambda>r (x, s). case http_execute scripted r x of (a, x') \<Rightarrow> (a, (x', s))),
     instant_now = (\<lambda>w. (script_instant (fst w), w)),
     system_now = (\<lambda>w. (script_system (fst w), w)),
     rand_bytes = (\<lambda>n w. (replicate n (CHR 0x00), w))\<rparr>"

section \<open>What is enough for a completion\<close>

lemma code_request_succeeds:
  assumes "form_laws F" and "code_code r \<noteq> []" and "code_redirect_uri r \<noteq> None"
    and "needs_secret (code_method r) \<longleftrightarrow> code_client_secret r \<noteq> None"
    and "code_client_secret r = None \<Longrightarrow> code_pkce_verifier r \<noteq> None"
  shows "\<exists>built. code_request_build U F B r = Inr built"
proof -
  obtain i where "form_encode_component F (client_id_str (code_client_id r)) = Inr i"
    using form_encode_component_ok [OF assms(1)] by blast
  moreover obtain x where "form_encode_component F
      (case code_client_secret r of None \<Rightarrow> [] | Some s \<Rightarrow> client_secret_str s) = Inr x"
    using form_encode_component_ok [OF assms(1)] by blast
  ultimately show ?thesis
    using assms(2-5)
    by (cases "method_or_basic (code_auth_method r)")
      (auto simp: code_request_build_def code_method_def needs_secret_def authenticate_client_def Let_def
        mapr_def split: sum.splits)
qed

lemma complete_from_pending_succeeds:
  assumes "client_refresh_if_stale E (c, w) = (Inr m, (c', w1))"
    and "validate_pending_request (env_runtime E) pending st w1 = (Inr u, w2)"
    and "check_callback_issuer m (Success code st iss) = Inr ()"
    and "exchange_code_with_metadata c' code m = Inr b"
    and built: "code_request_build (env_url E) (env_form E) (env_base64 E) (set_from_pending pending b) = Inr built"
    and "http_execute (env_runtime E) (built_http built) w2 = (Inr resp, w')" and "resp_status resp = 200"
    and "from_json_slice (env_json E) (decode_token_response (env_display E)) (resp_body resp) = Inr tr"
  shows "complete_authorization_from_pending E (Success code st iss) pending (c, w) =
    (Inr \<lparr>ca_token_response = tr, ca_pending = pending, ca_callback_state = st\<rparr>, (c', w'))"
proof -
  have "post_token_request E built w2 = (Inr tr, w')"
    using assms(6-8) code.request_line [OF built] by (simp add: post_token_request_ok)
  with assms(1-5) show ?thesis
    by (simp add: complete_authorization_from_pending_def binds_def map_errs_def on_snd_def
        response_code_or_error_def Let_def)
qed

lemma window_accepted:
  assumes "pending_created_at p \<le> now" and "system_nanos now \<le> system_nanos (pending_created_at p) + 600 * 1000000000"
  shows "validate_created_at p now = Inr ()"
  using assms
  by (auto simp: validate_created_at_def duration_since_def less_eq_system_time_def pending_default_ttl_def
      from_secs_def nanos_per_sec_def less_duration_def)

lemma store_take_live:
  assumes "kv_live s t key = Some v" and "\<not> lock_poisoned s"
    and "instant_now R (x, snd (take_entry key s)) = (t, w')"
  shows "store_take R key (x, s) = (Inr (Some v), w')"
  using assms
  by (auto simp: store_take_def take_entry_def kv_live_def unexpired_value_def split: option.splits if_splits)

text \<open>The token request of a started login can be built.\<close>

lemma started_request_builds:
  assumes "form_laws F" and "builder_bound E c redirect sc ab" and "to_pending E (authorize_build E ab) w = (p, w')"
    and "exchange_code_with_metadata c' code m = Inr b" and "code \<noteq> []"
    and "cl_client_secret c' = cl_client_secret c"
  shows "\<exists>built. code_request_build U F B (set_from_pending p b) = Inr built"
proof (rule code_request_succeeds [OF assms(1)])
  note b = exchange_fields [OF assms(4)]
  then have none: "code_redirect_uri b = None" "code_pkce_verifier b = None" by simp_all
  note set = set_from_pending_fields [OF none, of p]
  have p: "pending_redirect_uri p \<noteq> None" "pending_pkce_verifier p = map_option verifier_str (ab_pkce_verifier ab)"
    using assms(3) by (auto simp: to_pending_def authorize_build_def split: prod.splits)
  show "code_code (set_from_pending p b) \<noteq> []" using set b assms(5) by simp
  show "code_redirect_uri (set_from_pending p b) \<noteq> None" using set p by simp
  show "needs_secret (code_method (set_from_pending p b)) \<longleftrightarrow> code_client_secret (set_from_pending p b) \<noteq> None"
    using set b by simp
  show "code_pkce_verifier (set_from_pending p b) \<noteq> None" if "code_client_secret (set_from_pending p b) = None"
    using that set b p assms(2,6) by (simp add: builder_bound_def)
qed

text \<open>What was stored is what the completion takes, whatever else is done with the store.\<close>

lemma stored_request_taken:
  assumes "serde_time_laws (env_json E)" and "encode_pending (env_json E) p = Inr v"
    and "json_parse (env_json E) (json_print (env_json E) v) = Inr v"
    and put: "put_if_absent t0 (pending_key_for st) (json_print (env_json E) v) ttl s0 = (Inr True, s1)"
    and others: "in_memory_run ops s1 = (rs, s2)" "created_for (pending_key_for st) ops rs = 0"
    and live: "instant_now (env_runtime E) (x, snd (take_entry (pending_key_for st) s2)) = (t, w)"
      "kv_live s2 t (pending_key_for st) \<noteq> None"
  shows "take_pending_request E (store_take (env_runtime E)) st (x, s2) = (Inr p, w)"
proof -
  have "kv_usable s1" using put by (cases rule: put_if_absent_cases) (auto simp: kv_usable_def retain_unexpired_def)
  then have free: "\<not> lock_poisoned s2"
    using mem.run_usable [of ops s1] others(1) by (simp add: in_memory_run_def kv_usable_def)
  from live(2) obtain raw where raw: "kv_live s2 t (pending_key_for st) = Some raw" by blast
  have "kv_live s1 t (pending_key_for st) = Some raw"
    using mem.run_shrinks [OF _ others(2) raw] others(1) by (simp add: in_memory_run_def)
  with mem.put_created [OF put] have stored: "raw = json_print (env_json E) v" by blast
  have "store_take (env_runtime E) (pending_key_for st) (x, s2) = (Inr (Some raw), w)"
    by (rule store_take_live [OF raw free live(1)])
  with decode_encode_pending [OF assms(1,2)] assms(3) show ?thesis
    by (simp add: take_pending_ok stored from_json_slice_def)
qed

section \<open>Properties\<close>

text \<open>
  C8. An honest login completes. Someone starts a login, stores its pending request and is sent back by
  the provider with a code and the state of the start, while the entry is in the store and at most ten
  minutes old (whatever else went on there); the client has or gets metadata whose issuer is the one in
  the callback and that advertises an authentication method for its kind of client; and the token
  endpoint answers with a token response. Then the completion succeeds with that response and the
  pending request of the start, and what it posted was the code with the redirect URI and the PKCE
  verifier of the start: no check of the code stands in the way of a login that belongs together.
\<close>

theorem honest_login_completes:
  assumes "form_laws (env_form E)" and "serde_time_laws (env_json E)"
    and start: "authorize_request E c redirect sc options w0 = (Inr a, w1)" "to_pending E a w1 = (p, w2)"
    and json: "encode_pending (env_json E) p = Inr v" "json_parse (env_json E) (json_print (env_json E) v) = Inr v"
    and put: "put_if_absent t0 (storage_key a) (json_print (env_json E) v) ttl s0 = (Inr True, s1)"
    and others: "in_memory_run ops s1 = (rs, s2)" "created_for (storage_key a) ops rs = 0"
    and live: "instant_now (env_runtime E) (x, snd (take_entry (storage_key a) s2)) = (t, w3)"
      "kv_live s2 t (storage_key a) \<noteq> None"
    and callback: "parse_authorization_response (env_form E) q = Inr (Success code (state_str (ars_state a)) iss)"
    and client: "cl_client_secret c1 = cl_client_secret c" "client_refresh_if_stale E (c1, w3) = (Inr m, (c2, w4))"
    and issuer: "iss = Some (issuer_as_str (metadata_issuer m)) \<or>
      iss = None \<and> \<not> authorization_response_iss_parameter_supported m"
    and clock: "system_now (env_runtime E) w4 = (now, w5)" "pending_created_at p \<le> now"
      "system_nanos now \<le> system_nanos (pending_created_at p) + 600 * 1000000000"
    and meth: "auth_method_from_metadata (token_endpoint_auth_methods_supported m) (cl_client_secret c \<noteq> None) =
      Inr method"
    and answer: "\<And>req. \<exists>w'. http_execute (env_runtime E) req w5 = (Inr resp, w')" "resp_status resp = 200"
      "from_json_slice (env_json E) (decode_token_response (env_display E)) (resp_body resp) = Inr tr"
  shows "\<exists>r built w'. complete_authorization E (store_take (env_runtime E)) q (c1, (x, s2)) =
      (Inr \<lparr>ca_token_response = tr, ca_pending = p, ca_callback_state = state_str (ars_state a)\<rparr>, (c2, w')) \<and>
    http_execute (env_runtime E) (built_http built) w5 = (Inr resp, w') \<and>
    code_request_build (env_url E) (env_form E) (env_base64 E) r = Inr built \<and>
    code_endpoint r = token_endpoint m \<and> code_code r = code \<and>
    code_redirect_uri r = Some (redirect_url_as_str (env_url E) redirect) \<and>
    code_pkce_verifier r = map_option verifier_str (ars_pkce_verifier a)"
proof -
  let ?R = "env_runtime E" and ?st = "state_str (ars_state a)"
  from authorize_request_ok [OF start(1)] obtain ab where ab: "builder_bound E c redirect sc ab"
    "a = authorize_build E ab" .
  have p: "pending_state p = ?st" "pending_redirect_uri p = Some (redirect_url_as_str (env_url E) redirect)"
    "pending_pkce_verifier p = map_option verifier_str (ars_pkce_verifier a)"
    using start(2) ab by (auto simp: to_pending_def authorize_build_def builder_bound_def split: prod.splits)
  have key: "storage_key a = pending_key_for ?st" by (simp add: storage_key_def pending_key_for_def)
  note taken = stored_request_taken [OF assms(2) json put [unfolded key] others(1) others(2) [unfolded key]
    live [unfolded key]]
  have valid: "validate_pending_request ?R p ?st w4 = (Inr (), w5)"
    using window_accepted [OF clock(2,3)] clock(1) by (simp add: validate_pending_ok p(1))
  have iss: "check_callback_issuer m (Success code ?st iss) = Inr ()"
    using issuer by (auto simp: check_callback_issuer_ok)
  note creds = client_refresh_fields [OF client(2)]
  then obtain b where b: "exchange_code_with_metadata c2 code m = Inr b"
    using meth client(1) by (auto simp: exchange_code_with_metadata_def mapr_def)
  have "code \<noteq> []"
    using callback by (auto simp: parse_eq_Inr response_Success parameter_Some)
  then obtain built where built:
    "code_request_build (env_url E) (env_form E) (env_base64 E) (set_from_pending p b) = Inr built"
    using started_request_builds [OF assms(1) ab(1) start(2) [unfolded ab(2)] b] creds client(1) by auto
  obtain w' where sent: "http_execute ?R (built_http built) w5 = (Inr resp, w')" using answer(1) by blast
  note completes = complete_from_pending_succeeds [OF client(2) valid iss b built sent answer(2,3)]
  have "complete_authorization E (store_take ?R) q (c1, (x, s2)) =
      (Inr \<lparr>ca_token_response = tr, ca_pending = p, ca_callback_state = ?st\<rparr>, (c2, w'))"
    using callback taken completes by (simp add: complete_authorization_def binds_def map_errs_def on_snd_def)
  moreover have "code_redirect_uri b = None" "code_pkce_verifier b = None" using exchange_fields [OF b] by simp_all
  note set = set_from_pending_fields [OF this, of p]
  ultimately show ?thesis
    using sent built set exchange_fields [OF b] p(2,3) by (intro exI conjI) auto
qed

text \<open>A login that is started, stored and answered; its random bytes are all zero.\<close>

definition example_started :: "bytes \<Rightarrow> bytes auth_request_state" where
  "example_started url =
     \<lparr>ars_state = State (replicate 43 (CHR ''A'')), ars_nonce = Nonce (replicate 43 (CHR ''A'')),
      ars_pkce_verifier = Some (PkceCodeVerifier (replicate 86 (CHR ''A''))), ars_max_age = None,
      ars_redirect_uri = RedirectUrl ''https://rp/cb'', ars_scopes = scope_openid,
      ars_authorization_url = url\<rparr>"

lemma zero_bytes_encoded:
  "url_safe_encode std_base64 (replicate 32 (CHR 0x00)) = replicate 43 (CHR ''A'')"
  "url_safe_encode std_base64 (replicate 64 (CHR 0x00)) = replicate 86 (CHR ''A'')"
  by code_simp+

lemma zero_random:
  "state_new_random std_base64 scripted_with_store w = (State (replicate 43 (CHR ''A'')), w)"
  "nonce_new_random std_base64 scripted_with_store w = (Nonce (replicate 43 (CHR ''A'')), w)"
  "pkce_verifier_new_random std_base64 scripted_with_store w = (PkceCodeVerifier (replicate 86 (CHR ''A'')), w)"
  unfolding state_new_random_def nonce_new_random_def pkce_verifier_new_random_def random_url_safe_def fill_bytes_def
  by (simp_all add: scripted_with_store_def zero_bytes_encoded)

lemma example_start:
  "\<exists>url. authorize_request (env_with docs scripted_with_store) parts_client (RedirectUrl ''https://rp/cb'')
     scope_openid [] w = (Inr (example_started url), w)"
proof -
  have "list_ex (\<lambda>s. s = ''openid'') (scope_iter scope_openid)" by code_simp
  moreover have "cl_client_secret parts_client = None" by (simp add: parts_client_def)
  ultimately show ?thesis
    by (simp add: authorize_request_def authorize_builder_new_def binds_def Let_def zero_random
        authorize_build_def example_started_def)
qed

definition started_pending :: pending_auth_request where
  "started_pending =
     \<lparr>pending_state = replicate 43 (CHR ''A''), pending_nonce = replicate 43 (CHR ''A''),
      pending_pkce_verifier = Some (replicate 86 (CHR ''A'')), pending_max_age = None,
      pending_redirect_uri = Some ''https://rp/cb'', pending_scopes = scope_iter scope_openid,
      pending_created_at = SystemTime (30 * 1000000000)\<rparr>"

definition started_json :: json where
  "started_json = JObject
     [(''state'', JString (replicate 43 (CHR ''A''))), (''nonce'', JString (replicate 43 (CHR ''A''))),
      (''pkce_verifier'', JString (replicate 86 (CHR ''A''))), (''max_age'', JNull),
      (''redirect_uri'', JString ''https://rp/cb''), (''scopes'', JArray (map JString (scope_iter scope_openid))),
      (''created_at'', JArray [JNumber (PosInt (30 * 1000000000))])]"

definition started_docs :: "(bytes \<times> json) list" where
  "started_docs = [(''R'', started_json), (''T'', example_token_json)]"

abbreviation started_env :: "(bytes, table_jws, bytes, json, bytes, script \<times> in_memory_kv_store) env" where
  "started_env \<equiv> env_with started_docs scripted_with_store"

abbreviation started_world :: script where "started_world \<equiv> example_world [answer ''T''] 30"

definition started_query :: bytes where
  "started_query = ''code=abc&state='' @ replicate 43 (CHR ''A'') @ ''&iss=https://op''"

lemma started_callback:
  "parse_authorization_response std_form started_query =
     Inr (Success ''abc'' (replicate 43 (CHR ''A'')) (Some ''https://op''))"
  by code_simp

lemma started_pending_made:
  "to_pending (env_with docs scripted_with_store) (example_started url) (started_world, s) =
     (started_pending, (started_world, s))"
  by (simp add: to_pending_def example_started_def started_pending_def scripted_with_store_def example_world_def
      redirect_url_as_str_def text_url_def)

lemma started_json_made:
  "encode_pending (table_json docs) started_pending = Inr started_json"
  "json_parse (table_json started_docs) (json_print (table_json started_docs) started_json) = Inr started_json"
  "json_print (table_json started_docs) started_json = ''R''"
  "from_json_slice (table_json started_docs) (decode_token_response D) ''T'' = Inr example_token_response"
  by (simp_all add: encode_pending_def started_pending_def started_json_def table_json_def
      started_docs_def unix_epoch_def less_eq_system_time_def mapr_def json_option_def from_json_slice_def
      example_token_json_def decode_token_response_def struct_members_def map_members_def
      token_response_fields_def required_field_def option_field_def default_field_def as_string_def
      as_option_def deserialize_access_token_def access_token_new_def example_token_response_def)

lemma started_stored:
  obtains s1 where "put_if_absent (Instant 0) (storage_key (example_started url)) ''R'' pending_default_ttl
      in_memory_new = (Inr True, s1)"
    and "kv_live s1 (Instant (30 * 1000000000)) (storage_key (example_started url)) = Some ''R''"
  by (simp add: put_if_absent_def in_memory_new_def pending_default_ttl_def from_secs_def nanos_per_sec_def
      is_zero_duration_def instant_checked_add_def clock_limit_def retain_unexpired_def zero_duration_def
      kv_live_def less_instant_def)

lemma started_world_answers:
  "instant_now scripted_with_store (started_world, s) = (Instant (30 * 1000000000), (started_world, s))"
  "system_now scripted_with_store (started_world, s) = (SystemTime (30 * 1000000000), (started_world, s))"
  "\<exists>w'. http_execute scripted_with_store req (started_world, s) =
     (Inr \<lparr>resp_status = 200, resp_headers = [], resp_body = ''T''\<rparr>, w')"
  by (simp_all add: scripted_with_store_def example_world_def answer_def)

lemma started_client_current:
  "client_refresh_if_stale (env_with docs scripted_with_store) (parts_client, (started_world, s)) =
     (Inr example_metadata, (parts_client, (started_world, s)))"
  by (simp add: client_refresh_if_stale_def on_provider_def refresh_metadata_if_stale_def
      metadata_needs_refresh_def needs_refresh_at_def parts_client_def example_provider_def started_world_answers)

lemma example_issuer_and_method:
  "Some ''https://op'' = Some (issuer_as_str (metadata_issuer example_metadata)) \<or>
     Some ''https://op'' = None \<and> \<not> authorization_response_iss_parameter_supported example_metadata"
  "auth_method_from_metadata (token_endpoint_auth_methods_supported example_metadata)
     (cl_client_secret parts_client \<noteq> None) = Inr AuthNone"
  by (simp_all add: auth_method_from_metadata_def example_metadata_def parts_client_def)

theorem honest_login_completes_witness:
  "\<exists>s1 w'. put_if_absent (Instant 0) (pending_key_for (replicate 43 (CHR ''A''))) ''R'' pending_default_ttl
       in_memory_new = (Inr True, s1) \<and>
     complete_authorization started_env (store_take scripted_with_store) started_query
       (parts_client, (started_world, s1)) =
     (Inr \<lparr>ca_token_response = example_token_response, ca_pending = started_pending,
           ca_callback_state = replicate 43 (CHR ''A'')\<rparr>, (parts_client, w'))"
proof -
  let ?w = "\<lambda>s. (started_world, s :: in_memory_kv_store)"
  obtain url where start: "authorize_request started_env parts_client (RedirectUrl ''https://rp/cb'') scope_openid []
      (?w in_memory_new) = (Inr (example_started url), ?w in_memory_new)" using example_start by blast
  let ?a = "example_started url"
  obtain s1 where put: "put_if_absent (Instant 0) (storage_key ?a) ''R'' pending_default_ttl in_memory_new =
      (Inr True, s1)" and live: "kv_live s1 (Instant (30 * 1000000000)) (storage_key ?a) = Some ''R''"
    by (rule started_stored)
  have state: "state_str (ars_state ?a) = replicate 43 (CHR ''A'')" by (simp add: example_started_def)
  let ?s2 = "snd (take_entry (storage_key ?a) s1)"
  have laws: "form_laws (env_form started_env)" "serde_time_laws (env_json started_env)"
    by (simp_all add: std_form_laws table_json_time_laws)
  have json: "encode_pending (env_json started_env) started_pending = Inr started_json"
    "json_parse (env_json started_env) (json_print (env_json started_env) started_json) = Inr started_json"
    unfolding env_with_simps by (rule started_json_made)+
  have stored: "put_if_absent (Instant 0) (storage_key ?a) (json_print (env_json started_env) started_json)
      pending_default_ttl in_memory_new = (Inr True, s1)"
    using put by (simp add: started_json_made)
  have idle: "in_memory_run [] s1 = ([], s1)" "created_for (storage_key ?a) [] [] = 0"
    by (simp_all add: in_memory_run_def)
  have clocks: "instant_now (env_runtime started_env) (?w ?s2) = (Instant (30 * 1000000000), ?w ?s2)"
    "system_now (env_runtime started_env) (?w ?s2) = (SystemTime (30 * 1000000000), ?w ?s2)"
    by (simp_all add: started_world_answers)
  have found: "kv_live s1 (Instant (30 * 1000000000)) (storage_key ?a) \<noteq> None" using live by simp
  have parsed: "parse_authorization_response (env_form started_env) started_query =
      Inr (Success ''abc'' (state_str (ars_state ?a)) (Some ''https://op''))"
    by (simp add: started_callback state)
  have window: "pending_created_at started_pending \<le> SystemTime (30 * 1000000000)"
    "system_nanos (SystemTime (30 * 1000000000)) \<le>
      system_nanos (pending_created_at started_pending) + 600 * 1000000000"
    by (simp_all add: started_pending_def)
  let ?resp = "\<lparr>resp_status = 200, resp_headers = [], resp_body = ''T''\<rparr>"
  have answers: "\<exists>w'. http_execute (env_runtime started_env) req (?w ?s2) = (Inr ?resp, w')" for req
    unfolding env_with_simps by (rule started_world_answers(3))
  have body: "resp_status ?resp = 200" "from_json_slice (env_json started_env)
      (decode_token_response (env_display started_env)) (resp_body ?resp) = Inr example_token_response"
    by (simp_all add: started_json_made)
  from honest_login_completes [OF laws start started_pending_made json stored idle clocks(1) found parsed refl
      started_client_current example_issuer_and_method(1) clocks(2) window example_issuer_and_method(2) answers body]
  obtain w' where "complete_authorization started_env (store_take (env_runtime started_env)) started_query
      (parts_client, ?w s1) =
      (Inr \<lparr>ca_token_response = example_token_response, ca_pending = started_pending,
            ca_callback_state = state_str (ars_state ?a)\<rparr>, (parts_client, w'))" by blast
  moreover have "storage_key ?a = pending_key_for (replicate 43 (CHR ''A''))"
    by (simp add: storage_key_def pending_key_for_def state)
  ultimately show ?thesis using put by (auto simp: state)
qed

end
