(* ===== verification/Tests_Prelude.thy ===== *)
theory Tests_Prelude
  imports Instances "HOL-Library.Code_Target_Nat"
begin

text \<open>
  The repository's own unit tests, translated. A test function of the crate is a boolean definition,
  the conjunction of its assertions over the model, and a lemma that the kernel evaluates it to true:
  what the authors of the crate expect of a concrete input, the model does. This theory holds what
  the test theories share: the assertion macros over results.
\<close>

named_theorems test_simps "unfolding the helpers of the tests"

text \<open>\<^verbatim>\<open>unwrap\<close> followed by assertions, \<^verbatim>\<open>unwrap_err\<close> followed by assertions.\<close>

definition is_ok_and :: "'e + 'a \<Rightarrow> ('a \<Rightarrow> bool) \<Rightarrow> bool" where
  "is_ok_and r P = (case r of Inl e \<Rightarrow> False | Inr x \<Rightarrow> P x)"

definition is_err_and :: "'e + 'a \<Rightarrow> ('e \<Rightarrow> bool) \<Rightarrow> bool" where
  "is_err_and r P = (case r of Inl e \<Rightarrow> P e | Inr x \<Rightarrow> False)"

definition is_ok :: "'e + 'a \<Rightarrow> bool" where "is_ok r = is_ok_and r (\<lambda>_. True)"

definition is_err :: "'e + 'a \<Rightarrow> bool" where "is_err r = is_err_and r (\<lambda>_. True)"

definition is_some_and :: "'a option \<Rightarrow> ('a \<Rightarrow> bool) \<Rightarrow> bool" where
  "is_some_and r P = (case r of None \<Rightarrow> False | Some x \<Rightarrow> P x)"

lemma test_results [simp, test_simps]:
  "is_ok_and (Inr x) P = P x" "is_ok_and (Inl e) P = False"
  "is_err_and (Inl e) Q = Q e" "is_err_and (Inr x) Q = False"
  "is_ok (Inr x)" "\<not> is_ok (Inl e)" "is_err (Inl e)" "\<not> is_err (Inr x)"
  "is_some_and (Some y) R = R y" "is_some_and None R = False"
  by (simp_all add: is_ok_and_def is_err_and_def is_ok_def is_err_def is_some_and_def)

text \<open>\<^verbatim>\<open>str::starts_with\<close> and \<^verbatim>\<open>str::contains\<close> of the standard library.\<close>

fun str_starts_with :: "bytes \<Rightarrow> bytes \<Rightarrow> bool" where
  "str_starts_with t [] = True"
| "str_starts_with [] (d # s) = False"
| "str_starts_with (c # t) (d # s) = (if c = d then str_starts_with t s else False)"

fun str_contains :: "bytes \<Rightarrow> bytes \<Rightarrow> bool" where
  "str_contains [] s = (s = [])"
| "str_contains (c # t) s = (if str_starts_with (c # t) s then True else str_contains t s)"

lemma str_starts_with_iff: "str_starts_with t s \<longleftrightarrow> (\<exists>b. t = s @ b)"
  by (induction t s rule: str_starts_with.induct) auto

lemma str_contains_iff: "str_contains t s \<longleftrightarrow> (\<exists>a b. t = a @ s @ b)"
proof (induction t)
  case (Cons c t)
  have "(\<exists>a b. c # t = a @ s @ b) \<longleftrightarrow> (\<exists>b. c # t = s @ b) \<or> (\<exists>a b. t = a @ s @ b)"
    by (metis append_Cons append_Nil list.sel(3) tl_append2)
  with Cons show ?case by (simp add: str_starts_with_iff)
qed simp

section \<open>Stand-ins for crates\<close>

text \<open>\<open>path_url\<close>: URLs as text, where a URL that has no path gets the path \<^verbatim>\<open>/\<close>, as \<^verbatim>\<open>url::Url\<close> does.\<close>

definition with_path :: "bytes \<Rightarrow> bytes" where
  "with_path u =
     (let rest = takeWhile (\<lambda>c. c \<noteq> CHR ''?'' \<and> c \<noteq> CHR ''#'') u
      in if CHR ''/'' \<in> set (drop (length ''https://'') rest) then u
         else rest @ ''/'' @ drop (length rest) u)"

definition path_url :: "bytes url_lib" where
  "path_url = text_url\<lparr>url_parse := (\<lambda>s. Inr (with_path s))\<rparr>"

text \<open>
  \<open>second_dates\<close> stands for the crate \<^verbatim>\<open>httpdate\<close>: a date is written as its number of seconds since
  1970, so that what \<open>fmt_http_date\<close> writes is read back without its fraction of a second.
\<close>

definition second_dates :: httpdate_lib where
  "second_dates = \<lparr>parse_http_date = (\<lambda>s. map_option (\<lambda>n. SystemTime (int (n * nanos_per_sec)))
     (parse_uint (2 ^ 63) s))\<rparr>"

definition fmt_http_date :: "system_time \<Rightarrow> bytes" where
  "fmt_http_date t = nat_to_dec (nat (system_nanos t) div nanos_per_sec)"

text \<open>
  \<^verbatim>\<open>base64\<close> with both of its alphabets: the standard one has \<^verbatim>\<open>+\<close> and \<^verbatim>\<open>/\<close> for \<^verbatim>\<open>-\<close> and \<^verbatim>\<open>_\<close>, and padding.
\<close>

definition swap_alphabet :: "char \<Rightarrow> char \<Rightarrow> char \<Rightarrow> char \<Rightarrow> bytes \<Rightarrow> bytes" where
  "swap_alphabet a b a' b' = map (\<lambda>c. if c = a then a' else if c = b then b' else c)"

definition standard_b64 :: "bytes \<Rightarrow> bytes" where
  "standard_b64 d =
     (let s = swap_alphabet (CHR ''-'') (CHR ''_'') (CHR ''+'') (CHR ''/'') (b64_encode d)
      in s @ replicate ((4 - length s mod 4) mod 4) (CHR ''=''))"

definition standard_b64_decode :: "bytes \<Rightarrow> base64_error + bytes" where
  "standard_b64_decode s =
     b64_decode (swap_alphabet (CHR ''+'') (CHR ''/'') (CHR ''-'') (CHR ''_'') (filter (\<lambda>c. c \<noteq> CHR ''='') s))"

definition both_base64 :: base64_lib where
  "both_base64 = std_base64\<lparr>standard_encode := standard_b64\<rparr>"

end
