(* ===== verification/Tests_Callback.thy ===== *)
theory Tests_Callback
  imports Tests_Prelude Callback
begin

text \<open>
  The unit tests of src/flow/callback.rs, with \<open>std_form\<close> for the crate \<^verbatim>\<open>form_urlencoded\<close>.
\<close>

abbreviation parse_response :: "bytes \<Rightarrow> callback_error + authorization_response" where
  "parse_response \<equiv> parse_authorization_response std_form"

definition provider_error_retains_standard_parameters :: bool where
  "provider_error_retains_standard_parameters \<longleftrightarrow>
     is_ok_and
       (parse_response (''error=access_denied&error_description=cancelled'' @
          ''&error_uri=https%3A%2F%2Fop.example.com%2Ferrors%2Fdenied&state=pending-state'' @
          ''&iss=https%3A%2F%2Fop.example.com''))
       (\<lambda>response. case response of
          ErrorResponse error description error_uri state iss \<Rightarrow>
            error = ''access_denied'' \<and> description = Some ''cancelled'' \<and>
            error_uri = Some ''https://op.example.com/errors/denied'' \<and>
            state = ''pending-state'' \<and> iss = Some ''https://op.example.com''
        | Success _ _ _ \<Rightarrow> False)"

definition rejects_duplicate_parameters :: bool where
  "rejects_duplicate_parameters \<longleftrightarrow>
     is_err_and (parse_response ''code=first&code=second&state=state'')
       (\<lambda>error. error = DuplicateParameter ''code'')"

definition rejects_duplicate_unknown_parameters :: bool where
  "rejects_duplicate_unknown_parameters \<longleftrightarrow>
     is_err_and (parse_response ''code=code&state=state&extension=1&extension=2'')
       (\<lambda>error. error = DuplicateParameter ''extension'')"

definition rejects_duplicates_after_parameter_name_decoding :: bool where
  "rejects_duplicates_after_parameter_name_decoding \<longleftrightarrow>
     is_err_and (parse_response ''code=code&state=first&%73tate=second'')
       (\<lambda>error. error = DuplicateParameter ''state'')"

definition rejects_mixed_success_and_error_parameters :: bool where
  "rejects_mixed_success_and_error_parameters \<longleftrightarrow>
     is_err_and (parse_response ''code=code&error=access_denied&state=state'')
       (\<lambda>error. error = AmbiguousResponse)"

definition treats_empty_values_as_omitted :: bool where
  "treats_empty_values_as_omitted \<longleftrightarrow>
     is_ok_and (parse_response ''code=code&error=&error_description=&error_uri=&state=state&iss='')
       (\<lambda>response. response = Success ''code'' ''state'' None)"

definition rejects_error_details_without_error :: bool where
  "rejects_error_details_without_error \<longleftrightarrow>
     is_err_and (parse_response ''error_description=authorization+failed&state=state'')
       (\<lambda>error. error = Missing ''error'')"

definition provider_error_requires_state :: bool where
  "provider_error_requires_state \<longleftrightarrow>
     is_err_and (parse_response ''error=access_denied'') (\<lambda>error. error = Missing ''state'')"

definition ignores_unknown_parameters :: bool where
  "ignores_unknown_parameters \<longleftrightarrow>
     is_ok_and (parse_response ''code=code&state=state&extension=value'')
       (\<lambda>response. case response of Success _ _ _ \<Rightarrow> True | _ \<Rightarrow> False)"

definition rejects_invalid_form_encoding :: bool where
  "rejects_invalid_form_encoding \<longleftrightarrow>
     (\<forall>raw \<in> set [''code=%GG&state=state'', ''code=%A&state=state'', ''code=%FF&state=state''].
        is_err_and (parse_response raw) (\<lambda>error. case error of ParseError _ \<Rightarrow> True | _ \<Rightarrow> False))"

definition rejects_values_outside_oauth_syntax :: bool where
  "rejects_values_outside_oauth_syntax \<longleftrightarrow>
     is_err_and (parse_response ''code=code%0Avalue&state=state'')
       (\<lambda>error. error = InvalidParameter ''code'') \<and>
     is_err_and (parse_response ''error=invalid%22request&state=state'')
       (\<lambda>error. error = InvalidParameter ''error'') \<and>
     is_err_and
       (parse_response ''error=access_denied&error_description=bad%5Cvalue&state=state'')
       (\<lambda>error. error = InvalidParameter ''error_description'') \<and>
     is_err_and
       (parse_response (''error=access_denied&error_uri=https%3A%2F%2Fop.example.com%2Fbad+path'' @
          ''&state=state''))
       (\<lambda>error. error = InvalidParameter ''error_uri'')"

lemma callback_test_provider_error: "provider_error_retains_standard_parameters"
  by code_simp

lemma callback_tests_duplicates:
  "rejects_duplicate_parameters" "rejects_duplicate_unknown_parameters"
  "rejects_duplicates_after_parameter_name_decoding" "rejects_mixed_success_and_error_parameters"
  by code_simp+

lemma callback_tests_missing:
  "treats_empty_values_as_omitted" "rejects_error_details_without_error"
  "provider_error_requires_state" "ignores_unknown_parameters"
  by code_simp+

lemma callback_test_form_encoding: "rejects_invalid_form_encoding"
  by code_simp

lemma callback_test_syntax: "rejects_values_outside_oauth_syntax"
  by code_simp

end
