(* ===== verification/Tests_Types.thy ===== *)
theory Tests_Types
  imports Tests_Prelude Kv_Store Url_Types Identifiers
begin

text \<open>
  The unit tests of src/crypto/ct.rs, src/transport/kv.rs, src/types/url.rs and
  src/types/identifiers.rs. The known answers of src/crypto/hash.rs and the statistics of
  src/crypto/rand.rs test the C library, which is a parameter here.
\<close>

section \<open>Comparison of secrets\<close>

abbreviation ct :: "bytes \<Rightarrow> bytes \<Rightarrow> bool" where "ct \<equiv> ct_equals pad_crypto"

definition equal_slices_match :: bool where
  "equal_slices_match \<longleftrightarrow> ct ''openid-nonce-abcdefghij'' ''openid-nonce-abcdefghij''"

definition first_byte_differs_rejects :: bool where
  "first_byte_differs_rejects \<longleftrightarrow> \<not> ct ''openid-nonce-abcdefghij'' ''Openid-nonce-abcdefghij''"

definition last_byte_differs_rejects :: bool where
  "last_byte_differs_rejects \<longleftrightarrow> \<not> ct ''openid-nonce-abcdefghij'' ''openid-nonce-abcdefghiJ''"

definition length_mismatch_rejects :: bool where
  "length_mismatch_rejects \<longleftrightarrow> \<not> ct ''openid-nonce-abcdefghij'' ''openid-nonce-abcdefghi''"

definition empty_slices_are_equal :: bool where
  "empty_slices_are_equal \<longleftrightarrow> ct [] []"

definition empty_vs_non_empty_rejects :: bool where
  "empty_vs_non_empty_rejects \<longleftrightarrow> \<not> ct [] [CHR 0x00]"

lemma ct_tests:
  "equal_slices_match" "first_byte_differs_rejects" "last_byte_differs_rejects"
  "length_mismatch_rejects" "empty_slices_are_equal" "empty_vs_non_empty_rejects"
  by code_simp+

section \<open>The in-memory store\<close>

text \<open>
  A clone of the store shares its entries, so it is the same state. The operations happen at \<open>t0\<close>;
  eight threads that take at the same time do so in some order, and the calls are alike.
\<close>

abbreviation t0 :: instant where "t0 \<equiv> Instant 1000"

definition value_is_created_once_and_taken_once :: bool where
  "value_is_created_once_and_taken_once \<longleftrightarrow>
     fst (in_memory_run
       [PutOp t0 ''key'' ''first'' (from_secs 60), PutOp t0 ''key'' ''second'' (from_secs 60),
        TakeOp t0 ''key'', TakeOp t0 ''key''] in_memory_new) =
     [PutReply (Inr True), PutReply (Inr False), TakeReply (Inr (Some ''first'')), TakeReply (Inr None)]"

definition clones_share_entries :: bool where
  "clones_share_entries \<longleftrightarrow>
     (let store = in_memory_new; (created, store) = put_if_absent t0 ''key'' ''value'' (from_secs 60) store;
          (taken, store) = take_kv t0 ''key'' store; (again, store) = take_kv t0 ''key'' store
      in created = Inr True \<and> taken = Inr (Some ''value'') \<and> again = Inr None)"

definition expired_value_is_unavailable_and_replaceable :: bool where
  "expired_value_is_unavailable_and_replaceable \<longleftrightarrow>
     (let (created, store) = put_if_absent t0 ''key'' ''expired'' (from_secs 60) in_memory_new;
          store = store\<lparr>kv_entries := (kv_entries store)(''key'' :=
            map_option (\<lambda>e. e\<lparr>expires_at := t0\<rparr>) (kv_entries store ''key''))\<rparr>;
          (replaced, store) = put_if_absent t0 ''key'' ''fresh'' (from_secs 60) store
      in created = Inr True \<and> replaced = Inr True \<and> fst (take_kv t0 ''key'' store) = Inr (Some ''fresh''))"

definition concurrent_take_returns_value_once :: bool where
  "concurrent_take_returns_value_once \<longleftrightarrow>
     (let (created, store) = put_if_absent t0 ''key'' ''value'' (from_secs 60) in_memory_new;
          values = fst (in_memory_run (replicate 8 (TakeOp t0 ''key'')) store)
      in created = Inr True \<and>
         list_all (\<lambda>r. case r of TakeReply (Inr _) \<Rightarrow> True | _ \<Rightarrow> False) values \<and>
         length (filter (\<lambda>r. r \<noteq> TakeReply (Inr None)) values) = 1)"

definition zero_ttl_is_rejected :: bool where
  "zero_ttl_is_rejected \<longleftrightarrow>
     is_err_and (fst (put_if_absent t0 ''key'' [] 0 in_memory_new)) (\<lambda>e. e = InvalidTtl)"

lemma kv_tests:
  "value_is_created_once_and_taken_once" "clones_share_entries"
  "expired_value_is_unavailable_and_replaceable" "concurrent_take_returns_value_once"
  "zero_ttl_is_rejected"
  by code_simp+

section \<open>Issuers\<close>

definition issuer_preserves_exact_serialized_value :: bool where
  "issuer_preserves_exact_serialized_value \<longleftrightarrow>
     is_ok_and (issuer_url_from_str path_url ''https://idp.example.com'') (\<lambda>without_slash.
     is_ok_and (issuer_url_from_str path_url ''https://idp.example.com/'') (\<lambda>with_slash.
       issuer_as_url without_slash = issuer_as_url with_slash \<and> without_slash \<noteq> with_slash \<and>
       issuer_as_str without_slash = ''https://idp.example.com'' \<and>
       issuer_as_str with_slash = ''https://idp.example.com/'' \<and>
       issuer_url_to_json without_slash = JString ''https://idp.example.com''))"

definition issuer_rejects_query_and_fragment :: bool where
  "issuer_rejects_query_and_fragment \<longleftrightarrow>
     is_err (issuer_url_from_str path_url ''https://idp.example.com?tenant=a'') \<and>
     is_err (issuer_url_from_str path_url ''https://idp.example.com#issuer'')"

lemma issuer_tests: "issuer_preserves_exact_serialized_value" "issuer_rejects_query_and_fragment"
  by code_simp+

section \<open>Debug output of identifiers\<close>

abbreviation quoted :: "bytes \<Rightarrow> bytes" where "quoted \<equiv> debug_str plain_display"

definition start_script :: script where
  "start_script = \<lparr>script_answers = [], script_sent = [], script_instant = Instant 0,
     script_system = SystemTime 0\<rparr>"

definition secret_newtypes_redact_debug_output :: bool where
  "secret_newtypes_redact_debug_output \<longleftrightarrow>
     is_ok_and (client_secret_new ''super-secret-value'') (\<lambda>secret.
     is_ok_and (access_token_new ''access-token-value'') (\<lambda>access.
     is_ok_and (refresh_token_new ''refresh-token-value'') (\<lambda>refresh.
       let (verifier, w) = pkce_verifier_new_random std_base64 scripted start_script;
           (nonce, w) = nonce_new_random std_base64 scripted w;
           (state, w) = state_new_random std_base64 scripted w
       in list_all (\<lambda>rendered. str_contains rendered ''***'')
            [client_secret_debug quoted secret, access_token_debug quoted access,
             refresh_token_debug quoted refresh, pkce_verifier_debug quoted verifier,
             nonce_debug quoted nonce, state_debug quoted state] \<and>
          \<not> str_contains (client_secret_debug quoted secret) ''super-secret-value'' \<and>
          \<not> str_contains (access_token_debug quoted access) ''access-token-value'' \<and>
          \<not> str_contains (refresh_token_debug quoted refresh) ''refresh-token-value'' \<and>
          \<not> str_contains (pkce_verifier_debug quoted verifier) (verifier_str verifier))))"

definition non_secret_newtype_debug_shows_value :: bool where
  "non_secret_newtype_debug_shows_value \<longleftrightarrow>
     is_ok_and (client_id_new ''public-client-id'') (\<lambda>client_id.
       str_contains (client_id_debug quoted client_id) ''public-client-id'')"

lemma identifier_tests: "secret_newtypes_redact_debug_output" "non_secret_newtype_debug_shows_value"
  by code_simp+

end
