(* ===== verification/Tests_Metadata.thy ===== *)
theory Tests_Metadata
  imports Tests_Prelude Metadata
begin

text \<open>
  The unit tests of src/metadata/cache.rs and src/metadata/provider.rs, with \<open>second_dates\<close> for the
  crate \<^verbatim>\<open>httpdate\<close>.
\<close>

section \<open>Cache policy\<close>

definition at_time :: "system_time \<Rightarrow> script" where
  "at_time t = \<lparr>script_answers = [], script_sent = [], script_instant = Instant 0, script_system = t\<rparr>"

text \<open>The time of the tests, in seconds since 1970, is 10000.5; and times some seconds from it.\<close>

definition seconds_from_now :: "int \<Rightarrow> system_time" where
  "seconds_from_now s = SystemTime (10000500000000 + s * 1000000000)"

definition test_world :: script where "test_world = at_time (seconds_from_now 0)"

text \<open>\<^verbatim>\<open>compute_policy\<close>, the entry point that cache.rs compiles for its tests only.\<close>

definition compute_policy ::
  "bytes option \<Rightarrow> bytes option \<Rightarrow> duration option \<Rightarrow> duration \<Rightarrow> cache_policy" where
  "compute_policy cache_control expires age default_lifetime =
     (let directives = (case cache_control of
            Some v \<Rightarrow> parse_cache_control v default_directives | None \<Rightarrow> default_directives)
      in fst (compute_policy_from_directives second_dates scripted directives expires None age
           default_lifetime test_world))"

abbreviation header_policy :: "(bytes \<times> bytes) list \<Rightarrow> duration \<Rightarrow> cache_policy" where
  "header_policy headers default_lifetime \<equiv>
     fst (policy_from_headers second_dates scripted headers default_lifetime test_world)"

definition cache_control_precedes_expires_and_default :: bool where
  "cache_control_precedes_expires_and_default \<longleftrightarrow>
     compute_policy (Some ''public, max-age=120'') (Some ''Sun, 06 Nov 1994 08:49:37 GMT'')
       (Some (from_secs 20)) (from_secs 30) = CacheFor (from_secs 100) False"

definition strict_directives_require_revalidation :: bool where
  "strict_directives_require_revalidation \<longleftrightarrow>
     compute_policy (Some ''no-cache, max-age=300'') None None (from_secs 60) = Revalidate \<and>
     compute_policy (Some ''no-store, max-age=300'') None None (from_secs 60) = DoNotStore \<and>
     compute_policy (Some ''max-age=300, must-revalidate'') None None (from_secs 60) =
       CacheFor (from_secs 300) True"

definition restrictive_max_age_and_invalid_values_become_stale :: bool where
  "restrictive_max_age_and_invalid_values_become_stale \<longleftrightarrow>
     compute_policy (Some ''max-age=120, MAX-AGE=60'') None None (from_secs 30) =
       CacheFor (from_secs 60) False \<and>
     compute_policy (Some ''max-age=invalid'') None None (from_secs 30) = CacheFor 0 False"

definition expires_and_default_supply_fallback_lifetimes :: bool where
  "expires_and_default_supply_fallback_lifetimes \<longleftrightarrow>
     (case compute_policy None (Some (fmt_http_date (seconds_from_now 3600))) None (from_secs 30) of
        CacheFor lifetime must_revalidate \<Rightarrow> from_secs 3500 < lifetime
      | _ \<Rightarrow> False) \<and>
     compute_policy None None (Some (from_secs 10)) (from_secs 30) = CacheFor (from_secs 20) False"

definition response_header_names_are_case_insensitive :: bool where
  "response_header_names_are_case_insensitive \<longleftrightarrow>
     header_policy [(''CACHE-CONTROL'', ''max-age=60''), (''Age'', ''15'')] (from_secs 30) =
       CacheFor (from_secs 45) False"

definition repeated_cache_control_fields_are_combined :: bool where
  "repeated_cache_control_fields_are_combined \<longleftrightarrow>
     header_policy [(''cache-control'', ''max-age=60''), (''Cache-Control'', ''no-store'')]
       (from_secs 30) = DoNotStore"

definition observed_public_idp_freshness_shapes_use_private_cache_rules :: bool where
  "observed_public_idp_freshness_shapes_use_private_cache_rules \<longleftrightarrow>
     (let default_lifetime = from_secs 3600;
          google = [(''cache-control'', ''public, max-age=3600''), (''age'', ''3183'')];
          microsoft = [(''cache-control'', ''max-age=86400, private'')];
          paypal = [(''cache-control'', ''s-maxage=31536000, public,max-age=3600''), (''age'', ''46185'')]
      in header_policy google default_lifetime = CacheFor (from_secs 417) False \<and>
         header_policy microsoft default_lifetime = CacheFor (from_secs 86400) False \<and>
         header_policy paypal default_lifetime = CacheFor 0 False \<and>
         header_policy [] default_lifetime = CacheFor default_lifetime False)"

definition observed_public_idp_strict_directives_are_not_reused :: bool where
  "observed_public_idp_strict_directives_are_not_reused \<longleftrightarrow>
     (let default_lifetime = from_secs 3600;
          gitlab = [(''cache-control'', ''max-age=0, private, must-revalidate'')];
          salesforce =
            [(''cache-control'', ''no-cache,must-revalidate,max-age=0,no-store,private'')];
          atlassian = [(''cache-control'', ''no-cache'')]
      in header_policy gitlab default_lifetime = CacheFor 0 True \<and>
         header_policy salesforce default_lifetime = DoNotStore \<and>
         header_policy atlassian default_lifetime = Revalidate)"

definition minimum_cache_duration_floors_response_freshness :: bool where
  "minimum_cache_duration_floors_response_freshness \<longleftrightarrow>
     (let minimum = from_secs 60
      in apply_minimum_cache_duration (CacheFor 0 False) minimum = CacheFor minimum False)"

definition minimum_cache_duration_throttles_strict_directives :: bool where
  "minimum_cache_duration_throttles_strict_directives \<longleftrightarrow>
     (let minimum = from_secs 60
      in list_all (\<lambda>policy. apply_minimum_cache_duration policy minimum = CacheFor minimum True)
           [Revalidate, DoNotStore])"

text \<open>A lifetime of at most 600 and more than 590 seconds.\<close>

definition about_ten_minutes :: "cache_policy \<Rightarrow> bool" where
  "about_ten_minutes policy \<longleftrightarrow>
     (case policy of
        CacheFor lifetime must_revalidate \<Rightarrow> lifetime \<le> from_secs 600 \<and> from_secs 590 < lifetime
      | _ \<Rightarrow> False)"

definition response_date_contributes_to_current_age :: bool where
  "response_date_contributes_to_current_age \<longleftrightarrow>
     about_ten_minutes (header_policy
       [(''cache-control'', ''max-age=3600''), (''date'', fmt_http_date (seconds_from_now (- 3000))),
        (''age'', ''120'')] (from_secs 30))"

definition stated_age_reduces_expires_freshness :: bool where
  "stated_age_reduces_expires_freshness \<longleftrightarrow>
     about_ten_minutes (header_policy
       [(''date'', fmt_http_date (seconds_from_now 0)),
        (''expires'', fmt_http_date (seconds_from_now 3600)), (''age'', ''3000'')] (from_secs 30))"

definition zero_minimum_cache_duration_preserves_response_policy :: bool where
  "zero_minimum_cache_duration_preserves_response_policy \<longleftrightarrow>
     list_all (\<lambda>policy. apply_minimum_cache_duration policy 0 = policy)
       [CacheFor (from_secs 30) False, Revalidate, DoNotStore]"

lemma cache_tests_directives:
  "cache_control_precedes_expires_and_default" "strict_directives_require_revalidation"
  "restrictive_max_age_and_invalid_values_become_stale"
  by code_simp+

lemma cache_tests_headers:
  "response_header_names_are_case_insensitive" "repeated_cache_control_fields_are_combined"
  "observed_public_idp_freshness_shapes_use_private_cache_rules"
  "observed_public_idp_strict_directives_are_not_reused"
  by code_simp+

lemma cache_tests_dates:
  "expires_and_default_supply_fallback_lifetimes" "response_date_contributes_to_current_age"
  "stated_age_reduces_expires_freshness"
  by code_simp+

lemma cache_tests_minimum:
  "minimum_cache_duration_floors_response_freshness" "minimum_cache_duration_throttles_strict_directives"
  "zero_minimum_cache_duration_preserves_response_policy"
  by code_simp+

section \<open>Provider metadata\<close>

definition valid_metadata :: "(bytes \<times> json) list" where
  "valid_metadata =
     [(''issuer'', JString ''https://idp.example.com''),
      (''authorization_endpoint'', JString ''https://idp.example.com/authorize''),
      (''token_endpoint'', JString ''https://idp.example.com/token''),
      (''jwks_uri'', JString ''https://idp.example.com/jwks''),
      (''response_types_supported'', JArray [JString ''code'']),
      (''subject_types_supported'', JArray [JString ''public'']),
      (''id_token_signing_alg_values_supported'', JArray [JString ''RS256''])]"

abbreviation metadata_from_value :: "(bytes \<times> json) list \<Rightarrow> json_error + bytes provider_metadata" where
  "metadata_from_value members \<equiv> decode_metadata plain_display text_url (JObject members)"

definition required_capability_fields_must_be_present :: bool where
  "required_capability_fields_must_be_present \<longleftrightarrow>
     list_all (\<lambda>field. is_err (metadata_from_value (filter (\<lambda>(k, v). k \<noteq> field) valid_metadata)))
       [''response_types_supported'', ''subject_types_supported'',
        ''id_token_signing_alg_values_supported'']"

definition validation_rejects_empty_or_nonconforming_capabilities :: bool where
  "validation_rejects_empty_or_nonconforming_capabilities \<longleftrightarrow>
     is_ok_and (metadata_from_value valid_metadata) (\<lambda>m.
       is_err (validate_metadata (m\<lparr>response_types_supported := []\<rparr>)) \<and>
       is_err (validate_metadata (m\<lparr>subject_types_supported := []\<rparr>)) \<and>
       is_err (validate_metadata (m\<lparr>id_token_signing_alg_values_supported := [''ES256'']\<rparr>)))"

lemma metadata_tests:
  "required_capability_fields_must_be_present"
  "validation_rejects_empty_or_nonconforming_capabilities"
  by code_simp+

end
