(* ===== verification/Tests_Token_Request.thy ===== *)
theory Tests_Token_Request
  imports Tests_Prelude Token_Request
begin

text \<open>
  The unit tests of src/flow/token.rs: the requests of both grants, read back as text.
\<close>

section \<open>The requests under test\<close>

definition test_client_id :: client_id where "test_client_id = ClientId ''my-client''"

definition test_endpoint :: "bytes token_url" where
  "test_endpoint = TokenUrl ''https://idp.example.com/token''"

definition code_req_basic :: "bytes code_token_request" where
  "code_req_basic = code_set_redirect_uri ''https://app.example.com/cb''
     (code_request_new test_endpoint test_client_id (Some (ClientSecret ''secret'')) ''auth-code'' None)"

definition code_req_none :: "bytes code_token_request" where
  "code_req_none = code_set_redirect_uri ''https://app.example.com/cb''
     (code_request_new test_endpoint test_client_id None ''auth-code'' (Some AuthNone))"

abbreviation build_code :: "bytes code_token_request \<Rightarrow> failure + bytes built_token_request" where
  "build_code \<equiv> code_request_build path_url std_form both_base64"

abbreviation build_refresh :: "bytes refresh_token_request \<Rightarrow> failure + bytes built_token_request" where
  "build_refresh \<equiv> refresh_request_build path_url std_form both_base64"

text \<open>Assertions on the body of a built request, and the first \<^verbatim>\<open>Authorization\<close> header.\<close>

definition body_of :: "bytes built_token_request \<Rightarrow> bytes" where
  "body_of r = (case req_body (built_http r) of Some b \<Rightarrow> b | None \<Rightarrow> [])"

definition authorization_of :: "bytes built_token_request \<Rightarrow> bytes option" where
  "authorization_of r = map_of (req_headers (built_http r)) ''Authorization''"

definition decoded_credentials :: "bytes \<Rightarrow> base64_error + bytes" where
  "decoded_credentials header = standard_b64_decode (drop (length ''Basic '') header)"

section \<open>The tests\<close>

definition code_request_basic_auth :: bool where
  "code_request_basic_auth \<longleftrightarrow>
     is_ok_and (build_code (code_set_pkce_verifier ''verifier-1234567890''
         (code_set_auth_method ClientSecretBasic code_req_basic))) (\<lambda>req.
       req_method (built_http req) = Post \<and>
       is_some_and (authorization_of req) (\<lambda>h. str_starts_with h ''Basic '' \<and>
         decoded_credentials h = Inr ''my-client:secret'') \<and>
       list_all (str_contains (body_of req))
         [''grant_type=authorization_code'', ''code=auth-code'', ''code_verifier='',
          ''redirect_uri=https%3A%2F%2Fapp.example.com%2Fcb''] \<and>
       \<not> str_contains (body_of req) ''client_id='' \<and> \<not> str_contains (body_of req) ''client_secret='')"

definition code_request_post_auth :: bool where
  "code_request_post_auth \<longleftrightarrow>
     is_ok_and (build_code (code_set_auth_method ClientSecretPost code_req_basic)) (\<lambda>req.
       str_contains (body_of req) ''client_id=my-client'' \<and>
       str_contains (body_of req) ''client_secret=secret'' \<and> authorization_of req = None)"

definition code_request_none_auth :: bool where
  "code_request_none_auth \<longleftrightarrow>
     is_ok_and (build_code (code_set_pkce_verifier ''verifier-1234567890'' code_req_none)) (\<lambda>req.
       str_contains (body_of req) ''client_id=my-client'' \<and>
       \<not> str_contains (body_of req) ''client_secret='' \<and> authorization_of req = None)"

definition code_request_requires_code :: bool where
  "code_request_requires_code \<longleftrightarrow>
     is_err (build_code (code_set_redirect_uri ''https://app.example.com/cb''
       (code_request_new test_endpoint test_client_id None [] (Some AuthNone))))"

definition code_request_requires_redirect :: bool where
  "code_request_requires_redirect \<longleftrightarrow>
     is_err (build_code (code_request_new test_endpoint test_client_id None ''auth-code'' (Some AuthNone)))"

definition code_request_basic_requires_secret :: bool where
  "code_request_basic_requires_secret \<longleftrightarrow>
     is_err (build_code (code_set_redirect_uri ''https://app.example.com/cb''
       (code_request_new test_endpoint test_client_id None ''auth-code'' None)))"

definition code_request_none_requires_pkce :: bool where
  "code_request_none_requires_pkce \<longleftrightarrow>
     is_err_and (build_code code_req_none) (\<lambda>err. err = Err MissingPkceVerifier)"

definition refresh_request_basic_auth :: bool where
  "refresh_request_basic_auth \<longleftrightarrow>
     is_ok_and (refresh_token_new ''rt-1'') (\<lambda>token.
     is_ok_and (build_refresh (refresh_request_new test_endpoint test_client_id
         (Some (ClientSecret ''s'')) token (Some ClientSecretBasic))) (\<lambda>req.
       str_contains (body_of req) ''grant_type=refresh_token'' \<and>
       str_contains (body_of req) ''refresh_token=rt-1'' \<and> authorization_of req \<noteq> None))"

definition refresh_request_optional_scope :: bool where
  "refresh_request_optional_scope \<longleftrightarrow>
     is_ok_and (refresh_token_new ''rt-1'') (\<lambda>token.
     is_ok_and (build_refresh (refresh_set_scope ''openid email''
         (refresh_request_new test_endpoint test_client_id None token (Some AuthNone)))) (\<lambda>req.
       str_contains (body_of req) ''scope=openid+email'' \<and>
       str_contains (body_of req) ''client_id=my-client''))"

definition basic_auth_form_encodes_each_credential :: bool where
  "basic_auth_form_encodes_each_credential \<longleftrightarrow>
     is_ok_and (client_id_new ''client:id / '') (\<lambda>cid.
     is_ok_and (client_secret_new ''s:e& c+%'') (\<lambda>secret.
     is_ok_and (build_code (code_set_redirect_uri ''https://app.example.com/cb''
         (code_request_new test_endpoint cid (Some secret) ''auth-code'' (Some ClientSecretBasic)))) (\<lambda>req.
       is_some_and (authorization_of req) (\<lambda>h.
         decoded_credentials h = Inr ''client%3Aid+%2F+:s%3Ae%26+c%2B%25''))))"

definition metadata_rejects_incompatible_auth_methods :: bool where
  "metadata_rejects_incompatible_auth_methods \<longleftrightarrow>
     is_err (auth_method_from_metadata (Some [''private_key_jwt'']) True) \<and>
     is_err (auth_method_from_metadata (Some [''client_secret_basic'']) False)"

definition refresh_request_requires_token :: bool where
  "refresh_request_requires_token \<longleftrightarrow> is_err (refresh_token_new [])"

definition form_url_encodes_payload :: bool where
  "form_url_encodes_payload \<longleftrightarrow>
     str_contains (form_encode std_form
         [(''grant_type'', ''authorization_code''), (''redirect_uri'', ''https://x.example.com/?a=b&c=d'')])
       ''redirect_uri=https%3A%2F%2Fx.example.com%2F%3Fa%3Db%26c%3Dd''"

lemma token_test_basic: "code_request_basic_auth"
  by code_simp

lemma token_tests_methods: "code_request_post_auth" "code_request_none_auth"
  by code_simp+

lemma token_tests_missing:
  "code_request_requires_code" "code_request_requires_redirect" "code_request_basic_requires_secret"
  "code_request_none_requires_pkce" "refresh_request_requires_token"
  "metadata_rejects_incompatible_auth_methods"
  by code_simp+

lemma token_tests_refresh: "refresh_request_basic_auth" "refresh_request_optional_scope"
  by code_simp+

lemma token_tests_encoding: "basic_auth_form_encodes_each_credential" "form_url_encodes_payload"
  by code_simp+

end
