(* ===== verification/Json_Text.thy ===== *)
theory Json_Text
  imports Instances
begin

text \<open>
  A reader and a writer of JSON text (RFC 8259) in the place of \<^verbatim>\<open>serde_json\<close>, for the tests, which
  write documents and read them back: objects, arrays, strings with escapes, integers. Fractions and
  exponents, which no test uses, are not read. The reader's recursion is bounded by the length of
  its first argument, for which the text itself is enough.
\<close>

section \<open>Writing\<close>

text \<open>The characters below the space, by the upper three bits of the byte.\<close>

definition is_control :: "char \<Rightarrow> bool" where
  "is_control c = (case c of Char b0 b1 b2 b3 b4 b5 b6 b7 \<Rightarrow> \<not> b5 \<and> \<not> b6 \<and> \<not> b7)"

definition escape_char :: "char \<Rightarrow> bytes" where
  "escape_char c =
     (if c = CHR 0x22 then [CHR 0x5C, CHR 0x22] else if c = CHR 0x5C then [CHR 0x5C, CHR 0x5C]
      else if is_control c
      then CHR 0x5C # ''u00'' @ [hex_upper (of_char c div 16), hex_upper (of_char c mod 16)]
      else [c])"

definition quote :: "bytes \<Rightarrow> bytes" where
  "quote s = CHR 0x22 # concat (map escape_char s) @ [CHR 0x22]"

fun print_number :: "json_number \<Rightarrow> bytes" where
  "print_number (PosInt n) = nat_to_dec n"
| "print_number (NegInt i) = CHR ''-'' # nat_to_dec (nat (- i))"
| "print_number (Float s) = s"

fun print_json :: "json \<Rightarrow> bytes" where
  "print_json JNull = ''null''"
| "print_json (JBool b) = (if b then ''true'' else ''false'')"
| "print_json (JNumber n) = print_number n"
| "print_json (JString s) = quote s"
| "print_json (JArray vs) = ''['' @ join_with '','' (map print_json vs) @ '']''"
| "print_json (JObject ms) =
     ''{'' @ join_with '','' (map (\<lambda>(k, v). quote k @ '':'' @ print_json v) ms) @ ''}''"

section \<open>Reading\<close>

definition skip_ws :: "bytes \<Rightarrow> bytes" where
  "skip_ws s = dropWhile (\<lambda>c. c = CHR '' '' \<or> c = CHR 0x09 \<or> c = CHR 0x0A \<or> c = CHR 0x0D) s"

text \<open>The escapes of one character, and \<^verbatim>\<open>\u\<close> with a code below 256.\<close>

definition short_escapes :: "(char \<times> char) list" where
  "short_escapes = [(CHR 0x22, CHR 0x22), (CHR 0x5C, CHR 0x5C), (CHR ''/'', CHR ''/''),
     (CHR ''b'', CHR 0x08), (CHR ''f'', CHR 0x0C), (CHR ''n'', CHR 0x0A), (CHR ''r'', CHR 0x0D),
     (CHR ''t'', CHR 0x09)]"

fun read_string :: "bytes \<Rightarrow> (bytes \<times> bytes) option" where
  "read_string [] = None"
| "read_string (c # s) =
     (if c = CHR 0x22 then Some ([], s)
      else if c = CHR 0x5C then
        (case s of
           e # r \<Rightarrow>
             (case map_of short_escapes e of
                Some x \<Rightarrow> map_option (apfst (Cons x)) (read_string r)
              | None \<Rightarrow>
                  (case r of
                     a # b # h # l # r' \<Rightarrow>
                       if e = CHR ''u'' \<and> a = CHR ''0'' \<and> b = CHR ''0''
                       then map_option (apfst (Cons (char_of (16 * hex_digit h + hex_digit l)))) (read_string r')
                       else None
                   | _ \<Rightarrow> None))
         | [] \<Rightarrow> None)
      else if is_control c then None
      else map_option (apfst (Cons c)) (read_string s))"

definition read_number :: "bytes \<Rightarrow> (json \<times> bytes) option" where
  "read_number s =
     (case s of
        c # r \<Rightarrow>
          if c = CHR ''-'' then
            map_option (\<lambda>n. (JNumber (NegInt (- int n)), dropWhile is_digit_char r))
              (parse_uint (2 ^ 63) (takeWhile is_digit_char r))
          else map_option (\<lambda>n. (JNumber (PosInt n), dropWhile is_digit_char s))
                 (parse_uint (2 ^ 64) (takeWhile is_digit_char s))
      | [] \<Rightarrow> None)"

definition read_word :: "bytes \<Rightarrow> json \<Rightarrow> bytes \<Rightarrow> (json \<times> bytes) option" where
  "read_word word v s = (if take (length word) s = word then Some (v, drop (length word) s) else None)"

fun read_value :: "bytes \<Rightarrow> bytes \<Rightarrow> (json \<times> bytes) option"
  and read_elements :: "bytes \<Rightarrow> bytes \<Rightarrow> (json list \<times> bytes) option"
  and read_members :: "bytes \<Rightarrow> bytes \<Rightarrow> ((bytes \<times> json) list \<times> bytes) option" where
  "read_value [] s = None"
| "read_value (_ # fuel) s =
     (case skip_ws s of
        [] \<Rightarrow> None
      | c # r \<Rightarrow>
          if c = CHR 0x22 then map_option (apfst JString) (read_string r)
          else if c = CHR ''['' then
            (case skip_ws r of
               d # r' \<Rightarrow> if d = CHR '']'' then Some (JArray [], r')
                          else map_option (apfst JArray) (read_elements fuel r)
             | [] \<Rightarrow> None)
          else if c = CHR ''{'' then
            (case skip_ws r of
               d # r' \<Rightarrow> if d = CHR ''}'' then Some (JObject [], r')
                          else map_option (apfst JObject) (read_members fuel r)
             | [] \<Rightarrow> None)
          else if c = CHR ''n'' then read_word ''null'' JNull (c # r)
          else if c = CHR ''t'' then read_word ''true'' (JBool True) (c # r)
          else if c = CHR ''f'' then read_word ''false'' (JBool False) (c # r)
          else read_number (c # r))"
| "read_elements [] s = None"
| "read_elements (_ # fuel) s =
     Option.bind (read_value fuel s) (\<lambda>(v, r).
       (case skip_ws r of
          c # r' \<Rightarrow> if c = CHR '','' then map_option (apfst (Cons v)) (read_elements fuel r')
                     else if c = CHR '']'' then Some ([v], r') else None
        | [] \<Rightarrow> None))"
| "read_members [] s = None"
| "read_members (_ # fuel) s =
     (case skip_ws s of
        q # r \<Rightarrow>
          if q = CHR 0x22 then
            Option.bind (read_string r) (\<lambda>(k, r1).
            (case skip_ws r1 of
               c # r2 \<Rightarrow>
                 if c = CHR '':'' then
                   Option.bind (read_value fuel r2) (\<lambda>(v, r3).
                     (case skip_ws r3 of
                        d # r4 \<Rightarrow> if d = CHR '','' then map_option (apfst (Cons (k, v))) (read_members fuel r4)
                                   else if d = CHR ''}'' then Some ([(k, v)], r4) else None
                      | [] \<Rightarrow> None))
                 else None
             | [] \<Rightarrow> None))
          else None
      | [] \<Rightarrow> None)"

definition read_json :: "bytes \<Rightarrow> json_error + json" where
  "read_json s =
     (case read_value s s of
        Some (v, r) \<Rightarrow> if skip_ws r = [] then Inr v else Inl (JsonSyntax ''trailing characters'')
      | None \<Rightarrow> Inl (JsonSyntax ''expected value''))"

section \<open>What is written is read back\<close>

lemma read_escape:
  "read_string (escape_char c @ s) = map_option (apfst (Cons c)) (read_string s)"
proof -
  consider (quote) "c = CHR 0x22" | (backslash) "c = CHR 0x5C" | (control) "c \<noteq> CHR 0x22" "c \<noteq> CHR 0x5C" "is_control c"
    | (plain) "c \<noteq> CHR 0x22" "c \<noteq> CHR 0x5C" "\<not> is_control c" by blast
  then show ?thesis
  proof cases
    case control
    have nib: "(of_char c :: nat) div 16 < 16" "(of_char c :: nat) mod 16 < 16"
      using nibble [OF of_char_less [of c]] by simp_all
    have "char_of (16 * (of_char c div 16) + of_char c mod 16 :: nat) = c"
      by (simp only: mult_div_mod_eq char_of_char)
    then show ?thesis
      using control by (simp add: escape_char_def short_escapes_def hex_digit_upper [OF nib(1)]
          hex_digit_upper [OF nib(2)] del: mult_div_mod_eq)
  qed (simp_all add: escape_char_def short_escapes_def)
qed

lemma read_quoted: "read_string (concat (map escape_char s) @ CHR 0x22 # r) = Some (s, r)"
  by (induction s) (simp_all add: read_escape)

lemma printed_digits: "c \<in> set (nat_to_dec n) \<Longrightarrow> is_digit_char c"
proof (induction n rule: nat_to_dec.induct)
  case (1 n)
  then show ?case
    by (cases "n < 10") (auto simp: nat_to_dec.simps [of n] is_digit_char_def)
qed

text \<open>What may follow a value: anything that does not continue a number.\<close>

definition ends :: "bytes \<Rightarrow> bool" where
  "ends r \<longleftrightarrow> r = [] \<or> \<not> is_digit_char (hd r)"

lemma ends_sep [simp]: "ends (CHR '','' # r)" "ends (CHR '']'' # r)" "ends (CHR ''}'' # r)" "ends []"
  by (simp_all add: ends_def is_digit_char_def)

lemma digits_of_number:
  assumes "ends r"
  shows "takeWhile is_digit_char (nat_to_dec n @ r) = nat_to_dec n"
    "dropWhile is_digit_char (nat_to_dec n @ r) = r"
proof -
  have "takeWhile is_digit_char r = []" "dropWhile is_digit_char r = r"
    using assms by (cases r; simp add: ends_def)+
  then show "takeWhile is_digit_char (nat_to_dec n @ r) = nat_to_dec n"
    "dropWhile is_digit_char (nat_to_dec n @ r) = r"
    using printed_digits [of _ n] by (simp_all add: takeWhile_append dropWhile_append)
qed

text \<open>The documents that can be read back: integers in the range of their type, no fractions.\<close>

fun number_ok :: "json_number \<Rightarrow> bool" where
  "number_ok (PosInt n) \<longleftrightarrow> n < 2 ^ 64"
| "number_ok (NegInt i) \<longleftrightarrow> i < 0 \<and> - i < 2 ^ 63"
| "number_ok (Float s) \<longleftrightarrow> False"

fun json_ok :: "json \<Rightarrow> bool" where
  "json_ok JNull \<longleftrightarrow> True"
| "json_ok (JBool b) \<longleftrightarrow> True"
| "json_ok (JNumber n) \<longleftrightarrow> number_ok n"
| "json_ok (JString s) \<longleftrightarrow> True"
| "json_ok (JArray vs) \<longleftrightarrow> list_all json_ok vs"
| "json_ok (JObject ms) \<longleftrightarrow> list_all (\<lambda>(k, v). json_ok v) ms"

definition value_head :: "char \<Rightarrow> bool" where
  "value_head c \<longleftrightarrow> c \<notin> {CHR '' '', CHR 0x09, CHR 0x0A, CHR 0x0D, CHR '']'', CHR ''}''}"

lemma digit_head: "is_digit_char c \<Longrightarrow> value_head c \<and> c \<notin> {CHR 0x22, CHR ''['', CHR ''{'', CHR ''n'', CHR ''t'', CHR ''f'', CHR ''-''}"
  by (auto simp: is_digit_char_def value_head_def)

lemma print_json_head: "json_ok v \<Longrightarrow> \<exists>c s. print_json v = c # s \<and> value_head c"
proof (cases v)
  case (JNumber n)
  assume "json_ok v"
  with JNumber show ?thesis
    using nat_to_dec_head digit_head by (cases n) (fastforce simp: value_head_def)+
qed (auto simp: quote_def value_head_def)

lemma skip_ws_head: "value_head c \<Longrightarrow> skip_ws (c # s) = c # s"
  by (auto simp: skip_ws_def value_head_def)

lemma skip_ws_sep [simp]:
  "skip_ws (CHR '','' # r) = CHR '','' # r" "skip_ws (CHR '']'' # r) = CHR '']'' # r"
  "skip_ws (CHR ''}'' # r) = CHR ''}'' # r" "skip_ws (CHR '':'' # r) = CHR '':'' # r"
  "skip_ws (CHR 0x22 # r) = CHR 0x22 # r" "skip_ws [] = []"
  by (simp_all add: skip_ws_def)

lemma read_number_print:
  assumes "number_ok n" and "ends r" and "fuel \<noteq> []"
  shows "read_value fuel (print_number n @ r) = Some (JNumber n, r)"
proof -
  obtain f fs where fuel: "fuel = f # fs" using assms(3) by (cases fuel) auto
  show ?thesis
  proof (cases n)
    case (PosInt m)
    obtain c cs where c: "nat_to_dec m = c # cs" "is_digit_char c" using nat_to_dec_head by blast
    have "read_value fuel (print_number n @ r) = read_number (nat_to_dec m @ r)"
      using digit_head [OF c(2)] by (simp add: PosInt fuel c(1) skip_ws_head)
    also have "\<dots> = Some (JNumber n, r)"
      using digit_head [OF c(2)] digits_of_number [OF assms(2), of m] parse_uint_dec [of m "2 ^ 64"] assms(1) PosInt c(1)
      by (simp add: read_number_def)
    finally show ?thesis .
  next
    case (NegInt i)
    have "- i < 2 ^ 63" "0 \<le> - i" using assms(1) NegInt by simp_all
    then have "nat (- i) < 2 ^ 63" by (subst nat_less_iff) simp_all
    then show ?thesis
      using assms(1) NegInt digits_of_number [OF assms(2), of "nat (- i)"] parse_uint_dec [of "nat (- i)" "2 ^ 63"]
      by (simp add: fuel read_number_def skip_ws_def)
  next
    case (Float s) then show ?thesis using assms(1) by simp
  qed
qed

text \<open>The invariant of the induction, for one value with any continuation.\<close>

definition reads_back :: "json \<Rightarrow> bool" where
  "reads_back v \<longleftrightarrow> (\<forall>fuel r. length (print_json v) \<le> length fuel \<longrightarrow> ends r \<longrightarrow>
     read_value fuel (print_json v @ r) = Some (v, r))"

lemma reads_backD:
  "reads_back v \<Longrightarrow> length (print_json v) \<le> length fuel \<Longrightarrow> ends r \<Longrightarrow>
     read_value fuel (print_json v @ r) = Some (v, r)"
  by (simp add: reads_back_def)

lemma read_elements_print:
  assumes "list_all reads_back vs" and "vs \<noteq> []"
    and "sum_list (map (\<lambda>v. length (print_json v) + 1) vs) \<le> length fuel"
  shows "read_elements fuel (join_with '','' (map print_json vs) @ CHR '']'' # r) = Some (vs, r)"
  using assms
proof (induction vs arbitrary: fuel)
  case (Cons v vs)
  then obtain f fs where fuel: "fuel = f # fs" by (cases fuel) auto
  show ?case
  proof (cases vs)
    case Nil
    with Cons.prems fuel reads_backD [of v fs "CHR '']'' # r"] show ?thesis by simp
  next
    case (Cons x xs)
    with Cons.prems Cons.IH [of fs] fuel
      reads_backD [of v fs "CHR '','' # join_with '','' (map print_json vs) @ CHR '']'' # r"]
    show ?thesis by simp
  qed
qed simp

definition print_member :: "bytes \<times> json \<Rightarrow> bytes" where
  "print_member m = quote (fst m) @ '':'' @ print_json (snd m)"

lemma read_members_print:
  assumes "list_all (\<lambda>m. reads_back (snd m)) ms" and "ms \<noteq> []"
    and "sum_list (map (\<lambda>m. length (print_member m) + 1) ms) \<le> length fuel"
  shows "read_members fuel (join_with '','' (map print_member ms) @ CHR ''}'' # r) = Some (ms, r)"
  using assms
proof (induction ms arbitrary: fuel)
  case (Cons m ms)
  then obtain f fs where fuel: "fuel = f # fs" by (cases fuel) auto
  obtain k v where m: "m = (k, v)" by fastforce
  show ?case
  proof (cases ms)
    case Nil
    with Cons.prems fuel m reads_backD [of v fs "CHR ''}'' # r"] read_quoted [of k]
    show ?thesis by (simp add: print_member_def quote_def)
  next
    case (Cons x xs)
    with Cons.prems Cons.IH [of fs] fuel m read_quoted [of k]
      reads_backD [of v fs "CHR '','' # join_with '','' (map print_member ms) @ CHR ''}'' # r"]
    show ?thesis by (simp add: print_member_def [of "(k, v)"] quote_def)
  qed
qed simp

lemma join_length:
  "xs \<noteq> [] \<Longrightarrow> sum_list (map (\<lambda>x. length (f x) + 1) xs) = length (join_with '','' (map f xs)) + 1"
proof (induction xs)
  case (Cons x xs)
  then show ?case by (cases xs) auto
qed simp

lemma join_head:
  "xs \<noteq> [] \<Longrightarrow> f (hd xs) = c # s \<Longrightarrow> \<exists>t. join_with '','' (map f xs) = c # t"
proof (cases xs)
  case (Cons x ys)
  assume "f (hd xs) = c # s"
  with Cons show ?thesis by (cases ys) auto
qed simp

lemma reads_back_array:
  assumes "list_all json_ok vs" and "list_all reads_back vs"
  shows "reads_back (JArray vs)"
  unfolding reads_back_def
proof (intro allI impI)
  fix fuel r :: bytes assume len: "length (print_json (JArray vs)) \<le> length fuel"
  then obtain f fs where fuel: "fuel = f # fs" by (cases fuel) auto
  show "read_value fuel (print_json (JArray vs) @ r) = Some (JArray vs, r)"
  proof (cases "vs = []")
    case False
    then have "json_ok (hd vs)" using assms(1) by (cases vs) auto
    from print_json_head [OF this] obtain c s where "print_json (hd vs) = c # s" and c: "value_head c" by blast
    with join_head [of vs print_json] False obtain t where t: "join_with '','' (map print_json vs) = c # t" by blast
    have "read_elements fs (join_with '','' (map print_json vs) @ CHR '']'' # r) = Some (vs, r)"
      using join_length [OF False, of print_json] len fuel by (intro read_elements_print assms(2) False) simp
    then show ?thesis using c skip_ws_head [OF c] by (simp add: fuel t skip_ws_def value_head_def)
  qed (simp add: fuel skip_ws_def)
qed

lemma reads_back_object:
  assumes "list_all (\<lambda>m. reads_back (snd m)) ms"
  shows "reads_back (JObject ms)"
  unfolding reads_back_def
proof (intro allI impI)
  fix fuel r :: bytes assume len: "length (print_json (JObject ms)) \<le> length fuel"
  have print: "print_json (JObject ms) = ''{'' @ join_with '','' (map print_member ms) @ ''}''"
    by (simp add: print_member_def [abs_def] case_prod_unfold)
  from len obtain f fs where fuel: "fuel = f # fs" by (cases fuel) auto
  show "read_value fuel (print_json (JObject ms) @ r) = Some (JObject ms, r)"
  proof (cases "ms = []")
    case False
    have "print_member (hd ms) = CHR 0x22 # tl (print_member (hd ms))" by (simp add: print_member_def quote_def)
    with join_head [of ms print_member] False obtain t where t: "join_with '','' (map print_member ms) = CHR 0x22 # t" by blast
    have "read_members fs (join_with '','' (map print_member ms) @ CHR ''}'' # r) = Some (ms, r)"
      using join_length [OF False, of print_member] len fuel print by (intro read_members_print assms False) simp
    then show ?thesis by (simp add: print del: print_json.simps) (simp add: fuel t skip_ws_def)
  qed (simp add: fuel skip_ws_def)
qed

lemma json_reads_back: "json_ok v \<Longrightarrow> reads_back v"
proof (induction v)
  case (JNumber n)
  have "print_number n \<noteq> []"
    using print_json_head [OF JNumber] by auto
  then have "fuel \<noteq> []" if "length (print_number n) \<le> length fuel" for fuel :: bytes
    using that by auto
  with JNumber show ?case
    unfolding reads_back_def by (simp add: read_number_print del: read_value.simps print_number.simps)
next
  case (JString s)
  show ?case
    unfolding reads_back_def
  proof (intro allI impI)
    fix fuel r :: bytes assume "length (print_json (JString s)) \<le> length fuel"
    then obtain f fs where "fuel = f # fs" by (cases fuel) (auto simp: quote_def)
    then show "read_value fuel (print_json (JString s) @ r) = Some (JString s, r)"
      using read_quoted [of s r] by (simp add: quote_def)
  qed
next
  case (JArray vs)
  then show ?case by (intro reads_back_array) (auto simp: list_all_iff)
next
  case (JObject ms)
  then show ?case by (intro reads_back_object) (fastforce simp: list_all_iff)
qed (auto simp: reads_back_def read_word_def skip_ws_def neq_Nil_conv Suc_le_length_iff)

theorem read_print_json: "json_ok v \<Longrightarrow> read_json (print_json v) = Inr v"
  using reads_backD [OF json_reads_back, of v "print_json v" "[]"] by (simp add: read_json_def)

text \<open>The text of a document whose strings are ASCII is ASCII, and so valid UTF-8.\<close>

definition ascii :: "bytes \<Rightarrow> bool" where "ascii s \<longleftrightarrow> (\<forall>c \<in> set s. of_char c < (128 :: nat))"

lemma ascii_simps [simp]:
  "ascii []" "ascii (c # s) \<longleftrightarrow> of_char c < (128 :: nat) \<and> ascii s"
  "ascii (s @ t) \<longleftrightarrow> ascii s \<and> ascii t"
  by (auto simp: ascii_def)

fun json_ascii :: "json \<Rightarrow> bool" where
  "json_ascii JNull \<longleftrightarrow> True"
| "json_ascii (JBool b) \<longleftrightarrow> True"
| "json_ascii (JNumber n) \<longleftrightarrow> number_ok n"
| "json_ascii (JString s) \<longleftrightarrow> ascii s"
| "json_ascii (JArray vs) \<longleftrightarrow> list_all json_ascii vs"
| "json_ascii (JObject ms) \<longleftrightarrow> list_all (\<lambda>(k, v). ascii k \<and> json_ascii v) ms"

lemma ascii_dec: "ascii (nat_to_dec n)"
  using printed_digits [of _ n] by (fastforce simp: ascii_def is_digit_char_def)

lemma ascii_number: "number_ok n \<Longrightarrow> ascii (print_number n)"
  by (cases n) (simp_all add: ascii_dec)

lemma ascii_join: "ascii sep \<Longrightarrow> list_all ascii xs \<Longrightarrow> ascii (join_with sep xs)"
  by (induction sep xs rule: join_with.induct) simp_all

lemma ascii_escape: "of_char c < (128 :: nat) \<Longrightarrow> ascii (escape_char c)"
  by (auto simp: escape_char_def hex_upper_def)

lemma ascii_quote [simp]: "ascii s \<Longrightarrow> ascii (quote s)"
  using ascii_escape by (fastforce simp: quote_def ascii_def)

lemma ascii_print: "json_ascii v \<Longrightarrow> ascii (print_json v)"
proof (induction v)
  case (JArray vs)
  then show ?case by (auto simp: list_all_iff intro!: ascii_join)
next
  case (JObject ms)
  then show ?case by (fastforce simp: list_all_iff intro!: ascii_join)
qed (simp_all add: ascii_number)

lemma print_json_utf8: "json_ascii v \<Longrightarrow> utf8_valid (print_json v)"
  using ascii_print utf8_valid_ascii by (auto simp: ascii_def)

lemma ascii_json_ok: "json_ascii v \<Longrightarrow> json_ok v"
proof (induction v)
  case (JObject ms)
  then show ?case by (fastforce simp: list_all_iff)
qed (auto simp: list_all_iff)

section \<open>The library\<close>

text \<open>The library, with \<^verbatim>\<open>serde\<close>'s forms of \<^verbatim>\<open>Duration\<close> and \<^verbatim>\<open>SystemTime\<close>: seconds and nanoseconds.\<close>

definition secs_and_nanos :: "bytes \<Rightarrow> bytes \<Rightarrow> nat \<Rightarrow> json" where
  "secs_and_nanos s n t = JObject [(s, JNumber (PosInt (t div nanos_per_sec))),
     (n, JNumber (PosInt (t mod nanos_per_sec)))]"

definition read_secs_and_nanos :: "bytes \<Rightarrow> bytes \<Rightarrow> json \<Rightarrow> json_error + nat" where
  "read_secs_and_nanos s n v =
     (case (Option.bind (json_get s v) json_as_u64, Option.bind (json_get n v) json_as_u64) of
        (Some a, Some b) \<Rightarrow> Inr (a * nanos_per_sec + b)
      | _ \<Rightarrow> Inl (InvalidType s))"

definition text_json :: json_lib where
  "text_json = \<lparr>json_parse = read_json, json_print = print_json,
     json_of_duration = (\<lambda>d. secs_and_nanos ''secs'' ''nanos'' (as_nanos d)),
     duration_of_json = (\<lambda>v. mapr Nanos (read_secs_and_nanos ''secs'' ''nanos'' v)),
     json_of_system_time = (\<lambda>t. if unix_epoch \<le> t
       then Inr (secs_and_nanos ''secs_since_epoch'' ''nanos_since_epoch'' (nat (system_nanos t)))
       else Inl (CustomJson ''SystemTime must be later than UNIX_EPOCH'')),
     system_time_of_json = (\<lambda>v. mapr (\<lambda>n. SystemTime (int n))
       (read_secs_and_nanos ''secs_since_epoch'' ''nanos_since_epoch'' v))\<rparr>"

lemma secs_and_nanos_read:
  "s \<noteq> n \<Longrightarrow> read_secs_and_nanos s n (secs_and_nanos s n t) = Inr t"
  by (simp add: read_secs_and_nanos_def secs_and_nanos_def json_get_def json_as_u64_def nanos_per_sec_def)

lemma text_json_time_laws: "serde_time_laws text_json"
  unfolding serde_time_laws_def
proof (intro conjI allI impI)
  fix d show "duration_of_json text_json (json_of_duration text_json d) = Inr d"
    by (simp add: text_json_def secs_and_nanos_read)
next
  fix d show "json_of_duration text_json d \<noteq> JNull"
    by (simp add: text_json_def secs_and_nanos_def)
next
  fix t assume "unix_epoch \<le> t"
  then show "\<exists>v. json_of_system_time text_json t = Inr v" by (simp add: text_json_def)
next
  fix t v assume "json_of_system_time text_json t = Inr v"
  then have "0 \<le> system_nanos t"
    "v = secs_and_nanos ''secs_since_epoch'' ''nanos_since_epoch'' (nat (system_nanos t))"
    by (auto simp: text_json_def unix_epoch_def less_eq_system_time_def split: if_splits)
  then show "system_time_of_json text_json v = Inr t"
    by (simp add: text_json_def secs_and_nanos_read)
qed

end
