(* ===== verification/Tests_World.thy ===== *)
theory Tests_World
  imports Tests_Prelude Json_Text Client
begin

text \<open>
  The world the tests of the flows, the tokens and the client run in: \<^verbatim>\<open>MockHttp\<close> and \<^verbatim>\<open>MockKv\<close> of
  the repository's tests, clocks that advance by a millisecond whenever they are read, a counter in
  the place of randomness, and stand-ins for \<^verbatim>\<open>jose4rs\<close> and its key cache. A key is a JSON object;
  the compact token is the real one, three parts in base64, but its signature is the name of the key,
  the member \<^verbatim>\<open>n\<close> of the public key.
\<close>

section \<open>The mocks\<close>

text \<open>\<open>mock_keys\<close> holds the key sets fetched, by URL; \<open>mock_store\<close> is the data of \<^verbatim>\<open>MockKv\<close>.\<close>

record mock_world = script +
  mock_random :: nat
  mock_keys :: "(bytes \<times> json list) list"
  mock_store :: "bytes \<Rightarrow> bytes option"

definition tick :: nat where "tick = 1000000"

text \<open>
  \<^verbatim>\<open>MockHttp::execute\<close> hands out the responses in order and keeps the requests; with none left it
  panics, which no test reaches, and here it fails.
\<close>

definition mock_runtime :: "mock_world runtime" where
  "mock_runtime = \<lparr>
     http_execute = (\<lambda>r w. case script_answers w of
         [] \<Rightarrow> (Inl (Http ''no answer''), w\<lparr>script_sent := script_sent w @ [r]\<rparr>)
       | a # as \<Rightarrow> (a, w\<lparr>script_answers := as, script_sent := script_sent w @ [r]\<rparr>)),
     instant_now = (\<lambda>w. (script_instant w,
       w\<lparr>script_instant := Instant (instant_nanos (script_instant w) + int tick)\<rparr>)),
     system_now = (\<lambda>w. (script_system w,
       w\<lparr>script_system := SystemTime (system_nanos (script_system w) + int tick)\<rparr>)),
     rand_bytes = (\<lambda>n w. (replicate n (char_of (mock_random w)), w\<lparr>mock_random := mock_random w + 1\<rparr>))\<rparr>"

definition mock_put_if_absent ::
  "bytes \<Rightarrow> bytes \<Rightarrow> duration \<Rightarrow> mock_world \<Rightarrow> (kv_error + bool) \<times> mock_world" where
  "mock_put_if_absent key v ttl w =
     (case mock_store w key of
        None \<Rightarrow> (Inr True, w\<lparr>mock_store := (mock_store w)(key \<mapsto> v)\<rparr>)
      | Some _ \<Rightarrow> (Inr False, w))"

definition mock_take :: "bytes \<Rightarrow> mock_world \<Rightarrow> (kv_error + bytes option) \<times> mock_world" where
  "mock_take key w = (Inr (mock_store w key), w\<lparr>mock_store := (mock_store w)(key := None)\<rparr>)"

definition mock_contains :: "bytes \<Rightarrow> mock_world \<Rightarrow> bool" where
  "mock_contains key w \<longleftrightarrow> mock_store w key \<noteq> None"

text \<open>The time of the tests: 10000 seconds after 1970.\<close>

definition now_secs :: nat where "now_secs = 10000"

definition mock_http :: "http_response list \<Rightarrow> mock_world" where
  "mock_http responses =
     \<lparr>script_answers = map Inr responses, script_sent = [], script_instant = Instant 1000000000000,
      script_system = SystemTime (int (now_secs * nanos_per_sec)), mock_random = 1, mock_keys = [],
      mock_store = Map.empty\<rparr>"

section \<open>Tokens and keys\<close>

type_synonym mock_jws = "bytes \<times> bytes option \<times> bytes \<times> bytes"

definition read_part :: "bytes \<Rightarrow> jose_error + bytes" where
  "read_part p = map_errr (\<lambda>_. MalformedToken p) (b64_decode p)"

definition mock_jws_parse :: "bytes \<Rightarrow> jose_error + mock_jws" where
  "mock_jws_parse raw =
     (case split_on (CHR ''.'') raw of
        [h, p, s] \<Rightarrow>
          bindr (read_part h) (\<lambda>header.
          bindr (map_errr (\<lambda>_. MalformedToken header) (read_json header)) (\<lambda>doc.
          bindr (ok_or (MalformedToken header) (json_string_member doc ''alg'')) (\<lambda>alg.
          bindr (read_part p) (\<lambda>payload.
          mapr (\<lambda>signature. (alg, json_string_member doc ''kid'', payload, signature)) (read_part s)))))
      | _ \<Rightarrow> Inl (MalformedToken raw))"

text \<open>A key that names its algorithm is refused for any other.\<close>

definition mock_verify :: "mock_jws \<Rightarrow> json \<Rightarrow> jose_error + bool" where
  "mock_verify jws key =
     (case jws of (alg, kid, payload, signature) \<Rightarrow>
       if json_string_member key ''alg'' \<noteq> None \<and> json_string_member key ''alg'' \<noteq> Some alg
       then Inl (OtherJose ''InvalidKey'')
       else Inr (json_string_member key ''n'' = Some signature))"

definition mock_audience :: "json \<Rightarrow> bytes list option" where
  "mock_audience claims =
     (case json_get ''aud'' claims of
        Some (JString s) \<Rightarrow> Some [s]
      | Some v \<Rightarrow> (case as_list as_string v of Inr l \<Rightarrow> Some l | Inl _ \<Rightarrow> None)
      | None \<Rightarrow> None)"

text \<open>
  \<^verbatim>\<open>JwtConsumer::process_to_claims\<close>: the required claims are there, issuer and audience are the
  expected ones, and the token has not expired, where \<^verbatim>\<open>exp\<close> and the clock may differ by the skew.
\<close>

definition check_claims ::
  "consumer_config \<Rightarrow> system_time \<Rightarrow> json \<Rightarrow> invalid_jwt_error + json" where
  "check_claims cfg now claims =
     bindr (ensure (cc_expected_issuer cfg = None \<or>
              json_string_member claims ''iss'' = cc_expected_issuer cfg) (InvalidJwtError ''iss'')) (\<lambda>_.
     bindr (ensure (case cc_expected_audience cfg of
              None \<Rightarrow> True
            | Some (_, _, expected) \<Rightarrow>
                is_some_and (mock_audience claims) (list_ex (\<lambda>a. a \<in> set expected)))
              (InvalidJwtError ''aud'')) (\<lambda>_.
     bindr (ensure (cc_require_subject cfg \<longrightarrow> json_string_member claims ''sub'' \<noteq> None)
              (InvalidJwtError ''sub'')) (\<lambda>_.
     bindr (ensure (cc_require_issued_at cfg \<longrightarrow> Option.bind (json_get ''iat'' claims) json_as_i64 \<noteq> None)
              (InvalidJwtError ''iat'')) (\<lambda>_.
     bindr (ensure (case Option.bind (json_get ''exp'' claims) json_as_i64 of
              None \<Rightarrow> \<not> cc_require_expiration cfg
            | Some e \<Rightarrow> system_nanos now <
                e * int nanos_per_sec + int (as_nanos (unwrap_duration (cc_clock_skew cfg))))
              (InvalidJwtError ''exp'')) (\<lambda>_. Inr claims)))))"

definition mock_process ::
  "consumer_config \<Rightarrow> system_time \<Rightarrow> bytes \<Rightarrow> invalid_jwt_error + json" where
  "mock_process cfg now payload =
     bindr (map_errr (\<lambda>_. InvalidJwtError ''payload'') (read_json payload)) (check_claims cfg now)"

definition mock_algorithms :: "(bytes \<times> algorithm_identifier) list" where
  "mock_algorithms = [(''RS256'', RsaUsingSha256), (''RS384'', RsaUsingSha384), (''RS512'', RsaUsingSha512),
     (''ES256'', EcdsaUsingP256CurveAndSha256), (''EdDSA'', EdDsa)]"

text \<open>The shared key cache: a set is fetched once, then read.\<close>

type_synonym mock_jwks = "bytes \<times> (bytes \<Rightarrow> mock_world \<Rightarrow> (jose_error + fetch_response) \<times> mock_world)"

definition read_keys :: "bytes \<Rightarrow> jose_error + json list" where
  "read_keys body =
     (case read_json body of
        Inr doc \<Rightarrow> (case json_get ''keys'' doc of Some (JArray ks) \<Rightarrow> Inr ks | _ \<Rightarrow> Inl (JwksFetch ''keys''))
      | Inl _ \<Rightarrow> Inl (JwksFetch ''JSON''))"

definition mock_keys_of ::
  "mock_jwks \<Rightarrow> mock_world \<Rightarrow> (jose_error + json list) \<times> mock_world" where
  "mock_keys_of h w =
     (case map_of (mock_keys w) (fst h) of
        Some ks \<Rightarrow> (Inr ks, w)
      | None \<Rightarrow>
          (case snd h (fst h) w of
             (Inl e, w') \<Rightarrow> (Inl e, w')
           | (Inr resp, w') \<Rightarrow>
               (case read_keys (fetch_body resp) of
                  Inl e \<Rightarrow> (Inl e, w')
                | Inr ks \<Rightarrow> (Inr ks, w'\<lparr>mock_keys := (fst h, ks) # mock_keys w'\<rparr>))))"

definition mock_select ::
  "mock_jwks \<Rightarrow> bytes option \<Rightarrow> bytes \<Rightarrow> mock_world \<Rightarrow> (jose_error + json option) \<times> mock_world" where
  "mock_select h kid alg w =
     (case mock_keys_of h w of
        (r, w') \<Rightarrow> (mapr (find (\<lambda>k. kid = None \<or> json_string_member k ''kid'' = kid)) r, w'))"

definition mock_jose :: "(mock_jws, json, json, mock_jwks, mock_world) jose_lib" where
  "mock_jose = \<lparr>
     jws_from_compact = mock_jws_parse,
     jws_algorithm = (\<lambda>(a, k, p, g). Some a),
     jws_key_id = (\<lambda>(a, k, p, g). k),
     jws_unverified_payload = (\<lambda>(a, k, p, g). Inr p),
     jws_verify_signature = mock_verify,
     jws_payload = (\<lambda>(a, k, p, g) key. Inr p),
     claims_parse = (\<lambda>p. map_errr (\<lambda>_. MalformedToken p) (read_json p)),
     claims_string = json_string_member,
     claims_string_array = (\<lambda>c n. Option.bind (json_get n c)
       (\<lambda>v. case as_list as_string v of Inr l \<Rightarrow> Some l | Inl _ \<Rightarrow> None)),
     claims_audience = mock_audience,
     claims_to_json = print_json,
     process_to_claims = mock_process,
     algorithm_try_from = (\<lambda>a. ok_or (OtherJose a) (map_of mock_algorithms a)),
     algorithm_name = (\<lambda>a. ''algorithm''),
     key_curve_name = (\<lambda>k. json_string_member k ''crv''),
     jwks_new = Pair,
     jwks_keys = (\<lambda>h w. case mock_keys_of h w of (r, w') \<Rightarrow> (mapr (\<lambda>_. ()) r, w')),
     jwks_select = mock_select\<rparr>"

type_synonym mock_env = "(bytes, mock_jws, json, json, mock_jwks, mock_world) env"
type_synonym mock_client = "(bytes, mock_jwks) client"

definition test_env :: mock_env where
  "test_env =
     \<lparr>env_display = plain_display, env_url = path_url, env_json = text_json, env_jose = mock_jose,
      env_httpdate = second_dates, env_runtime = mock_runtime, env_form = std_form,
      env_base64 = both_base64, env_crypto = pad_crypto\<rparr>"

section \<open>Signing\<close>

text \<open>A compact token: header with algorithm and key id, claims, the name of the signing key.\<close>

definition token_header :: "bytes \<Rightarrow> bytes \<Rightarrow> json" where
  "token_header alg kid = JObject [(''typ'', JString ''JWT''), (''alg'', JString alg), (''kid'', JString kid)]"

definition sign_with :: "bytes \<Rightarrow> bytes \<Rightarrow> bytes \<Rightarrow> (bytes \<times> json) list \<Rightarrow> bytes" where
  "sign_with alg kid priv_key claims =
     join_with ''.'' [b64_encode (print_json (token_header alg kid)), b64_encode (print_json (JObject claims)),
       b64_encode priv_key]"

text \<open>The key set with one key, and a fetcher that returns its text.\<close>

definition public_key :: "bytes \<Rightarrow> bytes \<Rightarrow> json" where
  "public_key kid jwk = JObject
     [(''kty'', JString ''RSA''), (''n'', JString jwk), (''kid'', JString kid), (''alg'', JString ''RS256''),
      (''use'', JString ''sig'')]"

definition jwks_body :: "bytes \<Rightarrow> bytes \<Rightarrow> bytes" where
  "jwks_body kid jwk = print_json (JObject [(''keys'', JArray [public_key kid jwk])])"

definition build_jwks :: "bytes \<Rightarrow> bytes \<Rightarrow> mock_jwks" where
  "build_jwks kid jwk = (''https://idp.example.com/jwks'', \<lambda>url w.
     (Inr \<lparr>fetch_body = jwks_body kid jwk, fetch_cache_control = None, fetch_expires = None,
           fetch_age = None\<rparr>, w))"

text \<open>What the stand-ins make of them: a signed token parses into what was signed.\<close>

lemma b64_no_dot: "CHR ''.'' \<notin> set (b64_encode d)"
proof
  assume "CHR ''.'' \<in> set (b64_encode d)"
  from b64_encode_safe [OF this] show False by (simp add: url_safe_char_def)
qed

lemma read_part_encode [simp]: "read_part (b64_encode d) = Inr d"
  by (simp add: read_part_def b64_decode_encode)

lemma sign_parse:
  assumes "json_ok (JObject claims)"
  shows "mock_jws_parse (sign_with alg kid k claims) = Inr (alg, Some kid, print_json (JObject claims), k)"
proof -
  have "split_on (CHR ''.'') (sign_with alg kid k claims) =
      [b64_encode (print_json (token_header alg kid)), b64_encode (print_json (JObject claims)), b64_encode k]"
    by (simp add: sign_with_def split_on_append split_on_no_sep b64_no_dot)
  moreover have "json_ok (token_header alg kid)" by (simp add: token_header_def)
  ultimately show ?thesis
    using read_print_json [of "token_header alg kid"]
    by (simp add: mock_jws_parse_def) (simp add: token_header_def json_string_member_def json_get_def)
qed

lemma read_jwks_body [simp]: "read_keys (jwks_body kid jwk) = Inr [public_key kid jwk]"
  using read_print_json [of "JObject [(''keys'', JArray [public_key kid jwk])]"]
  by (simp add: read_keys_def jwks_body_def public_key_def json_get_def del: print_json.simps)

lemma mock_select_key:
  assumes "mock_keys w = []"
  shows "\<exists>ks. mock_select (build_jwks kid jwk) (Some kid) alg w =
    (Inr (Some (public_key kid jwk)), w\<lparr>mock_keys := ks\<rparr>)"
  using assms by (simp add: mock_select_def mock_keys_of_def build_jwks_def public_key_def
      json_string_member_def json_get_def) blast

lemma check_claims_same: "check_claims cfg now c = Inr d \<Longrightarrow> d = c"
  by (auto simp: check_claims_def bindr_eq_Inr)

lemma text_json_parse [simp]: "json_parse text_json = read_json" "json_print text_json = print_json"
  by (simp_all add: text_json_def)

lemma mock_runtime_clock [simp]:
  "system_now mock_runtime w =
     (script_system w, w\<lparr>script_system := SystemTime (system_nanos (script_system w) + int tick)\<rparr>)"
  by (simp add: mock_runtime_def)

lemma id_token_parse_signed:
  assumes "json_ok (JObject claims)" and "utf8_valid (print_json (JObject claims))"
  shows "id_token_parse mock_jose (sign_with alg kid k claims) =
    Inr \<lparr>id_token_raw = sign_with alg kid k claims, id_token_claims = JObject claims, header_alg = alg,
         header_kid = Some kid\<rparr>"
  using assms sign_parse [OF assms(1)] read_print_json [OF assms(1)]
  by (simp add: id_token_parse_def mock_jose_def del: print_json.simps)

lemma bindr_cong: "(\<And>x. m = Inr x \<Longrightarrow> f x = g x) \<Longrightarrow> bindr m f = bindr m g"
  by (cases m) simp_all

lemma fst_binds_lifts: "fst (binds (lifts r) f w) = bindr r (\<lambda>x. fst (f x w))"
  by (cases r) (simp_all add: binds_def)

lemma fst_binds: "fst (binds m f w) = bindr (fst (m w)) (\<lambda>x. fst (f x (snd (m w))))"
  by (cases "m w"; cases "fst (m w)") (simp_all add: binds_def)

lemma resolve_key_mock:
  assumes "header_kid t = Some kid"
  shows "\<exists>ks. resolve_key mock_jose (build_jwks kid jwk) t (mock_http []) =
    (Inr (public_key kid jwk), (mock_http [])\<lparr>mock_keys := ks\<rparr>)"
  using mock_select_key [of "mock_http []" kid jwk "header_alg t"] assms
  by (auto simp: resolve_key_def mock_jose_def binds_def map_errs_def mock_http_def)

lemma ascii_b64: "ascii (b64_encode d)"
proof -
  have "of_char c < (128 :: nat)" if "url_safe_char c" for c
    using that by (auto simp: url_safe_char_def Let_def)
  then show ?thesis using b64_encode_safe by (auto simp: ascii_def)
qed

lemma both_base64_encode [simp]: "url_safe_encode both_base64 = b64_encode"
  by (simp add: both_base64_def std_base64_def)

abbreviation num :: "nat \<Rightarrow> json" where "num n \<equiv> JNumber (PosInt n)"

text \<open>A pending request is written as a document that can be read back.\<close>

lemma encode_pending_ok:
  assumes "pending_created_at p = SystemTime (int (secs * nanos_per_sec))" and "pending_max_age p = None"
    and "secs < 2 ^ 63"
  shows "\<exists>v. encode_pending text_json p = Inr v \<and> json_ok v \<and> json_get ''state'' v = Some (JString (pending_state p))"
proof -
  have "list_all json_ok (map JString xs)" for xs by (simp add: list_all_iff)
  moreover have "json_ok (json_option JString x)" for x by (simp add: json_option_def split: option.splits)
  ultimately show ?thesis
    using assms by (auto simp: encode_pending_def text_json_def unix_epoch_def less_eq_system_time_def
        secs_and_nanos_def json_option_def json_get_def nanos_per_sec_def split: option.splits)
qed

section \<open>Shared helpers\<close>

text \<open>The query of a URL as a \<^verbatim>\<open>HashMap\<close>: of several pairs with one name the last remains.\<close>

definition query_map :: "bytes \<Rightarrow> bytes \<Rightarrow> bytes option" where
  "query_map url = map_of (rev (url_query_pairs path_url url))"

definition metadata_of :: "(bytes \<times> json) list \<Rightarrow> json_error + bytes provider_metadata" where
  "metadata_of members = decode_metadata plain_display path_url (JObject members)"

lemma path_url_simps [simp]:
  "url_as_str path_url u = u" "url_parse path_url u = Inr (with_path u)" "url_query path_url = text_query"
  "url_set_query_none path_url = text_base" "url_scheme path_url = text_scheme"
  by (simp_all add: path_url_def text_url_def)

lemma test_env_simps [simp]:
  "env_display test_env = plain_display" "env_url test_env = path_url" "env_json test_env = text_json"
  "env_jose test_env = mock_jose" "env_httpdate test_env = second_dates"
  "env_runtime test_env = mock_runtime" "env_form test_env = std_form"
  "env_base64 test_env = both_base64" "env_crypto test_env = pad_crypto"
  by (simp_all add: test_env_def)

lemma path_query_append [simp]:
  "url_query_pairs path_url (append_pairs path_url kvs u) = url_query_pairs path_url u @ kvs"
proof -
  have "text_pairs (fold (\<lambda>(k, v). text_append_pair k v) kvs u') = text_pairs u' @ kvs" for u'
    by (induction kvs arbitrary: u') (auto simp: text_append_facts)
  then show ?thesis
    by (simp add: append_pairs_def path_url_def text_url_def text_open_facts)
qed

text \<open>Random values in the mock world, by the counter.\<close>

definition random_value :: "nat \<Rightarrow> nat \<Rightarrow> bytes" where
  "random_value len n = b64_encode (replicate len (char_of n))"

lemma random_mock: "random_url_safe both_base64 mock_runtime len w =
    (if len = 0 then ([], w) else (random_value len (mock_random w), w\<lparr>mock_random := mock_random w + 1\<rparr>))"
  by (simp add: random_url_safe_def fill_bytes_def mock_runtime_def random_value_def)

lemma mock_http_random [simp]: "mock_random (mock_http rs) = 1"
  by (simp add: mock_http_def)

end
