(* ===== verification/Tests_Verify.thy ===== *)
theory Tests_Verify
  imports Tests_World
begin

text \<open>
  The unit tests of src/token/verify.rs. The RSA keys the tests generate are names here (\<open>Tests_World\<close>):
  what is tested is which tokens the verifier accepts, given a key set that tells signatures apart.
\<close>

section \<open>Keys and tokens of the tests\<close>

definition KID :: bytes where "KID = ''test-key-1''"

definition sign_id_token :: "bytes \<Rightarrow> (bytes \<times> json) list \<Rightarrow> bytes" where
  "sign_id_token = sign_with ''RS256'' KID"

definition test_verifier :: id_token_verifier where
  "test_verifier = verifier_new ''https://idp.example.com'' ''my-client''"

definition default_context :: verify_context where
  "default_context = \<lparr>expected_nonce = None, ctx_access_token = None, ctx_client_id = None,
     ctx_clock_skew = None, expected_max_age = None\<rparr>"

text \<open>\<^verbatim>\<open>IdToken::parse\<close> and \<^verbatim>\<open>verify\<close>, with the key set of the key \<open>jwk\<close>.\<close>

definition verify_jwt :: "bytes \<Rightarrow> bytes \<Rightarrow> verify_context \<Rightarrow> oidc_error + json" where
  "verify_jwt jwt jwk ctx =
     bindr (map_errr Jose (id_token_parse mock_jose jwt)) (\<lambda>t.
       fst (verify_id_token_with plain_display mock_jose text_json pad_crypto both_base64 mock_runtime
         test_verifier t (build_jwks KID jwk) ctx (mock_http [])))"

text \<open>
  The same without the encodings: the steps of the verification on the claims that were signed.
  \<open>verify_signed\<close> shows that the two agree, so that a test is decided on its claims.
\<close>

definition verify_claims ::
  "bytes \<Rightarrow> bytes \<Rightarrow> (bytes \<times> json) list \<Rightarrow> bytes \<Rightarrow> verify_context \<Rightarrow> oidc_error + json" where
  "verify_claims alg priv_key claims jwk ctx =
     (let start = script_system (mock_http []); doc = JObject claims;
          later = (mock_http [])\<lparr>script_system := SystemTime (system_nanos start + int tick)\<rparr> in
      bindr (check_alg test_verifier alg) (\<lambda>_.
      bindr (resolve_algorithm plain_display mock_jose alg) (\<lambda>alg_id.
      bindr (map_errr Jose (mock_verify (alg, Some KID, [], priv_key) (public_key KID jwk))) (\<lambda>ok.
      bindr (ensure ok (invalid_id_token ''JWS signature is invalid'')) (\<lambda>_.
      bindr (map_errr InvalidIdToken (check_claims (id_token_consumer test_verifier ctx) start doc)) (\<lambda>_.
      bindr (check_azp mock_jose doc ctx (expected_audience test_verifier)) (\<lambda>_.
      bindr (check_nonce mock_jose pad_crypto doc ctx) (\<lambda>_.
      bindr (check_at_hash mock_jose pad_crypto both_base64 doc ctx alg_id (public_key KID jwk)) (\<lambda>_.
      bindr (fst (check_auth_time mock_jose (text_json\<lparr>json_parse := \<lambda>_. Inr doc\<rparr>) mock_runtime doc ctx later))
        (\<lambda>_. Inr doc))))))))))"

lemma check_auth_time_later:
  assumes "json_ok doc"
  shows "fst (check_auth_time mock_jose text_json mock_runtime doc ctx w) =
    fst (check_auth_time mock_jose (text_json\<lparr>json_parse := \<lambda>_. Inr doc\<rparr>) mock_runtime doc ctx
      ((mock_http [])\<lparr>script_system := script_system w\<rparr>))"
proof -
  have "auth_time_claim mock_jose text_json doc =
      auth_time_claim mock_jose (text_json\<lparr>json_parse := \<lambda>_. Inr doc\<rparr>) doc"
    using read_print_json [OF assms] by (simp add: auth_time_claim_def mock_jose_def)
  then show ?thesis
    by (simp add: check_auth_time_def binds_def split: option.splits sum.splits)
qed

lemma signed_payload_mock:
  assumes "json_ok (JObject claims)" and "utf8_valid (print_json (JObject claims))"
    and "id_token_raw t = sign_with alg KID k claims"
  shows "signed_payload mock_jose t (public_key KID jwk) =
    bindr (map_errr Jose (mock_verify (alg, Some KID, [], k) (public_key KID jwk))) (\<lambda>ok.
    bindr (ensure ok (invalid_id_token ''JWS signature is invalid'')) (\<lambda>_. Inr (print_json (JObject claims))))"
proof -
  have "mock_verify (alg, Some KID, print_json (JObject claims), k) key = mock_verify (alg, Some KID, [], k) key" for key
    by (simp add: mock_verify_def)
  then show ?thesis
    using assms(2) sign_parse [OF assms(1), of alg KID k]
    by (auto simp: signed_payload_def assms(3) mock_jose_def bindr_def split: sum.splits simp del: print_json.simps)
qed

theorem verify_signed:
  assumes "json_ascii (JObject claims)"
  shows "verify_jwt (sign_with alg KID k claims) jwk ctx = verify_claims alg k claims jwk ctx"
proof -
  note ok = ascii_json_ok [OF assms] and utf8 = print_json_utf8 [OF assms]
  let ?t = "\<lparr>id_token_raw = sign_with alg KID k claims, id_token_claims = JObject claims, header_alg = alg,
         header_kid = Some KID\<rparr>"
  obtain ks where key: "resolve_key mock_jose (build_jwks KID jwk) ?t (mock_http []) =
      (Inr (public_key KID jwk), (mock_http [])\<lparr>mock_keys := ks\<rparr>)"
    using resolve_key_mock [of ?t KID jwk] by auto
  let ?w = "(mock_http [])\<lparr>mock_keys := ks\<rparr>"
  let ?vsc = "verify_signature_and_claims mock_jose mock_runtime test_verifier ?t (public_key KID jwk) ctx"
  let ?w' = "?w\<lparr>script_system := SystemTime (system_nanos (script_system (mock_http [])) + int tick)\<rparr>"
  have payload: "process_to_claims mock_jose cfg now (print_json (JObject claims)) =
      check_claims cfg now (JObject claims)" for cfg now
    using read_print_json [OF ok] by (simp add: mock_jose_def mock_process_def del: print_json.simps)
  have signed: "?vsc ?w =
      (case signed_payload mock_jose ?t (public_key KID jwk) of
         Inl e \<Rightarrow> (Inl e, ?w)
       | Inr p \<Rightarrow> (map_errr InvalidIdToken (check_claims (id_token_consumer test_verifier ctx)
           (script_system (mock_http [])) (JObject claims)), ?w'))"
    using payload signed_payload_mock [OF ok utf8, of ?t alg k jwk]
    by (auto simp: verify_signature_and_claims_def binds_def bindr_def map_errr_def ensure_def
        split: sum.splits if_splits simp del: print_json.simps)
  have steps: "fst (verify_id_token_with plain_display mock_jose text_json pad_crypto both_base64 mock_runtime
       test_verifier ?t (build_jwks KID jwk) ctx (mock_http [])) =
      bindr (check_alg test_verifier alg) (\<lambda>_. bindr (resolve_algorithm plain_display mock_jose alg) (\<lambda>alg_id.
      bindr (fst (?vsc ?w)) (\<lambda>c. bindr (check_azp mock_jose c ctx (expected_audience test_verifier)) (\<lambda>_.
      bindr (check_nonce mock_jose pad_crypto c ctx) (\<lambda>_.
      bindr (check_at_hash mock_jose pad_crypto both_base64 c ctx alg_id (public_key KID jwk)) (\<lambda>_.
      bindr (fst (check_auth_time mock_jose text_json mock_runtime c ctx (snd (?vsc ?w)))) (\<lambda>_. Inr c)))))))"
    by (simp add: verify_id_token_with_def fst_binds_lifts fst_binds key)
  have "fst (verify_id_token_with plain_display mock_jose text_json pad_crypto both_base64 mock_runtime
       test_verifier ?t (build_jwks KID jwk) ctx (mock_http [])) = verify_claims alg k claims jwk ctx"
  proof (cases "signed_payload mock_jose ?t (public_key KID jwk)")
    case (Inl e)
    then show ?thesis
      unfolding steps verify_claims_def Let_def
      using signed_payload_mock [OF ok utf8, of ?t alg k jwk]
      by (auto intro!: bindr_cong simp: signed bindr_eq_Inl)
  next
    case (Inr p)
    then have "map_errr Jose (mock_verify (alg, Some KID, [], k) (public_key KID jwk)) = Inr True"
      using signed_payload_mock [OF ok utf8, of ?t alg k jwk] by (auto simp: bindr_eq_Inr)
    then show ?thesis
      unfolding steps verify_claims_def Let_def
      using Inr check_auth_time_later [OF ok, of ctx ?w']
      by (auto intro!: bindr_cong simp: signed dest!: check_claims_same)
  qed
  then show ?thesis
    using id_token_parse_signed [OF ok utf8, of alg KID k] by (simp add: verify_jwt_def)
qed

definition invalid_token :: "oidc_error \<Rightarrow> bool" where
  "invalid_token err \<longleftrightarrow> (case err of InvalidIdToken _ \<Rightarrow> True | _ \<Rightarrow> False)"

definition claims_for :: "bytes \<Rightarrow> json \<Rightarrow> bytes \<Rightarrow> (bytes \<times> json) list" where
  "claims_for iss aud sub =
     [(''iss'', JString iss), (''aud'', aud), (''sub'', JString sub), (''exp'', num (now_secs + 3600)),
      (''iat'', num now_secs)]"

abbreviation idp :: bytes where "idp \<equiv> ''https://idp.example.com''"

definition base_claims :: "(bytes \<times> json) list" where
  "base_claims = claims_for idp (JString ''my-client'') ''user-1''"

text \<open>The token signed by \<^verbatim>\<open>key\<close> over these claims is refused with \<^verbatim>\<open>InvalidIdToken\<close>.\<close>

definition refuses :: "(bytes \<times> json) list \<Rightarrow> verify_context \<Rightarrow> bool" where
  "refuses claims ctx \<longleftrightarrow> is_err_and (verify_jwt (sign_id_token ''key'' claims) ''key'' ctx) invalid_token"

definition accepts_subject :: "(bytes \<times> json) list \<Rightarrow> verify_context \<Rightarrow> bytes \<Rightarrow> bool" where
  "accepts_subject claims ctx sub \<longleftrightarrow>
     is_ok_and (verify_jwt (sign_id_token ''key'' claims) ''key'' ctx)
       (\<lambda>parsed. json_string_member parsed ''sub'' = Some sub)"

definition without :: "bytes \<Rightarrow> (bytes \<times> json) list \<Rightarrow> (bytes \<times> json) list" where
  "without name claims = filter (\<lambda>(k, v). k \<noteq> name) claims"

section \<open>Claims and signature\<close>

definition verifies_well_formed_token :: bool where
  "verifies_well_formed_token \<longleftrightarrow>
     accepts_subject (claims_for idp (JString ''my-client'') ''user-42'') default_context ''user-42''"

definition rejects_missing_subject :: bool where
  "rejects_missing_subject \<longleftrightarrow>
     refuses (without ''sub'' (claims_for idp (JString ''my-client'') ''user-42'')) default_context"

definition rejects_missing_issued_at :: bool where
  "rejects_missing_issued_at \<longleftrightarrow>
     refuses (without ''iat'' (claims_for idp (JString ''my-client'') ''user-42'')) default_context"

definition rejects_bad_issuer :: bool where
  "rejects_bad_issuer \<longleftrightarrow>
     refuses (claims_for ''https://attacker.example.com'' (JString ''my-client'') ''user-1'') default_context"

definition rejects_bad_audience :: bool where
  "rejects_bad_audience \<longleftrightarrow> refuses (claims_for idp (JString ''other-client'') ''user-1'') default_context"

definition rejects_expired :: bool where
  "rejects_expired \<longleftrightarrow>
     refuses [(''iss'', JString idp), (''aud'', JString ''my-client''), (''sub'', JString ''user-1''),
       (''exp'', num (now_secs - 3600)), (''iat'', num now_secs)] default_context"

definition rejects_alg_not_in_allow_list :: bool where
  "rejects_alg_not_in_allow_list \<longleftrightarrow>
     is_err_and (verify_jwt (sign_with ''RS384'' KID ''key'' base_claims) ''key'' default_context)
       (\<lambda>err. case err of UnsupportedAlgorithm a \<Rightarrow> a = ''RS384'' | Jose _ \<Rightarrow> True | _ \<Rightarrow> False)"

definition rejects_bad_signature :: bool where
  "rejects_bad_signature \<longleftrightarrow>
     is_err_and (verify_jwt (sign_id_token ''other'' base_claims) ''key'' default_context) invalid_token"

definition enforces_nonce_match :: bool where
  "enforces_nonce_match \<longleftrightarrow>
     refuses (base_claims @ [(''nonce'', JString ''server-nonce'')])
       (default_context\<lparr>expected_nonce := Some ''client-expected''\<rparr>)"

definition enforces_auth_time_when_max_age_requested :: bool where
  "enforces_auth_time_when_max_age_requested \<longleftrightarrow>
     (let ctx = default_context\<lparr>expected_max_age := Some (from_secs 300), ctx_clock_skew := Some (from_secs 30)\<rparr>
      in list_all (\<lambda>auth_time. refuses (base_claims @
             (case auth_time of None \<Rightarrow> [] | Some v \<Rightarrow> [(''auth_time'', v)])) ctx)
           [None, Some (JString ''invalid''), Some (num (now_secs - 3600)), Some (num (now_secs + 3600))] \<and>
         is_ok (verify_jwt (sign_id_token ''key'' (base_claims @ [(''auth_time'', num (now_secs - 120))]))
           ''key'' ctx))"

definition rejects_multi_aud_without_azp :: bool where
  "rejects_multi_aud_without_azp \<longleftrightarrow>
     refuses (claims_for idp (JArray [JString ''my-client'', JString ''other-client'']) ''user-1'') default_context"

definition accepts_multi_aud_with_matching_azp :: bool where
  "accepts_multi_aud_with_matching_azp \<longleftrightarrow>
     accepts_subject (claims_for idp (JArray [JString ''my-client'', JString ''other-client'']) ''user-1'' @
       [(''azp'', JString ''my-client'')]) default_context ''user-1''"

definition rejects_multi_aud_with_mismatched_azp :: bool where
  "rejects_multi_aud_with_mismatched_azp \<longleftrightarrow>
     refuses (claims_for idp (JArray [JString ''my-client'', JString ''other-client'']) ''user-1'' @
       [(''azp'', JString ''other-client'')]) default_context"

definition rejects_single_aud_with_mismatched_azp :: bool where
  "rejects_single_aud_with_mismatched_azp \<longleftrightarrow>
     refuses (base_claims @ [(''azp'', JString ''attacker'')]) default_context"


section \<open>The access token hash and the algorithm policy\<close>

text \<open>The left half of a digest, encoded, as the tests compute it.\<close>

definition encode_left :: "bytes \<Rightarrow> bytes" where
  "encode_left digest = url_safe_encode both_base64 (take (length digest div 2) digest)"

definition validates_at_hash_when_present :: bool where
  "validates_at_hash_when_present \<longleftrightarrow>
     (let access_token = ''AT-VALUE-123''; at_hash = encode_left (ffi_sha256 pad_crypto access_token)
      in accepts_subject (base_claims @ [(''at_hash'', JString at_hash)])
           (default_context\<lparr>ctx_access_token := Some access_token\<rparr>) ''user-1'')"

definition at_hash_uses_jws_hash_family_and_left_half :: bool where
  "at_hash_uses_jws_hash_family_and_left_half \<longleftrightarrow>
     (let access_token = ''AT-VALUE-123'';
          at_hash = calculate_at_hash mock_jose pad_crypto both_base64 access_token
      in at_hash RsaUsingSha256 None = Inr (encode_left (ffi_sha256 pad_crypto access_token)) \<and>
         at_hash RsaUsingSha384 None = Inr (encode_left (ffi_sha384 pad_crypto access_token)) \<and>
         at_hash RsaUsingSha512 None = Inr (encode_left (ffi_sha512 pad_crypto access_token)) \<and>
         at_hash EdDsa (Some ''Ed25519'') = Inr (encode_left (ffi_sha512 pad_crypto access_token)) \<and>
         is_err (at_hash EdDsa (Some ''Ed448'')))"

definition rejects_at_hash_mismatch :: bool where
  "rejects_at_hash_mismatch \<longleftrightarrow>
     is_err_and (verify_jwt (sign_id_token ''key'' (base_claims @ [(''at_hash'', JString ''AAAA'')])) ''key''
         (default_context\<lparr>ctx_access_token := Some ''anything''\<rparr>))
       (\<lambda>err. err = AtHashMismatch)"

definition metadata_with_algs :: "bytes list \<Rightarrow> bytes provider_metadata" where
  "metadata_with_algs algs =
     \<lparr>metadata_issuer = \<lparr>issuer_as_url = ''https://idp.example.com/'', issuer_as_str = idp\<rparr>,
      authorization_endpoint = AuthUrl ''https://idp.example.com/authorize'',
      token_endpoint = TokenUrl ''https://idp.example.com/token'', userinfo_endpoint = None,
      jwks_uri = JwksUrl ''https://idp.example.com/jwks'', end_session_endpoint = None,
      registration_endpoint = None, scopes_supported = None, response_types_supported = [''code''],
      subject_types_supported = [''public''], id_token_signing_alg_values_supported = algs,
      grant_types_supported = None, token_endpoint_auth_methods_supported = None,
      authorization_response_iss_parameter_supported = False,
      userinfo_signing_alg_values_supported = None, metadata_extra = Map.empty\<rparr>"

text \<open>The metadata with another issuer, and the verifier made from it.\<close>

definition verifier_for_issuer :: "bytes \<Rightarrow> oidc_error + id_token_verifier" where
  "verifier_for_issuer iss =
     mapr (\<lambda>i. verifier_from_metadata ((metadata_with_algs [''RS256''])\<lparr>metadata_issuer := i\<rparr>) ''my-client'')
       (issuer_url_from_str path_url iss)"

definition from_metadata_narrows_to_advertised_subset :: bool where
  "from_metadata_narrows_to_advertised_subset \<longleftrightarrow>
     (let v = verifier_from_metadata (metadata_with_algs [''RS256'', ''ES256'']) ''my-client''
      in allowed_algs v = [''RS256'', ''ES256''] \<and> expected_issuer v = ''https://idp.example.com'' \<and>
         expected_audience v = ''my-client'')"

definition from_metadata_preserves_issuer_with_path :: bool where
  "from_metadata_preserves_issuer_with_path \<longleftrightarrow>
     is_ok_and (verifier_for_issuer ''https://idp.example.com/op'')
       (\<lambda>v. expected_issuer v = ''https://idp.example.com/op'')"

definition from_metadata_preserves_trailing_slash :: bool where
  "from_metadata_preserves_trailing_slash \<longleftrightarrow>
     is_ok_and (verifier_for_issuer ''https://idp.example.com/'')
       (\<lambda>v. expected_issuer v = ''https://idp.example.com/'')"

definition from_metadata_preserves_op_advertised_empty_list :: bool where
  "from_metadata_preserves_op_advertised_empty_list \<longleftrightarrow>
     allowed_algs (verifier_from_metadata (metadata_with_algs []) ''my-client'') = []"

definition from_metadata_keeps_unknown_alg_strings_verbatim :: bool where
  "from_metadata_keeps_unknown_alg_strings_verbatim \<longleftrightarrow>
     allowed_algs (verifier_from_metadata (metadata_with_algs [''RS256'', ''ZZ999'']) ''my-client'') =
       [''RS256'', ''ZZ999'']"

definition from_metadata_filters_none_and_symmetric_algs :: bool where
  "from_metadata_filters_none_and_symmetric_algs \<longleftrightarrow>
     allowed_algs (verifier_from_metadata
       (metadata_with_algs [''none'', ''RS256'', ''HS256'', ''ES256'', ''HS512'']) ''my-client'') =
       [''RS256'', ''ES256'']"

definition check_alg_hard_rejects_none_even_when_allowlisted :: bool where
  "check_alg_hard_rejects_none_even_when_allowlisted \<longleftrightarrow>
     is_err_and (check_alg (with_allowed_algs [''none''] test_verifier) ''none'')
       (\<lambda>err. case err of UnsupportedAlgorithm _ \<Rightarrow> True | _ \<Rightarrow> False)"

section \<open>They pass\<close>

lemmas token_evals = base_claims_def claims_for_def without_def default_context_def sign_id_token_def
  now_secs_def

lemmas verify_evals = token_evals verify_claims_def test_verifier_def verifier_new_def check_alg_def
  default_allowed_algs_def eq_ignore_ascii_case_def resolve_algorithm_def mock_jose_def
  mock_algorithms_def mock_verify_def public_key_def json_string_member_def json_get_def
  check_claims_def id_token_consumer_def jwt_consumer_builder_new_def mock_audience_def
  json_as_i64_def mock_http_def nanos_per_sec_def unwrap_duration_def check_azp_def
  check_nonce_def check_at_hash_def check_auth_time_def invalid_token_def invalid_id_token_def

lemma refuses_claims [simp]:
  "json_ascii (JObject claims) \<Longrightarrow>
     refuses claims ctx \<longleftrightarrow> is_err_and (verify_claims ''RS256'' ''key'' claims ''key'' ctx) invalid_token"
  by (simp add: refuses_def sign_id_token_def verify_signed del: json_ascii.simps)

lemma accepts_subject_claims [simp]:
  "json_ascii (JObject claims) \<Longrightarrow>
     accepts_subject claims ctx sub \<longleftrightarrow>
       is_ok_and (verify_claims ''RS256'' ''key'' claims ''key'' ctx)
         (\<lambda>parsed. json_string_member parsed ''sub'' = Some sub)"
  by (simp add: accepts_subject_def sign_id_token_def verify_signed del: json_ascii.simps)

lemma verify_tests_accepted: "verifies_well_formed_token" "accepts_multi_aud_with_matching_azp"
  by (simp_all add: verifies_well_formed_token_def accepts_multi_aud_with_matching_azp_def verify_evals
      as_list_def as_string_def)

lemma verify_tests_claims:
  "rejects_missing_subject" "rejects_missing_issued_at" "rejects_bad_issuer" "rejects_bad_audience"
  "rejects_expired"
  by (simp_all add: rejects_missing_subject_def rejects_missing_issued_at_def rejects_bad_issuer_def
      rejects_bad_audience_def rejects_expired_def verify_evals)

lemma verify_tests_signature: "rejects_alg_not_in_allow_list" "rejects_bad_signature"
  by (simp_all add: rejects_alg_not_in_allow_list_def rejects_bad_signature_def verify_signed verify_evals)

lemma verify_tests_azp:
  "rejects_multi_aud_without_azp" "rejects_multi_aud_with_mismatched_azp"
  "rejects_single_aud_with_mismatched_azp"
  by (simp_all add: rejects_multi_aud_without_azp_def rejects_multi_aud_with_mismatched_azp_def
      rejects_single_aud_with_mismatched_azp_def verify_evals as_list_def as_string_def)

lemma verify_test_nonce: "enforces_nonce_match"
  by (simp add: enforces_nonce_match_def verify_evals ct_equals_def)

lemmas auth_time_evals = auth_time_claim_def auth_time_fresh_def json_as_u64_def system_checked_add_def
  from_secs_def clock_limit_def unix_epoch_def tick_def less_system_time_def

lemma verify_test_auth_time: "enforces_auth_time_when_max_age_requested"
  by (simp add: enforces_auth_time_when_max_age_requested_def verify_signed verify_evals auth_time_evals)

lemma verify_tests_at_hash:
  "validates_at_hash_when_present" "at_hash_uses_jws_hash_family_and_left_half" "rejects_at_hash_mismatch"
proof -
  have half: "half_digest both_base64 d = encode_left d" for d
    by (simp add: half_digest_def encode_left_def)
  then show "at_hash_uses_jws_hash_family_and_left_half"
    by (simp add: at_hash_uses_jws_hash_family_and_left_half_def calculate_at_hash_def
        sha256_def sha384_def sha512_def)
  have "ascii (encode_left d)" for d by (simp add: encode_left_def ascii_b64)
  then show "validates_at_hash_when_present"
    by (simp add: validates_at_hash_when_present_def verify_evals calculate_at_hash_def half sha256_def)
  have "encode_left (ffi_sha256 pad_crypto ''anything'') \<noteq> ''AAAA''" by code_simp
  then show "rejects_at_hash_mismatch"
    by (simp add: rejects_at_hash_mismatch_def verify_signed verify_evals calculate_at_hash_def half sha256_def)
qed

lemma verify_tests_issuer:
  "from_metadata_preserves_issuer_with_path" "from_metadata_preserves_trailing_slash"
  by code_simp+

lemma verify_tests_policy:
  "from_metadata_narrows_to_advertised_subset" "from_metadata_preserves_op_advertised_empty_list"
  "from_metadata_keeps_unknown_alg_strings_verbatim" "from_metadata_filters_none_and_symmetric_algs"
  "check_alg_hard_rejects_none_even_when_allowlisted"
  by code_simp+

end
