(* ===== verification/Tests_User_Info.thy ===== *)
theory Tests_User_Info
  imports Tests_World
begin

text \<open>
  The unit tests of src/token/userinfo.rs. As in \<open>Tests_Verify\<close>, \<open>user_info_signed\<close> takes the encodings
  away, so that a test is decided on its claims.
\<close>

section \<open>The tests\<close>

definition UKID :: bytes where "UKID = ''test-userinfo-key-1''"
definition ISS :: bytes where "ISS = ''https://idp.example.com''"
definition AUD :: bytes where "AUD = ''my-client''"

definition test_ui_verifier :: user_info_verifier where
  "test_ui_verifier = user_info_verifier_new ISS AUD"

text \<open>\<^verbatim>\<open>UserInfo::from_signed_jwt\<close> on a token signed by \<open>priv_key\<close>, with the key set of \<open>jwk\<close>.\<close>

definition from_signed ::
  "bytes \<Rightarrow> user_info_verifier \<Rightarrow> bytes \<Rightarrow> (bytes \<times> json) list \<Rightarrow> bytes \<Rightarrow> oidc_error + user_info" where
  "from_signed alg v priv_key claims jwk =
     fst (user_info_from_signed_jwt plain_display mock_jose text_json mock_runtime
       (sign_with alg UKID priv_key claims) v (build_jwks UKID jwk) (mock_http []))"

definition ui_claims :: "bytes \<Rightarrow> bytes \<Rightarrow> bytes \<Rightarrow> (bytes \<times> json) list" where
  "ui_claims iss aud sub =
     [(''iss'', JString iss), (''aud'', JString aud), (''sub'', JString sub),
      (''exp'', num (now_secs + 3600)), (''iat'', num now_secs)]"

definition invalid_user_info :: "oidc_error \<Rightarrow> bool" where
  "invalid_user_info err \<longleftrightarrow> (case err of InvalidUserInfoJwt _ \<Rightarrow> True | _ \<Rightarrow> False)"

definition from_json_parses_full_claims :: bool where
  "from_json_parses_full_claims \<longleftrightarrow>
     is_ok_and (user_info_from_json text_json (print_json (JObject
         [(''sub'', JString ''user-1''), (''name'', JString ''Ada Lovelace''),
          (''given_name'', JString ''Ada''), (''family_name'', JString ''Lovelace''),
          (''email'', JString ''ada@example.com''), (''email_verified'', JBool True),
          (''picture'', JString ''https://example.com/ada.png''),
          (''groups'', JArray [JString ''admin'', JString ''users''])]))) (\<lambda>info.
       ui_sub info = ''user-1'' \<and> ui_name info = Some ''Ada Lovelace'' \<and>
       ui_given_name info = Some ''Ada'' \<and> ui_email info = Some ''ada@example.com'' \<and>
       ui_email_verified info = Some True \<and>
       ui_extra info ''groups'' = Some (JArray [JString ''admin'', JString ''users'']))"

definition from_json_minimal_only_requires_sub :: bool where
  "from_json_minimal_only_requires_sub \<longleftrightarrow>
     is_ok_and (user_info_from_json text_json (print_json (JObject [(''sub'', JString ''user-2'')]))) (\<lambda>info.
       ui_sub info = ''user-2'' \<and> ui_email info = None \<and> ui_extra info = Map.empty)"

definition from_json_rejects_missing_sub :: bool where
  "from_json_rejects_missing_sub \<longleftrightarrow>
     is_err_and (user_info_from_json text_json (print_json (JObject [(''name'', JString ''no sub'')])))
       (\<lambda>err. case err of Json _ \<Rightarrow> True | _ \<Rightarrow> False)"

definition from_signed_jwt_accepts_well_formed_token :: bool where
  "from_signed_jwt_accepts_well_formed_token \<longleftrightarrow>
     is_ok_and (from_signed ''RS256'' test_ui_verifier ''key''
         (ui_claims ISS AUD ''user-42'' @ [(''name'', JString ''Ada''), (''email'', JString ''ada@example.com''),
            (''groups'', JArray [JString ''admin''])]) ''key'') (\<lambda>info.
       ui_sub info = ''user-42'' \<and> ui_name info = Some ''Ada'' \<and>
       ui_extra info ''groups'' = Some (JArray [JString ''admin'']))"

definition from_signed_jwt_accepts_response_without_time_claims :: bool where
  "from_signed_jwt_accepts_response_without_time_claims \<longleftrightarrow>
     is_ok_and (from_signed ''RS256'' test_ui_verifier ''key''
         [(''iss'', JString ISS), (''aud'', JString AUD), (''sub'', JString ''user-42''),
          (''name'', JString ''Ada'')] ''key'') (\<lambda>info. ui_sub info = ''user-42'')"

definition from_signed_jwt_rejects_bad_issuer :: bool where
  "from_signed_jwt_rejects_bad_issuer \<longleftrightarrow>
     is_err_and (from_signed ''RS256'' test_ui_verifier ''key''
       (ui_claims ''https://attacker.example.com'' AUD ''user-1'') ''key'') invalid_user_info"

definition from_signed_jwt_rejects_bad_audience :: bool where
  "from_signed_jwt_rejects_bad_audience \<longleftrightarrow>
     is_err_and (from_signed ''RS256'' test_ui_verifier ''key'' (ui_claims ISS ''other-client'' ''user-1'') ''key'')
       invalid_user_info"

definition from_signed_jwt_rejects_expired :: bool where
  "from_signed_jwt_rejects_expired \<longleftrightarrow>
     is_err_and (from_signed ''RS256'' test_ui_verifier ''key''
         [(''iss'', JString ISS), (''aud'', JString AUD), (''sub'', JString ''user-1''),
          (''exp'', num (now_secs - 3600)), (''iat'', num now_secs)] ''key'') invalid_user_info"

definition from_signed_jwt_rejects_bad_signature :: bool where
  "from_signed_jwt_rejects_bad_signature \<longleftrightarrow>
     is_err_and (from_signed ''RS256'' test_ui_verifier ''other'' (ui_claims ISS AUD ''user-1'') ''key'')
       invalid_user_info"

definition from_signed_jwt_rejects_disallowed_alg :: bool where
  "from_signed_jwt_rejects_disallowed_alg \<longleftrightarrow>
     is_err_and (from_signed ''RS384'' (user_info_with_allowed_algs [''RS256''] test_ui_verifier) ''key''
         (ui_claims ISS AUD ''user-1'') ''key'')
       (\<lambda>err. err = UnsupportedAlgorithm ''RS384'')"

definition ui_from_metadata_filters_none_and_symmetric_algs :: bool where
  "ui_from_metadata_filters_none_and_symmetric_algs \<longleftrightarrow>
     is_ok_and (metadata_of
         [(''issuer'', JString ISS), (''authorization_endpoint'', JString ''https://idp.example.com/auth''),
          (''token_endpoint'', JString ''https://idp.example.com/token''),
          (''jwks_uri'', JString ''https://idp.example.com/jwks''),
          (''response_types_supported'', JArray [JString ''code'']),
          (''subject_types_supported'', JArray [JString ''public'']),
          (''id_token_signing_alg_values_supported'', JArray [JString ''RS256'']),
          (''userinfo_signing_alg_values_supported'',
             JArray [JString ''none'', JString ''RS256'', JString ''HS256'', JString ''ES256''])]) (\<lambda>meta.
       ui_allowed_algs (user_info_verifier_from_metadata meta AUD) = [''RS256'', ''ES256''])"

section \<open>They pass\<close>

lemma user_info_signed:
  assumes "json_ascii (JObject claims)"
  shows "from_signed alg v k claims jwk =
    bindr (check_user_info_alg v alg) (\<lambda>_.
    bindr (resolve_algorithm plain_display mock_jose alg) (\<lambda>_.
    bindr (map_errr Jose (mock_verify (alg, Some UKID, [], k) (public_key UKID jwk))) (\<lambda>ok.
    bindr (ensure ok (InvalidUserInfoJwt (InvalidJwtError ''JWS signature is invalid''))) (\<lambda>_.
    bindr (map_errr InvalidUserInfoJwt
             (check_claims (user_info_consumer v) (script_system (mock_http [])) (JObject claims))) (\<lambda>_.
      map_errr Json (decode_user_info (JObject claims)))))))"
proof -
  note ok = ascii_json_ok [OF assms] and utf8 = print_json_utf8 [OF assms]
  let ?t = "\<lparr>id_token_raw = sign_with alg UKID k claims, id_token_claims = JObject claims, header_alg = alg,
         header_kid = Some UKID\<rparr>"
  obtain ks where key: "resolve_key mock_jose (build_jwks UKID jwk) ?t (mock_http []) =
      (Inr (public_key UKID jwk), (mock_http [])\<lparr>mock_keys := ks\<rparr>)"
    using resolve_key_mock [of ?t UKID jwk] by auto
  have verify: "mock_verify (alg, Some UKID, print_json (JObject claims), k) key = mock_verify (alg, Some UKID, [], k) key"
    for key by (simp add: mock_verify_def)
  have payload: "user_info_payload mock_jose (sign_with alg UKID k claims) (public_key UKID jwk) =
      bindr (map_errr Jose (mock_verify (alg, Some UKID, [], k) (public_key UKID jwk))) (\<lambda>ok.
      bindr (ensure ok (InvalidUserInfoJwt (InvalidJwtError ''JWS signature is invalid'')))
        (\<lambda>_. Inr (print_json (JObject claims))))"
    using utf8 verify sign_parse [OF ok, of alg UKID k]
    by (auto simp: user_info_payload_def mock_jose_def bindr_def split: sum.splits simp del: print_json.simps)
  have process: "process_to_claims mock_jose cfg now (print_json (JObject claims)) =
      check_claims cfg now (JObject claims)" for cfg now
    using read_print_json [OF ok] by (simp add: mock_jose_def mock_process_def del: print_json.simps)
  have "from_signed alg v k claims jwk =
      bindr (check_user_info_alg v alg) (\<lambda>_. bindr (resolve_algorithm plain_display mock_jose alg) (\<lambda>_.
      bindr (user_info_payload mock_jose (sign_with alg UKID k claims) (public_key UKID jwk)) (\<lambda>payload.
      bindr (map_errr InvalidUserInfoJwt (process_to_claims mock_jose (user_info_consumer v)
               (script_system (mock_http [])) payload)) (\<lambda>_. user_info_from_json text_json payload))))"
    using id_token_parse_signed [OF ok utf8, of alg UKID k]
    by (simp add: from_signed_def user_info_from_signed_jwt_def fst_binds_lifts fst_binds key)
  also have "\<dots> = bindr (check_user_info_alg v alg) (\<lambda>_. bindr (resolve_algorithm plain_display mock_jose alg) (\<lambda>_.
      bindr (map_errr Jose (mock_verify (alg, Some UKID, [], k) (public_key UKID jwk))) (\<lambda>ok.
      bindr (ensure ok (InvalidUserInfoJwt (InvalidJwtError ''JWS signature is invalid''))) (\<lambda>_.
      bindr (map_errr InvalidUserInfoJwt
               (check_claims (user_info_consumer v) (script_system (mock_http [])) (JObject claims))) (\<lambda>_.
        user_info_from_json text_json (print_json (JObject claims)))))))"
    unfolding payload by (auto intro!: bindr_cong simp: process bindr_def ensure_def split: sum.splits
      simp del: print_json.simps)
  finally show ?thesis
    using read_print_json [OF ok]
    by (simp add: user_info_from_json_def from_json_slice_def del: print_json.simps)
qed

lemmas ui_evals = test_ui_verifier_def user_info_verifier_new_def ISS_def AUD_def ui_claims_def now_secs_def
  check_user_info_alg_def default_allowed_algs_def eq_ignore_ascii_case_def resolve_algorithm_def
  mock_jose_def mock_algorithms_def mock_verify_def public_key_def json_string_member_def json_get_def
  check_claims_def user_info_consumer_def jwt_consumer_builder_new_def mock_audience_def json_as_i64_def
  mock_http_def nanos_per_sec_def unwrap_duration_def invalid_user_info_def

lemmas decode_evals = decode_user_info_def map_members_def user_info_fields_def required_field_def
  option_field_def default_field_def as_option_def as_string_def as_bool_def extra_members_def

lemma user_info_from_printed:
  "json_ok v \<Longrightarrow> user_info_from_json text_json (print_json v) = map_errr Json (decode_user_info v)"
  using read_print_json [of v] by (simp add: user_info_from_json_def from_json_slice_def)

lemma user_info_tests_json:
  "from_json_parses_full_claims" "from_json_minimal_only_requires_sub" "from_json_rejects_missing_sub"
  by (simp_all add: from_json_parses_full_claims_def from_json_minimal_only_requires_sub_def
      from_json_rejects_missing_sub_def user_info_from_printed decode_evals del: print_json.simps)

lemma user_info_tests_accepted:
  "from_signed_jwt_accepts_well_formed_token" "from_signed_jwt_accepts_response_without_time_claims"
  by (simp_all add: from_signed_jwt_accepts_well_formed_token_def user_info_signed
      from_signed_jwt_accepts_response_without_time_claims_def ui_evals decode_evals)

lemma user_info_tests_claims:
  "from_signed_jwt_rejects_bad_issuer" "from_signed_jwt_rejects_bad_audience" "from_signed_jwt_rejects_expired"
  by (simp_all add: from_signed_jwt_rejects_bad_issuer_def from_signed_jwt_rejects_bad_audience_def
      from_signed_jwt_rejects_expired_def user_info_signed ui_evals)

lemma user_info_tests_signature:
  "from_signed_jwt_rejects_bad_signature" "from_signed_jwt_rejects_disallowed_alg"
  by (simp_all add: from_signed_jwt_rejects_bad_signature_def from_signed_jwt_rejects_disallowed_alg_def
      user_info_with_allowed_algs_def user_info_signed ui_evals)

lemma user_info_test_policy: "ui_from_metadata_filters_none_and_symmetric_algs"
  by code_simp

end
