(* ===== verification/Tests_Authorize.thy ===== *)
theory Tests_Authorize
  imports Tests_World
begin

text \<open>
  The unit tests of src/flow/authorize.rs. A request is built for a client without a secret, in the
  world of \<open>Tests_World\<close>; the URL is read back through its query.
\<close>

section \<open>The request under test\<close>

definition test_metadata :: "oidc_error + bytes provider_metadata" where
  "test_metadata =
     bindr (issuer_url_from_str path_url ''https://op.example.com'') (\<lambda>iss.
     bindr (auth_url_from_str path_url ''https://op.example.com/authorize'') (\<lambda>auth.
     bindr (token_url_from_str path_url ''https://op.example.com/token'') (\<lambda>token.
     bindr (userinfo_url_from_str path_url ''https://op.example.com/userinfo'') (\<lambda>userinfo.
     bindr (jwks_url_from_str path_url ''https://op.example.com/jwks'') (\<lambda>jwks.
     bindr (end_session_url_from_str path_url ''https://op.example.com/logout'') (\<lambda>end_session.
       Inr \<lparr>metadata_issuer = iss, authorization_endpoint = auth, token_endpoint = token,
            userinfo_endpoint = Some userinfo, jwks_uri = jwks, end_session_endpoint = Some end_session,
            registration_endpoint = None, scopes_supported = None,
            response_types_supported = [''code''], subject_types_supported = [''public''],
            id_token_signing_alg_values_supported = [''RS256''], grant_types_supported = None,
            token_endpoint_auth_methods_supported = None,
            authorization_response_iss_parameter_supported = False,
            userinfo_signing_alg_values_supported = None, metadata_extra = Map.empty\<rparr>))))))"

definition test_client :: "oidc_error + mock_client" where
  "test_client =
     bindr test_metadata (\<lambda>m.
     bindr (client_id_new ''test-client'') (\<lambda>cid. client_from_parts test_env m cid None))"

definition test_redirect_uri :: "oidc_error + bytes redirect_url" where
  "test_redirect_uri = redirect_url_from_str path_url ''http://localhost:8080/callback''"

definition test_scope :: scope where "test_scope = Scope ''openid email profile''"

text \<open>\<^verbatim>\<open>client.authorize(redirect, scope)\<close>, the options and \<^verbatim>\<open>build()\<close>, from a given world.\<close>

definition authorize_from ::
  "scope \<Rightarrow> authorize_option list \<Rightarrow> mock_world \<Rightarrow> (oidc_error + bytes auth_request_state) \<times> mock_world" where
  "authorize_from sc options w =
     (case bindr test_client (\<lambda>c. mapr (Pair c) test_redirect_uri) of
        Inl e \<Rightarrow> (Inl e, w)
      | Inr (c, redirect) \<Rightarrow> authorize_request test_env c redirect sc options w)"

definition request_with :: "authorize_option list \<Rightarrow> (bytes auth_request_state \<Rightarrow> bool) \<Rightarrow> bool" where
  "request_with options P = is_ok_and (fst (authorize_from test_scope options (mock_http []))) P"

definition url_pairs :: "bytes auth_request_state \<Rightarrow> bytes \<Rightarrow> bytes option" where
  "url_pairs st = query_map (ars_authorization_url st)"

section \<open>The tests\<close>

definition builder_injects_required_params :: bool where
  "builder_injects_required_params \<longleftrightarrow> request_with [] (\<lambda>st.
     url_pairs st ''response_type'' = Some ''code'' \<and>
     url_pairs st ''client_id'' = Some ''test-client'' \<and>
     url_pairs st ''redirect_uri'' = Some ''http://localhost:8080/callback'' \<and>
     url_pairs st ''scope'' = Some ''openid email profile'' \<and>
     url_pairs st ''state'' \<noteq> None \<and> url_pairs st ''nonce'' \<noteq> None \<and>
     length (nonce_str (ars_nonce st)) = 43 \<and> length (state_str (ars_state st)) = 43)"

definition builder_rejects_scope_without_openid :: bool where
  "builder_rejects_scope_without_openid \<longleftrightarrow>
     is_err_and (fst (authorize_from (Scope ''email profile'') [] (mock_http [])))
       (\<lambda>err. case err of InvalidAuthorizationRequest _ \<Rightarrow> True | _ \<Rightarrow> False)"

definition pkce_s256_adds_challenge_pair :: bool where
  "pkce_s256_adds_challenge_pair \<longleftrightarrow> request_with [PkceS256] (\<lambda>st.
     url_pairs st ''code_challenge_method'' = Some ''S256'' \<and> url_pairs st ''code_challenge'' \<noteq> None \<and>
     is_some_and (ars_pkce_verifier st)
       (\<lambda>verifier. let len = length (verifier_str verifier) in 43 \<le> len \<and> len \<le> 128))"

definition public_client_uses_pkce_by_default :: bool where
  "public_client_uses_pkce_by_default \<longleftrightarrow> request_with [] (\<lambda>st.
     url_pairs st ''code_challenge_method'' = Some ''S256'' \<and> url_pairs st ''code_challenge'' \<noteq> None \<and>
     ars_pkce_verifier st \<noteq> None)"

definition pkce_challenge_matches_verifier :: bool where
  "pkce_challenge_matches_verifier \<longleftrightarrow> request_with [PkceS256] (\<lambda>st.
     is_some_and (ars_pkce_verifier st) (\<lambda>verifier.
       url_pairs st ''code_challenge'' =
         Some (challenge_value (s256_from_verifier pad_crypto both_base64 verifier))))"

definition prompt_and_max_age_added :: bool where
  "prompt_and_max_age_added \<longleftrightarrow>
     request_with [Prompt PromptLogin, MaxAge (from_secs 300)] (\<lambda>st.
       url_pairs st ''prompt'' = Some ''login'' \<and> url_pairs st ''max_age'' = Some ''300'' \<and>
       ars_max_age st = Some (from_secs 300) \<and>
       pending_max_age (fst (to_pending test_env st (mock_http []))) = ars_max_age st)"

definition max_age_zero_is_valid :: bool where
  "max_age_zero_is_valid \<longleftrightarrow> request_with [MaxAge 0] (\<lambda>st.
     url_pairs st ''max_age'' = Some ''0'' \<and> ars_max_age st = Some 0)"

definition optional_typed_params_added :: bool where
  "optional_typed_params_added \<longleftrightarrow>
     request_with
       [AcrValues ''urn:mace:incommon:iap:silver'', LoginHint ''alice@example.com'',
        UiLocales ''fr-CA fr-FR'', IdTokenHint ''eyJhbGciOiJIUzI1NiJ9.payload.sig'',
        ResponseModeOption ModeFormPost]
       (\<lambda>st.
         url_pairs st ''acr_values'' = Some ''urn:mace:incommon:iap:silver'' \<and>
         url_pairs st ''login_hint'' = Some ''alice@example.com'' \<and>
         url_pairs st ''ui_locales'' = Some ''fr-CA fr-FR'' \<and>
         url_pairs st ''id_token_hint'' = Some ''eyJhbGciOiJIUzI1NiJ9.payload.sig'' \<and>
         url_pairs st ''response_mode'' = Some ''form_post'')"

definition extra_param_passes_through :: bool where
  "extra_param_passes_through \<longleftrightarrow>
     request_with [ExtraParam ''prompt'' ''consent'', ExtraParam ''custom'' ''value''] (\<lambda>st.
       url_pairs st ''prompt'' = Some ''consent'' \<and> url_pairs st ''custom'' = Some ''value'')"

definition to_pending_round_trips_via_json :: bool where
  "to_pending_round_trips_via_json \<longleftrightarrow> request_with [PkceS256] (\<lambda>st.
     let pending = fst (to_pending test_env st (mock_http [])) in
       pending_state pending = state_str (ars_state st) \<and>
       pending_nonce pending = nonce_str (ars_nonce st) \<and>
       ars_pkce_verifier st \<noteq> None \<and>
       pending_pkce_verifier pending = map_option verifier_str (ars_pkce_verifier st) \<and>
       pending_redirect_uri pending = Some ''http://localhost:8080/callback'' \<and>
       pending_scopes pending = [''openid'', ''email'', ''profile''] \<and>
       is_ok_and (encode_pending text_json pending) (\<lambda>json.
       is_ok_and (from_json_slice text_json (decode_pending text_json) (print_json json)) (\<lambda>restored.
         pending_state restored = pending_state pending \<and>
         pending_nonce restored = pending_nonce pending \<and>
         pending_pkce_verifier restored = pending_pkce_verifier pending \<and>
         pending_redirect_uri restored = pending_redirect_uri pending \<and>
         pending_scopes restored = pending_scopes pending)) \<and>
       pending_key_for (pending_state pending) = storage_key st)"

definition pending_default_ttl_is_ten_minutes :: bool where
  "pending_default_ttl_is_ten_minutes \<longleftrightarrow> pending_default_ttl = from_secs 600"

text \<open>\<^verbatim>\<open>AuthorizeUrlBuilder::state_for_testing\<close>, a builder call that exists in tests only.\<close>

definition state_for_testing :: "state \<Rightarrow> (bytes, mock_jwks) authorize_url_builder \<Rightarrow>
   (bytes, mock_jwks) authorize_url_builder" where
  "state_for_testing st b = b\<lparr>ab_state := st\<rparr>"

definition state_for_testing_overrides_random :: bool where
  "state_for_testing_overrides_random \<longleftrightarrow>
     (let (fixed, w) = state_new_random both_base64 mock_runtime (mock_http []) in
      is_ok_and test_client (\<lambda>client. is_ok_and test_redirect_uri (\<lambda>redirect.
      is_ok_and (fst (authorize_builder_new test_env client redirect test_scope w)) (\<lambda>builder.
        let st = authorize_build test_env (state_for_testing fixed builder) in
          state_str (ars_state st) = state_str fixed \<and>
          url_pairs st ''state'' = Some (state_str fixed)))))"

definition nonce_is_distinct_per_call :: bool where
  "nonce_is_distinct_per_call \<longleftrightarrow>
     (let (first, w) = authorize_from test_scope [] (mock_http []);
          (second, w) = authorize_from test_scope [] w
      in is_ok_and first (\<lambda>s1. is_ok_and second (\<lambda>s2.
           state_str (ars_state s1) \<noteq> state_str (ars_state s2) \<and>
           nonce_str (ars_nonce s1) \<noteq> nonce_str (ars_nonce s2))))"

section \<open>They pass\<close>

text \<open>
  The URL is not computed: its query follows from \<open>append_pairs\<close>, so that a test is decided on the
  pairs, with the random values as they come out of the encoder.
\<close>

definition the_client :: mock_client where
  "the_client =
     \<lparr>cl_provider =
       \<lparr>ps_metadata = \<lparr>metadata_issuer =
           \<lparr>issuer_as_url = ''https://op.example.com/'', issuer_as_str = ''https://op.example.com''\<rparr>,
          authorization_endpoint = AuthUrl ''https://op.example.com/authorize'',
          token_endpoint = TokenUrl ''https://op.example.com/token'',
          userinfo_endpoint = Some (UserInfoUrl ''https://op.example.com/userinfo''),
          jwks_uri = JwksUrl ''https://op.example.com/jwks'',
          end_session_endpoint = Some (EndSessionUrl ''https://op.example.com/logout''),
          registration_endpoint = None, scopes_supported = None,
          response_types_supported = [''code''], subject_types_supported = [''public''],
          id_token_signing_alg_values_supported = [''RS256''], grant_types_supported = None,
          token_endpoint_auth_methods_supported = None,
          authorization_response_iss_parameter_supported = False,
          userinfo_signing_alg_values_supported = None, metadata_extra = Map.empty\<rparr>,
        ps_jwks = (''https://op.example.com/jwks'', jwks_fetch plain_display mock_runtime),
        refresh_after = None, stale_until = None, retry_after = None, stale_on_error = True,
        metadata_refresh_interval = None,
        metadata_minimum_cache_duration = default_metadata_minimum_cache_duration,
        metadata_retain_on_error = default_metadata_retain_on_error\<rparr>,
      cl_client_id = ClientId ''test-client'', cl_client_secret = None\<rparr>"

lemma test_urls:
  "issuer_url_from_str path_url ''https://op.example.com'' =
     Inr \<lparr>issuer_as_url = ''https://op.example.com/'', issuer_as_str = ''https://op.example.com''\<rparr>"
  "auth_url_from_str path_url ''https://op.example.com/authorize'' = Inr (AuthUrl ''https://op.example.com/authorize'')"
  "token_url_from_str path_url ''https://op.example.com/token'' = Inr (TokenUrl ''https://op.example.com/token'')"
  "userinfo_url_from_str path_url ''https://op.example.com/userinfo'' =
     Inr (UserInfoUrl ''https://op.example.com/userinfo'')"
  "jwks_url_from_str path_url ''https://op.example.com/jwks'' = Inr (JwksUrl ''https://op.example.com/jwks'')"
  "end_session_url_from_str path_url ''https://op.example.com/logout'' =
     Inr (EndSessionUrl ''https://op.example.com/logout'')"
  by code_simp+

lemma test_client_eq [code]: "test_client = Inr the_client"
  by (simp add: test_client_def test_metadata_def test_urls client_id_new_def nonempty_new_def
      client_from_parts_def validate_metadata_def the_client_def new_jwks_def mock_jose_def)

lemma test_redirect_eq: "test_redirect_uri = Inr (RedirectUrl ''http://localhost:8080/callback'')"
  unfolding test_redirect_uri_def by code_simp

text \<open>The builder that \<^verbatim>\<open>authorize\<close> returns, from a world whose counter of random values is at \<open>n\<close>.\<close>

definition builder_at :: "nat \<Rightarrow> (bytes, mock_jwks) authorize_url_builder" where
  "builder_at n =
     (let verifier = PkceCodeVerifier (random_value 64 n); redirect = RedirectUrl ''http://localhost:8080/callback''
      in \<lparr>ab_client = the_client,
          ab_url = append_pairs path_url (request_pairs test_env the_client redirect test_scope)
            ''https://op.example.com/authorize'',
          ab_state = State (random_value 32 (n + 1)), ab_nonce = Nonce (random_value 32 (n + 2)),
          ab_pkce_verifier = Some verifier, ab_pkce_challenge = Some (new_challenge test_env verifier),
          ab_response_mode = None, ab_prompt = None, ab_max_age = None, ab_id_token_hint = None,
          ab_extra = [], ab_redirect_uri = redirect, ab_scopes = test_scope\<rparr>)"

lemma test_scope_openid: "list_ex (\<lambda>s. s = ''openid'') (scope_iter test_scope)" by code_simp

lemma builder_new_at:
  "authorize_builder_new test_env the_client (RedirectUrl ''http://localhost:8080/callback'') test_scope w =
     (Inr (builder_at (mock_random w)), w\<lparr>mock_random := mock_random w + 3\<rparr>)"
  by (simp add: authorize_builder_new_def test_scope_openid builder_at_def Let_def the_client_def
      client_metadata_def pkce_verifier_new_random_def state_new_random_def nonce_new_random_def random_mock)

lemma authorize_from_at:
  "authorize_from test_scope options w =
     (case fold (apply_option test_env) options (builder_at (mock_random w), w\<lparr>mock_random := mock_random w + 3\<rparr>)
      of (b, w') \<Rightarrow> (Inr (authorize_build test_env b), w'))"
  by (simp add: authorize_from_def test_client_eq test_redirect_eq authorize_request_def binds_def builder_new_at)

lemma endpoint_query: "url_query_pairs path_url ''https://op.example.com/authorize'' = []"
  by code_simp

lemma request_with_at:
  "request_with options P \<longleftrightarrow>
     P (authorize_build test_env (fst (fold (apply_option test_env) options
          (builder_at 1, (mock_http [])\<lparr>mock_random := 4\<rparr>))))"
  by (simp add: request_with_def authorize_from_at split: prod.splits)

lemma test_scope_str: "scope_str test_scope = ''openid email profile''"
  by (simp add: test_scope_def)

lemmas authorize_evals = request_with_at url_pairs_def query_map_def authorize_build_def builder_at_def
  Let_def build_pairs_def optional_pair_def request_pairs_def endpoint_query the_client_def
  test_scope_str redirect_url_as_str_def random_value_def b64_encode_length new_challenge_def
  s256_from_verifier_def pkce_s256_def pkce_verifier_new_random_def random_mock

lemma authorize_tests_required: "builder_injects_required_params"
  by (simp add: builder_injects_required_params_def authorize_evals)

lemma authorize_test_scope: "builder_rejects_scope_without_openid"
proof -
  have "\<not> list_ex (\<lambda>s. s = ''openid'') (scope_iter (Scope ''email profile''))" by code_simp
  then show ?thesis
    by (simp add: builder_rejects_scope_without_openid_def authorize_from_def test_client_eq
        test_redirect_eq authorize_request_def authorize_builder_new_def binds_def)
qed

lemma authorize_tests_pkce:
  "pkce_s256_adds_challenge_pair" "public_client_uses_pkce_by_default" "pkce_challenge_matches_verifier"
  by (simp_all add: pkce_s256_adds_challenge_pair_def public_client_uses_pkce_by_default_def
      pkce_challenge_matches_verifier_def authorize_evals)

lemma decimals: "nat_to_dec 300 = ''300''" "nat_to_dec 0 = ''0''"
  by code_simp+

lemma authorize_tests_max_age: "prompt_and_max_age_added" "max_age_zero_is_valid"
  by (simp_all add: prompt_and_max_age_added_def max_age_zero_is_valid_def authorize_evals decimals
      as_secs_def from_secs_def nanos_per_sec_def to_pending_def)

lemma authorize_tests_optional: "optional_typed_params_added" "extra_param_passes_through"
  by (simp_all add: optional_typed_params_added_def extra_param_passes_through_def authorize_evals)

lemma authorize_tests_state: "state_for_testing_overrides_random" "nonce_is_distinct_per_call"
proof -
  show "state_for_testing_overrides_random"
    by (simp add: state_for_testing_overrides_random_def state_new_random_def random_mock test_client_eq
        test_redirect_eq builder_new_at) (simp add: state_for_testing_def authorize_evals)
  have "random_value 32 (Suc (Suc 0)) \<noteq> random_value 32 5"
    "random_value 32 (Suc (Suc (Suc 0))) \<noteq> random_value 32 6"
    by code_simp+
  then show "nonce_is_distinct_per_call"
    by (simp add: nonce_is_distinct_per_call_def authorize_from_at authorize_build_def builder_at_def Let_def)
qed

lemma authorize_tests_pending: "to_pending_round_trips_via_json" "pending_default_ttl_is_ten_minutes"
proof -
  let ?st = "authorize_build test_env (fst (fold (apply_option test_env) [PkceS256]
    (builder_at 1, (mock_http [])\<lparr>mock_random := 4\<rparr>)))"
  let ?p = "fst (to_pending test_env ?st (mock_http []))"
  have p: "pending_created_at ?p = SystemTime (int (10000 * nanos_per_sec))" "pending_max_age ?p = None"
    by (simp_all add: to_pending_def authorize_build_def builder_at_def Let_def pkce_s256_def mock_http_def
        now_secs_def split: prod.splits)
  then obtain v where v: "encode_pending text_json ?p = Inr v" "json_ok v"
    using encode_pending_ok [of ?p 10000] by auto
  have reread: "from_json_slice text_json (decode_pending text_json) (print_json v) = Inr ?p"
    using decode_encode_pending [OF text_json_time_laws v(1)] read_print_json [OF v(2)]
    by (simp add: from_json_slice_def)
  have "scope_iter test_scope = [''openid'', ''email'', ''profile'']" by code_simp
  then show "to_pending_round_trips_via_json"
    unfolding to_pending_round_trips_via_json_def request_with_at Let_def v(1) is_ok_and_def sum.case reread
    by (simp add: to_pending_def authorize_build_def builder_at_def Let_def pkce_s256_def
        redirect_url_as_str_def pending_key_for_def storage_key_def split: prod.splits)
  show "pending_default_ttl_is_ten_minutes"
    by (simp add: pending_default_ttl_is_ten_minutes_def pending_default_ttl_def)
qed

end
