(* ===== verification/Tests_Logout.thy ===== *)
theory Tests_Logout
  imports Tests_Authorize
begin

text \<open>
  The unit tests of src/flow/logout.rs, with the client of \<open>Tests_Authorize\<close>, whose metadata the two
  test modules share word for word. The URL that is built is read back through its query.
\<close>

definition logout_with ::
  "bytes logout_option list \<Rightarrow> mock_client \<Rightarrow> oidc_error + bytes end_session_url \<times> state option" where
  "logout_with options c =
     fst (end_session_build test_env (fold apply_logout_option options (end_session_builder_new c)) (mock_http []))"

definition logout_test ::
  "bytes logout_option list \<Rightarrow> (bytes \<Rightarrow> (bytes \<Rightarrow> bytes option) \<Rightarrow> state option \<Rightarrow> bool) \<Rightarrow> bool" where
  "logout_test options P \<longleftrightarrow> is_ok_and test_client (\<lambda>client. is_ok_and (logout_with options client)
     (\<lambda>(url, state). P (end_session_as_url url) (query_map (end_session_as_url url)) state))"

definition goodbye :: "bytes post_logout_redirect_url" where
  "goodbye = PostLogoutRedirectUrl ''https://rp.example.com/goodbye''"

definition empty_builder_produces_endpoint_with_no_query :: bool where
  "empty_builder_produces_endpoint_with_no_query \<longleftrightarrow>
     logout_test [] (\<lambda>url q state. url = ''https://op.example.com/logout'' \<and> state = None)"

definition id_token_hint_only :: bool where
  "id_token_hint_only \<longleftrightarrow>
     logout_test [LogoutIdTokenHint ''eyJhbGciOiJSUzI1NiJ9.payload.sig''] (\<lambda>url q state.
       q ''id_token_hint'' = Some ''eyJhbGciOiJSUzI1NiJ9.payload.sig'' \<and>
       list_all (\<lambda>k. q k = None)
         [''post_logout_redirect_uri'', ''state'', ''client_id'', ''logout_hint'', ''ui_locales''] \<and>
       state = None)"

definition post_logout_redirect_uri_auto_generates_state :: bool where
  "post_logout_redirect_uri_auto_generates_state \<longleftrightarrow>
     logout_test [LogoutRedirect goodbye] (\<lambda>url q state.
       q ''post_logout_redirect_uri'' = Some (post_logout_redirect_url_as_str path_url goodbye) \<and>
       is_some_and (q ''state'') (\<lambda>s. length s = 43) \<and> state \<noteq> None)"

definition explicit_state_overrides_auto_generation :: bool where
  "explicit_state_overrides_auto_generation \<longleftrightarrow>
     (let (explicit, w) = state_new_random both_base64 mock_runtime (mock_http []) in
      logout_test [LogoutRedirect goodbye, LogoutState explicit]
        (\<lambda>url q state. map_option state_str state = Some (state_str explicit)))"

definition client_id_logout_hint_and_ui_locales :: bool where
  "client_id_logout_hint_and_ui_locales \<longleftrightarrow>
     is_ok_and (client_id_new ''rp-1'') (\<lambda>cid. is_ok_and (logout_hint_new ''alice@example.com'') (\<lambda>hint.
     logout_test [LogoutClientId cid, LogoutHintOption hint, LogoutUiLocale ''en-US'', LogoutUiLocale ''fr-FR'']
       (\<lambda>url q state. q ''client_id'' = Some ''rp-1'' \<and> q ''logout_hint'' = Some ''alice@example.com'' \<and>
         q ''ui_locales'' = Some ''en-US fr-FR'')))"

definition missing_endpoint_is_an_error :: bool where
  "missing_endpoint_is_an_error \<longleftrightarrow>
     is_ok_and test_metadata (\<lambda>metadata. is_ok_and (client_id_new ''test-client'') (\<lambda>cid.
     is_ok_and (client_from_parts test_env (metadata\<lparr>end_session_endpoint := None\<rparr>) cid None) (\<lambda>client.
     is_err_and (logout_with [] client) (\<lambda>err. case err of InvalidMetadata _ \<Rightarrow> True | _ \<Rightarrow> False))))"

definition all_parameters_together :: bool where
  "all_parameters_together \<longleftrightarrow>
     is_ok_and (client_id_new ''rp-1'') (\<lambda>cid. is_ok_and (logout_hint_new ''alice'') (\<lambda>hint.
     logout_test [LogoutIdTokenHint ''id-token'', LogoutRedirect goodbye, LogoutClientId cid,
         LogoutHintOption hint, LogoutUiLocale ''en'']
       (\<lambda>url q state. q ''id_token_hint'' = Some ''id-token'' \<and>
         q ''post_logout_redirect_uri'' = Some (post_logout_redirect_url_as_str path_url goodbye) \<and>
         q ''client_id'' = Some ''rp-1'' \<and> q ''logout_hint'' = Some ''alice'' \<and> q ''ui_locales'' = Some ''en'' \<and>
         q ''state'' \<noteq> None \<and> state \<noteq> None)))"

definition client_method_returns_same_builder :: bool where
  "client_method_returns_same_builder \<longleftrightarrow>
     is_ok_and test_client (\<lambda>client.
     is_ok_and (fst (end_session_build test_env
         (apply_logout_option (LogoutIdTokenHint ''id-token'') (build_end_session_url client)) (mock_http [])))
       (\<lambda>(url, state). query_map (end_session_as_url url) ''id_token_hint'' = Some ''id-token''))"

lemma logout_test_empty: "empty_builder_produces_endpoint_with_no_query" by code_simp
lemma logout_test_hint: "id_token_hint_only" by code_simp
lemma logout_test_redirect: "post_logout_redirect_uri_auto_generates_state" by code_simp
lemma logout_test_explicit_state: "explicit_state_overrides_auto_generation" by code_simp
lemma logout_test_optional: "client_id_logout_hint_and_ui_locales" by code_simp
lemma logout_test_missing: "missing_endpoint_is_an_error" by code_simp
lemma logout_test_all: "all_parameters_together" by code_simp
lemma logout_test_method: "client_method_returns_same_builder" by code_simp

end
