(* ===== verification/Tests_Client_Refresh.thy ===== *)
theory Tests_Client_Refresh
  imports Tests_World Refresh_Concurrency
begin

text \<open>
  The unit tests of src/client.rs about discovery and the metadata refresh. A test runs on the
  snapshot of the client and the world; what it sends and awaits in parallel runs as tasks of
  \<open>Refresh_Concurrency\<close>, in the order in which \<^verbatim>\<open>join!\<close> polls them.
\<close>

section \<open>Responses of the provider\<close>

definition discovery_metadata :: "bytes \<Rightarrow> bytes \<Rightarrow> json" where
  "discovery_metadata token jwks = JObject
     [(''issuer'', JString ''https://idp.example.com''),
      (''authorization_endpoint'', JString ''https://idp.example.com/auth''),
      (''token_endpoint'', JString token), (''jwks_uri'', JString jwks),
      (''response_types_supported'', JArray [JString ''code'']),
      (''subject_types_supported'', JArray [JString ''public'']),
      (''id_token_signing_alg_values_supported'', JArray [JString ''RS256''])]"

definition json_response :: "json \<Rightarrow> http_response" where
  "json_response v = \<lparr>resp_status = 200, resp_headers = [(''content-type'', ''application/json'')],
     resp_body = print_json v\<rparr>"

definition json_response_with_headers :: "json \<Rightarrow> (bytes \<times> bytes) list \<Rightarrow> http_response" where
  "json_response_with_headers v headers =
     (let response = json_response v in response\<lparr>resp_headers := resp_headers response @ headers\<rparr>)"

definition empty_jwks_response :: http_response where
  "empty_jwks_response = \<lparr>resp_status = 200, resp_headers = [(''cache-control'', ''max-age=3600'')],
     resp_body = ''{\"keys\":[]}''\<rparr>"

definition unavailable :: http_response where
  "unavailable = \<lparr>resp_status = 503, resp_headers = [], resp_body = []\<rparr>"

section \<open>Running a test\<close>

type_synonym test_state = "(bytes, mock_jwks) provider_state \<times> mock_world"
type_synonym test_system = "(bytes, mock_jwks, mock_world) refresh_system"

text \<open>\<^verbatim>\<open>Client::discover(...).await.unwrap()\<close> with the given responses, then the rest of the test.\<close>

definition discovered :: "http_response list \<Rightarrow> (test_state \<Rightarrow> bool) \<Rightarrow> bool" where
  "discovered responses P \<longleftrightarrow>
     is_ok_and (issuer_url_from_str path_url ''https://idp.example.com'') (\<lambda>issuer.
     is_ok_and (client_id_new ''c'') (\<lambda>cid.
       case client_discover test_env issuer cid None (mock_http responses) of
         (Inr c, w) \<Rightarrow> P (cl_provider c, w) | (Inl _, _) \<Rightarrow> False))"

text \<open>\<^verbatim>\<open>unwrap\<close> and \<^verbatim>\<open>is_err\<close> on what an operation returns beside the state.\<close>

definition unwrapped :: "('e + 'a) \<times> 's \<Rightarrow> ('a \<Rightarrow> 's \<Rightarrow> bool) \<Rightarrow> bool" where
  "unwrapped rs P \<longleftrightarrow> (case rs of (Inr x, s) \<Rightarrow> P x s | (Inl _, _) \<Rightarrow> False)"

definition failed_with :: "('e + 'a) \<times> 's \<Rightarrow> ('e \<Rightarrow> 's \<Rightarrow> bool) \<Rightarrow> bool" where
  "failed_with rs P \<longleftrightarrow> (case rs of (Inl e, s) \<Rightarrow> P e s | (Inr _, _) \<Rightarrow> False)"

text \<open>\<^verbatim>\<open>jwks().keys().await.unwrap().is_empty()\<close>, and what follows it.\<close>

definition no_keys :: "mock_jwks \<Rightarrow> mock_world \<Rightarrow> (mock_world \<Rightarrow> bool) \<Rightarrow> bool" where
  "no_keys h w P \<longleftrightarrow> unwrapped (mock_keys_of h w) (\<lambda>keys w'. keys = [] \<and> P w')"

abbreviation token_url_of :: "bytes provider_metadata \<Rightarrow> bytes" where
  "token_url_of m \<equiv> url_as_str path_url (token_as_url (token_endpoint m))"

abbreviation jwks_url_of :: "bytes provider_metadata \<Rightarrow> bytes" where
  "jwks_url_of m \<equiv> url_as_str path_url (jwks_as_url (jwks_uri m))"

abbreviation idp_jwks :: bytes where "idp_jwks \<equiv> ''https://idp.example.com/jwks''"
abbreviation token_v1 :: bytes where "token_v1 \<equiv> ''https://idp.example.com/token-v1''"
abbreviation token_v2 :: bytes where "token_v2 \<equiv> ''https://idp.example.com/token-v2''"

definition expire_metadata :: "test_state \<Rightarrow> test_state" where
  "expire_metadata s =
     set_metadata_refresh_interval mock_runtime 0 (set_metadata_minimum_cache_duration mock_runtime 0 s)"

definition initial_v1 :: http_response where
  "initial_v1 = json_response (discovery_metadata token_v1 idp_jwks)"

definition refreshed_v2 :: http_response where
  "refreshed_v2 = json_response (discovery_metadata token_v2 idp_jwks)"

section \<open>Discovery and refresh\<close>

definition jwks_discovery_populates_cache :: bool where
  "jwks_discovery_populates_cache \<longleftrightarrow>
     (let metadata = discovery_metadata ''https://idp.example.com/token'' idp_jwks in
      discovered [json_response metadata, empty_jwks_response] (\<lambda>(p, w).
        no_keys (ps_jwks p) w (\<lambda>w. script_answers w = [])))"

definition default_metadata_minimum_cache_duration_throttles_strict_directives :: bool where
  "default_metadata_minimum_cache_duration_throttles_strict_directives \<longleftrightarrow>
     discovered
       [json_response_with_headers (discovery_metadata token_v1 idp_jwks)
          [(''cache-control'', ''no-cache, no-store'')],
        empty_jwks_response]
       (\<lambda>s. unwrapped (refresh_metadata_if_stale test_env (set_metadata_refresh_interval mock_runtime 0 s))
         (\<lambda>metadata (p, w). token_url_of metadata = token_v1 \<and> script_answers w = []))"

definition zero_metadata_minimum_cache_duration_honors_no_cache :: bool where
  "zero_metadata_minimum_cache_duration_honors_no_cache \<longleftrightarrow>
     discovered
       [initial_v1, empty_jwks_response,
        json_response_with_headers (discovery_metadata token_v2 idp_jwks) [(''cache-control'', ''no-cache'')],
        unavailable]
       (\<lambda>s. unwrapped (refresh_metadata test_env (set_metadata_minimum_cache_duration mock_runtime 0 s))
         (\<lambda>_ s. failed_with (refresh_metadata_if_stale test_env s)
           (\<lambda>_ (p, w). token_url_of (ps_metadata p) = token_v2)))"

text \<open>The response of the refresh is pushed after the client is made.\<close>

definition push_response :: "http_response \<Rightarrow> test_state \<Rightarrow> test_state" where
  "push_response r s = (fst s, snd s\<lparr>script_answers := script_answers (snd s) @ [Inr r]\<rparr>)"

definition stale_metadata_refresh_reuses_unchanged_jwks_cache :: bool where
  "stale_metadata_refresh_reuses_unchanged_jwks_cache \<longleftrightarrow>
     discovered [initial_v1, empty_jwks_response] (\<lambda>s.
       let original_jwks = ps_jwks (fst s); s = push_response refreshed_v2 (expire_metadata s) in
       unwrapped (refresh_metadata_if_stale test_env s) (\<lambda>metadata (p, w).
         token_url_of metadata = token_v2 \<and>
         no_keys original_jwks w (\<lambda>w. no_keys (ps_jwks p) w (\<lambda>w. script_answers w = []))))"

definition metadata_refresh_replaces_changed_jwks_cache :: bool where
  "metadata_refresh_replaces_changed_jwks_cache \<longleftrightarrow>
     discovered
       [json_response (discovery_metadata ''https://idp.example.com/token'' ''https://idp.example.com/jwks-v1''),
        empty_jwks_response,
        json_response (discovery_metadata ''https://idp.example.com/token'' ''https://idp.example.com/jwks-v2''),
        empty_jwks_response]
       (\<lambda>s. unwrapped (refresh_metadata_if_stale test_env (expire_metadata s)) (\<lambda>_ (p, w).
         jwks_url_of (ps_metadata p) = ''https://idp.example.com/jwks-v2'' \<and>
         req_url (last (script_sent w)) = ''https://idp.example.com/jwks-v2'' \<and>
         no_keys (ps_jwks p) w (\<lambda>w. script_answers w = [])))"

section \<open>Failed refreshes\<close>

definition failed_automatic_metadata_refresh_retains_previous_snapshot :: bool where
  "failed_automatic_metadata_refresh_retains_previous_snapshot \<longleftrightarrow>
     discovered [initial_v1, empty_jwks_response, unavailable] (\<lambda>s.
       unwrapped (refresh_metadata_if_stale test_env (expire_metadata s)) (\<lambda>metadata (p, w).
         token_url_of metadata = token_v1 \<and> token_url_of (ps_metadata p) = token_v1 \<and>
         no_keys (ps_jwks p) w (\<lambda>_. True)))"

definition zero_metadata_retain_on_error_disables_stale_fallback :: bool where
  "zero_metadata_retain_on_error_disables_stale_fallback \<longleftrightarrow>
     discovered [initial_v1, empty_jwks_response, unavailable] (\<lambda>s.
       let s = apply_setter mock_runtime (SetRetainOnError 0) (expire_metadata s) in
       failed_with (refresh_metadata_if_stale test_env s) (\<lambda>_ (p, w).
         metadata_retain_on_error p = 0 \<and> stale_until p = None))"

text \<open>\<^verbatim>\<open>Instant::duration_since\<close>, zero for a later argument.\<close>

definition instant_duration_since :: "instant \<Rightarrow> instant \<Rightarrow> duration" where
  "instant_duration_since t earlier = Nanos (nat (instant_nanos t - instant_nanos earlier))"

definition metadata_retain_on_error_survives_successful_refresh :: bool where
  "metadata_retain_on_error_survives_successful_refresh \<longleftrightarrow>
     discovered [initial_v1, empty_jwks_response, refreshed_v2] (\<lambda>s.
       let retain_on_error = from_secs (17 * 60);
           s = apply_setter mock_runtime (SetRetainOnError retain_on_error) s in
       unwrapped (refresh_metadata test_env s) (\<lambda>_ (p, w).
         metadata_retain_on_error p = retain_on_error \<and>
         is_some_and (stale_until p) (\<lambda>stale. is_some_and (refresh_after p) (\<lambda>refresh.
           instant_duration_since stale refresh = retain_on_error))))"

definition must_revalidate_disables_stale_metadata_fallback :: bool where
  "must_revalidate_disables_stale_metadata_fallback \<longleftrightarrow>
     discovered
       [json_response_with_headers (discovery_metadata token_v1 idp_jwks)
          [(''cache-control'', ''max-age=0, must-revalidate'')],
        empty_jwks_response, unavailable]
       (\<lambda>s. failed_with (refresh_metadata_if_stale test_env (expire_metadata s))
         (\<lambda>_ (p, w). token_url_of (ps_metadata p) = token_v1))"

text \<open>\<open>end_stale_period\<close> is the block that the test runs under the write lock.\<close>

definition end_stale_period :: "test_state \<Rightarrow> test_state" where
  "end_stale_period s =
     (case instant_now mock_runtime (snd s) of
        (now, w) \<Rightarrow> (fst s\<lparr>stale_until := Some now, retry_after := None\<rparr>, w))"

definition stale_metadata_retry_is_deferred_and_bounded :: bool where
  "stale_metadata_retry_is_deferred_and_bounded \<longleftrightarrow>
     discovered [initial_v1, empty_jwks_response, unavailable, unavailable] (\<lambda>s.
       let s = expire_metadata s; original_stale_until = stale_until (fst s) in
       unwrapped (refresh_metadata_if_stale test_env s) (\<lambda>_ s.
       unwrapped (refresh_metadata_if_stale test_env s) (\<lambda>_ s.
         stale_until (fst s) = original_stale_until \<and> length (script_answers (snd s)) = 1 \<and>
         failed_with (refresh_metadata_if_stale test_env (end_stale_period s))
           (\<lambda>_ s. script_answers (snd s) = []))))"

definition forced_metadata_refresh_reports_failure :: bool where
  "forced_metadata_refresh_reports_failure \<longleftrightarrow>
     discovered [initial_v1, empty_jwks_response, unavailable] (\<lambda>s.
       failed_with (refresh_metadata test_env s) (\<lambda>_ (p, w). token_url_of (ps_metadata p) = token_v1))"

section \<open>Tasks side by side\<close>

text \<open>
  The mock yields once in every request, so a refresh that \<^verbatim>\<open>join!\<close> polls first stops when it has
  its response; the task that is polled then runs, and the refresh goes on. Task 0 is the first.
\<close>

definition refreshed_to :: "nat \<Rightarrow> test_system \<Rightarrow> bytes \<Rightarrow> bool" where
  "refreshed_to i s token \<longleftrightarrow>
     (case sys_tasks s i of Finished (Inr metadata) \<Rightarrow> token_url_of metadata = token | _ \<Rightarrow> False)"

definition expire_now :: "test_state \<Rightarrow> test_state" where
  "expire_now s =
     (case instant_now mock_runtime (snd s) of (now, w) \<Rightarrow> (fst s\<lparr>refresh_after := Some now\<rparr>, w))"

definition concurrent_stale_checks_share_one_metadata_refresh :: bool where
  "concurrent_stale_checks_share_one_metadata_refresh \<longleftrightarrow>
     discovered [initial_v1, empty_jwks_response, refreshed_v2] (\<lambda>s.
       let (p, w) = expire_now (set_metadata_refresh_interval mock_runtime default_metadata_refresh_interval s);
           both = start_task Automatic 1 (start_task Automatic 0 (refresh_start p w));
           joined = run_task test_env 1 8 (run_task test_env 0 8 (run_task test_env 1 8 (run_task test_env 0 5 both)))
       in refreshed_to 0 joined token_v2 \<and> refreshed_to 1 joined token_v2 \<and>
          script_answers (sys_world joined) = [])"

definition set_during_refresh :: "setter \<Rightarrow> test_state \<Rightarrow> test_system" where
  "set_during_refresh st s =
     (let yielded = run_task test_env 0 3 (start_task Forced 0 (refresh_start (fst s) (snd s)));
          (p, w) = apply_setter mock_runtime st (sys_provider yielded, sys_world yielded)
      in run_task test_env 0 8 (yielded\<lparr>sys_provider := p, sys_world := w\<rparr>))"

abbreviation is_stale :: "test_system \<Rightarrow> bool" where
  "is_stale s \<equiv> fst (metadata_needs_refresh mock_runtime (sys_provider s) (sys_world s))"

definition refreshed_v2_expired :: http_response where
  "refreshed_v2_expired =
     json_response_with_headers (discovery_metadata token_v2 idp_jwks) [(''cache-control'', ''max-age=0'')]"

definition disabling_metadata_refresh_wins_during_in_flight_refresh :: bool where
  "disabling_metadata_refresh_wins_during_in_flight_refresh \<longleftrightarrow>
     discovered [initial_v1, empty_jwks_response, refreshed_v2_expired] (\<lambda>s.
       let joined = set_during_refresh DisableRefresh s; provider = sys_provider joined in
       refreshed_to 0 joined token_v2 \<and> metadata_refresh_interval provider = None \<and>
       refresh_after provider = None \<and> \<not> is_stale joined)"

definition setting_metadata_refresh_interval_wins_during_in_flight_refresh :: bool where
  "setting_metadata_refresh_interval_wins_during_in_flight_refresh \<longleftrightarrow>
     discovered [initial_v1, empty_jwks_response, refreshed_v2] (\<lambda>(p, w).
       let s = set_metadata_minimum_cache_duration mock_runtime 0 (disable_metadata_refresh p, w);
           joined = set_during_refresh (SetRefreshInterval 0) s in
       refreshed_to 0 joined token_v2 \<and> metadata_refresh_interval (sys_provider joined) = Some 0 \<and>
       is_stale joined)"

definition setting_metadata_minimum_cache_duration_wins_during_in_flight_refresh :: bool where
  "setting_metadata_minimum_cache_duration_wins_during_in_flight_refresh \<longleftrightarrow>
     discovered [initial_v1, empty_jwks_response, refreshed_v2_expired] (\<lambda>s.
       let minimum = from_secs 3600; joined = set_during_refresh (SetMinimumCacheDuration minimum) s in
       refreshed_to 0 joined token_v2 \<and>
       metadata_minimum_cache_duration (sys_provider joined) = minimum \<and> \<not> is_stale joined)"

section \<open>The key fetcher\<close>

definition jwks_fetcher_forwards_age_header :: bool where
  "jwks_fetcher_forwards_age_header \<longleftrightarrow>
     unwrapped
       (jwks_fetch plain_display mock_runtime idp_jwks
         (mock_http [\<lparr>resp_status = 200, resp_headers = [(''AGE'', ''120'')], resp_body = ''{\"keys\":[]}''\<rparr>]))
       (\<lambda>response _. fetch_age response = Some (from_secs 120))"

section \<open>What the provider answers\<close>

definition idp_issuer :: "bytes issuer_url" where
  "idp_issuer = \<lparr>issuer_as_url = ''https://idp.example.com/'', issuer_as_str = ''https://idp.example.com''\<rparr>"

definition idp_metadata :: "bytes \<Rightarrow> bytes \<Rightarrow> bytes provider_metadata" where
  "idp_metadata token jwks =
     \<lparr>metadata_issuer = idp_issuer, authorization_endpoint = AuthUrl ''https://idp.example.com/auth'',
      token_endpoint = TokenUrl token, userinfo_endpoint = None, jwks_uri = JwksUrl jwks,
      end_session_endpoint = None, registration_endpoint = None, scopes_supported = None,
      response_types_supported = [''code''], subject_types_supported = [''public''],
      id_token_signing_alg_values_supported = [''RS256''], grant_types_supported = None,
      token_endpoint_auth_methods_supported = None,
      authorization_response_iss_parameter_supported = False,
      userinfo_signing_alg_values_supported = None, metadata_extra = Map.empty\<rparr>"

definition idp_keys :: "bytes \<Rightarrow> mock_jwks" where
  "idp_keys url = (url, jwks_fetch plain_display mock_runtime)"

lemma idp_urls:
  "issuer_url_from_str path_url ''https://idp.example.com'' = Inr idp_issuer"
  "auth_url_from_str path_url ''https://idp.example.com/auth'' = Inr (AuthUrl ''https://idp.example.com/auth'')"
  "discovery_url path_url idp_issuer = Inr ''https://idp.example.com/.well-known/openid-configuration''"
  by code_simp+

definition token_ok :: "bytes \<Rightarrow> bool" where
  "token_ok u \<longleftrightarrow> token_url_from_str path_url u = Inr (TokenUrl u)"

definition jwks_ok :: "bytes \<Rightarrow> bool" where
  "jwks_ok u \<longleftrightarrow> jwks_url_from_str path_url u = Inr (JwksUrl u)"

lemma urls_ok [simp]:
  "token_ok token_v1" "token_ok token_v2" "token_ok ''https://idp.example.com/token''"
  "jwks_ok idp_jwks" "jwks_ok ''https://idp.example.com/jwks-v1''" "jwks_ok ''https://idp.example.com/jwks-v2''"
  by code_simp+

lemma metadata_document:
  assumes "token_ok token" and "jwks_ok jwks"
  shows "decode_metadata plain_display path_url (discovery_metadata token jwks) = Inr (idp_metadata token jwks)"
  using assms
  by (simp add: decode_metadata_def discovery_metadata_def map_members_def metadata_fields_def
      required_field_def option_field_def default_field_def as_parsed_def as_string_def as_list_def
      as_option_def as_bool_def idp_urls idp_metadata_def extra_members_def token_ok_def jwks_ok_def)

text \<open>A response of the discovery endpoint, with the header fields after the first.\<close>

abbreviation discovery_answer :: "bytes \<Rightarrow> bytes \<Rightarrow> (bytes \<times> bytes) list \<Rightarrow> http_response" where
  "discovery_answer token jwks headers \<equiv> json_response_with_headers (discovery_metadata token jwks) headers"

lemma json_response_alt: "json_response v = json_response_with_headers v []"
  by (simp add: json_response_with_headers_def json_response_def)

definition content_json :: "bytes \<times> bytes" where
  "content_json = (''content-type'', ''application/json'')"

abbreviation discovery_request :: http_request where
  "discovery_request \<equiv> accept_json_request ''https://idp.example.com/.well-known/openid-configuration''"

lemma discover_answered:
  assumes "script_answers w = Inr (discovery_answer token jwks headers) # as" "token_ok token" "jwks_ok jwks"
  shows "discover_from test_env idp_issuer w =
    (Inr \<lparr>disc_metadata = idp_metadata token jwks, disc_response_headers = content_json # headers\<rparr>,
     w\<lparr>script_answers := as, script_sent := script_sent w @ [discovery_request]\<rparr>)"
proof -
  have "json_ok (discovery_metadata token jwks)"
    by (simp add: discovery_metadata_def)
  then have "read_json (print_json (discovery_metadata token jwks)) = Inr (discovery_metadata token jwks)"
    by (rule read_print_json)
  then show ?thesis
    using assms metadata_document [OF assms(2,3)]
    by (simp add: discover_from_def discover_with_cache_def idp_urls binds_def map_errs_def mock_runtime_def
        decode_discovery_def json_response_with_headers_def json_response_def from_json_slice_def
        content_json_def del: print_json.simps)
      (simp add: idp_metadata_def validate_metadata_def)
qed

definition unavailable_error :: oidc_error where
  "unavailable_error = Discovery
     (''metadata HTTP '' @ nat_to_dec 503 @ '' from '' @
      ''https://idp.example.com/.well-known/openid-configuration'')"

lemma discover_unavailable:
  assumes "script_answers w = Inr unavailable # as"
  shows "discover_from test_env idp_issuer w =
    (Inl unavailable_error, w\<lparr>script_answers := as, script_sent := script_sent w @ [discovery_request]\<rparr>)"
  using assms
  by (simp add: discover_from_def discover_with_cache_def idp_urls binds_def map_errs_def mock_runtime_def
      decode_discovery_def unavailable_def unavailable_error_def)

text \<open>The key set of a URL that was not fetched before, and of one that was.\<close>

lemma read_no_keys: "read_keys ''{\"keys\":[]}'' = Inr []"
  by code_simp

lemma keys_answered:
  assumes "script_answers w = Inr empty_jwks_response # as" "map_of (mock_keys w) url = None"
  shows "mock_keys_of (idp_keys url) w = (Inr [],
    w\<lparr>script_answers := as, script_sent := script_sent w @ [accept_json_request url],
      mock_keys := (url, []) # mock_keys w\<rparr>)"
  using assms
  by (simp add: mock_keys_of_def idp_keys_def jwks_fetch_def binds_def map_errs_def mock_runtime_def
      empty_jwks_response_def fetch_result_def read_no_keys)

lemma keys_cached: "map_of (mock_keys w) url = Some ks \<Longrightarrow> mock_keys_of (idp_keys url) w = (Inr ks, w)"
  by (simp add: mock_keys_of_def idp_keys_def)

lemma new_jwks_idp: "new_jwks test_env (idp_metadata token jwks) = idp_keys jwks"
  by (simp add: new_jwks_def mock_jose_def idp_keys_def idp_metadata_def)

lemma idp_metadata_simps [simp]:
  "metadata_issuer (idp_metadata token jwks) = idp_issuer" "jwks_uri (idp_metadata token jwks) = JwksUrl jwks"
  "token_endpoint (idp_metadata token jwks) = TokenUrl token"
  by (simp_all add: idp_metadata_def)

lemma mock_instant [simp]:
  "instant_now mock_runtime w =
     (script_instant w, w\<lparr>script_instant := Instant (instant_nanos (script_instant w) + int tick)\<rparr>)"
  by (simp add: mock_runtime_def)

lemma mock_jwks_keys: "jwks_keys mock_jose h w = map_prod (mapr (\<lambda>_. ())) id (mock_keys_of h w)"
  by (simp add: mock_jose_def split: prod.splits)

lemma durations:
  "default_metadata_refresh_interval = from_secs 3600"
  "default_metadata_minimum_cache_duration = from_secs 60"
  "default_metadata_retain_on_error = from_secs 86400" "metadata_refresh_retry_interval = from_secs 30"
  by (simp_all add: default_metadata_refresh_interval_def default_metadata_minimum_cache_duration_def
      default_metadata_retain_on_error_def metadata_refresh_retry_interval_def)

lemmas deadline_evals = metadata_cache_deadlines_def metadata_refresh_deadline_def deadline_from_def
  metadata_stale_deadline_def durations instant_checked_add_def clock_limit_def is_zero_duration_def
  from_secs_def nanos_per_sec_def zero_duration_def tick_def

section \<open>Lifetimes\<close>

definition asks_for :: "(bytes \<times> bytes) list \<Rightarrow> cache_directives \<Rightarrow> bool" where
  "asks_for headers ds \<longleftrightarrow>
     fold (\<lambda>(_, v). parse_cache_control v)
       (filter (\<lambda>(name, _). eq_ignore_ascii_case name ''cache-control'') headers) default_directives = ds \<and>
     header_value headers ''expires'' = None \<and> header_value headers ''date'' = None \<and>
     header_value headers ''age'' = None"

lemma answers_ask:
  "asks_for [content_json] default_directives"
  "asks_for [content_json, (''cache-control'', ''no-cache, no-store'')]
     (default_directives\<lparr>dir_no_cache := True, dir_no_store := True\<rparr>)"
  "asks_for [content_json, (''cache-control'', ''no-cache'')] (default_directives\<lparr>dir_no_cache := True\<rparr>)"
  "asks_for [content_json, (''cache-control'', ''max-age=0, must-revalidate'')]
     (default_directives\<lparr>dir_max_age := Some (Nanos 0), dir_must_revalidate := True\<rparr>)"
  "asks_for [content_json, (''cache-control'', ''max-age=0'')] (default_directives\<lparr>dir_max_age := Some (Nanos 0)\<rparr>)"
  by code_simp+

lemma asked_policy:
  "asks_for headers ds \<Longrightarrow> policy_from_headers H R headers fallback w =
    (if dir_no_store ds then DoNotStore else if dir_no_cache ds then Revalidate
     else CacheFor (case dir_max_age ds of None \<Rightarrow> fallback | Some d \<Rightarrow> d) (dir_must_revalidate ds), w)"
  by (simp add: asks_for_def policy_from_headers_def Let_def compute_policy_from_directives_def
      unwrap_duration_def max_def split: option.splits)

lemmas answer_policies =
  answers_ask [THEN asked_policy, unfolded default_directives_def cache_directives.simps, simplified]

section \<open>The client after discovery\<close>

definition start_state :: "bytes \<Rightarrow> bytes \<Rightarrow> nat \<Rightarrow> bool \<Rightarrow> (bytes, mock_jwks) provider_state" where
  "start_state token jwks lifetime must_revalidate =
     \<lparr>ps_metadata = idp_metadata token jwks, ps_jwks = idp_keys jwks,
      refresh_after = Some (Instant (1000000000000 + int lifetime * 1000000000)),
      stale_until = (if must_revalidate then None
        else Some (Instant (1000000000000 + int lifetime * 1000000000 + 86400000000000))),
      retry_after = None, stale_on_error = \<not> must_revalidate,
      metadata_refresh_interval = Some (from_secs 3600),
      metadata_minimum_cache_duration = from_secs 60, metadata_retain_on_error = from_secs 86400\<rparr>"

definition start_world :: "bytes \<Rightarrow> http_response list \<Rightarrow> mock_world" where
  "start_world jwks rest =
     \<lparr>script_answers = map Inr rest, script_sent = [discovery_request, accept_json_request jwks],
      script_instant = Instant 1000001000000, script_system = SystemTime (int (now_secs * nanos_per_sec)),
      mock_random = 1, mock_keys = [(jwks, [])], mock_store = Map.empty\<rparr>"

lemma discovered_at:
  assumes "token_ok token" "jwks_ok jwks" "lifetime \<le> 86400"
    and "\<And>w. discovered_cache_policy second_dates mock_runtime
      \<lparr>disc_metadata = idp_metadata token jwks, disc_response_headers = content_json # headers\<rparr>
      default_metadata_refresh_interval default_metadata_minimum_cache_duration w =
      (CacheFor (from_secs lifetime) must_revalidate, w)"
  shows "discovered (discovery_answer token jwks headers # empty_jwks_response # rest) P \<longleftrightarrow>
    P (start_state token jwks lifetime must_revalidate, start_world jwks rest)"
proof -
  let ?w = "(mock_http (discovery_answer token jwks headers # empty_jwks_response # rest))
    \<lparr>script_answers := Inr empty_jwks_response # map Inr rest, script_sent := [discovery_request]\<rparr>"
  have "discover_from test_env idp_issuer
      (mock_http (discovery_answer token jwks headers # empty_jwks_response # rest)) =
      (Inr \<lparr>disc_metadata = idp_metadata token jwks, disc_response_headers = content_json # headers\<rparr>, ?w)"
    using assms(1,2) by (simp add: discover_answered mock_http_def)
  then show ?thesis
    using assms(3)
    by (simp add: discovered_def idp_urls client_id_new_def nonempty_new_def client_discover_def binds_def assms(4)
        map_errs_def new_jwks_idp mock_jwks_keys)
      (simp add: keys_answered mock_http_def deadline_evals start_state_def start_world_def)
qed

lemmas policy_evals = discovered_cache_policy_def answer_policies apply_minimum_cache_duration_def durations

lemma discovered_plain:
  assumes "token_ok token" "jwks_ok jwks"
  shows "discovered (json_response (discovery_metadata token jwks) # empty_jwks_response # rest) P \<longleftrightarrow>
    P (start_state token jwks 3600 False, start_world jwks rest)"
  unfolding json_response_alt
  by (rule discovered_at) (simp_all add: assms policy_evals is_zero_duration_def)

lemma discovered_strict:
  assumes "token_ok token" "jwks_ok jwks"
  shows "discovered (discovery_answer token jwks [(''cache-control'', ''no-cache, no-store'')] #
      empty_jwks_response # rest) P \<longleftrightarrow> P (start_state token jwks 60 True, start_world jwks rest)"
    and "discovered (discovery_answer token jwks [(''cache-control'', ''max-age=0, must-revalidate'')] #
      empty_jwks_response # rest) P \<longleftrightarrow> P (start_state token jwks 60 True, start_world jwks rest)"
  by (rule discovered_at; simp add: assms policy_evals is_zero_duration_def from_secs_def nanos_per_sec_def
      zero_duration_def max_def)+

text \<open>What a refresh fetches: metadata of the same issuer, with the old keys or with new ones.\<close>

lemma fetch_same_keys:
  assumes "script_answers w = Inr (discovery_answer token jwks headers) # as" "token_ok token" "jwks_ok jwks"
    and "ps_metadata p = idp_metadata token' jwks"
  shows "fetch_replacement test_env p w =
    (Inr (\<lparr>disc_metadata = idp_metadata token jwks, disc_response_headers = content_json # headers\<rparr>, ps_jwks p),
     w\<lparr>script_answers := as, script_sent := script_sent w @ [discovery_request]\<rparr>)"
  using assms by (simp add: fetch_replacement_def binds_def discover_answered)

lemma fetch_new_keys:
  assumes "script_answers w = Inr (discovery_answer token jwks headers) # Inr empty_jwks_response # as"
    and "token_ok token" "jwks_ok jwks" "ps_metadata p = idp_metadata token' jwks'" "jwks' \<noteq> jwks"
    and "map_of (mock_keys w) jwks = None"
  shows "fetch_replacement test_env p w =
    (Inr (\<lparr>disc_metadata = idp_metadata token jwks, disc_response_headers = content_json # headers\<rparr>,
          idp_keys jwks),
     w\<lparr>script_answers := as, script_sent := script_sent w @ [discovery_request, accept_json_request jwks],
       mock_keys := (jwks, []) # mock_keys w\<rparr>)"
  using assms
  by (simp add: fetch_replacement_def binds_def discover_answered new_jwks_idp mock_jwks_keys map_errs_def Let_def
      keys_answered)

lemma fetch_fails:
  assumes "script_answers w = Inr unavailable # as" "ps_metadata p = idp_metadata token jwks"
  shows "fetch_replacement test_env p w = (Inl unavailable_error,
     w\<lparr>script_answers := as, script_sent := script_sent w @ [discovery_request]\<rparr>)"
  using assms by (simp add: fetch_replacement_def binds_def discover_unavailable)

lemmas refresh_evals = refresh_metadata_if_stale_def metadata_needs_refresh_def needs_refresh_at_def
  refresh_metadata_def refresh_metadata_from_def metadata_after_refresh_error_def after_error_at_def
  publish_replacement_def Let_def binds_def on_snd_def

lemmas setter_evals = set_metadata_refresh_interval_def set_metadata_minimum_cache_duration_def
  set_metadata_retain_on_error_def disable_metadata_refresh_def expire_metadata_def

lemmas result_evals = unwrapped_def failed_with_def no_keys_def start_state_def start_world_def

lemma client_test_discovery: "jwks_discovery_populates_cache"
  by (simp add: jwks_discovery_populates_cache_def discovered_plain) (simp add: result_evals keys_cached)


lemma client_test_throttle: "default_metadata_minimum_cache_duration_throttles_strict_directives"
  by (simp add: default_metadata_minimum_cache_duration_throttles_strict_directives_def discovered_strict)
    (simp add: result_evals refresh_evals setter_evals deadline_evals)

lemma client_test_no_cache: "zero_metadata_minimum_cache_duration_honors_no_cache"
  by (simp add: zero_metadata_minimum_cache_duration_honors_no_cache_def initial_v1_def discovered_plain)
    (simp add: result_evals refresh_evals setter_evals deadline_evals fetch_same_keys fetch_fails policy_evals)

lemma client_test_reuse: "stale_metadata_refresh_reuses_unchanged_jwks_cache"
  by (simp add: stale_metadata_refresh_reuses_unchanged_jwks_cache_def initial_v1_def discovered_plain)
    (simp add: result_evals refresh_evals setter_evals deadline_evals push_response_def refreshed_v2_def
      json_response_alt fetch_same_keys policy_evals keys_cached)

lemma client_test_replace: "metadata_refresh_replaces_changed_jwks_cache"
  by (simp add: metadata_refresh_replaces_changed_jwks_cache_def discovered_plain)
    (simp add: result_evals refresh_evals setter_evals deadline_evals
      json_response_alt fetch_new_keys policy_evals keys_cached accept_json_request_def)


lemma client_tests_retain:
  "failed_automatic_metadata_refresh_retains_previous_snapshot"
  "zero_metadata_retain_on_error_disables_stale_fallback"
  by (simp_all add: failed_automatic_metadata_refresh_retains_previous_snapshot_def
      zero_metadata_retain_on_error_disables_stale_fallback_def initial_v1_def discovered_plain)
    (simp_all add: result_evals refresh_evals setter_evals deadline_evals fetch_fails keys_cached)

lemma client_test_retain_survives: "metadata_retain_on_error_survives_successful_refresh"
  by (simp add: metadata_retain_on_error_survives_successful_refresh_def initial_v1_def discovered_plain)
    (simp add: result_evals refresh_evals setter_evals deadline_evals refreshed_v2_def json_response_alt
      fetch_same_keys policy_evals instant_duration_since_def is_some_and_def)

lemma client_test_must_revalidate: "must_revalidate_disables_stale_metadata_fallback"
  by (simp add: must_revalidate_disables_stale_metadata_fallback_def discovered_strict)
    (simp add: result_evals refresh_evals setter_evals deadline_evals fetch_fails)

lemma client_test_retry: "stale_metadata_retry_is_deferred_and_bounded"
  by (simp add: stale_metadata_retry_is_deferred_and_bounded_def initial_v1_def discovered_plain)
    (simp add: result_evals refresh_evals setter_evals deadline_evals fetch_fails end_stale_period_def)

lemma client_test_forced: "forced_metadata_refresh_reports_failure"
  by (simp add: forced_metadata_refresh_reports_failure_def initial_v1_def discovered_plain)
    (simp add: result_evals refresh_evals fetch_fails)

lemma client_test_age: "jwks_fetcher_forwards_age_header"
proof -
  have "header_value [(''AGE'', ''120'')] ''age'' = Some ''120''" "parse_uint (2 ^ 64) ''120'' = Some 120"
    by code_simp+
  then show ?thesis
    by (simp add: jwks_fetcher_forwards_age_header_def unwrapped_def jwks_fetch_def binds_def map_errs_def
        mock_runtime_def mock_http_def fetch_result_def)
qed


lemma run_numeral:
  "run_task E i (numeral k) s =
     (case task_step E i s of None \<Rightarrow> s | Some s' \<Rightarrow> run_task E i (pred_numeral k) s')"
  by (simp add: numeral_eq_Suc run_task.simps)

lemmas task_evals = run_numeral run_task.simps task_step_def start_task_def put_phase_def release_with_def refresh_start_def
  refreshed_to_def set_during_refresh_def expire_now_def

lemma client_test_disable: "disabling_metadata_refresh_wins_during_in_flight_refresh"
  by (simp add: disabling_metadata_refresh_wins_during_in_flight_refresh_def initial_v1_def discovered_plain)
    (simp add: result_evals refresh_evals setter_evals deadline_evals task_evals refreshed_v2_expired_def
      discover_answered policy_evals)


lemma client_test_interval: "setting_metadata_refresh_interval_wins_during_in_flight_refresh"
  by (simp add: setting_metadata_refresh_interval_wins_during_in_flight_refresh_def initial_v1_def discovered_plain)
    (simp add: result_evals refresh_evals setter_evals deadline_evals task_evals refreshed_v2_def
      json_response_alt discover_answered policy_evals)

lemma client_test_minimum: "setting_metadata_minimum_cache_duration_wins_during_in_flight_refresh"
  by (simp add: setting_metadata_minimum_cache_duration_wins_during_in_flight_refresh_def initial_v1_def
      discovered_plain)
    (simp add: result_evals refresh_evals setter_evals deadline_evals task_evals refreshed_v2_expired_def
      discover_answered policy_evals)

text \<open>
  The first task up to its response, the second up to the lock, then both to the end. A round is
  evaluated on a state given by its fields, so that what the earlier rounds did is not repeated.
\<close>

definition two_tasks ::
  "(bytes, mock_jwks) provider_state \<Rightarrow> mock_world \<Rightarrow> nat option \<Rightarrow> (bytes, mock_jwks) refresh_phase \<Rightarrow>
   (bytes, mock_jwks) refresh_phase \<Rightarrow> test_system" where
  "two_tasks p w l a b = \<lparr>sys_provider = p, sys_world = w, sys_lock = l,
     sys_tasks = (\<lambda>_. Idle)(0 := a, 1 := b)\<rparr>"

lemma two_tasks_simps [simp]:
  "sys_provider (two_tasks p w l a b) = p" "sys_world (two_tasks p w l a b) = w"
  "sys_lock (two_tasks p w l a b) = l" "sys_tasks (two_tasks p w l a b) 0 = a"
  "sys_tasks (two_tasks p w l a b) (Suc 0) = b"
  "two_tasks p w l a b\<lparr>sys_provider := p'\<rparr> = two_tasks p' w l a b"
  "two_tasks p w l a b\<lparr>sys_world := w'\<rparr> = two_tasks p w' l a b"
  "two_tasks p w l a b\<lparr>sys_lock := l'\<rparr> = two_tasks p w l' a b"
  "put_phase 0 a' (two_tasks p w l a b) = two_tasks p w l a' b"
  "put_phase (Suc 0) b' (two_tasks p w l a b) = two_tasks p w l a b'"
  "release_with 0 a' (two_tasks p w l a b) = two_tasks p w None a' b"
  "release_with (Suc 0) b' (two_tasks p w l a b) = two_tasks p w None a b'"
  by (simp_all add: two_tasks_def put_phase_def release_with_def fun_eq_iff)

lemma both_started:
  "start_task Automatic (Suc 0) (start_task Automatic 0 (refresh_start p w)) =
     two_tasks p w None (FirstCheck p) (FirstCheck p)"
  by (simp add: start_task_def refresh_start_def two_tasks_def put_phase_def)

abbreviation v2_answer :: "bytes discovered_metadata" where
  "v2_answer \<equiv> \<lparr>disc_metadata = idp_metadata token_v2 idp_jwks, disc_response_headers = [content_json]\<rparr>"

lemmas round_evals = run_numeral run_task.simps task_step_def metadata_needs_refresh_def needs_refresh_at_def tick_def

lemma first_round:
  assumes "script_instant w = Instant i" "refresh_after p = Some (Instant r)" "retry_after p = None" "r \<le> i"
    and "script_answers w = [Inr (discovery_answer token_v2 idp_jwks [])]"
    and "ps_metadata p = idp_metadata token_v1 idp_jwks"
  shows "run_task test_env 0 5 (two_tasks p w None (FirstCheck p) (FirstCheck p)) =
    two_tasks p (w\<lparr>script_instant := Instant (2000000 + i), script_answers := [],
        script_sent := script_sent w @ [discovery_request]\<rparr>)
      (Some 0) (Fetched Automatic v2_answer (ps_jwks p)) (FirstCheck p)"
  using assms by (simp add: round_evals discover_answered)

lemma second_round:
  assumes "script_instant w = Instant i" "refresh_after p = Some (Instant r)" "retry_after p = None" "r \<le> i"
  shows "run_task test_env (Suc 0) 8 (two_tasks p w (Some 0) a (FirstCheck p)) =
    two_tasks p (w\<lparr>script_instant := Instant (i + 1000000)\<rparr>) (Some 0) a (Waiting Automatic)"
  using assms by (simp add: round_evals)

lemma third_round:
  assumes "publish_replacement test_env d jwks (p, w) = (p', w')"
  shows "run_task test_env 0 8 (two_tasks p w (Some 0) (Fetched Automatic d jwks) b) =
    two_tasks p' w' None (Finished (Inr (disc_metadata d))) b"
  using assms by (simp add: round_evals)

lemma fourth_round:
  assumes "script_instant w = Instant i" "refresh_after p = Some (Instant r)" "i < r"
  shows "run_task test_env (Suc 0) 8 (two_tasks p w None a (Waiting Automatic)) =
    two_tasks p (w\<lparr>script_instant := Instant (i + 1000000)\<rparr>) None a (Finished (Inr (ps_metadata p)))"
  using assms by (simp add: round_evals)

lemma client_test_concurrent: "concurrent_stale_checks_share_one_metadata_refresh"
proof -
  have state: "expire_now (set_metadata_refresh_interval mock_runtime default_metadata_refresh_interval
      (start_state token_v1 idp_jwks 3600 False, start_world idp_jwks [refreshed_v2])) =
    ((start_state token_v1 idp_jwks 3600 False)
       \<lparr>refresh_after := Some (Instant 1000002000000), stale_until := Some (Instant 91000001000000)\<rparr>,
     (start_world idp_jwks [refreshed_v2])\<lparr>script_instant := Instant 1000003000000\<rparr>)"
    by (simp add: setter_evals deadline_evals start_state_def start_world_def expire_now_def max_def)
  show ?thesis
    by (simp add: concurrent_stale_checks_share_one_metadata_refresh_def initial_v1_def discovered_plain state)
      (simp add: both_started first_round second_round third_round fourth_round start_state_def start_world_def
        refreshed_v2_def json_response_alt refreshed_to_def publish_replacement_def Let_def policy_evals deadline_evals)
qed

end
