(* ===== verification/Tests_Client.thy ===== *)
theory Tests_Client
  imports Tests_Client_Refresh Honest_Login
begin

text \<open>
  The unit tests of src/client.rs about what a client made from given metadata does: completing an
  authorization, the two exchanges, UserInfo. The store is \<^verbatim>\<open>MockKv\<close>, as part of the world; in the test
  of two completions at once it is the in-memory store, since that is the one the tasks of
  \<open>Login_Concurrency\<close> share.
\<close>

section \<open>Clients\<close>

definition test_provider_metadata :: "json_error + bytes provider_metadata" where
  "test_provider_metadata = metadata_of
     [(''issuer'', JString ''https://idp.example.com''),
      (''authorization_endpoint'', JString ''https://idp.example.com/auth''),
      (''token_endpoint'', JString ''https://idp.example.com/token''),
      (''jwks_uri'', JString ''https://idp.example.com/jwks''),
      (''response_types_supported'', JArray [JString ''code'']),
      (''subject_types_supported'', JArray [JString ''public'']),
      (''id_token_signing_alg_values_supported'', JArray [JString ''RS256''])]"

definition provider_metadata_with_userinfo :: "json_error + bytes provider_metadata" where
  "provider_metadata_with_userinfo = metadata_of
     [(''issuer'', JString ''https://idp.example.com''),
      (''authorization_endpoint'', JString ''https://idp.example.com/auth''),
      (''token_endpoint'', JString ''https://idp.example.com/token''),
      (''userinfo_endpoint'', JString ''https://idp.example.com/userinfo''),
      (''jwks_uri'', JString ''https://idp.example.com/jwks''),
      (''response_types_supported'', JArray [JString ''code'']),
      (''subject_types_supported'', JArray [JString ''public'']),
      (''id_token_signing_alg_values_supported'', JArray [JString ''RS256'']),
      (''userinfo_signing_alg_values_supported'', JArray [JString ''RS256''])]"

definition requiring_iss :: "json_error + bytes provider_metadata" where
  "requiring_iss = mapr (\<lambda>m. m\<lparr>authorization_response_iss_parameter_supported := True\<rparr>) test_provider_metadata"

text \<open>\<^verbatim>\<open>Client::from_parts\<close> with an id and perhaps a secret, then the rest of the test.\<close>

definition with_parts ::
  "json_error + bytes provider_metadata \<Rightarrow> bytes \<Rightarrow> bytes option \<Rightarrow> (mock_client \<Rightarrow> bool) \<Rightarrow> bool" where
  "with_parts metadata cid secret P \<longleftrightarrow>
     is_ok_and metadata (\<lambda>m. is_ok_and (client_id_new cid) (\<lambda>cid.
     is_ok_and (case secret of None \<Rightarrow> Inr None | Some s \<Rightarrow> mapr Some (client_secret_new s)) (\<lambda>secret.
     is_ok_and (client_from_parts test_env m cid secret) P)))"

type_synonym client_state = "mock_client \<times> mock_world"

section \<open>Completing an authorization\<close>

text \<open>A pending request, created when the clock is read, and \<^verbatim>\<open>put_if_absent(...).await.unwrap()\<close> of it.\<close>

definition pending_with :: "bytes \<Rightarrow> bytes \<Rightarrow> bytes option \<Rightarrow> system_time \<Rightarrow> pending_auth_request" where
  "pending_with st nonce verifier created_at =
     \<lparr>pending_state = st, pending_nonce = nonce, pending_pkce_verifier = verifier, pending_max_age = None,
      pending_redirect_uri = Some ''https://app.example.com/cb'', pending_scopes = [''openid''],
      pending_created_at = created_at\<rparr>"

definition put_pending :: "pending_auth_request \<Rightarrow> mock_world \<Rightarrow> (mock_world \<Rightarrow> bool) \<Rightarrow> bool" where
  "put_pending p w P \<longleftrightarrow>
     is_ok_and (encode_pending text_json p) (\<lambda>v.
       unwrapped (mock_put_if_absent (pending_key_for (pending_state p)) (print_json v) pending_default_ttl w)
         (\<lambda>inserted w. inserted \<and> P w))"

definition stored_now ::
  "bytes \<Rightarrow> bytes \<Rightarrow> bytes option \<Rightarrow> mock_world \<Rightarrow> (mock_world \<Rightarrow> bool) \<Rightarrow> bool" where
  "stored_now st nonce verifier w P \<longleftrightarrow>
     (case system_now mock_runtime w of (now, w) \<Rightarrow> put_pending (pending_with st nonce verifier now) w P)"

abbreviation complete ::
  "bytes \<Rightarrow> mock_client \<Rightarrow> mock_world \<Rightarrow> (failure + completed_authorization) \<times> client_state" where
  "complete query c w \<equiv> complete_authorization test_env mock_take query (c, w)"

definition token_document :: "(bytes \<times> json) list \<Rightarrow> http_response" where
  "token_document members = \<lparr>resp_status = 200, resp_headers = [(''content-type'', ''application/json'')],
     resp_body = print_json (JObject members)\<rparr>"

definition short_token_document :: http_response where
  "short_token_document = token_document
     [(''access_token'', JString ''AT-1''), (''token_type'', JString ''Bearer''),
      (''id_token'', JString ''header.payload.signature'')]"

text \<open>Assertions on the request that was sent last.\<close>

definition last_body :: "mock_world \<Rightarrow> bytes" where
  "last_body w = (case req_body (last (script_sent w)) of Some b \<Rightarrow> b | None \<Rightarrow> [])"

definition complete_authorization_exchanges_code_and_consumes_pending :: bool where
  "complete_authorization_exchanges_code_and_consumes_pending \<longleftrightarrow>
     (let token_resp = token_document
        [(''access_token'', JString ''AT-1''), (''token_type'', JString ''Bearer''), (''expires_in'', num 3600),
         (''refresh_token'', JString ''RT-1''), (''id_token'', JString ''header.payload.signature'')] in
      with_parts test_provider_metadata ''my-client'' (Some ''secret'') (\<lambda>client.
      stored_now ''state-xyz'' ''nonce-abc'' (Some ''verifier-1234567890'') (mock_http [token_resp]) (\<lambda>w.
      unwrapped (complete ''code=AUTH-CODE&state=state-xyz'' client w) (\<lambda>result (_, w).
        access_token_str (resp_access_token (ca_token_response result)) = ''AT-1'' \<and>
        map_option refresh_token_str (resp_refresh_token (ca_token_response result)) = Some ''RT-1'' \<and>
        ca_callback_state result = ''state-xyz'' \<and> pending_nonce (ca_pending result) = ''nonce-abc'' \<and>
        \<not> mock_contains (pending_key_for ''state-xyz'') w \<and>
        script_sent w \<noteq> [] \<and> req_method (last (script_sent w)) = Post \<and>
        list_all (str_contains (last_body w))
          [''grant_type=authorization_code'', ''code=AUTH-CODE'', ''code_verifier=verifier-1234567890'',
           ''redirect_uri=https%3A%2F%2Fapp.example.com%2Fcb''] \<and>
        list_ex (\<lambda>(k, _). k = ''Authorization'') (req_headers (last (script_sent w)))))))"

definition complete_authorization_from_pending_exchanges_without_store :: bool where
  "complete_authorization_from_pending_exchanges_without_store \<longleftrightarrow>
     with_parts test_provider_metadata ''my-client'' (Some ''secret'') (\<lambda>client.
       case system_now mock_runtime (mock_http [short_token_document]) of (now, w) \<Rightarrow>
         unwrapped (complete_authorization_from_pending test_env (Success ''AUTH-CODE'' ''consumed-state'' None)
             (pending_with ''consumed-state'' ''nonce'' None now) (client, w))
           (\<lambda>result _. ca_callback_state result = ''consumed-state'' \<and>
             access_token_str (resp_access_token (ca_token_response result)) = ''AT-1''))"

text \<open>
  The tests of a callback that is refused: a request under the state is stored, the callback fails
  with an error that \<open>P\<close> describes, and the entry is gone.
\<close>

definition callback_refused ::
  "json_error + bytes provider_metadata \<Rightarrow> bytes option \<Rightarrow> bytes \<Rightarrow> bytes \<Rightarrow> (oidc_error \<Rightarrow> bool) \<Rightarrow> bool" where
  "callback_refused metadata secret st query P \<longleftrightarrow>
     with_parts metadata ''my-client'' secret (\<lambda>client.
     stored_now st ''nonce'' None (mock_http []) (\<lambda>w.
     failed_with (complete query client w) (\<lambda>f (_, w).
       (case f of Err e \<Rightarrow> P e | Panic _ \<Rightarrow> False) \<and> \<not> mock_contains (pending_key_for st) w)))"

definition provider_error_consumes_pending_state :: bool where
  "provider_error_consumes_pending_state \<longleftrightarrow>
     callback_refused test_provider_metadata (Some ''secret'') ''denied-state''
       (''error=access_denied&error_uri=https%3A%2F%2Fop.example.com%2Fdenied'' @
        ''&state=denied-state&iss=https%3A%2F%2Fidp.example.com'')
       (\<lambda>e. case e of
          AuthorizationResponseError (ProviderError err _ error_uri st iss) \<Rightarrow>
            err = ''access_denied'' \<and> error_uri = Some ''https://op.example.com/denied'' \<and>
            st = ''denied-state'' \<and> iss = Some ''https://idp.example.com''
        | _ \<Rightarrow> False)"

abbreviation is_issuer_mismatch :: "oidc_error \<Rightarrow> bool" where
  "is_issuer_mismatch e \<equiv>
     (case e of AuthorizationResponseError (IssuerMismatch _ _) \<Rightarrow> True | _ \<Rightarrow> False)"

definition provider_error_rejects_wrong_callback_issuer_after_consuming_state :: bool where
  "provider_error_rejects_wrong_callback_issuer_after_consuming_state \<longleftrightarrow>
     callback_refused requiring_iss None ''denied-state''
       ''error=access_denied&state=denied-state&iss=https%3A%2F%2Fattacker.example.com'' is_issuer_mismatch"

definition provider_error_requires_advertised_callback_issuer_after_consuming_state :: bool where
  "provider_error_requires_advertised_callback_issuer_after_consuming_state \<longleftrightarrow>
     callback_refused requiring_iss None ''denied-state'' ''error=access_denied&state=denied-state''
       (\<lambda>e. e = AuthorizationResponseError (Missing ''iss''))"

definition complete_authorization_rejects_wrong_callback_issuer :: bool where
  "complete_authorization_rejects_wrong_callback_issuer \<longleftrightarrow>
     callback_refused requiring_iss None ''state-1''
       ''code=AUTH-CODE&state=state-1&iss=https%3A%2F%2Fattacker.example.com'' is_issuer_mismatch"

definition complete_authorization_requires_advertised_callback_issuer :: bool where
  "complete_authorization_requires_advertised_callback_issuer \<longleftrightarrow>
     callback_refused requiring_iss None ''state-1'' ''code=AUTH-CODE&state=state-1''
       (\<lambda>e. e = AuthorizationResponseError (Missing ''iss''))"

definition complete_authorization_rejects_state_mismatch :: bool where
  "complete_authorization_rejects_state_mismatch \<longleftrightarrow>
     with_parts test_provider_metadata ''my-client'' None (\<lambda>client.
     stored_now ''real-state'' ''nonce-1'' None (mock_http []) (\<lambda>w.
     failed_with (complete ''code=AUTH-CODE&state=other-state'' client w) (\<lambda>_ _. True)))"

text \<open>The two cases of the loop, on one client, one store and one reading of the clock.\<close>

definition invalid_age_case ::
  "mock_client \<Rightarrow> bytes \<Rightarrow> system_time \<Rightarrow> oidc_error \<Rightarrow> mock_world \<Rightarrow> (mock_world \<Rightarrow> bool) \<Rightarrow> bool" where
  "invalid_age_case client st created_at expected w P \<longleftrightarrow>
     put_pending (pending_with st ''nonce'' None created_at) w (\<lambda>w.
     failed_with (complete (''code=AUTH-CODE&state='' @ st) client w) (\<lambda>f (_, w).
       f = Err expected \<and> \<not> mock_contains (pending_key_for st) w \<and> P w))"

definition complete_authorization_rejects_invalid_pending_age :: bool where
  "complete_authorization_rejects_invalid_pending_age \<longleftrightarrow>
     with_parts test_provider_metadata ''my-client'' (Some ''secret'') (\<lambda>client.
     case system_now mock_runtime (mock_http []) of (now, w) \<Rightarrow>
       let earlier = SystemTime (system_nanos now - int (as_nanos pending_default_ttl) -
             int (as_nanos (from_secs 1)))
       in invalid_age_case client ''stale-state'' earlier PendingAuthorizationExpired w (\<lambda>w.
          is_some_and (system_checked_add now (from_secs 60)) (\<lambda>later.
          invalid_age_case client ''future-state'' later PendingAuthorizationFromFuture w (\<lambda>_. True))))"

definition complete_authorization_errors_on_token_endpoint_failure :: bool where
  "complete_authorization_errors_on_token_endpoint_failure \<longleftrightarrow>
     (let err_body = print_json (JObject [(''error'', JString ''invalid_grant''),
            (''error_description'', JString ''authorization code expired'')]) in
      with_parts test_provider_metadata ''my-client'' (Some ''secret'') (\<lambda>client.
      stored_now ''st'' ''n'' None
        (mock_http [\<lparr>resp_status = 400, resp_headers = [], resp_body = err_body\<rparr>]) (\<lambda>w.
      failed_with (complete ''code=CODE&state=st'' client w) (\<lambda>f _.
        f = Err (TokenEndpoint 400 ''invalid_grant'' (Some ''authorization code expired''))))))"

text \<open>
  Two completions of one callback, joined: the first runs until its token request is in flight, where
  the mock yields, then the second, then the first to its end.
\<close>

definition ended_ok :: "nat \<Rightarrow> (bytes, mock_jwks, mock_world) login_system \<Rightarrow> bool" where
  "ended_ok i s \<longleftrightarrow> (case lg_phases s i of Ended (Inr _) \<Rightarrow> True | _ \<Rightarrow> False)"

definition concurrent_completion_consumes_pending_once :: bool where
  "concurrent_completion_consumes_pending_once \<longleftrightarrow>
     with_parts test_provider_metadata ''my-client'' (Some ''secret'') (\<lambda>client.
       case system_now mock_runtime (mock_http [short_token_document]) of (now, w) \<Rightarrow>
       (case instant_now mock_runtime w of (t, w) \<Rightarrow>
       is_ok_and (encode_pending text_json (pending_with ''single-use-state'' ''nonce'' None now)) (\<lambda>v.
       unwrapped (put_if_absent t (pending_key_for ''single-use-state'') (print_json v) pending_default_ttl
           in_memory_new)
         (\<lambda>inserted store.
           let query = ''code=AUTH-CODE&state=single-use-state'';
               credentials = (cl_client_id client, cl_client_secret client);
               start = (login_start (cl_provider client) w)\<lparr>lg_store := store\<rparr>;
               posting = run_login test_env credentials 0 6 (begin_login test_env query 0 start);
               second_done = run_login test_env credentials 1 14 (begin_login test_env query 1 posting);
               joined = run_login test_env credentials 0 14 second_done
           in inserted \<and> of_bool (ended_ok 0 joined) + of_bool (ended_ok 1 joined) = (1 :: nat) \<and>
              kv_entries (lg_store joined) (pending_key_for ''single-use-state'') = None))))"

section \<open>Requests\<close>

definition code_request_for :: "mock_client \<Rightarrow> (bytes built_token_request \<Rightarrow> bool) \<Rightarrow> bool" where
  "code_request_for client P \<longleftrightarrow>
     is_ok_and (exchange_code client ''code'') (\<lambda>req.
     is_ok_and (code_request_build path_url std_form both_base64
       (code_set_pkce_verifier ''verifier-1234567890''
         (code_set_redirect_uri ''https://app.example.com/cb'' req))) P)"

definition exchange_code_picks_basic_when_secret_present :: bool where
  "exchange_code_picks_basic_when_secret_present \<longleftrightarrow>
     with_parts test_provider_metadata ''c'' (Some ''s'') (\<lambda>client. code_request_for client (\<lambda>built.
       list_ex (\<lambda>(k, _). k = ''Authorization'') (req_headers (built_http built))))"

definition exchange_code_picks_none_when_no_secret :: bool where
  "exchange_code_picks_none_when_no_secret \<longleftrightarrow>
     with_parts test_provider_metadata ''c'' None (\<lambda>client. code_request_for client (\<lambda>built.
       list_all (\<lambda>(k, _). k \<noteq> ''Authorization'') (req_headers (built_http built)) \<and>
       is_some_and (req_body (built_http built)) (\<lambda>body.
         str_contains body ''client_id=c'' \<and> str_contains body ''code_verifier=verifier-1234567890'')))"

section \<open>UserInfo\<close>

text \<open>\<^verbatim>\<open>fetch_userinfo\<close> of a client whose provider answers with a status, a content type and a body.\<close>

definition userinfo_fetched ::
  "json_error + bytes provider_metadata \<Rightarrow> bytes \<Rightarrow> bytes \<Rightarrow> http_response list \<Rightarrow>
   ((oidc_error + user_info) \<times> client_state \<Rightarrow> bool) \<Rightarrow> bool" where
  "userinfo_fetched metadata token subject responses P \<longleftrightarrow>
     with_parts metadata ''c'' None (\<lambda>client. is_ok_and (access_token_new token) (\<lambda>access_token.
       P (fetch_userinfo test_env access_token subject (client, mock_http responses))))"

definition typed_response :: "nat \<Rightarrow> bytes \<Rightarrow> bytes \<Rightarrow> http_response" where
  "typed_response status content_type body =
     \<lparr>resp_status = status, resp_headers = [(''content-type'', content_type)], resp_body = body\<rparr>"

definition fetch_userinfo_parses_unsigned_json :: bool where
  "fetch_userinfo_parses_unsigned_json \<longleftrightarrow>
     (let body = print_json (JObject [(''sub'', JString ''user-1''), (''email'', JString ''user@example.com''),
            (''email_verified'', JBool True)]) in
      userinfo_fetched provider_metadata_with_userinfo ''AT-1'' ''user-1''
        [typed_response 200 ''application/json'' body] (\<lambda>rs. unwrapped rs (\<lambda>info _.
          ui_sub info = ''user-1'' \<and> ui_email info = Some ''user@example.com'' \<and>
          ui_email_verified info = Some True)))"

definition first_header :: "bytes \<Rightarrow> http_request \<Rightarrow> bytes option" where
  "first_header name r =
     map_option snd (find (\<lambda>(k, _). eq_ignore_ascii_case k name) (req_headers r))"

definition fetch_userinfo_sends_bearer_and_accept_header :: bool where
  "fetch_userinfo_sends_bearer_and_accept_header \<longleftrightarrow>
     userinfo_fetched provider_metadata_with_userinfo ''AT-7'' ''x''
       [typed_response 200 ''application/json'' ''{\"sub\":\"x\"}''] (\<lambda>rs. unwrapped rs (\<lambda>_ (_, w).
         script_sent w \<noteq> [] \<and>
         (let request = last (script_sent w) in
          req_method request = Get \<and> req_url request = ''https://idp.example.com/userinfo'' \<and>
          first_header ''authorization'' request = Some ''Bearer AT-7'' \<and>
          first_header ''accept'' request = Some ''application/json, application/jwt;q=0.9'')))"

definition fetch_userinfo_returns_error_when_endpoint_missing :: bool where
  "fetch_userinfo_returns_error_when_endpoint_missing \<longleftrightarrow>
     userinfo_fetched test_provider_metadata ''AT-1'' ''user-1'' [] (\<lambda>rs. failed_with rs (\<lambda>err _.
       case err of InvalidMetadata _ \<Rightarrow> True | _ \<Rightarrow> False))"

definition fetch_userinfo_maps_non_200_to_userinfo_error :: bool where
  "fetch_userinfo_maps_non_200_to_userinfo_error \<longleftrightarrow>
     (let body = print_json (JObject [(''error'', JString ''invalid_token''),
            (''error_description'', JString ''access token expired'')]) in
      userinfo_fetched provider_metadata_with_userinfo ''AT-1'' ''user-1''
        [typed_response 401 ''application/json'' body] (\<lambda>rs. failed_with rs (\<lambda>err _.
          err = UserInfoError 401 ''invalid_token'' (Some ''access token expired''))))"

definition fetch_userinfo_rejects_unexpected_content_type :: bool where
  "fetch_userinfo_rejects_unexpected_content_type \<longleftrightarrow>
     userinfo_fetched provider_metadata_with_userinfo ''AT-1'' ''user-1''
       [typed_response 200 ''text/html'' ''<html>oops</html>''] (\<lambda>rs. failed_with rs (\<lambda>err _.
         case err of InvalidAuthorizationRequest _ \<Rightarrow> True | _ \<Rightarrow> False))"

definition fetch_userinfo_rejects_subject_mismatch :: bool where
  "fetch_userinfo_rejects_subject_mismatch \<longleftrightarrow>
     userinfo_fetched provider_metadata_with_userinfo ''AT-1'' ''verified-user''
       [typed_response 200 ''application/json'' ''{\"sub\":\"other-user\",\"name\":\"Mallory\"}''] (\<lambda>rs.
         failed_with rs (\<lambda>err _. err = UserInfoSubjectMismatch))"

definition jwks_accessor_returns_shared_cache :: bool where
  "jwks_accessor_returns_shared_cache \<longleftrightarrow>
     with_parts test_provider_metadata ''c'' None (\<lambda>client.
       let first = client_jwks client; second = client_jwks client in
       no_keys first (mock_http [empty_jwks_response]) (\<lambda>w. no_keys second w (\<lambda>w.
         script_answers w = [] \<and> jwks_url_of (client_metadata client) = idp_jwks)))"

section \<open>They pass\<close>

definition parts_provider :: "bytes provider_metadata \<Rightarrow> (bytes, mock_jwks) provider_state" where
  "parts_provider m =
     \<lparr>ps_metadata = m, ps_jwks = idp_keys idp_jwks, refresh_after = None, stale_until = None, retry_after = None,
      stale_on_error = True, metadata_refresh_interval = None,
      metadata_minimum_cache_duration = from_secs 60, metadata_retain_on_error = from_secs 86400\<rparr>"

definition parts_mock :: "bytes provider_metadata \<Rightarrow> bytes \<Rightarrow> bytes option \<Rightarrow> mock_client" where
  "parts_mock m cid secret =
     \<lparr>cl_provider = parts_provider m, cl_client_id = ClientId cid,
      cl_client_secret = map_option ClientSecret secret\<rparr>"

abbreviation idp_token :: bytes where "idp_token \<equiv> ''https://idp.example.com/token''"

definition userinfo_metadata :: "bytes provider_metadata" where
  "userinfo_metadata = (idp_metadata idp_token idp_jwks)
     \<lparr>userinfo_endpoint := Some (UserInfoUrl ''https://idp.example.com/userinfo''),
      userinfo_signing_alg_values_supported := Some [''RS256'']\<rparr>"

definition iss_metadata :: "bytes provider_metadata" where
  "iss_metadata = (idp_metadata idp_token idp_jwks)\<lparr>authorization_response_iss_parameter_supported := True\<rparr>"

lemma parts_metadata_plain: "test_provider_metadata = Inr (idp_metadata idp_token idp_jwks)"
  using metadata_document [of idp_token idp_jwks]
  by (simp add: test_provider_metadata_def metadata_of_def discovery_metadata_def)

lemma parts_metadata_iss: "requiring_iss = Inr iss_metadata"
  unfolding requiring_iss_def parts_metadata_plain by (simp add: iss_metadata_def)

lemma parts_metadata_userinfo: "provider_metadata_with_userinfo = Inr userinfo_metadata"
proof -
  have "userinfo_url_from_str path_url ''https://idp.example.com/userinfo'' =
      Inr (UserInfoUrl ''https://idp.example.com/userinfo'')" by code_simp
  moreover have "token_ok idp_token" "jwks_ok idp_jwks" by simp_all
  ultimately show ?thesis
    by (simp add: provider_metadata_with_userinfo_def metadata_of_def decode_metadata_def map_members_def
      metadata_fields_def required_field_def option_field_def default_field_def as_parsed_def as_string_def
      as_list_def as_option_def as_bool_def idp_urls idp_metadata_def extra_members_def token_ok_def jwks_ok_def
      userinfo_metadata_def)
qed

lemma with_parts_at:
  assumes "metadata = Inr m" "validate_metadata m = Inr ()" "jwks_uri m = JwksUrl idp_jwks"
    and "cid \<noteq> []" "secret \<noteq> Some []"
  shows "with_parts metadata cid secret P \<longleftrightarrow> P (parts_mock m cid secret)"
proof -
  have "new_jwks test_env m = idp_keys idp_jwks"
    using assms(3) by (simp add: new_jwks_def mock_jose_def idp_keys_def)
  then show ?thesis
    using assms
    by (cases secret) (simp_all add: with_parts_def client_id_new_def client_secret_new_def nonempty_new_def
        client_from_parts_def parts_mock_def parts_provider_def durations)
qed

lemma with_parts_eqs:
  assumes "cid \<noteq> []" "secret \<noteq> Some []"
  shows "with_parts test_provider_metadata cid secret P \<longleftrightarrow> P (parts_mock (idp_metadata idp_token idp_jwks) cid secret)"
    and "with_parts requiring_iss cid secret P \<longleftrightarrow> P (parts_mock iss_metadata cid secret)"
    and "with_parts provider_metadata_with_userinfo cid secret P \<longleftrightarrow> P (parts_mock userinfo_metadata cid secret)"
  by (rule with_parts_at; simp add: assms parts_metadata_plain parts_metadata_iss parts_metadata_userinfo validate_metadata_def
      iss_metadata_def userinfo_metadata_def idp_metadata_def)+

lemma client_test_accessor: "jwks_accessor_returns_shared_cache"
  by (simp add: jwks_accessor_returns_shared_cache_def with_parts_eqs client_jwks_def client_metadata_def
      parts_mock_def parts_provider_def no_keys_def unwrapped_def keys_answered mock_http_def keys_cached)

text \<open>The two token requests, evaluated; their parts are then known.\<close>

lemma client_tests_exchange:
  "exchange_code_picks_basic_when_secret_present" "exchange_code_picks_none_when_no_secret"
proof -
  let ?req = "\<lambda>secret method. \<lparr>code_endpoint = TokenUrl idp_token, code_client_id = ClientId ''c'',
    code_client_secret = secret, code_code = ''code'',
    code_redirect_uri = Some ''https://app.example.com/cb'', code_pkce_verifier = Some ''verifier-1234567890'',
    code_auth_method = Some method\<rparr>"
  have "is_ok_and (code_request_build path_url std_form both_base64 (?req (Some (ClientSecret ''s'')) ClientSecretBasic))
      (\<lambda>built. list_ex (\<lambda>(k, _). k = ''Authorization'') (req_headers (built_http built)))"
    by code_simp
  then show "exchange_code_picks_basic_when_secret_present"
    by (simp add: exchange_code_picks_basic_when_secret_present_def with_parts_eqs code_request_for_def
        exchange_code_def exchange_code_with_metadata_def client_metadata_def parts_mock_def parts_provider_def
        auth_method_from_metadata_def code_request_new_def code_set_pkce_verifier_def code_set_redirect_uri_def)
      (simp add: idp_metadata_def)
  have "is_ok_and (code_request_build path_url std_form both_base64 (?req None AuthNone)) (\<lambda>built.
      list_all (\<lambda>(k, _). k \<noteq> ''Authorization'') (req_headers (built_http built)) \<and>
      is_some_and (req_body (built_http built)) (\<lambda>body.
        str_contains body ''client_id=c'' \<and> str_contains body ''code_verifier=verifier-1234567890''))"
    by code_simp
  then show "exchange_code_picks_none_when_no_secret"
    by (simp add: exchange_code_picks_none_when_no_secret_def with_parts_eqs code_request_for_def
        exchange_code_def exchange_code_with_metadata_def client_metadata_def parts_mock_def parts_provider_def
        auth_method_from_metadata_def code_request_new_def code_set_pkce_verifier_def code_set_redirect_uri_def)
      (simp add: idp_metadata_def)
qed

subsection \<open>UserInfo\<close>

text \<open>A client made from parts never refreshes: the snapshot has no deadline.\<close>

lemma parts_refresh:
  "client_refresh_if_stale test_env (parts_mock m cid secret, w) =
     (Inr m, (parts_mock m cid secret,
       w\<lparr>script_instant := Instant (instant_nanos (script_instant w) + int tick)\<rparr>))"
  by (simp add: client_refresh_if_stale_def on_provider_def refresh_metadata_if_stale_def
      metadata_needs_refresh_def needs_refresh_at_def parts_mock_def parts_provider_def)

lemma userinfo_bodies:
  "read_json ''{\"sub\":\"x\"}'' = Inr (JObject [(''sub'', JString ''x'')])"
  "read_json ''{\"sub\":\"other-user\",\"name\":\"Mallory\"}'' =
     Inr (JObject [(''sub'', JString ''other-user''), (''name'', JString ''Mallory'')])"
  by code_simp+

lemma content_type_of: "header_value [(''content-type'', v)] ''content-type'' = Some v"
  by (simp add: header_value_def)

lemma mock_answer [simp]:
  "script_answers w = Inr r # as \<Longrightarrow> http_execute mock_runtime q w =
     (Inr r, w\<lparr>script_answers := as, script_sent := script_sent w @ [q]\<rparr>)"
  by (simp add: mock_runtime_def)

lemmas userinfo_evals = userinfo_fetched_def with_parts_eqs access_token_new_def fetch_userinfo_def binds_def
  parts_refresh on_snd_def typed_response_def mock_http_def unwrapped_def failed_with_def

lemmas userinfo_reading = read_userinfo_def content_type_of content_types user_info_from_json_def
  from_json_slice_def decode_user_info_def map_members_def user_info_fields_def required_field_def
  option_field_def default_field_def as_option_def as_string_def as_bool_def extra_members_def verify_subject_def

lemma client_endpoints:
  "userinfo_endpoint (client_metadata (parts_mock userinfo_metadata cid secret)) =
     Some (UserInfoUrl ''https://idp.example.com/userinfo'')"
  "userinfo_endpoint (client_metadata (parts_mock (idp_metadata token jwks) cid secret)) = None"
  by (simp_all add: client_metadata_def parts_mock_def parts_provider_def userinfo_metadata_def idp_metadata_def)

lemma client_test_userinfo_json: "fetch_userinfo_parses_unsigned_json"
proof -
  let ?v = "JObject [(''sub'', JString ''user-1''), (''email'', JString ''user@example.com''),
    (''email_verified'', JBool True)]"
  have "read_json (print_json ?v) = Inr ?v" by (rule read_print_json) simp
  then show ?thesis
    by (simp add: fetch_userinfo_parses_unsigned_json_def userinfo_evals client_endpoints userinfo_reading
        del: print_json.simps)
qed

lemma client_test_userinfo_request: "fetch_userinfo_sends_bearer_and_accept_header"
proof -
  have "find (\<lambda>(k, _). eq_ignore_ascii_case k ''authorization'')
      [(''Accept'', a), (''Authorization'', b)] = Some (''Authorization'', b)"
    "find (\<lambda>(k, _). eq_ignore_ascii_case k ''accept'')
      [(''Accept'', a), (''Authorization'', b)] = Some (''Accept'', a)" for a b :: bytes
    by code_simp+
  then show ?thesis
    by (simp add: fetch_userinfo_sends_bearer_and_accept_header_def userinfo_evals client_endpoints userinfo_reading
        userinfo_bodies first_header_def userinfo_request_def Let_def del: find.simps)
qed

lemma client_tests_userinfo_refused:
  "fetch_userinfo_returns_error_when_endpoint_missing" "fetch_userinfo_rejects_unexpected_content_type"
  "fetch_userinfo_rejects_subject_mismatch"
  by (simp_all add: fetch_userinfo_returns_error_when_endpoint_missing_def
      fetch_userinfo_rejects_unexpected_content_type_def fetch_userinfo_rejects_subject_mismatch_def
      userinfo_evals client_endpoints userinfo_reading userinfo_bodies)

lemma client_test_userinfo_error: "fetch_userinfo_maps_non_200_to_userinfo_error"
proof -
  let ?v = "JObject [(''error'', JString ''invalid_token''), (''error_description'', JString ''access token expired'')]"
  have "read_json (print_json ?v) = Inr ?v" by (rule read_print_json) simp
  then show ?thesis
    by (simp add: fetch_userinfo_maps_non_200_to_userinfo_error_def userinfo_evals client_endpoints
        parse_userinfo_error_def from_json_slice_def decode_userinfo_error_body_def map_members_def
        option_field_def default_field_def as_option_def as_string_def del: print_json.simps)
qed

subsection \<open>Completing an authorization\<close>

text \<open>What is put into the store is taken out of it as the request it was.\<close>

lemma put_pending_at:
  assumes "pending_created_at p = SystemTime (int (secs * nanos_per_sec))" "pending_max_age p = None"
    and "secs < 2 ^ 63" "mock_store w (pending_key_for (pending_state p)) = None"
  shows "\<exists>raw. (\<forall>P. put_pending p w P \<longleftrightarrow>
        P (w\<lparr>mock_store := (mock_store w)(pending_key_for (pending_state p) \<mapsto> raw)\<rparr>)) \<and>
      from_json_slice text_json (decode_pending text_json) raw = Inr p"
proof -
  obtain v where v: "encode_pending text_json p = Inr v" "json_ok v"
    using encode_pending_ok [OF assms(1-3)] by blast
  have "from_json_slice text_json (decode_pending text_json) (print_json v) = Inr p"
    using decode_encode_pending [OF text_json_time_laws v(1)] read_print_json [OF v(2)]
    by (simp add: from_json_slice_def)
  moreover have "put_pending p w P \<longleftrightarrow>
      P (w\<lparr>mock_store := (mock_store w)(pending_key_for (pending_state p) \<mapsto> print_json v)\<rparr>)" for P
    using assms(4) by (simp add: put_pending_def v(1) mock_put_if_absent_def unwrapped_def)
  ultimately show ?thesis by blast
qed

text \<open>From the callback to the request: what is left of \<open>complete_authorization\<close> then.\<close>

lemma complete_at:
  assumes "parse_authorization_response std_form query = Inr response"
    and "mock_store w (pending_key_for (response_state response)) = Some raw"
    and "from_json_slice text_json (decode_pending text_json) raw = Inr p"
  shows "complete query (parts_mock m cid secret) w =
    complete_authorization_from_pending test_env response p (parts_mock m cid secret,
      w\<lparr>mock_store := (mock_store w)(pending_key_for (response_state response) := None)\<rparr>)"
  using assms
  by (simp add: complete_authorization_def binds_def on_snd_def take_pending_request_def map_errs_def mock_take_def)

lemma complete_missing:
  assumes "parse_authorization_response std_form query = Inr response"
    and "mock_store w (pending_key_for (response_state response)) = None"
  shows "fst (complete query c w) = Inl (Err (AuthorizationResponseError (Missing ''state'')))"
  using assms
  by (simp add: complete_authorization_def binds_def on_snd_def take_pending_request_def map_errs_def mock_take_def)

lemma pending_key_eq [simp]: "pending_key_for a = pending_key_for b \<longleftrightarrow> a = b"
  by (simp add: pending_key_for_def)

lemma pending_with_simps [simp]:
  "pending_state (pending_with st n v t) = st" "pending_nonce (pending_with st n v t) = n"
  "pending_pkce_verifier (pending_with st n v t) = v" "pending_max_age (pending_with st n v t) = None"
  "pending_redirect_uri (pending_with st n v t) = Some ''https://app.example.com/cb''"
  "pending_created_at (pending_with st n v t) = t"
  by (simp_all add: pending_with_def)

lemma callbacks:
  "parse_authorization_response std_form (''error=access_denied&error_uri=https%3A%2F%2Fop.example.com%2Fdenied'' @
     ''&state=denied-state&iss=https%3A%2F%2Fidp.example.com'') =
   Inr (ErrorResponse ''access_denied'' None (Some ''https://op.example.com/denied'') ''denied-state''
     (Some ''https://idp.example.com''))"
  "parse_authorization_response std_form
     ''error=access_denied&state=denied-state&iss=https%3A%2F%2Fattacker.example.com'' =
   Inr (ErrorResponse ''access_denied'' None None ''denied-state'' (Some ''https://attacker.example.com''))"
  "parse_authorization_response std_form ''error=access_denied&state=denied-state'' =
   Inr (ErrorResponse ''access_denied'' None None ''denied-state'' None)"
  "parse_authorization_response std_form
     ''code=AUTH-CODE&state=state-1&iss=https%3A%2F%2Fattacker.example.com'' =
   Inr (Success ''AUTH-CODE'' ''state-1'' (Some ''https://attacker.example.com''))"
  "parse_authorization_response std_form ''code=AUTH-CODE&state=state-1'' = Inr (Success ''AUTH-CODE'' ''state-1'' None)"
  "parse_authorization_response std_form ''code=AUTH-CODE&state=other-state'' =
   Inr (Success ''AUTH-CODE'' ''other-state'' None)"
  "parse_authorization_response std_form ''code=AUTH-CODE&state=stale-state'' =
   Inr (Success ''AUTH-CODE'' ''stale-state'' None)"
  "parse_authorization_response std_form ''code=AUTH-CODE&state=future-state'' =
   Inr (Success ''AUTH-CODE'' ''future-state'' None)"
  "parse_authorization_response std_form ''code=CODE&state=st'' = Inr (Success ''CODE'' ''st'' None)"
  "parse_authorization_response std_form ''code=AUTH-CODE&state=state-xyz'' =
   Inr (Success ''AUTH-CODE'' ''state-xyz'' None)"
  "parse_authorization_response std_form ''code=AUTH-CODE&state=single-use-state'' =
   Inr (Success ''AUTH-CODE'' ''single-use-state'' None)"
  by code_simp+

text \<open>The world after a request was stored at the time of the test.\<close>

definition test_now :: system_time where "test_now = SystemTime (int (now_secs * nanos_per_sec))"

abbreviation world_with :: "http_response list \<Rightarrow> bytes \<Rightarrow> bytes \<Rightarrow> mock_world" where
  "world_with responses key raw \<equiv> (mock_http responses)
     \<lparr>script_system := SystemTime (system_nanos test_now + int tick), mock_store := [key \<mapsto> raw]\<rparr>"

lemma stored_now_at:
  "\<exists>raw. (\<forall>P. stored_now st nonce verifier (mock_http responses) P \<longleftrightarrow>
      P (world_with responses (pending_key_for st) raw)) \<and>
    from_json_slice text_json (decode_pending text_json) raw = Inr (pending_with st nonce verifier test_now)"
proof -
  let ?p = "pending_with st nonce verifier test_now"
  let ?w = "(mock_http responses)\<lparr>script_system := SystemTime (system_nanos test_now + int tick)\<rparr>"
  obtain raw where "\<forall>P. put_pending ?p ?w P \<longleftrightarrow>
        P (?w\<lparr>mock_store := (mock_store ?w)(pending_key_for (pending_state ?p) \<mapsto> raw)\<rparr>)"
    "from_json_slice text_json (decode_pending text_json) raw = Inr ?p"
    using put_pending_at [of ?p now_secs ?w] by (auto simp: test_now_def now_secs_def mock_http_def)
  then show ?thesis
    by (intro exI [of _ raw]) (simp add: stored_now_def mock_http_def test_now_def)
qed

text \<open>A pending request made at the time of the test is young enough.\<close>

lemma created_now:
  "validate_pending_request mock_runtime (pending_with st nonce verifier test_now) st w =
     (Inr (), w\<lparr>script_system := SystemTime (system_nanos (script_system w) + int tick)\<rparr>)"
  if "script_system w = SystemTime (system_nanos test_now + int tick)"
  using that
  by (simp add: validate_pending_request_def validate_created_at_def duration_since_def tick_def
      pending_default_ttl_def from_secs_def nanos_per_sec_def less_eq_system_time_def)

lemma from_pending_refused:
  assumes "bindr (check_callback_issuer m response) (\<lambda>_. response_code_or_error response (response_state response)) = Inl e"
    and "script_system w = SystemTime (system_nanos test_now + int tick)"
  shows "\<exists>w'. complete_authorization_from_pending test_env response
      (pending_with (response_state response) nonce verifier test_now) (parts_mock m cid secret, w) =
      (Inl (Err e), (parts_mock m cid secret, w')) \<and> mock_store w' = mock_store w"
  using assms
  by (cases "check_callback_issuer m response")
    (auto simp: complete_authorization_from_pending_def binds_def on_snd_def map_errs_def parts_refresh
      created_now Let_def)

lemma refused_at:
  assumes "\<And>Q. with_parts metadata ''my-client'' secret Q \<longleftrightarrow> Q (parts_mock m ''my-client'' secret)"
    and "parse_authorization_response std_form query = Inr response" "response_state response = st"
    and "bindr (check_callback_issuer m response) (\<lambda>_. response_code_or_error response st) = Inl e"
  shows "callback_refused metadata secret st query P \<longleftrightarrow> P e"
proof -
  obtain raw where raw: "\<And>P. stored_now st ''nonce'' None (mock_http []) P \<longleftrightarrow>
      P (world_with [] (pending_key_for st) raw)"
    "from_json_slice text_json (decode_pending text_json) raw = Inr (pending_with st ''nonce'' None test_now)"
    using stored_now_at [of st "''nonce''" None "[]"] by blast
  let ?w = "(world_with [] (pending_key_for st) raw)\<lparr>mock_store := Map.empty\<rparr>"
  have "complete query (parts_mock m ''my-client'' secret) (world_with [] (pending_key_for st) raw) =
      complete_authorization_from_pending test_env response (pending_with st ''nonce'' None test_now)
        (parts_mock m ''my-client'' secret, ?w)"
    using assms(3) raw(2) by (subst complete_at [OF assms(2)]) auto
  moreover obtain w' where "complete_authorization_from_pending test_env response
      (pending_with st ''nonce'' None test_now) (parts_mock m ''my-client'' secret, ?w) =
      (Inl (Err e), (parts_mock m ''my-client'' secret, w'))" "mock_store w' = mock_store ?w"
    using from_pending_refused [of m response e ?w "''nonce''" None "''my-client''" secret] assms(3,4)
    by auto
  ultimately show ?thesis
    by (simp add: callback_refused_def assms(1) raw(1) failed_with_def mock_contains_def)
qed

lemma refused_iff:
  assumes "\<And>Q. with_parts metadata ''my-client'' secret Q \<longleftrightarrow> Q (parts_mock m ''my-client'' secret)"
    and "parse_authorization_response std_form query = Inr response" "response_state response = st"
    and "isl (bindr (check_callback_issuer m response) (\<lambda>_. response_code_or_error response st))"
  shows "callback_refused metadata secret st query P \<longleftrightarrow>
    P (projl (bindr (check_callback_issuer m response) (\<lambda>_. response_code_or_error response st)))"
  using refused_at [OF assms(1-3)] assms(4) by (auto simp: isl_def)

lemma issuer_strings:
  "issuer_as_str idp_issuer = ''https://idp.example.com''" "metadata_issuer iss_metadata = idp_issuer"
  "authorization_response_iss_parameter_supported iss_metadata"
  by (simp_all add: iss_metadata_def idp_issuer_def)

lemmas refused_evals = check_callback_issuer_def response_code_or_error_def issuer_strings Let_def

lemma client_test_provider_error: "provider_error_consumes_pending_state"
  unfolding provider_error_consumes_pending_state_def
  by (subst refused_iff [OF with_parts_eqs(1) callbacks(1)]) (simp_all add: refused_evals)

lemma client_tests_issuer:
  "provider_error_rejects_wrong_callback_issuer_after_consuming_state"
  "provider_error_requires_advertised_callback_issuer_after_consuming_state"
  "complete_authorization_rejects_wrong_callback_issuer"
  "complete_authorization_requires_advertised_callback_issuer"
  unfolding provider_error_rejects_wrong_callback_issuer_after_consuming_state_def
    provider_error_requires_advertised_callback_issuer_after_consuming_state_def
    complete_authorization_rejects_wrong_callback_issuer_def
    complete_authorization_requires_advertised_callback_issuer_def
  by (simp_all add: refused_iff [OF with_parts_eqs(2) callbacks(2)] refused_iff [OF with_parts_eqs(2) callbacks(3)]
      refused_iff [OF with_parts_eqs(2) callbacks(4)] refused_iff [OF with_parts_eqs(2) callbacks(5)] refused_evals)

lemma client_test_mismatch: "complete_authorization_rejects_state_mismatch"
proof -
  obtain raw where "\<And>P. stored_now ''real-state'' ''nonce-1'' None (mock_http []) P \<longleftrightarrow>
      P (world_with [] (pending_key_for ''real-state'') raw)"
    using stored_now_at by blast
  moreover have "fst (complete ''code=AUTH-CODE&state=other-state'' c
      (world_with [] (pending_key_for ''real-state'') raw)) =
      Inl (Err (AuthorizationResponseError (Missing ''state'')))" for c
    by (rule complete_missing [OF callbacks(6)]) simp
  ultimately show ?thesis
    by (simp add: complete_authorization_rejects_state_mismatch_def with_parts_eqs failed_with_def
        split: prod.splits sum.splits) (metis Inl_Inr_False fst_conv)
qed

lemma invalid_age_at:
  assumes "created_at = SystemTime (int (secs * nanos_per_sec))" "secs < 2 ^ 63"
    and "validate_created_at (pending_with st ''nonce'' None created_at) (script_system w) = Inl e"
    and "parse_authorization_response std_form (''code=AUTH-CODE&state='' @ st) = Inr (Success code st None)"
    and "mock_store w = Map.empty"
  shows "\<exists>w'. (\<forall>P. invalid_age_case (parts_mock m cid secret) st created_at e w P \<longleftrightarrow> P w') \<and>
    mock_store w' = Map.empty \<and> script_system w' = SystemTime (system_nanos (script_system w) + int tick)"
proof -
  let ?p = "pending_with st ''nonce'' None created_at" and ?c = "parts_mock m cid secret"
  obtain raw where put: "\<And>P. put_pending ?p w P \<longleftrightarrow> P (w\<lparr>mock_store := [pending_key_for st \<mapsto> raw]\<rparr>)"
    and raw: "from_json_slice text_json (decode_pending text_json) raw = Inr ?p"
    using put_pending_at [of ?p secs w] assms(1,2,5) by auto
  let ?w = "w\<lparr>mock_store := [pending_key_for st \<mapsto> raw]\<rparr>" and ?v = "w\<lparr>mock_store := Map.empty\<rparr>"
  have completed: "complete (''code=AUTH-CODE&state='' @ st) ?c ?w =
      complete_authorization_from_pending test_env (Success code st None) ?p (?c, ?v)"
    by (subst complete_at [OF assms(4), where raw = raw and p = ?p]) (simp_all add: raw)
  obtain w' where refused: "complete_authorization_from_pending test_env (Success code st None) ?p (?c, ?v) =
      (Inl (Err e), (?c, w'))" "mock_store w' = Map.empty"
      "script_system w' = SystemTime (system_nanos (script_system w) + int tick)"
    using assms(3)
    by (simp add: complete_authorization_from_pending_def binds_def on_snd_def map_errs_def parts_refresh
        validate_pending_request_def Let_def)
  have "invalid_age_case ?c st created_at e w P \<longleftrightarrow> P w'" for P
    unfolding invalid_age_case_def put completed refused(1)
    using refused(2) by (simp add: failed_with_def mock_contains_def)
  with refused show ?thesis by blast
qed

lemma client_test_age_window: "complete_authorization_rejects_invalid_pending_age"
proof -
  let ?c = "parts_mock (idp_metadata idp_token idp_jwks) ''my-client'' (Some ''secret'')"
  let ?w = "(mock_http [])\<lparr>script_system := SystemTime (system_nanos test_now + int tick)\<rparr>"
  have now: "test_now = SystemTime 10000000000000"
    by (simp add: test_now_def now_secs_def nanos_per_sec_def)
  have "parse_authorization_response std_form (''code=AUTH-CODE&state='' @ ''stale-state'') =
      Inr (Success ''AUTH-CODE'' ''stale-state'' None)"
    "parse_authorization_response std_form (''code=AUTH-CODE&state='' @ ''future-state'') =
      Inr (Success ''AUTH-CODE'' ''future-state'' None)"
    using callbacks(7,8) by simp_all
  note parsed = this
  obtain w1 where w1: "\<And>P. invalid_age_case ?c ''stale-state'' (SystemTime (int (9399 * nanos_per_sec)))
      PendingAuthorizationExpired ?w P \<longleftrightarrow> P w1"
    "mock_store w1 = Map.empty" "script_system w1 = SystemTime (system_nanos (script_system ?w) + int tick)"
    using invalid_age_at [OF refl _ _ parsed(1), of 9399 ?w PendingAuthorizationExpired
        "idp_metadata idp_token idp_jwks" "''my-client''" "Some ''secret''"]
    by (auto simp: validate_created_at_def duration_since_def now tick_def pending_default_ttl_def from_secs_def
        nanos_per_sec_def less_eq_system_time_def mock_http_def)
  obtain w2 where w2: "\<And>P. invalid_age_case ?c ''future-state'' (SystemTime (int (10060 * nanos_per_sec)))
      PendingAuthorizationFromFuture w1 P \<longleftrightarrow> P w2"
    using invalid_age_at [OF refl _ _ parsed(2), of 10060 w1 PendingAuthorizationFromFuture
        "idp_metadata idp_token idp_jwks" "''my-client''" "Some ''secret''"] w1(2,3)
    by (auto simp: validate_created_at_def duration_since_def now tick_def nanos_per_sec_def less_eq_system_time_def)
  have "system_now mock_runtime (mock_http []) = (test_now, ?w)"
    by (simp add: mock_http_def test_now_def)
  moreover have "SystemTime (system_nanos test_now - int (as_nanos pending_default_ttl) - int (as_nanos (from_secs 1))) =
      SystemTime (int (9399 * nanos_per_sec))"
    "system_checked_add test_now (from_secs 60) = Some (SystemTime (int (10060 * nanos_per_sec)))"
    by (simp_all add: now pending_default_ttl_def from_secs_def nanos_per_sec_def system_checked_add_def clock_limit_def)
  ultimately show ?thesis
    unfolding complete_authorization_rejects_invalid_pending_age_def
    by (simp only: with_parts_eqs prod.case Let_def w1(1) w2 is_some_and_def option.case list.distinct option.inject
        simp_thms not_Cons_self2 option.distinct)
qed

subsection \<open>Exchanging the code\<close>

text \<open>The client with a secret, its token request, and what comes of the response.\<close>

abbreviation secret_client :: mock_client where
  "secret_client \<equiv> parts_mock (idp_metadata idp_token idp_jwks) ''my-client'' (Some ''secret'')"

definition basic_request :: "bytes \<Rightarrow> bytes option \<Rightarrow> bytes code_token_request" where
  "basic_request code verifier =
     \<lparr>code_endpoint = TokenUrl idp_token, code_client_id = ClientId ''my-client'',
      code_client_secret = Some (ClientSecret ''secret''), code_code = code,
      code_redirect_uri = Some ''https://app.example.com/cb'', code_pkce_verifier = verifier,
      code_auth_method = Some ClientSecretBasic\<rparr>"

definition completed_with ::
  "pending_auth_request \<Rightarrow> bytes \<Rightarrow> http_response \<Rightarrow> failure + completed_authorization" where
  "completed_with p st resp =
     mapr (\<lambda>t. \<lparr>ca_token_response = t, ca_pending = p, ca_callback_state = st\<rparr>)
       (map_errr Err (if resp_status resp \<noteq> 200 then Inl (parse_token_error text_json resp)
          else map_errr Json (from_json_slice text_json (decode_token_response plain_display) (resp_body resp))))"

lemma code_exchange_built:
  "exchange_code_with_metadata secret_client code (idp_metadata idp_token idp_jwks) =
     Inr (code_request_new (TokenUrl idp_token) (ClientId ''my-client'') (Some (ClientSecret ''secret'')) code
       (Some ClientSecretBasic))"
  by (simp add: exchange_code_with_metadata_def parts_mock_def auth_method_from_metadata_def)
    (simp add: idp_metadata_def)

lemma from_pending_built:
  "set_from_pending (pending_with st nonce verifier t)
     (code_request_new (TokenUrl idp_token) (ClientId ''my-client'') (Some (ClientSecret ''secret'')) code
       (Some ClientSecretBasic)) = basic_request code verifier"
  by (cases verifier) (simp_all add: set_from_pending_def code_request_new_def code_set_redirect_uri_def
      code_set_pkce_verifier_def basic_request_def)

lemma from_pending_posts:
  assumes "code_request_build path_url std_form both_base64 (basic_request code verifier) = Inr built"
    and "script_system w = SystemTime (system_nanos test_now + int tick)" "script_answers w = Inr resp # as"
  shows "\<exists>w'. complete_authorization_from_pending test_env (Success code st None)
      (pending_with st nonce verifier test_now) (secret_client, w) =
      (completed_with (pending_with st nonce verifier test_now) st resp, (secret_client, w')) \<and>
    mock_store w' = mock_store w \<and> script_sent w' = script_sent w @ [(built_http built)\<lparr>req_method := Post\<rparr>]"
proof -
  have issuer: "check_callback_issuer (idp_metadata idp_token idp_jwks) (Success code st None) = Inr ()"
    by (simp add: check_callback_issuer_def idp_metadata_def)
  have request: "\<lparr>req_method = Post, req_url = req_url r, req_headers = req_headers r, req_body = req_body r\<rparr> =
      r\<lparr>req_method := Post\<rparr>" for r :: http_request
    by simp
  show ?thesis
    using assms
    by (cases "from_json_slice text_json (decode_token_response plain_display) (resp_body resp)")
      (simp_all add: complete_authorization_from_pending_def binds_def on_snd_def map_errs_def parts_refresh
        created_now issuer response_code_or_error_def code_exchange_built from_pending_built post_token_request_def
        request completed_with_def Let_def)
qed

lemma short_document_read:
  "from_json_slice text_json (decode_token_response plain_display) (resp_body short_token_document) =
     Inr \<lparr>resp_access_token = AccessToken ''AT-1'', resp_token_type = ''Bearer'', resp_expires_in = None,
          resp_refresh_token = None, resp_id_token = Some ''header.payload.signature'', resp_scope = None\<rparr>"
proof -
  let ?v = "JObject [(''access_token'', JString ''AT-1''), (''token_type'', JString ''Bearer''),
      (''id_token'', JString ''header.payload.signature'')]"
  have "read_json (print_json ?v) = Inr ?v" by (rule read_print_json) simp
  then show ?thesis
    by (simp add: short_token_document_def token_document_def from_json_slice_def decode_token_response_def
        token_response_fields_def struct_members_def map_members_def required_field_def deserialize_access_token_def
        access_token_new_def option_field_def default_field_def as_option_def as_string_def del: print_json.simps)
qed

lemma basic_request_builds:
  "code \<noteq> [] \<Longrightarrow> \<exists>built. code_request_build path_url std_form both_base64 (basic_request code None) = Inr built"
  by (rule code_request_succeeds [OF std_form_laws])
    (simp_all add: basic_request_def code_method_def needs_secret_def method_or_basic_def)

lemma client_test_from_pending: "complete_authorization_from_pending_exchanges_without_store"
proof -
  let ?w = "(mock_http [short_token_document])\<lparr>script_system := SystemTime (system_nanos test_now + int tick)\<rparr>"
  have now: "system_now mock_runtime (mock_http [short_token_document]) = (test_now, ?w)"
    by (simp add: mock_http_def test_now_def)
  obtain built where "code_request_build path_url std_form both_base64 (basic_request ''AUTH-CODE'' None) = Inr built"
    using basic_request_builds [of "''AUTH-CODE''"] by auto
  then obtain w' where "complete_authorization_from_pending test_env (Success ''AUTH-CODE'' ''consumed-state'' None)
      (pending_with ''consumed-state'' ''nonce'' None test_now) (secret_client, ?w) =
      (completed_with (pending_with ''consumed-state'' ''nonce'' None test_now) ''consumed-state'' short_token_document,
       (secret_client, w'))"
    using from_pending_posts [of "''AUTH-CODE''" None built ?w short_token_document "[]" "''consumed-state''" "''nonce''"]
    by (auto simp: mock_http_def)
  moreover have "resp_status short_token_document = 200"
    by (simp add: short_token_document_def token_document_def)
  ultimately show ?thesis
    by (simp add: complete_authorization_from_pending_exchanges_without_store_def with_parts_eqs now
        completed_with_def short_document_read unwrapped_def del: mock_runtime_clock)
qed

text \<open>The whole of a completion, from the stored request to the last request that was sent.\<close>

lemma completion_posts:
  assumes "parse_authorization_response std_form query = Inr (Success code st None)"
    and "code_request_build path_url std_form both_base64 (basic_request code verifier) = Inr built"
  obtains w w' where "\<And>P. stored_now st nonce verifier (mock_http [resp]) P \<longleftrightarrow> P w"
    "complete query secret_client w =
      (completed_with (pending_with st nonce verifier test_now) st resp, (secret_client, w'))"
    "mock_store w' = Map.empty" "script_sent w' = [(built_http built)\<lparr>req_method := Post\<rparr>]"
proof -
  let ?p = "pending_with st nonce verifier test_now"
  obtain raw where stored: "\<forall>P. stored_now st nonce verifier (mock_http [resp]) P \<longleftrightarrow>
      P (world_with [resp] (pending_key_for st) raw)"
    and raw: "from_json_slice text_json (decode_pending text_json) raw = Inr ?p"
    using stored_now_at by blast
  let ?w = "(world_with [resp] (pending_key_for st) raw)\<lparr>mock_store := Map.empty\<rparr>"
  have completed: "complete query secret_client (world_with [resp] (pending_key_for st) raw) =
      complete_authorization_from_pending test_env (Success code st None) ?p (secret_client, ?w)"
    by (subst complete_at [OF assms(1), where raw = raw and p = ?p]) (simp_all add: raw)
  obtain w' where "complete_authorization_from_pending test_env (Success code st None) ?p (secret_client, ?w) =
      (completed_with ?p st resp, (secret_client, w'))"
    "mock_store w' = mock_store ?w" "script_sent w' = script_sent ?w @ [(built_http built)\<lparr>req_method := Post\<rparr>]"
    using from_pending_posts [OF assms(2), of ?w resp "[]" st nonce] by (auto simp: mock_http_def)
  with stored completed show thesis
    by (intro that [of "world_with [resp] (pending_key_for st) raw" w']) (simp_all add: mock_http_def)
qed

lemma client_test_completes: "complete_authorization_exchanges_code_and_consumes_pending"
proof -
  let ?v = "JObject [(''access_token'', JString ''AT-1''), (''token_type'', JString ''Bearer''),
      (''expires_in'', num 3600), (''refresh_token'', JString ''RT-1''),
      (''id_token'', JString ''header.payload.signature'')]"
  let ?resp = "\<lparr>resp_status = 200, resp_headers = [(''content-type'', ''application/json'')],
      resp_body = print_json ?v\<rparr>"
  have "is_ok_and (code_request_build path_url std_form both_base64
      (basic_request ''AUTH-CODE'' (Some ''verifier-1234567890''))) (\<lambda>built.
        is_some_and (req_body (built_http built)) (\<lambda>body. list_all (str_contains body)
          [''grant_type=authorization_code'', ''code=AUTH-CODE'', ''code_verifier=verifier-1234567890'',
           ''redirect_uri=https%3A%2F%2Fapp.example.com%2Fcb'']) \<and>
        list_ex (\<lambda>(k, _). k = ''Authorization'') (req_headers (built_http built)))"
    by code_simp
  then obtain built body where built:
    "code_request_build path_url std_form both_base64
      (basic_request ''AUTH-CODE'' (Some ''verifier-1234567890'')) = Inr built"
    "req_body (built_http built) = Some body"
    "list_all (str_contains body)
       [''grant_type=authorization_code'', ''code=AUTH-CODE'', ''code_verifier=verifier-1234567890'',
        ''redirect_uri=https%3A%2F%2Fapp.example.com%2Fcb'']"
    "list_ex (\<lambda>(k, _). k = ''Authorization'') (req_headers (built_http built))"
    by (auto simp: is_ok_and_def is_some_and_def split: sum.splits option.splits)
  obtain w w' where run: "\<And>P. stored_now ''state-xyz'' ''nonce-abc'' (Some ''verifier-1234567890'') (mock_http [?resp]) P
      \<longleftrightarrow> P w"
    "complete ''code=AUTH-CODE&state=state-xyz'' secret_client w =
      (completed_with (pending_with ''state-xyz'' ''nonce-abc'' (Some ''verifier-1234567890'') test_now) ''state-xyz'' ?resp,
       (secret_client, w'))"
    "mock_store w' = Map.empty" "script_sent w' = [(built_http built)\<lparr>req_method := Post\<rparr>]"
    by (rule completion_posts [OF callbacks(10) built(1), of "''nonce-abc''" ?resp]) (rule that)
  have "read_json (print_json ?v) = Inr ?v" by (rule read_print_json) simp
  then have "from_json_slice text_json (decode_token_response plain_display) (print_json ?v) =
      Inr \<lparr>resp_access_token = AccessToken ''AT-1'', resp_token_type = ''Bearer'', resp_expires_in = Some 3600,
          resp_refresh_token = Some (RefreshToken ''RT-1''), resp_id_token = Some ''header.payload.signature'',
          resp_scope = None\<rparr>"
    by (simp add: from_json_slice_def decode_token_response_def token_response_fields_def struct_members_def
        map_members_def required_field_def deserialize_access_token_def deserialize_refresh_token_def
        access_token_new_def refresh_token_new_def option_field_def default_field_def as_option_def as_string_def
        as_u64_def json_as_u64_def del: print_json.simps)
  with run(2) have completed: "complete ''code=AUTH-CODE&state=state-xyz'' secret_client w =
      (Inr \<lparr>ca_token_response = \<lparr>resp_access_token = AccessToken ''AT-1'', resp_token_type = ''Bearer'',
            resp_expires_in = Some 3600, resp_refresh_token = Some (RefreshToken ''RT-1''),
            resp_id_token = Some ''header.payload.signature'', resp_scope = None\<rparr>,
         ca_pending = pending_with ''state-xyz'' ''nonce-abc'' (Some ''verifier-1234567890'') test_now,
         ca_callback_state = ''state-xyz''\<rparr>, (secret_client, w'))"
    by (simp add: completed_with_def del: print_json.simps)
  show ?thesis
    unfolding complete_authorization_exchanges_code_and_consumes_pending_def token_document_def Let_def
    using built(2-4)
    by (simp add: with_parts_eqs run(1,3,4) completed unwrapped_def mock_contains_def last_body_def
        del: print_json.simps)
qed

lemma client_test_token_failure: "complete_authorization_errors_on_token_endpoint_failure"
proof -
  let ?v = "JObject [(''error'', JString ''invalid_grant''),
      (''error_description'', JString ''authorization code expired'')]"
  let ?resp = "\<lparr>resp_status = 400, resp_headers = [], resp_body = print_json ?v\<rparr>"
  obtain built where "code_request_build path_url std_form both_base64 (basic_request ''CODE'' None) = Inr built"
    using basic_request_builds [of "''CODE''"] by auto
  note built = this
  obtain w w' where run: "\<And>P. stored_now ''st'' ''n'' None (mock_http [?resp]) P \<longleftrightarrow> P w"
    "complete ''code=CODE&state=st'' secret_client w =
      (completed_with (pending_with ''st'' ''n'' None test_now) ''st'' ?resp, (secret_client, w'))"
    by (rule completion_posts [OF callbacks(9) built, of "''n''" ?resp]) (rule that)
  have "read_json (print_json ?v) = Inr ?v" by (rule read_print_json) simp
  then have "completed_with (pending_with ''st'' ''n'' None test_now) ''st'' ?resp =
      Inl (Err (TokenEndpoint 400 ''invalid_grant'' (Some ''authorization code expired'')))"
    by (simp add: completed_with_def parse_token_error_def from_json_slice_def decode_error_body_def
        struct_members_def map_members_def required_field_def option_field_def default_field_def as_option_def
        as_string_def del: print_json.simps)
  with run(2) show ?thesis
    by (simp add: complete_authorization_errors_on_token_endpoint_failure_def Let_def with_parts_eqs run(1)
        failed_with_def del: print_json.simps)
qed

subsection \<open>Two completions at once\<close>

lemma run_login_numeral:
  "run_login E cr i (numeral k) s =
     (case login_step E cr i s of None \<Rightarrow> s | Some s' \<Rightarrow> run_login E cr i (pred_numeral k) s')"
  by (simp add: numeral_eq_Suc run_login.simps)

abbreviation secret_credentials :: credentials where
  "secret_credentials \<equiv> (ClientId ''my-client'', Some (ClientSecret ''secret''))"

abbreviation plain_provider :: "(bytes, mock_jwks) provider_state" where
  "plain_provider \<equiv> parts_provider (idp_metadata idp_token idp_jwks)"

lemma secret_client_of: "client_of secret_credentials plain_provider = secret_client"
  by (simp add: client_of_def parts_mock_def)

lemma prepared:
  "prepare_exchange test_env secret_client (Success code st None) (pending_with st nonce verifier t)
     (idp_metadata idp_token idp_jwks) =
     code_request_build path_url std_form both_base64 (basic_request code verifier)"
  by (simp add: prepare_exchange_def code_exchange_built from_pending_built response_code_or_error_def)
    (simp add: check_callback_issuer_def idp_metadata_def)

lemma not_stale:
  "metadata_needs_refresh mock_runtime plain_provider w =
     (False, w\<lparr>script_instant := Instant (instant_nanos (script_instant w) + int tick)\<rparr>)"
  "ps_metadata plain_provider = idp_metadata idp_token idp_jwks"
  by (simp_all add: metadata_needs_refresh_def needs_refresh_at_def parts_provider_def)

text \<open>The first round: from the store to the request in flight.\<close>

lemma login_to_posting:
  assumes "lg_phases s i = Taking (Success code st None)"
    and "\<not> lock_poisoned (lg_store s)"
    and "kv_entries (lg_store s) (pending_key_for st) = Some \<lparr>entry_value = raw, expires_at = limit\<rparr>"
    and "script_instant (lg_world s) < limit"
    and "from_json_slice text_json (decode_pending text_json) raw = Inr (pending_with st nonce verifier test_now)"
    and "sys_provider (lg_refresh s) = plain_provider"
    and "script_system (lg_world s) = SystemTime (system_nanos test_now + int tick)"
    and "code_request_build path_url std_form both_base64 (basic_request code verifier) = Inr built"
  shows "\<exists>s'. run_login test_env secret_credentials i 6 s = s' \<and> lg_phases s' =
      (lg_phases s)(i := Posting (Success code st None) (pending_with st nonce verifier test_now) built) \<and>
    lg_store s' = (lg_store s)\<lparr>kv_entries := (kv_entries (lg_store s))(pending_key_for st := None)\<rparr> \<and>
    script_answers (lg_world s') = script_answers (lg_world s)"
  using assms
  by (simp add: run_login_numeral run_login.simps login_step_def after_take_def unexpired_value_def take_entry_def
      start_task_def put_phase_def task_step_def not_stale lg_world_def created_now prepared secret_client_of)

lemma login_without_entry:
  assumes "lg_phases s i = Taking response" "\<not> lock_poisoned (lg_store s)"
    and "kv_entries (lg_store s) (pending_key_for (response_state response)) = None"
  shows "\<exists>s' e. run_login E cr i 14 s = s' \<and> lg_phases s' = (lg_phases s)(i := Ended (Inl e)) \<and>
    kv_entries (lg_store s') = kv_entries (lg_store s) \<and> lg_world s' = lg_world s"
  using assms
  by (simp add: run_login_numeral run_login.simps login_step_def after_take_def take_entry_def lg_world_def
      put_login_def) (intro conjI exI, rule refl, simp add: fun_upd_idem)

lemma login_posted:
  assumes "lg_phases s i = Posting (Success code st None) p built"
    and "script_answers (lg_world s) = [Inr short_token_document]"
  shows "\<exists>s' ca. run_login test_env cr i 14 s = s' \<and> lg_phases s' = (lg_phases s)(i := Ended (Inr ca)) \<and>
    lg_store s' = lg_store s"
proof -
  have "resp_status short_token_document = 200"
    by (simp add: short_token_document_def token_document_def)
  then show ?thesis
    using assms
    by (simp add: run_login_numeral run_login.simps login_step_def post_token_request_def binds_def
        short_document_read completed_def) (rule exI, rule refl)
qed

lemma client_test_concurrent_completion: "concurrent_completion_consumes_pending_once"
proof -
  let ?key = "pending_key_for ''single-use-state''" and ?query = "''code=AUTH-CODE&state=single-use-state''"
  let ?p = "pending_with ''single-use-state'' ''nonce'' None test_now"
  let ?t = "Instant 1000000000000"
  let ?w = "(mock_http [short_token_document])\<lparr>script_system := SystemTime (system_nanos test_now + int tick),
    script_instant := Instant (1000000000000 + int tick)\<rparr>"
  obtain v where v: "encode_pending text_json ?p = Inr v" "json_ok v"
    using encode_pending_ok [of ?p now_secs] by (auto simp: test_now_def now_secs_def)
  have raw: "from_json_slice text_json (decode_pending text_json) (print_json v) = Inr ?p"
    using decode_encode_pending [OF text_json_time_laws v(1)] read_print_json [OF v(2)]
    by (simp add: from_json_slice_def)
  define store where "store = in_memory_new\<lparr>kv_entries :=
    [?key \<mapsto> \<lparr>entry_value = print_json v, expires_at = Instant 1600000000000\<rparr>]\<rparr>"
  have "retain_unexpired ?t Map.empty = Map.empty" by (simp add: retain_unexpired_def fun_eq_iff)
  then have put: "put_if_absent ?t ?key (print_json v) pending_default_ttl in_memory_new = (Inr True, store)"
    by (simp add: put_if_absent_def store_def in_memory_new_def pending_default_ttl_def
        from_secs_def nanos_per_sec_def is_zero_duration_def zero_duration_def instant_checked_add_def clock_limit_def)
  obtain built where built:
    "code_request_build path_url std_form both_base64 (basic_request ''AUTH-CODE'' None) = Inr built"
    using basic_request_builds [of "''AUTH-CODE''"] by auto
  define start where "start = (login_start plain_provider ?w)\<lparr>lg_store := store\<rparr>"
  define s0 where "s0 = begin_login test_env ?query 0 start"
  define s1 where "s1 = run_login test_env secret_credentials 0 6 s0"
  define b where "b = begin_login test_env ?query 1 s1"
  define s2 where "s2 = run_login test_env secret_credentials 1 14 b"
  define s3 where "s3 = run_login test_env secret_credentials 0 14 s2"
  have s0: "lg_phases s0 0 = Taking (Success ''AUTH-CODE'' ''single-use-state'' None)" "lg_store s0 = store"
      "lg_world s0 = ?w" "sys_provider (lg_refresh s0) = plain_provider" "lg_phases s0 (Suc 0) = Absent"
    by (simp_all add: s0_def start_def begin_login_def callbacks login_start_def lg_world_def refresh_start_def)
  have s1: "lg_phases s1 = (lg_phases s0)(0 := Posting (Success ''AUTH-CODE'' ''single-use-state'' None) ?p built)"
      "lg_store s1 = store\<lparr>kv_entries := Map.empty\<rparr>"
      "script_answers (lg_world s1) = [Inr short_token_document]"
    using login_to_posting [OF s0(1) _ _ _ raw s0(4) _ built, of "Instant 1600000000000"]
    by (auto simp: s1_def s0 store_def in_memory_new_def tick_def mock_http_def less_instant_def)
  have b: "lg_phases b 1 = Taking (Success ''AUTH-CODE'' ''single-use-state'' None)" "lg_store b = lg_store s1"
      "lg_world b = lg_world s1" "lg_phases b 0 = lg_phases s1 0"
    by (simp_all add: b_def begin_login_def callbacks put_login_def lg_world_def)
  obtain e where s2: "lg_phases s2 = (lg_phases b)(1 := Ended (Inl e))"
      "kv_entries (lg_store s2) = Map.empty" "lg_world s2 = lg_world s1"
    using login_without_entry [OF b(1), of test_env secret_credentials]
    by (auto simp: s2_def b s1 store_def in_memory_new_def)
  obtain ca where s3: "lg_phases s3 = (lg_phases s2)(0 := Ended (Inr ca))" "lg_store s3 = lg_store s2"
    using login_posted [of s2 0 "''AUTH-CODE''" "''single-use-state''" ?p built secret_credentials]
    by (auto simp: s3_def s2 b s1)
  have "of_bool (ended_ok 0 s3) + of_bool (ended_ok 1 s3) = (1 :: nat) \<and> kv_entries (lg_store s3) ?key = None"
    by (simp add: ended_ok_def s3 s2)
  moreover have "system_now mock_runtime (mock_http [short_token_document]) =
      (test_now, (mock_http [short_token_document])\<lparr>script_system := SystemTime (system_nanos test_now + int tick)\<rparr>)"
    by (simp add: mock_http_def test_now_def)
  moreover have "instant_now mock_runtime
      ((mock_http [short_token_document])\<lparr>script_system := SystemTime (system_nanos test_now + int tick)\<rparr>) = (?t, ?w)"
    by (simp add: mock_http_def)
  ultimately show ?thesis
    unfolding s3_def s2_def b_def s1_def s0_def start_def
    by (simp add: concurrent_completion_consumes_pending_once_def with_parts_eqs v(1) put unwrapped_def Let_def
        parts_mock_def del: mock_runtime_clock mock_instant)
qed

end
