(* ===== verification/Spec2Isabelle.thy ===== *)
theory Spec2Isabelle
  imports Hyper_Client Honest_Login Tests_Callback Tests_Types Tests_Metadata Tests_Token_Request
    Tests_Verify Tests_User_Info Tests_Logout Tests_Client
begin

text \<open>
  oidc4rs is an OpenID Connect relying party: a Rust crate that sends a browser to an OpenID provider,
  takes the callback, exchanges the code for tokens and verifies what comes back. These theories
  translate its code, under \<^verbatim>\<open>src/\<close>, into functions and prove what makes a login trustworthy.

  \<^bold>\<open>The program.\<close> \<^verbatim>\<open>Client\<close> (\<^verbatim>\<open>client.rs\<close>) holds the credentials and a snapshot of the provider: its
  metadata, its key set, and when the metadata goes stale. \<^verbatim>\<open>Client::discover\<close> fetches the metadata
  (\<^verbatim>\<open>metadata/\<close>) and computes its lifetime from the HTTP caching fields (\<^verbatim>\<open>metadata/cache.rs\<close>).
  \<^verbatim>\<open>authorize_url\<close> (\<^verbatim>\<open>flow/authorize.rs\<close>) draws state, nonce and PKCE verifier, builds the URL and
  yields a pending request, which the application puts into a key-value store (\<^verbatim>\<open>transport/kv.rs\<close>).
  \<^verbatim>\<open>complete_authorization\<close> parses the callback (\<^verbatim>\<open>flow/callback.rs\<close>), takes the pending request out of
  the store, checks state, age and issuer, and posts the code (\<^verbatim>\<open>flow/token.rs\<close>); the token response
  (\<^verbatim>\<open>token/response.rs\<close>) holds the ID token that \<^verbatim>\<open>token/verify.rs\<close> verifies. \<^verbatim>\<open>fetch_userinfo\<close> reads
  the UserInfo endpoint (\<^verbatim>\<open>token/userinfo.rs\<close>), \<^verbatim>\<open>flow/logout.rs\<close> builds the logout URL. Every
  operation that talks to the provider first refreshes a stale snapshot.

  \<^bold>\<open>Theories, in the order of their imports.\<close>

  \<^item> \<open>Prelude\<close>: results as sums with a bind operator, the state passing \<open>world\<close> operations, UTF-8, ASCII
    and list lemmas. \<open>Rust_Time\<close>: \<^verbatim>\<open>std::time\<close>, a \<^verbatim>\<open>Duration\<close> with its bound and the checked and
    saturating operations. \<open>Externals\<close>: the code outside the repository as records of functions.
    \<open>Instances\<close>: a concrete function for each of them, for the examples.
  \<^item> \<open>Errors\<close> (\<^verbatim>\<open>error.rs\<close>), \<open>Crypto\<close> (\<^verbatim>\<open>crypto/\<close>), \<open>Url_Types\<close> (\<^verbatim>\<open>types/url.rs\<close>), \<open>Identifiers\<close>
    (\<^verbatim>\<open>types/identifiers.rs\<close>), \<open>Json_Decode\<close> (what serde derives), \<open>Http\<close> (\<^verbatim>\<open>transport/http.rs\<close>),
    \<open>Kv_Store\<close> (\<^verbatim>\<open>transport/kv.rs\<close>).
  \<^item> \<open>Cache_Policy\<close> and \<open>Metadata\<close> (\<^verbatim>\<open>metadata/\<close>), \<open>Callback\<close>, \<open>Authorize\<close>, \<open>Token_Request\<close>, \<open>Logout\<close>
    (\<^verbatim>\<open>flow/\<close>), \<open>Token_Response\<close>, \<open>Verify\<close>, \<open>User_Info\<close> (\<^verbatim>\<open>token/\<close> and \<^verbatim>\<open>claims.rs\<close>).
  \<^item> \<open>Provider\<close>: the snapshot part of \<^verbatim>\<open>client.rs\<close>, one call at a time. \<open>Refresh_Concurrency\<close>: the same
    operations as tasks whose accesses to the snapshot, the lock and the network interleave.
    \<open>Client\<close>: the rest of \<^verbatim>\<open>client.rs\<close>. \<open>Client_Safety\<close>: what holds of a client over its life.
    \<open>Hyper_Client\<close>: the HTTP client the crate ships (\<^verbatim>\<open>transport/hyper_client.rs\<close>) and what the requests
    of the crate meet there.
  \<^item> \<open>Login_Concurrency\<close>: \<^verbatim>\<open>complete_authorization\<close> as tasks on one client and one store, which take, refresh,
    check and post while others do; \<open>login_step\<close> is one access to something shared, \<open>login_steps\<close> adds
    other uses of the store, setters and dropped futures. \<open>Login_Runs\<close>: one task alone, and all to the end.
    \<open>Honest_Login\<close>: the store as part of the world, and what is enough for a login to complete.
  \<^item> \<open>Tests_Callback\<close>, \<open>Tests_Types\<close>, \<open>Tests_Metadata\<close>, \<open>Tests_Token_Request\<close>, \<open>Tests_Verify\<close>,
    \<open>Tests_User_Info\<close>, \<open>Tests_Authorize\<close>, \<open>Tests_Logout\<close>, \<open>Tests_Client_Refresh\<close>, \<open>Tests_Client\<close>: the unit tests
    of the crate, each a predicate on the model under the name it has in the code, and proved.
    \<open>Tests_Prelude\<close>, \<open>Json_Text\<close> (a JSON reader and printer, with their round trip) and \<open>Tests_World\<close>
    (the mocks of the tests, a key cache and signatures) are what they run on.
  \<^item> This theory: the properties of a whole login, from \<^verbatim>\<open>authorize_url\<close> through the store to the claims.

  \<^bold>\<open>How state and effects are modelled.\<close> A Rust struct is a record, an enum a datatype,
  \<^verbatim>\<open>Result\<close> the sum \<open>'e + 'a\<close>; a panic is a value (\<open>Panic\<close>) where the code can raise one. What an
  operation does to the outside (HTTP, clocks, random source, the shared key cache) goes through a world
  of an arbitrary type that every operation takes and returns, so the order of calls is part of the
  model. The \<^verbatim>\<open>RwLock\<close> around the snapshot and the \<^verbatim>\<open>Mutex\<close> in the store make each critical section one
  step (\<open>take_entry\<close> is that of \<^verbatim>\<open>take\<close>, which reads the clock after it). Bytes of the percent decoder are
  \<open>8 word\<close>, and lifetimes and clocks keep the bounds of their types.

  \<^bold>\<open>Interfaces.\<close> \<open>kv_store\<close> states the documented contract of \<^verbatim>\<open>AsyncKvStore\<close> and is interpreted by the
  in-memory store (\<open>mem\<close>); \<open>https_newtype\<close> by the six URL newtypes that demand https; \<open>nonempty_newtype\<close>
  by client id, client secret, logout hint and the two tokens; \<open>authenticated_request\<close> by the code and
  the refresh request (\<open>code\<close>, \<open>refresh\<close>); \<open>alg_policy\<close> by the ID-token and the UserInfo verifier;
  \<open>snapshot_update\<close> by the setters of the snapshot; \<open>http_client\<close> states the contract of \<^verbatim>\<open>AsyncHttpClient\<close>
  and is interpreted by the adapter to hyper (\<open>hyper\<close>).

  \<^bold>\<open>What the lemmas show.\<close>

  \<^item> A login: what completes and verifies carries the nonce, state and issuer of the request that began
    it (\<open>login_is_bound\<close>), is the very request that was stored, and a callback is accepted at most once,
    since \<open>take_kv\<close> hands out a value at most once over every sequence of operations of the store. A
    callback that fails a check issues no token request: at most the refresh of the metadata, if due,
    precedes the error. Conversely a login that belongs together completes, from
    \<open>authorize_request\<close> through the store and the callback to the token response (\<open>honest_login_completes\<close>).
  \<^item> Logins side by side: a stored value is behind at most as many token requests as entries were
    created for it, replayed callbacks and dropped futures included (\<open>tokens\<close> counts where a value is);
    every request that is issued joins the code of a callback that came in with the pending request of
    its own state; a task alone does what \<open>complete_authorization\<close> does; all tasks end.
  \<^item> Verification: the code accepts exactly the tokens of \<open>id_token_accepted\<close> and the UserInfo of
    \<open>user_info_accepted\<close>, which say so without the code's operations (the options of the consumer are
    written out, \<open>at_hash_half\<close> is the table of the standard); neither accepts \<^verbatim>\<open>none\<close> whatever its configuration, nor a symmetric algorithm unless
    a caller put one on the list.
  \<^item> The snapshot: an invariant of its deadlines that every operation keeps, stale use bounded by the
    provider's \<^verbatim>\<open>stale-if-error\<close> and the configured retention; with concurrent tasks, one refresh at a
    time, atomic publication, keys that always belong to the metadata beside them, and every task
    at its end after at most eight steps of its own, dropped futures included. A task that runs alone
    does what the sequential operation does.
  \<^item> The parsers against a reference: the caching fields against \<open>reference_policy\<close>, the encoding check
    of the callback against the grammar \<open>pct_decodes\<close>, the authorization response branch by branch.
  \<^item> The wire: with the shipped HTTP client every request of the crate is sent once and as it was made,
    no access token can add a header, and a token request fails only with the errors listed.
  \<^item> What is sent: the whole query of the authorization and the logout URL as a function of the options
    that were chained (\<open>options_query\<close>, \<open>logout_query\<close>), all headers and the whole form of a token request,
    with the client secret in exactly the place of its method (\<open>credentials_sent\<close>), Basic credentials that decode to what was configured, and \<^verbatim>\<open>Debug\<close> output without secrets.

  \<^item> The tests: on the inputs its authors chose, the model gives the results that the code gives, the
    operations in flight together included; a definition that drifts from the code breaks them.

  \<^bold>\<open>How the concurrent proofs go.\<close> \<open>task_step_cases\<close> and \<open>login_step_cases\<close> list what a step can do, one case
  per branch of the code; each invariant is a case analysis over them, and the reachable states follow by
  rule induction.

  \<^bold>\<open>Bounds and fuel.\<close> No operation needs fuel: the loops of the code are over finite lists. The relation
  \<open>refresh_steps\<close> is unbounded; \<open>run_task\<close> runs one task for a given number of steps, and eight are
  enough for an automatic refresh, six for a forced one, which the refinement lemma proves. In the same way
  \<open>run_login\<close> runs one login, for which fourteen steps are enough. The numbers in
  the definitions are the code's: 2^31 seconds at most for a cache lifetime, 600 seconds for a pending
  request, 32 and 64 random bytes.

  \<^bold>\<open>Assumptions.\<close> Crates, the C library and the application's HTTP client are parameters; where a
  property rests on their documented behaviour it names it: \<open>url_laws\<close>, \<open>form_laws\<close>, \<open>base64_laws\<close>,
  \<open>crypto_laws\<close>, \<open>rand_laws\<close>, \<open>serde_time_laws\<close>, \<open>hyper_laws\<close>. Each is proved of the functions in
  \<open>Instances\<close> (the last in \<open>Hyper_Client\<close>), at which the theorems named \<open>_witness\<close> apply the properties.

  \<^bold>\<open>Not modelled.\<close> The module files, which only re-export, and the tests of \<^verbatim>\<open>crypto/hash.rs\<close> and
  \<^verbatim>\<open>crypto/rand.rs\<close>, which test the C library. A poisoned mutex of the store is an error of
  the model. That the comparison of secrets takes constant time and that a lock is poisoned when its holder
  panics are outside the model: no critical section of the code panics.
\<close>

section \<open>Login flows\<close>

text \<open>
  C1. What a login ends with belongs to the browser session that began it: if a callback completes and
  its ID token verifies against the keys of the client, then the store handed out an entry under the
  callback's state that reads as a pending request with that state; the ID token carries that
  request's nonce, is signed under the key that the client's key set yields for its key id and
  algorithm, with an algorithm the provider advertises that is neither \<^verbatim>\<open>none\<close> nor symmetric, passes the consumer for the provider's issuer and this client id, and
  its \<^verbatim>\<open>at_hash\<close>, if any, is that of the access token received; the issuer is still the one of the client.
\<close>

theorem login_is_bound:
  assumes "crypto_laws (env_crypto E)"
    and "provider_ok (cl_provider c)"
    and "complete_authorization E kv q (c, w) = (Inr ca, (c', w'))"
    and "ca_verify_id_token E ca (client_verifier c') (client_id_str (cl_client_id c')) (client_jwks c') w2 =
      (Inr claims, w3)"
  shows "\<exists>code st iss raw w1 token t key w4 jws payload cfg now alg.
    parse_authorization_response (env_form E) q = Inr (Success code st iss) \<and>
    kv (pending_key_for st) w = (Inr (Some raw), w1) \<and>
    from_json_slice (env_json E) (decode_pending (env_json E)) raw = Inr (ca_pending ca) \<and>
    pending_state (ca_pending ca) = st \<and>
    resp_id_token (ca_token_response ca) = Some token \<and> id_token_parse (env_jose E) token = Inr t \<and>
    claims_string (env_jose E) claims ''nonce'' = Some (pending_nonce (ca_pending ca)) \<and>
    header_alg t \<in> set (id_token_signing_alg_values_supported (client_metadata c')) \<and>
    \<not> is_forbidden_alg (header_alg t) \<and>
    jwks_select (env_jose E) (client_jwks c') (header_kid t) (header_alg t) w2 = (Inr (Some key), w4) \<and>
    jws_from_compact (env_jose E) (id_token_raw t) = Inr jws \<and>
    jws_verify_signature (env_jose E) jws key = Inr True \<and> jws_payload (env_jose E) jws key = Inr payload \<and>
    process_to_claims (env_jose E) cfg now payload = Inr claims \<and>
    cc_expected_issuer cfg = Some (issuer_as_str (metadata_issuer (client_metadata c))) \<and>
    cc_expected_audience cfg = Some (True, False, [client_id_str (cl_client_id c)]) \<and>
    algorithm_try_from (env_jose E) (header_alg t) = Inr alg \<and>
    at_hash_ok (env_jose E) (env_crypto E) (env_base64 E) claims
      (ca_context ca (client_id_str (cl_client_id c'))) alg key"
proof -
  from complete_ok [OF assms(3)] obtain response raw w1 where
    p: "parse_authorization_response (env_form E) q = Inr response"
    and kv: "kv (pending_key_for (response_state response)) w = (Inr (Some raw), w1)"
    and raw: "from_json_slice (env_json E) (decode_pending (env_json E)) raw = Inr (ca_pending ca)"
    and f: "complete_authorization_from_pending E response (ca_pending ca) (c, w1) = (Inr ca, (c', w'))" .
  from complete_from_pending_ok [OF f] obtain code st iss where
    r: "response = Success code st iss" "pending_state (ca_pending ca) = st" by metis
  from ca_verify_ok [OF assms(1,4)] obtain token t alg key v1 now v2 jws payload where
    t: "resp_id_token (ca_token_response ca) = Some token" "id_token_parse (env_jose E) token = Inr t"
    and alg: "check_alg (client_verifier c') (header_alg t) = Inr ()"
      "algorithm_try_from (env_jose E) (header_alg t) = Inr alg"
    and key: "jwks_select (env_jose E) (client_jwks c') (header_kid t) (header_alg t) w2 = (Inr (Some key), v1)"
    and sig: "jws_from_compact (env_jose E) (id_token_raw t) = Inr jws"
      "jws_verify_signature (env_jose E) jws key = Inr True" "jws_payload (env_jose E) jws key = Inr payload"
    and cons: "process_to_claims (env_jose E) (id_token_consumer (client_verifier c')
      (ca_context ca (client_id_str (cl_client_id c')))) now payload = Inr claims"
    and nonce: "nonce_ok (env_jose E) claims (ca_context ca (client_id_str (cl_client_id c')))"
    and hash: "at_hash_ok (env_jose E) (env_crypto E) (env_base64 E) claims
      (ca_context ca (client_id_str (cl_client_id c'))) alg key" .
  let ?cfg = "id_token_consumer (client_verifier c') (ca_context ca (client_id_str (cl_client_id c')))"
  have kept: "client_kept E c c'" by (rule completion_kept [OF assms(2,3)])
  then have "cc_expected_issuer ?cfg = Some (issuer_as_str (metadata_issuer (client_metadata c)))"
    "cc_expected_audience ?cfg = Some (True, False, [client_id_str (cl_client_id c)])"
    by (simp_all add: id_token_consumer_def ca_context_def client_verifier_def verifier_from_metadata_def
        client_kept_def)
  moreover from alg(1) have "header_alg t \<in> set (id_token_signing_alg_values_supported (client_metadata c'))"
    "\<not> is_forbidden_alg (header_alg t)"
    by (auto simp: id_alg.check_ok client_verifier_def verifier_from_metadata_def)
  moreover from nonce have "claims_string (env_jose E) claims ''nonce'' = Some (pending_nonce (ca_pending ca))"
    by (simp add: nonce_ok_def ca_context_def)
  ultimately show ?thesis using p kv raw r t alg(2) key sig cons hash by (intro exI conjI) auto
qed

lemma example_login:
  "\<exists>w3. ca_verify_id_token (example_env completion_docs)
     \<lparr>ca_token_response = example_token_response, ca_pending = example_pending, ca_callback_state = ''st''\<rparr>
     (client_verifier parts_client) ''rp'' (client_jwks parts_client) w2 = (Inr example_login_claims, w3)"
proof -
  let ?ca = "\<lparr>ca_token_response = example_token_response, ca_pending = example_pending, ca_callback_state = ''st''\<rparr>"
  let ?t = "\<lparr>id_token_raw = ''RS256.k1.P.k1'', id_token_claims = example_login_claims,
     header_alg = ''RS256'', header_kid = Some ''k1''\<rparr>"
  let ?ctx = "ca_context ?ca ''rp''"
  have jws: "table_jws_parse ''RS256.k1.P.k1'' = Inr (''RS256'', ''k1'', ''P'', ''k1'')"
    by (simp add: table_jws_parse_def)
  have doc: "map_of completion_docs ''P'' = Some example_login_claims"
    by (simp add: completion_docs_def)
  have parse: "ca_parse_id_token (example_env completion_docs) ?ca = Inr (Some ?t)"
    by (simp add: ca_parse_id_token_def example_token_response_def id_token_parse_def jws doc table_claims_def mapr_def
        Prelude.in_range_def)
  have "\<not> eq_ignore_ascii_case ''RS256'' ''none''" by (simp add: eq_ignore_ascii_case_def)
  then have alg: "check_alg (client_verifier parts_client) ''RS256'' = Inr ()"
    by (simp add: check_alg_def client_verifier_def verifier_from_metadata_def client_metadata_def
        parts_client_def example_provider_def example_metadata_def is_forbidden_alg_def)
  have consumer: "table_process completion_docs (id_token_consumer (client_verifier parts_client) ?ctx) now ''P'' =
      Inr example_login_claims" for now
    by (simp add: table_process_def doc id_token_consumer_def ca_context_def client_verifier_def
        verifier_from_metadata_def client_metadata_def parts_client_def example_provider_def
        example_metadata_def example_login_claims_def json_string_member_def json_get_def)
  have checks: "check_azp (table_jose completion_docs) example_login_claims ?ctx ''rp'' = Inr ()"
    "check_nonce (table_jose completion_docs) pad_crypto example_login_claims ?ctx = Inr ()"
    "check_at_hash (table_jose completion_docs) pad_crypto std_base64 example_login_claims ?ctx a k = Inr ()" for a k
    by (simp_all add: check_azp_ok check_nonce_ok [OF pad_crypto_laws]
        check_at_hash_ok [OF pad_crypto_laws] azp_ok_def nonce_ok_def
        at_hash_ok_def example_login_claims_def json_string_member_def json_get_def table_audience_def
        ca_context_def example_pending_def)
  have "expected_audience (client_verifier parts_client) = ''rp''" "expected_max_age ?ctx = None"
    by (simp_all add: client_verifier_def verifier_from_metadata_def parts_client_def ca_context_def
        example_pending_def)
  then have "\<exists>w3. verify_id_token_with plain_display (table_jose completion_docs) (table_json completion_docs)
      pad_crypto std_base64 scripted (client_verifier parts_client) ?t (client_jwks parts_client) ?ctx w2 =
      (Inr example_login_claims, w3)"
    unfolding verify_steps
    by (simp add: alg table_algorithm_def signed_payload_ok jws consumer checks check_auth_time_def
        Prelude.in_range_def)
  with parse show ?thesis by (simp add: ca_verify_id_token_def binds_def)
qed

theorem login_is_bound_witness:
  "\<exists>w' w3 code st iss raw w1.
     complete_authorization (example_env completion_docs) example_store
       ''code=abc&state=st&iss=https://op'' (parts_client, example_world [answer ''T''] 30) =
       (Inr \<lparr>ca_token_response = example_token_response, ca_pending = example_pending,
             ca_callback_state = ''st''\<rparr>, (parts_client, w')) \<and>
     parse_authorization_response std_form ''code=abc&state=st&iss=https://op'' = Inr (Success code st iss) \<and>
     example_store (pending_key_for st) (example_world [answer ''T''] 30) = (Inr (Some raw), w1) \<and>
     json_string_member example_login_claims ''nonce'' = Some (pending_nonce example_pending)"
proof -
  obtain w' where run: "complete_authorization (example_env completion_docs) example_store
     ''code=abc&state=st&iss=https://op'' (parts_client, example_world [answer ''T''] 30) =
     (Inr \<lparr>ca_token_response = example_token_response, ca_pending = example_pending,
           ca_callback_state = ''st''\<rparr>, (parts_client, w'))" using example_completion by blast
  have cid: "client_id_str (cl_client_id parts_client) = ''rp''" by (simp add: parts_client_def)
  have p: "provider_ok (cl_provider parts_client)"
    by (simp add: provider_ok_def parts_client_def example_provider_def)
  have c: "crypto_laws (env_crypto (example_env completion_docs))" by (simp add: pad_crypto_laws)
  obtain w3 where "ca_verify_id_token (example_env completion_docs)
     \<lparr>ca_token_response = example_token_response, ca_pending = example_pending, ca_callback_state = ''st''\<rparr>
     (client_verifier parts_client) (client_id_str (cl_client_id parts_client)) (client_jwks parts_client) w' =
     (Inr example_login_claims, w3)" using example_login unfolding cid by blast
  from login_is_bound [OF c p run this] run show ?thesis by simp blast
qed

section \<open>The pending request in the store\<close>

text \<open>
  C4. A login completes with the request it was started with: once the JSON of a pending request is
  stored under its key, and whatever else is done with the store (no entry is created again under
  that key), a completion for a callback with its state returns exactly that request, so that the
  nonce, the PKCE verifier, the redirect URI and the maximal age of the start are the ones applied.
\<close>

theorem completed_request_is_the_one_started:
  assumes "serde_time_laws (env_json E)"
    and "encode_pending (env_json E) p = Inr v"
    and "json_parse (env_json E) (json_print (env_json E) v) = Inr v"
    and "put_if_absent now (pending_key_for (pending_state p)) (json_print (env_json E) v) ttl s = (Inr True, s1)"
    and "in_memory_run ops s1 = (rs, s2)" and "created_for (pending_key_for (pending_state p)) ops rs = 0"
    and "parse_authorization_response (env_form E) q = Inr response"
    and "response_state response = pending_state p"
    and "complete_authorization E (store_take (env_runtime E)) q (c, (x, s2)) = (Inr ca, (c', w'))"
  shows "ca_pending ca = p \<and> ca_callback_state ca = pending_state p"
proof -
  let ?k = "pending_key_for (pending_state p)"
  from complete_ok [OF assms(9)] obtain raw w1 where
    kv: "store_take (env_runtime E) ?k (x, s2) = (Inr (Some raw), w1)"
    and raw: "from_json_slice (env_json E) (decode_pending (env_json E)) raw = Inr (ca_pending ca)"
    and f: "complete_authorization_from_pending E response (ca_pending ca) (c, w1) = (Inr ca, (c', w'))"
    using assms(7,8) by (metis sum.inject(2))
  from store_take_value [OF kv] obtain later where live: "kv_live s2 later ?k = Some raw" by blast
  have "kv_live s1 later ?k = Some raw"
    using mem.run_shrinks [OF _ assms(6) live] assms(5) by (simp add: in_memory_run_def)
  with mem.put_created [OF assms(4)] have "raw = json_print (env_json E) v" by blast
  with raw assms(3) decode_encode_pending [OF assms(1,2)] have p: "ca_pending ca = p"
    by (simp add: from_json_slice_def)
  moreover have "ca_callback_state ca = pending_state (ca_pending ca)"
    using complete_from_pending_ok [OF f] by metis
  ultimately show ?thesis by simp
qed

lemma stored_once_take:
  "take_kv (Instant (30 * 1000000000)) ''oidc4rs:pending:st'' stored_once =
     (Inr (Some ''R''), snd (take_kv (Instant (30 * 1000000000)) ''oidc4rs:pending:st'' stored_once))"
  by (simp add: stored_once_def put_if_absent_def in_memory_new_def from_secs_def nanos_per_sec_def
      is_zero_duration_def instant_checked_add_def clock_limit_def retain_unexpired_def take_kv_eq
      less_instant_def zero_duration_def)

lemma example_pending_encoded:
  "encode_pending (table_json completion_docs) example_pending = Inr example_pending_json"
  "json_parse (table_json completion_docs) (json_print (table_json completion_docs) example_pending_json) =
     Inr example_pending_json"
  "json_print (table_json completion_docs) example_pending_json = ''R''"
  by (simp_all add: encode_pending_def example_pending_def example_pending_json_def table_json_def
      completion_docs_def unix_epoch_def less_eq_system_time_def mapr_def json_option_def)

theorem completed_request_is_the_one_started_witness:
  "\<exists>ca w'. complete_authorization (env_with completion_docs scripted_with_store)
       (store_take scripted_with_store) ''code=abc&state=st&iss=https://op''
       (parts_client, (example_world [answer ''T''] 30, stored_once)) = (Inr ca, (parts_client, w')) \<and>
     ca_pending ca = example_pending"
proof -
  let ?E = "env_with completion_docs scripted_with_store" and ?x = "example_world [answer ''T''] 30"
  obtain s1 where s1: "take_entry ''oidc4rs:pending:st'' stored_once =
      (Inr (Some \<lparr>entry_value = ''R'', expires_at = Instant (600 * 1000000000)\<rparr>), s1)"
    by (rule stored_once_entry)
  have now: "instant_now scripted_with_store (?x, s) = (Instant (30 * 1000000000), (?x, s))"
    "system_now scripted_with_store (?x, s) = (SystemTime (30 * 1000000000), (?x, s))" for s
    by (simp_all add: scripted_with_store_def example_world_def)
  have "store_take scripted_with_store ''oidc4rs:pending:st'' (?x, stored_once) = (Inr (Some ''R''), (?x, s1))"
    by (simp add: store_take_def now s1 unexpired_value_def less_instant_def)
  moreover have "\<exists>w'. http_execute scripted_with_store r (?x, s1) = (answer ''T'', w')" for r
    by (simp add: scripted_with_store_def example_world_def)
  ultimately obtain ca w' where run: "complete_authorization ?E (store_take (env_runtime ?E))
      ''code=abc&state=st&iss=https://op'' (parts_client, (?x, stored_once)) = (Inr ca, (parts_client, w'))"
    using completes_with [OF _ now] by (metis env_with_simps(5))
  have put: "put_if_absent (Instant 0) (pending_key_for (pending_state example_pending))
      (json_print (env_json ?E) example_pending_json) (from_secs 600) in_memory_new = (Inr True, stored_once)"
    using stored_once_put by (simp add: example_pending_encoded pending_key_for_def example_pending_def)
  have parsed: "parse_authorization_response (env_form ?E) ''code=abc&state=st&iss=https://op'' =
      Inr (Success ''abc'' ''st'' (Some ''https://op''))" by (simp add: example_callback_parses)
  have idle: "in_memory_run [] stored_once = ([], stored_once)" by (simp add: in_memory_run_def)
  have "ca_pending ca = example_pending \<and> ca_callback_state ca = pending_state example_pending"
  proof (rule completed_request_is_the_one_started [OF _ _ _ put idle _ parsed _ run])
    show "serde_time_laws (env_json ?E)" by (simp add: table_json_time_laws)
    show "encode_pending (env_json ?E) example_pending = Inr example_pending_json"
      "json_parse (env_json ?E) (json_print (env_json ?E) example_pending_json) = Inr example_pending_json"
      unfolding env_with_simps by (rule example_pending_encoded)+
    show "response_state (Success ''abc'' ''st'' (Some ''https://op'')) = pending_state example_pending"
      by (simp add: example_pending_def)
  qed simp
  with run show ?thesis by auto
qed

text \<open>
  C5. A callback cannot be replayed: once an entry has been taken, and no new one is created under its
  key, every later callback with that state (the same query again, or another) ends as one with a
  missing state, the client is unchanged and nothing else happened: no clock is read, nothing is sent.
\<close>

theorem replayed_callback_is_rejected:
  assumes "take_kv now (pending_key_for (response_state response)) s = (Inr r, s1)"
    and "in_memory_run ops s1 = (rs, s2)"
    and "created_for (pending_key_for (response_state response)) ops rs = 0"
    and "parse_authorization_response (env_form E) q = Inr response"
  shows "\<exists>s3. complete_authorization E (store_take (env_runtime E)) q (c, (x, s2)) =
    (Inl (Err (AuthorizationResponseError (Missing ''state''))), (c, (x, s3)))"
proof -
  let ?k = "pending_key_for (response_state response)"
  have "kv_usable s" using assms(1) by (auto simp: take_kv_eq kv_usable_def split: if_splits)
  then have "kv_usable s1" using mem.tk_usable [of now ?k s] assms(1) by simp
  then have "\<not> lock_poisoned s2"
    using mem.run_usable [of ops s1] assms(2) by (simp add: in_memory_run_def kv_usable_def)
  moreover have "mem.gone s2 ?k"
    using mem.run_gone [OF _ assms(3) mem.tk_gone [OF assms(1)]] assms(2) by (simp add: in_memory_run_def)
  ultimately obtain s3 where "store_take (env_runtime E) ?k (x, s2) = (Inr None, (x, s3))"
    using store_take_gone [of s2 ?k "env_runtime E" x] by simp
  then have "take_pending_request E (store_take (env_runtime E)) (response_state response) (x, s2) =
      (Inl (AuthorizationResponseError (Missing ''state'')), (x, s3))"
    by (simp add: take_pending_request_def binds_def map_errs_def)
  then show ?thesis using assms(4)
    by (simp add: complete_authorization_def binds_def map_errs_def on_snd_def)
qed

theorem replayed_callback_is_rejected_witness:
  "\<exists>s3. complete_authorization (env_with [] scripted_with_store) (store_take scripted_with_store)
       ''code=abc&state=st&iss=https://op''
       (parts_client, (example_world [] 30,
          snd (take_kv (Instant (30 * 1000000000)) ''oidc4rs:pending:st'' stored_once))) =
     (Inl (Err (AuthorizationResponseError (Missing ''state''))), (parts_client, (example_world [] 30, s3)))"
proof -
  have taken: "take_kv (Instant (30 * 1000000000))
      (pending_key_for (response_state (Success ''abc'' ''st'' (Some ''https://op'')))) stored_once =
      (Inr (Some ''R''), snd (take_kv (Instant (30 * 1000000000)) ''oidc4rs:pending:st'' stored_once))"
    using stored_once_take by (simp add: pending_key_for_def)
  from replayed_callback_is_rejected [OF taken, where ops = "[]" and E = "env_with [] scripted_with_store"]
  show ?thesis
    by (simp add: in_memory_run_def scripted_with_store_def example_callback_parses)
qed

end
